(* ===== verification/Prelude.thy ===== *)
theory Prelude
  imports Main "HOL-Library.AList" "HOL-Library.Char_ord" "HOL-Library.List_Lexorder"
    "HOL-Library.Sublist"
begin

text \<open>
  What every component shares.

  \<^item> A Python computation that may raise is a value of type \<open>'a res\<close>: \<open>Inl e\<close> is the
    exception that leaves it, \<open>Inr x\<close> the value it returns. \<open>die(message)\<close> of
    \<^verbatim>\<open>platform_resource_model.py\<close> prints the message and raises \<open>SystemExit(1)\<close>; it is
    \<open>Inl (Die message)\<close>. The exceptions Python itself raises on a badly shaped document
    (missing key, method of the wrong type, unhashable member) have constructors of their own.
  \<^item> A decoded YAML or JSON document is a value of type \<open>pyval\<close>. A mapping is an association
    list in insertion order, as a Python dict is, with string keys. Floating point numbers,
    dates and mappings with other keys are outside the model.
  \<^item> A string is a list of code points below 256.
\<close>

named_theorems res_simps \<open>inversion of successful computations\<close>
named_theorems py_eval \<open>evaluation of the document operations on concrete values\<close>


section \<open>Computations that may raise\<close>

datatype exn =
    Die string
  | KeyError string
  | TypeError
  | AttributeError
  | ValueError string
  | OverflowError
  | OSError string
  | Refused string

type_synonym 'a res = "exn + 'a"

definition bind :: "'a res \<Rightarrow> ('a \<Rightarrow> 'b res) \<Rightarrow> 'b res" where
  "bind m f = (case m of Inl e \<Rightarrow> Inl e | Inr x \<Rightarrow> f x)"

definition die :: "string \<Rightarrow> 'a res" where
  "die msg = Inl (Die msg)"

text \<open>\<open>require\<close> is \<open>if not condition: die(message)\<close>; \<open>checks\<close> runs statements in order and
  stops at the first that raises; \<open>traverse\<close> is a comprehension whose body may raise;
  \<open>fold_res\<close> is a loop that carries a state.\<close>

definition require :: "bool \<Rightarrow> string \<Rightarrow> unit res" where
  "require c msg = (if c then Inr () else die msg)"

primrec checks :: "unit res list \<Rightarrow> unit res" where
  "checks [] = Inr ()"
| "checks (c # cs) = bind c (\<lambda>_. checks cs)"

primrec traverse :: "('a \<Rightarrow> 'b res) \<Rightarrow> 'a list \<Rightarrow> 'b list res" where
  "traverse f [] = Inr []"
| "traverse f (x # xs) = bind (f x) (\<lambda>y. bind (traverse f xs) (\<lambda>ys. Inr (y # ys)))"

primrec fold_res :: "('s \<Rightarrow> 'a \<Rightarrow> 's res) \<Rightarrow> 's \<Rightarrow> 'a list \<Rightarrow> 's res" where
  "fold_res f s [] = Inr s"
| "fold_res f s (x # xs) = bind (f s x) (\<lambda>s'. fold_res f s' xs)"

text \<open>\<open>any(...)\<close> stops at the first item that holds; \<open>filter_res\<close> keeps the items for which the
  test holds.\<close>

primrec any_res :: "('a \<Rightarrow> bool res) \<Rightarrow> 'a list \<Rightarrow> bool res" where
  "any_res f [] = Inr False"
| "any_res f (x # xs) = bind (f x) (\<lambda>b. if b then Inr True else any_res f xs)"

primrec filter_res :: "('a \<Rightarrow> bool res) \<Rightarrow> 'a list \<Rightarrow> 'a list res" where
  "filter_res f [] = Inr []"
| "filter_res f (x # xs) =
    bind (f x) (\<lambda>b. bind (filter_res f xs) (\<lambda>ys. Inr (if b then x # ys else ys)))"

lemma bind_simps [simp]: "bind (Inl e) f = Inl e" "bind (Inr x) f = f x"
  by (simp_all add: bind_def)

lemma die_neq_Inr [simp]: "die msg \<noteq> Inr x" "Inr x \<noteq> die msg"
  by (simp_all add: die_def)

lemma bind_die [simp]: "bind (die msg) f = die msg"
  by (simp add: die_def)

lemma bind_eq_Inr [res_simps]: "bind m f = Inr y \<longleftrightarrow> (\<exists>x. m = Inr x \<and> f x = Inr y)"
  by (cases m) auto

lemma bind_cong [fundef_cong]:
  "m = m' \<Longrightarrow> (\<And>x. m' = Inr x \<Longrightarrow> f x = g x) \<Longrightarrow> bind m f = bind m' g"
  by (cases m') auto

lemma bind_assoc: "bind (bind m f) g = bind m (\<lambda>x. bind (f x) g)"
  by (cases m) auto

lemma require_eq_Inr [res_simps]: "require c msg = Inr u \<longleftrightarrow> c"
  by (simp add: require_def)

lemma require_True [simp]: "require True msg = Inr ()"
  by (simp add: require_def)

lemma require_False [simp]: "require False msg = die msg"
  by (simp add: require_def)

lemma checks_eq_Inr [res_simps]: "checks cs = Inr u \<longleftrightarrow> (\<forall>c\<in>set cs. c = Inr ())"
  by (induction cs) (auto simp: res_simps)

lemma checks_append: "checks (xs @ ys) = bind (checks xs) (\<lambda>_. checks ys)"
  by (induction xs) (auto simp: bind_assoc)

lemma traverse_eq_Inr:
  "traverse f xs = Inr ys \<longleftrightarrow> list_all2 (\<lambda>x y. f x = Inr y) xs ys"
  by (induction xs arbitrary: ys) (auto simp: bind_eq_Inr list_all2_Cons1)

lemma traverse_length: "traverse f xs = Inr ys \<Longrightarrow> length ys = length xs"
  by (auto simp: traverse_eq_Inr dest: list_all2_lengthD)

lemma traverse_set:
  "traverse f xs = Inr ys \<Longrightarrow> y \<in> set ys \<Longrightarrow> \<exists>x\<in>set xs. f x = Inr y"
  by (induction xs arbitrary: ys) (auto simp: bind_eq_Inr)

lemma traverse_total: "(\<And>x. x \<in> set xs \<Longrightarrow> f x = Inr (g x)) \<Longrightarrow> traverse f xs = Inr (map g xs)"
  by (induction xs) auto

lemma traverse_cong [fundef_cong]:
  "xs = ys \<Longrightarrow> (\<And>x. x \<in> set ys \<Longrightarrow> f x = g x) \<Longrightarrow> traverse f xs = traverse g ys"
proof (induction ys arbitrary: xs)
  case (Cons y ys)
  then show ?case by (auto intro!: bind_cong)
qed simp

lemma fold_res_append: "fold_res f s (xs @ ys) = bind (fold_res f s xs) (\<lambda>s'. fold_res f s' ys)"
  by (induction xs arbitrary: s) (auto simp: bind_assoc)

lemma filter_res_sound:
  "filter_res f xs = Inr ys \<Longrightarrow> set ys = {x \<in> set xs. f x = Inr True} \<and> (\<forall>x\<in>set xs. \<exists>b. f x = Inr b)"
  by (induction xs arbitrary: ys) (auto simp: bind_eq_Inr split: if_splits)

lemma any_res_True: "any_res f xs = Inr True \<Longrightarrow> \<exists>x\<in>set xs. f x = Inr True"
  by (induction xs) (auto simp: bind_eq_Inr split: if_splits)

text \<open>The loop rule: what every successful iteration keeps holds at the end.\<close>

lemma fold_res_invariant:
  assumes "fold_res f s xs = Inr t" and "P s"
    and "\<And>s x s'. x \<in> set xs \<Longrightarrow> P s \<Longrightarrow> f s x = Inr s' \<Longrightarrow> P s'"
  shows "P t"
  using assms by (induction xs arbitrary: s) (auto simp: bind_eq_Inr)

text \<open>The loop rule with the items already seen.\<close>

lemma fold_res_invariant_prefix:
  assumes "fold_res f s xs = Inr t" and "P [] s"
    and "\<And>pre x s s'. prefix (pre @ [x]) xs \<Longrightarrow> P pre s \<Longrightarrow> f s x = Inr s' \<Longrightarrow> P (pre @ [x]) s'"
  shows "P xs t"
  using assms
proof (induction xs arbitrary: t rule: rev_induct)
  case Nil
  then show ?case by simp
next
  case (snoc x xs)
  from snoc.prems(1) obtain m where m: "fold_res f s xs = Inr m" "f m x = Inr t"
    by (auto simp: fold_res_append bind_eq_Inr)
  have "P xs m"
    by (rule snoc.IH [OF m(1) snoc.prems(2)]) (metis prefix_prefix snoc.prems(3))
  with m(2) show ?case
    by (intro snoc.prems(3)) auto
qed


section \<open>Documents\<close>

datatype pyval =
    PNone
  | PBool bool
  | PInt int
  | PStr string
  | PList "pyval list"
  | PDict "(string \<times> pyval) list"

type_synonym pydict = "(string \<times> pyval) list"

primrec truthy :: "pyval \<Rightarrow> bool" where
  "truthy PNone = False"
| "truthy (PBool b) = b"
| "truthy (PInt i) = (i \<noteq> 0)"
| "truthy (PStr s) = (s \<noteq> [])"
| "truthy (PList xs) = (xs \<noteq> [])"
| "truthy (PDict d) = (d \<noteq> [])"

text \<open>Python's \<open>a or b\<close>.\<close>

definition py_or :: "pyval \<Rightarrow> pyval \<Rightarrow> pyval" where
  "py_or a b = (if truthy a then a else b)"

fun is_str :: "pyval \<Rightarrow> bool" where
  "is_str (PStr _) = True" | "is_str _ = False"

fun is_list :: "pyval \<Rightarrow> bool" where
  "is_list (PList _) = True" | "is_list _ = False"

fun is_dict :: "pyval \<Rightarrow> bool" where
  "is_dict (PDict _) = True" | "is_dict _ = False"

text \<open>\<open>isinstance(v, int)\<close> holds of Booleans too; \<open>type(v) is int\<close> does not.\<close>

fun int_of :: "pyval \<Rightarrow> int option" where
  "int_of (PInt i) = Some i"
| "int_of (PBool b) = Some (if b then 1 else 0)"
| "int_of _ = None"

fun str_of :: "pyval \<Rightarrow> string option" where
  "str_of (PStr s) = Some s" | "str_of _ = None"

fun list_of :: "pyval \<Rightarrow> pyval list" where
  "list_of (PList xs) = xs" | "list_of _ = []"

fun dict_of :: "pyval \<Rightarrow> pydict" where
  "dict_of (PDict d) = d" | "dict_of _ = []"

text \<open>\<open>d.get(k)\<close>, \<open>d.get(k, v)\<close>, \<open>d[k]\<close>, \<open>k in d\<close>, \<open>d[k] = v\<close>.\<close>

definition dgetd :: "pydict \<Rightarrow> string \<Rightarrow> pyval \<Rightarrow> pyval" where
  "dgetd d k v = (case map_of d k of None \<Rightarrow> v | Some x \<Rightarrow> x)"

definition dget :: "pydict \<Rightarrow> string \<Rightarrow> pyval" where
  "dget d k = dgetd d k PNone"

definition ditem :: "pydict \<Rightarrow> string \<Rightarrow> pyval res" where
  "ditem d k = (case map_of d k of None \<Rightarrow> Inl (KeyError k) | Some x \<Rightarrow> Inr x)"

definition dhas :: "pydict \<Rightarrow> string \<Rightarrow> bool" where
  "dhas d k \<longleftrightarrow> k \<in> fst ` set d"

abbreviation dset :: "pydict \<Rightarrow> string \<Rightarrow> pyval \<Rightarrow> pydict" where
  "dset d k v \<equiv> AList.update k v d"

abbreviation dkeys :: "pydict \<Rightarrow> string list" where
  "dkeys d \<equiv> map fst d"

text \<open>The same through a value that may not be a mapping: \<open>v.get(k)\<close> and \<open>v[k]\<close>.\<close>

fun vget :: "pyval \<Rightarrow> string \<Rightarrow> pyval res" where
  "vget (PDict d) k = Inr (dget d k)"
| "vget _ k = Inl AttributeError"

fun vgetd :: "pyval \<Rightarrow> string \<Rightarrow> pyval \<Rightarrow> pyval res" where
  "vgetd (PDict d) k v = Inr (dgetd d k v)"
| "vgetd _ k v = Inl AttributeError"

fun vitem :: "pyval \<Rightarrow> string \<Rightarrow> pyval res" where
  "vitem (PDict d) k = ditem d k"
| "vitem _ k = Inl TypeError"

text \<open>\<open>for x in v\<close> over a value that must be iterable as a list.\<close>

fun viter :: "pyval \<Rightarrow> pyval list res" where
  "viter (PList xs) = Inr xs"
| "viter (PStr s) = Inr (map (\<lambda>c. PStr [c]) s)"
| "viter (PDict d) = Inr (map (\<lambda>(k, v). PStr k) d)"
| "viter _ = Inl TypeError"

text \<open>A value that a check has shown to be a string.\<close>

definition as_str :: "pyval \<Rightarrow> string res" where
  "as_str v = (case v of PStr s \<Rightarrow> Inr s | _ \<Rightarrow> Inl TypeError)"

definition as_dict :: "pyval \<Rightarrow> pydict res" where
  "as_dict v = (case v of PDict d \<Rightarrow> Inr d | _ \<Rightarrow> Inl AttributeError)"

lemma as_str_iff [res_simps]: "as_str v = Inr s \<longleftrightarrow> v = PStr s"
  by (auto simp: as_str_def split: pyval.splits)

lemma as_str_PStr [simp]: "as_str (PStr s) = Inr s"
  by (simp add: as_str_def)

lemma as_dict_iff [res_simps]: "as_dict v = Inr d \<longleftrightarrow> v = PDict d"
  by (auto simp: as_dict_def split: pyval.splits)

lemma as_dict_PDict [simp]: "as_dict (PDict d) = Inr d"
  by (simp add: as_dict_def)

lemma dget_simps [simp, py_eval]:
  "dgetd [] k v = v"
  "dgetd ((k', x) # d) k v = (if k = k' then x else dgetd d k v)"
  "dget [] k = PNone"
  "dget ((k', x) # d) k = (if k = k' then x else dget d k)"
  by (simp_all add: dgetd_def dget_def)

lemma ditem_simps [simp, py_eval]:
  "ditem [] k = Inl (KeyError k)"
  "ditem ((k', x) # d) k = (if k = k' then Inr x else ditem d k)"
  by (simp_all add: ditem_def)

lemma dhas_simps [simp, py_eval]:
  "dhas [] k = False"
  "dhas ((k', x) # d) k = (k = k' \<or> dhas d k)"
  by (auto simp: dhas_def)

lemma dgetd_update [simp]: "dgetd (dset d k x) k' v = (if k' = k then x else dgetd d k' v)"
  by (simp add: dgetd_def update_conv')

lemma dget_update [simp]: "dget (dset d k x) k' = (if k' = k then x else dget d k')"
  by (simp add: dget_def)

lemma dget_member: "k \<in> set (dkeys d) \<Longrightarrow> (k, dget d k) \<in> set d"
  by (auto simp: dget_def dgetd_def dest: map_of_SomeD split: option.splits) (metis map_of_eq_None_iff image_eqI fst_conv option.distinct(1))

lemma dget_nonempty: "dget d k \<noteq> PNone \<Longrightarrow> (k, dget d k) \<in> set d"
  by (auto simp: dget_def dgetd_def split: option.splits dest: map_of_SomeD)

lemma ditem_eq_Inr [res_simps]: "ditem d k = Inr x \<longleftrightarrow> map_of d k = Some x"
  by (auto simp: ditem_def split: option.splits)

lemma vget_eq_Inr [res_simps]: "vget v k = Inr x \<longleftrightarrow> (\<exists>d. v = PDict d \<and> x = dget d k)"
  by (cases v) auto

lemma vgetd_eq_Inr [res_simps]: "vgetd v k y = Inr x \<longleftrightarrow> (\<exists>d. v = PDict d \<and> x = dgetd d k y)"
  by (cases v) auto

lemma vitem_eq_Inr [res_simps]: "vitem v k = Inr x \<longleftrightarrow> (\<exists>d. v = PDict d \<and> map_of d k = Some x)"
  by (cases v) (auto simp: res_simps)

lemma is_str_iff: "is_str v \<longleftrightarrow> (\<exists>s. v = PStr s)"
  by (cases v) auto

lemma is_list_iff: "is_list v \<longleftrightarrow> (\<exists>xs. v = PList xs)"
  by (cases v) auto

lemma is_dict_iff: "is_dict v \<longleftrightarrow> (\<exists>d. v = PDict d)"
  by (cases v) auto

text \<open>Equality. Numbers and Booleans compare by value, mappings without regard to order.\<close>

function (sequential) py_eq :: "pyval \<Rightarrow> pyval \<Rightarrow> bool" where
  "py_eq PNone v = (v = PNone)"
| "py_eq (PBool a) v = (int_of v = Some (if a then 1 else 0))"
| "py_eq (PInt a) v = (int_of v = Some a)"
| "py_eq (PStr a) v = (v = PStr a)"
| "py_eq (PList xs) v =
    (case v of PList ys \<Rightarrow> length xs = length ys \<and> list_all (\<lambda>(x, y). py_eq x y) (zip xs ys)
     | _ \<Rightarrow> False)"
| "py_eq (PDict d) v =
    (case v of PDict e \<Rightarrow> length d = length e \<and>
        list_all (\<lambda>(k, x). case map_of e k of None \<Rightarrow> False | Some y \<Rightarrow> py_eq x y) d
     | _ \<Rightarrow> False)"
  by pat_completeness auto
termination
  by (relation "measure (size \<circ> fst)")
    (auto dest!: set_zip_leftD simp: less_Suc_eq_le
       intro: size_list_estimation' order.trans [OF _ size_list_estimation'])

definition py_in :: "pyval \<Rightarrow> pyval list \<Rightarrow> bool" where
  "py_in v xs = list_ex (py_eq v) xs"

text \<open>Membership of a value in a set or mapping of strings hashes it first.\<close>

definition hashable :: "pyval \<Rightarrow> bool" where
  "hashable v \<longleftrightarrow> \<not> is_list v \<and> \<not> is_dict v"

definition str_member :: "pyval \<Rightarrow> string list \<Rightarrow> bool res" where
  "str_member v ks =
    (if hashable v then Inr (case v of PStr s \<Rightarrow> List.member ks s | _ \<Rightarrow> False)
     else Inl TypeError)"

lemma str_member_eq_Inr [res_simps]:
  "str_member v ks = Inr b \<longleftrightarrow> hashable v \<and> (b \<longleftrightarrow> (\<exists>s. v = PStr s \<and> s \<in> set ks))"
  by (auto simp: str_member_def split: pyval.splits)

lemma str_member_PStr [simp]: "str_member (PStr s) ks = Inr (s \<in> set ks)"
  by (simp add: str_member_def hashable_def)

text \<open>\<open>value in (tuple of strings)\<close> compares without hashing.\<close>

definition str_in :: "pyval \<Rightarrow> string list \<Rightarrow> bool" where
  "str_in v ks = (case v of PStr s \<Rightarrow> List.member ks s | _ \<Rightarrow> False)"

lemma str_in_iff: "str_in v ks \<longleftrightarrow> (\<exists>s. v = PStr s \<and> s \<in> set ks)"
  by (auto simp: str_in_def split: pyval.splits)

text \<open>\<open>value in set(values)\<close> hashes every value.\<close>

definition set_member :: "pyval \<Rightarrow> pyval list \<Rightarrow> bool res" where
  "set_member v xs =
    (if list_all hashable xs \<and> hashable v then Inr (py_in v xs) else Inl TypeError)"

text \<open>A list of strings as a value.\<close>

abbreviation strs :: "string list \<Rightarrow> pyval" where
  "strs ss \<equiv> PList (map PStr ss)"

lemma py_in_PStr: "py_in (PStr s) xs \<longleftrightarrow> PStr s \<in> set xs"
  by (auto simp: py_in_def list_ex_iff)

lemma py_in_strs [simp]: "py_in (PStr s) (map PStr ss) \<longleftrightarrow> s \<in> set ss"
  by (auto simp: py_in_PStr)

lemma set_member_strs [simp]: "set_member (PStr s) (map PStr ss) = Inr (s \<in> set ss)"
  by (auto simp: set_member_def hashable_def list_all_iff)

lemma map_PStr_inject [simp]: "map PStr xs = map PStr ys \<longleftrightarrow> xs = ys"
  by (rule inj_map_eq_map) (simp add: inj_on_def)

lemma str_in_PStr [simp]: "str_in (PStr s) ks \<longleftrightarrow> s \<in> set ks"
  by (simp add: str_in_iff)


section \<open>Lists of strings\<close>

text \<open>\<open>sorted(set(xs))\<close>.\<close>

definition sorted_set :: "'a::linorder list \<Rightarrow> 'a list" where
  "sorted_set xs = sort (remdups xs)"

lemma sorted_set_props [simp]:
  "set (sorted_set xs) = set xs" "sorted (sorted_set xs)" "distinct (sorted_set xs)"
  by (simp_all add: sorted_set_def)

lemma sorted_set_unique:
  "sorted ys \<Longrightarrow> distinct ys \<Longrightarrow> set ys = set xs \<Longrightarrow> sorted_set xs = ys"
  by (intro sorted_distinct_set_unique) auto

lemma sorted_set_idem [simp]: "sorted_set (sorted_set xs) = sorted_set xs"
  by (rule sorted_set_unique) auto

lemma sorted_set_eq_iff: "sorted_set xs = sorted_set ys \<longleftrightarrow> set xs = set ys"
  by (metis sorted_set_props sorted_set_unique)

lemma sorted_set_Nil_iff [simp]: "sorted_set xs = [] \<longleftrightarrow> xs = []"
  by (metis set_empty sorted_set_props(1))

text \<open>The accumulating loop \<open>if x not in acc: acc.append(x)\<close>.\<close>

definition add_new :: "'a list \<Rightarrow> 'a \<Rightarrow> 'a list" where
  "add_new acc x = (if x \<in> set acc then acc else acc @ [x])"

lemma set_add_new [simp]: "set (add_new acc x) = insert x (set acc)"
  by (auto simp: add_new_def)

lemma distinct_add_new [simp]: "distinct acc \<Longrightarrow> distinct (add_new acc x)"
  by (simp add: add_new_def)

lemma foldl_add_new:
  "set (foldl add_new acc xs) = set acc \<union> set xs"
  "distinct acc \<Longrightarrow> distinct (foldl add_new acc xs)"
  by (induction xs arbitrary: acc) auto

lemma foldl_add_new_distinct:
  "distinct (acc @ xs) \<Longrightarrow> foldl add_new acc xs = acc @ xs"
  by (induction xs arbitrary: acc) (auto simp: add_new_def)

end
