(* ===== verification/Py_Regex.thy ===== *)
theory Py_Regex
  imports Prelude
begin

text \<open>
  The part of Python's \<^verbatim>\<open>re\<close> the program uses: \<open>re.fullmatch\<close> of a pattern built from
  character classes, concatenation, alternation and bounded or unbounded repetition. A
  pattern is a value of type \<open>rx\<close>, so each \<^verbatim>\<open>re.compile\<close> of the source is written down as
  it stands; \<open>fullmatch\<close> runs it by derivatives. \<open>fullmatch_iff\<close> shows that it accepts
  exactly the pattern's language, and the lemmas after it turn the language of a class, a
  repeated class or a literal into a statement about the characters of the string.
\<close>

datatype rx =
    Lit string
  | Cls "(char \<times> char) list"
  | NCls "(char \<times> char) list"
  | Seq rx rx
  | Alt rx rx
  | Rep rx nat nat
  | Star rx
  | Never

abbreviation Opt :: "rx \<Rightarrow> rx" where
  "Opt r \<equiv> Rep r 0 1"

abbreviation Plus :: "rx \<Rightarrow> rx" where
  "Plus r \<equiv> Seq r (Star r)"

definition in_class :: "(char \<times> char) list \<Rightarrow> char \<Rightarrow> bool" where
  "in_class rs c \<longleftrightarrow> list_ex (\<lambda>(lo, hi). lo \<le> c \<and> c \<le> hi) rs"

primrec nullable :: "rx \<Rightarrow> bool" where
  "nullable (Lit s) = (s = [])"
| "nullable (Cls rs) = False"
| "nullable (NCls rs) = False"
| "nullable (Seq r s) = (nullable r \<and> nullable s)"
| "nullable (Alt r s) = (nullable r \<or> nullable s)"
| "nullable (Rep r lo hi) = (lo \<le> hi \<and> (lo = 0 \<or> nullable r))"
| "nullable (Star r) = True"
| "nullable Never = False"

primrec deriv :: "char \<Rightarrow> rx \<Rightarrow> rx" where
  "deriv c (Lit s) = (case s of [] \<Rightarrow> Never | d # t \<Rightarrow> if c = d then Lit t else Never)"
| "deriv c (Cls rs) = (if in_class rs c then Lit [] else Never)"
| "deriv c (NCls rs) = (if in_class rs c then Never else Lit [])"
| "deriv c (Seq r s) =
    (if nullable r then Alt (Seq (deriv c r) s) (deriv c s) else Seq (deriv c r) s)"
| "deriv c (Alt r s) = Alt (deriv c r) (deriv c s)"
| "deriv c (Rep r lo hi) = (if hi = 0 then Never else Seq (deriv c r) (Rep r (lo - 1) (hi - 1)))"
| "deriv c (Star r) = Seq (deriv c r) (Star r)"
| "deriv c Never = Never"

definition fullmatch :: "rx \<Rightarrow> string \<Rightarrow> bool" where
  "fullmatch r s = nullable (foldl (\<lambda>r c. deriv c r) r s)"


section \<open>The language of a pattern\<close>

primrec words :: "string set \<Rightarrow> nat \<Rightarrow> string set" where
  "words A 0 = {[]}"
| "words A (Suc n) = {u @ v | u v. u \<in> A \<and> v \<in> words A n}"

primrec lang :: "rx \<Rightarrow> string set" where
  "lang (Lit s) = {s}"
| "lang (Cls rs) = {[c] | c. in_class rs c}"
| "lang (NCls rs) = {[c] | c. \<not> in_class rs c}"
| "lang (Seq r s) = {u @ v | u v. u \<in> lang r \<and> v \<in> lang s}"
| "lang (Alt r s) = lang r \<union> lang s"
| "lang (Rep r lo hi) = (\<Union>n\<in>{lo..hi}. words (lang r) n)"
| "lang (Star r) = (\<Union>n. words (lang r) n)"
| "lang Never = {}"

lemma words_SucI: "c # u \<in> A \<Longrightarrow> v \<in> words A n \<Longrightarrow> c # u @ v \<in> words A (Suc n)"
  by (simp only: words.simps mem_Collect_eq) (metis append_Cons)

lemma words_pad: "[] \<in> A \<Longrightarrow> u \<in> words A n \<Longrightarrow> n \<le> m \<Longrightarrow> u \<in> words A m"
proof (induction m arbitrary: n u)
  case (Suc m)
  show ?case
  proof (cases "n \<le> m")
    case True
    with Suc have "u \<in> words A m" by blast
    with Suc.prems(1) show ?thesis by (auto intro: exI [of _ "[]"])
  next
    case False
    with Suc.prems(2,3) show ?thesis by (simp add: le_Suc_eq)
  qed
qed auto

text \<open>The first character of a repetition belongs to a word of its body.\<close>

lemma words_Cons:
  assumes "c # s \<in> words A n"
  shows "\<exists>u v k. s = u @ v \<and> c # u \<in> A \<and> v \<in> words A k \<and> k < n \<and> (Suc k < n \<longrightarrow> [] \<in> A)"
  using assms
proof (induction n)
  case (Suc n)
  then obtain u v where uv: "c # s = u @ v" "u \<in> A" "v \<in> words A n" by auto
  show ?case
  proof (cases u)
    case Nil
    with uv Suc.IH obtain u' v' k where
      "s = u' @ v'" "c # u' \<in> A" "v' \<in> words A k" "k < n" "[] \<in> A" by auto
    then show ?thesis by (metis less_Suc_eq)
  next
    case (Cons d t)
    with uv show ?thesis
      by (intro exI [of _ t] exI [of _ v] exI [of _ n]) auto
  qed
qed auto

lemma nullable_iff: "nullable r \<longleftrightarrow> [] \<in> lang r"
proof (induction r)
  case (Rep r lo hi)
  have "[] \<in> words (lang r) n \<longleftrightarrow> n = 0 \<or> [] \<in> lang r" for n
    by (induction n) auto
  with Rep show ?case by fastforce
next
  case (Star r)
  have "[] \<in> words (lang r) 0" by simp
  then show ?case by (simp del: words.simps) blast
qed auto

lemma deriv_Rep:
  assumes IH: "\<And>s. s \<in> lang (deriv c r) \<longleftrightarrow> c # s \<in> lang r"
  shows "s \<in> lang (deriv c (Rep r lo hi)) \<longleftrightarrow> c # s \<in> lang (Rep r lo hi)"
proof
  assume "s \<in> lang (deriv c (Rep r lo hi))"
  then obtain u v k where "hi \<noteq> 0" "s = u @ v" "c # u \<in> lang r"
    "v \<in> words (lang r) k" "lo - 1 \<le> k" "k \<le> hi - 1"
    by (auto simp: IH split: if_splits)
  then have "c # s \<in> words (lang r) (Suc k)" "lo \<le> Suc k" "Suc k \<le> hi"
    using words_SucI [of c u "lang r" v k] by auto
  then show "c # s \<in> lang (Rep r lo hi)" by force
next
  assume "c # s \<in> lang (Rep r lo hi)"
  then obtain n where n: "lo \<le> n" "n \<le> hi" "c # s \<in> words (lang r) n" by auto
  from words_Cons [OF n(3)] obtain u v k where uv: "s = u @ v" "c # u \<in> lang r"
    "v \<in> words (lang r) k" "k < n" "Suc k < n \<longrightarrow> [] \<in> lang r" by auto
  have "v \<in> words (lang r) (n - 1)"
    using uv by (cases "Suc k < n") (auto intro: words_pad simp: not_less_eq less_Suc_eq)
  then have "v \<in> lang (Rep r (lo - 1) (hi - 1))"
    using n by force
  moreover have "u \<in> lang (deriv c r)" "hi \<noteq> 0"
    using uv n by (auto simp: IH)
  ultimately show "s \<in> lang (deriv c (Rep r lo hi))"
    using uv(1) by (simp only: deriv.simps if_False lang.simps(4)) blast
qed

lemma deriv_Star:
  assumes IH: "\<And>s. s \<in> lang (deriv c r) \<longleftrightarrow> c # s \<in> lang r"
  shows "s \<in> lang (deriv c (Star r)) \<longleftrightarrow> c # s \<in> lang (Star r)"
proof
  assume "s \<in> lang (deriv c (Star r))"
  then obtain u v k where "s = u @ v" "c # u \<in> lang r" "v \<in> words (lang r) k"
    by (auto simp: IH)
  then have "c # s \<in> words (lang r) (Suc k)" by (metis words_SucI append_Cons)
  then show "c # s \<in> lang (Star r)" by (simp del: words.simps) blast
next
  assume "c # s \<in> lang (Star r)"
  then obtain n where "c # s \<in> words (lang r) n" by auto
  from words_Cons [OF this] show "s \<in> lang (deriv c (Star r))"
    by (auto simp: IH)
qed

lemma lang_deriv: "s \<in> lang (deriv c r) \<longleftrightarrow> c # s \<in> lang r"
proof (induction r arbitrary: s)
  case (Lit t)
  then show ?case by (auto split: list.splits)
next
  case (Seq r1 r2)
  then show ?case
    by (auto simp: nullable_iff append_eq_Cons_conv Cons_eq_append_conv)
next
  case (Rep r lo hi)
  then show ?case using deriv_Rep by blast
next
  case (Star r)
  then show ?case using deriv_Star by blast
qed auto

theorem fullmatch_iff: "fullmatch r s \<longleftrightarrow> s \<in> lang r"
  unfolding fullmatch_def
  by (induction s arbitrary: r) (simp_all add: nullable_iff lang_deriv)


section \<open>Languages as statements about characters\<close>

lemma words_Cls: "words {[c] | c. P c} n = {s. length s = n \<and> list_all P s}"
proof (induction n)
  case (Suc n)
  show ?case
    by (auto simp: Suc length_Suc_conv) (metis append_Cons append_Nil)
qed auto

lemma lang_Rep_Cls: "lang (Rep (Cls rs) lo hi) = {s. lo \<le> length s \<and> length s \<le> hi \<and> list_all (in_class rs) s}"
  by (auto simp: words_Cls)

lemma lang_Star_Cls: "lang (Star (Cls rs)) = {s. list_all (in_class rs) s}"
  by (auto simp: words_Cls)

lemma lang_Star_NCls: "lang (Star (NCls rs)) = {s. list_all (\<lambda>c. \<not> in_class rs c) s}"
  by (auto simp: words_Cls)

lemma lang_Opt: "lang (Opt r) = insert [] (lang r)"
  by (auto simp: atLeast0_atMost_Suc)

lemmas lang_chars = lang_Rep_Cls lang_Star_Cls lang_Star_NCls lang_Opt

text \<open>A class, then a repeated class: the shape of most identifiers.\<close>

lemma fullmatch_head_rep:
  "fullmatch (Seq (Cls hs) (Rep (Cls rs) lo hi)) s \<longleftrightarrow>
    (case s of [] \<Rightarrow> False
     | c # t \<Rightarrow> in_class hs c \<and> lo \<le> length t \<and> length t \<le> hi \<and> list_all (in_class rs) t)"
proof (cases s)
  case (Cons c t)
  have "u @ v = c # t \<and> (\<exists>d. u = [d] \<and> in_class hs d) \<longleftrightarrow> u = [c] \<and> v = t \<and> in_class hs c"
    for u v by auto
  then show ?thesis
    unfolding Cons fullmatch_iff lang.simps(2,4) lang_Rep_Cls by auto (metis append_Cons append_Nil)
qed (auto simp: fullmatch_iff)

lemma fullmatch_rep:
  "fullmatch (Rep (Cls rs) lo hi) s \<longleftrightarrow>
    lo \<le> length s \<and> length s \<le> hi \<and> list_all (in_class rs) s"
  unfolding fullmatch_iff lang_Rep_Cls by simp

lemma fullmatch_nonempty: "fullmatch r s \<Longrightarrow> \<not> nullable r \<Longrightarrow> s \<noteq> []"
  by (auto simp: fullmatch_iff nullable_iff)

text \<open>A repetition, word by word.\<close>

lemma concat_words: "list_all (\<lambda>u. u \<in> A) us \<Longrightarrow> concat us \<in> words A (length us)"
  by (induction us) auto

lemma concat_Rep: "list_all (\<lambda>u. u \<in> lang r) us \<Longrightarrow> length us = n \<Longrightarrow> concat us \<in> lang (Rep r n n)"
  using concat_words by fastforce

end
