(* ===== verification/Py_Text.thy ===== *)
theory Py_Text
  imports Prelude
begin

text \<open>
  Python's string operations as the program uses them, and the two ways it turns a value into
  text: \<open>str(v)\<close> inside an f-string (\<open>py_str\<close>) and \<open>json.dumps(v, sort_keys=True,
  separators=(',', ':'))\<close> (\<open>json_dumps\<close>). Decimal printing and reading are inverse
  (\<open>digits_val_nat_str\<close>), so equal printed numbers are equal numbers.
\<close>

section \<open>Slicing, joining, searching\<close>

definition ends_with :: "string \<Rightarrow> string \<Rightarrow> bool" where
  "ends_with s suf \<longleftrightarrow> drop (length s - length suf) s = suf"

definition starts_with :: "string \<Rightarrow> string \<Rightarrow> bool" where
  "starts_with s pre \<longleftrightarrow> take (length pre) s = pre"

fun join :: "string \<Rightarrow> string list \<Rightarrow> string" where
  "join sep [] = []"
| "join sep [s] = s"
| "join sep (s # t # ss) = s @ sep @ join sep (t # ss)"

text \<open>\<open>sub in s\<close> and \<open>s.replace(sub, new)\<close> for a nonempty \<open>sub\<close>.\<close>

fun contains :: "string \<Rightarrow> string \<Rightarrow> bool" where
  "contains sub [] = (sub = [])"
| "contains sub (c # s) = (starts_with (c # s) sub \<or> contains sub s)"

function replace_all :: "string \<Rightarrow> string \<Rightarrow> string \<Rightarrow> string" where
  "replace_all sub new s =
    (if sub = [] \<or> s = [] then s
     else if starts_with s sub then new @ replace_all sub new (drop (length sub) s)
     else hd s # replace_all sub new (tl s))"
  by pat_completeness auto
termination
  by (relation "measure (\<lambda>(sub, new, s). length s)") auto

declare replace_all.simps [simp del]

text \<open>\<open>s.split(c)\<close>, \<open>s.split(c, 1)[0]\<close> and \<open>s.rsplit(c, 1)\<close> for one separator character.
  \<open>rsplit\<close> is \<open>None\<close> where unpacking its result into two names raises \<open>ValueError\<close>.\<close>

fun split_on :: "char \<Rightarrow> string \<Rightarrow> string list" where
  "split_on c [] = [[]]"
| "split_on c (d # s) =
    (if d = c then [] # split_on c s
     else case split_on c s of [] \<Rightarrow> [[d]] | w # ws \<Rightarrow> (d # w) # ws)"

definition rsplit1 :: "char \<Rightarrow> string \<Rightarrow> (string \<times> string) option" where
  "rsplit1 c s =
    (if c \<in> set s then
       (let tl_rev = takeWhile (\<lambda>d. d \<noteq> c) (rev s)
        in Some (take (length s - length tl_rev - 1) s, rev tl_rev))
     else None)"

definition in_range :: "nat \<Rightarrow> nat \<Rightarrow> char \<Rightarrow> bool" where
  "in_range lo hi c \<longleftrightarrow> lo \<le> of_char c \<and> of_char c \<le> hi"

text \<open>\<open>s.lower()\<close> on code points below 256.\<close>

definition lower_char :: "char \<Rightarrow> char" where
  "lower_char c =
    (if in_range 65 90 c \<or> in_range 192 214 c \<or> in_range 216 222 c
     then char_of (of_char c + 32 :: nat) else c)"

definition lower :: "string \<Rightarrow> string" where
  "lower s = map lower_char s"

definition is_space :: "char \<Rightarrow> bool" where
  "is_space c \<longleftrightarrow> in_range 9 13 c \<or> in_range 28 32 c \<or> of_char c = (133::nat) \<or> of_char c = (160::nat)"

definition strip_chars :: "(char \<Rightarrow> bool) \<Rightarrow> string \<Rightarrow> string" where
  "strip_chars P s = rev (dropWhile P (rev (dropWhile P s)))"

lemma ends_with_iff: "ends_with s suf \<longleftrightarrow> (\<exists>pre. s = pre @ suf)"
proof
  assume "ends_with s suf"
  then show "\<exists>pre. s = pre @ suf"
    unfolding ends_with_def by (metis append_take_drop_id)
qed (auto simp: ends_with_def)

lemma rsplit1_Some: "rsplit1 c s = Some (a, b) \<longleftrightarrow> s = a @ c # b \<and> c \<notin> set b"
proof
  assume r: "rsplit1 c s = Some (a, b)"
  then have "c \<in> set s" by (auto simp: rsplit1_def split: if_splits)
  then obtain u v where s: "s = u @ c # v" "c \<notin> set v"
    using split_list_last by fastforce
  then have "takeWhile (\<lambda>d. d \<noteq> c) (rev s) = rev v"
    by (simp add: takeWhile_append takeWhile_eq_all_conv)
  with r s show "s = a @ c # b \<and> c \<notin> set b"
    by (simp add: rsplit1_def Let_def)
next
  assume s: "s = a @ c # b \<and> c \<notin> set b"
  then have "takeWhile (\<lambda>d. d \<noteq> c) (rev s) = rev b"
    by (simp add: takeWhile_append takeWhile_eq_all_conv)
  with s show "rsplit1 c s = Some (a, b)"
    by (simp add: rsplit1_def Let_def)
qed

lemma rsplit1_None: "rsplit1 c s = None \<longleftrightarrow> c \<notin> set s"
  by (simp add: rsplit1_def Let_def)

lemma split_on_nonempty [simp]: "split_on c s \<noteq> []"
  by (induction s) (auto split: list.splits)

lemma join_split_on: "join [c] (split_on c s) = s"
proof (induction s)
  case (Cons d s)
  obtain w ws where "split_on c s = w # ws" by (cases "split_on c s") auto
  with Cons show ?case by (cases ws) auto
qed simp

lemma split_on_free: "c \<notin> set s \<Longrightarrow> split_on c s = [s]"
  by (induction s) auto

lemma split_on_append: "c \<notin> set u \<Longrightarrow> split_on c (u @ c # v) = u # split_on c v"
  by (induction u) auto

lemma split_on_parts: "w \<in> set (split_on c s) \<Longrightarrow> c \<notin> set w"
  by (induction s arbitrary: w) (auto split: if_splits list.splits)


section \<open>Decimal numbers\<close>

definition digit_char :: "nat \<Rightarrow> char" where
  "digit_char d = ''0123456789'' ! d"

definition is_digit :: "char \<Rightarrow> bool" where
  "is_digit c \<longleftrightarrow> in_range 48 57 c"

fun nat_str :: "nat \<Rightarrow> string" where
  "nat_str n = (if n < 10 then [digit_char n] else nat_str (n div 10) @ [digit_char (n mod 10)])"

declare nat_str.simps [simp del]

definition int_str :: "int \<Rightarrow> string" where
  "int_str i = (if i < 0 then ''-'' @ nat_str (nat (- i)) else nat_str (nat i))"

definition digits_val :: "string \<Rightarrow> nat" where
  "digits_val s = foldl (\<lambda>n c. 10 * n + (of_char c - 48)) 0 s"

text \<open>\<open>s.isascii() and s.isdigit()\<close>.\<close>

definition all_digits :: "string \<Rightarrow> bool" where
  "all_digits s \<longleftrightarrow> s \<noteq> [] \<and> list_all is_digit s"

lemma digit_char_of_char: "d < 10 \<Longrightarrow> of_char (digit_char d) = 48 + d"
  by (auto simp: digit_char_def numeral_eq_Suc less_Suc_eq)

lemma digits_val_append: "digits_val (s @ [c]) = 10 * digits_val s + (of_char c - 48)"
  by (simp add: digits_val_def)

lemma digits_val_nat_str [simp]: "digits_val (nat_str n) = n"
proof (induction n rule: nat_str.induct)
  case (1 n)
  then show ?case
    by (cases "n < 10")
      (simp_all add: nat_str.simps [of n] digits_val_append digit_char_of_char,
       simp add: digits_val_def digit_char_of_char)
qed

lemma all_digits_nat_str [simp]: "all_digits (nat_str n)"
proof (induction n rule: nat_str.induct)
  case (1 n)
  then show ?case
    by (cases "n < 10")
      (simp_all add: nat_str.simps [of n] all_digits_def is_digit_def in_range_def
         digit_char_of_char)
qed

lemma nat_str_inject [simp]: "nat_str m = nat_str n \<longleftrightarrow> m = n"
  by (metis digits_val_nat_str)

lemma nat_str_nonempty [simp]: "nat_str n \<noteq> []"
  using all_digits_nat_str [of n] by (auto simp: all_digits_def)

lemma nat_str_no_sep: "\<not> is_digit c \<Longrightarrow> c \<notin> set (nat_str n)"
  using all_digits_nat_str [of n] by (auto simp: all_digits_def list_all_iff)


section \<open>Values as text\<close>

definition hex_digit :: "nat \<Rightarrow> char" where
  "hex_digit d = ''0123456789abcdef'' ! d"

definition hex2 :: "nat \<Rightarrow> string" where
  "hex2 n = [hex_digit (n div 16 mod 16), hex_digit (n mod 16)]"

definition repr_char :: "char \<Rightarrow> char \<Rightarrow> string" where
  "repr_char quote c =
    (if c = quote \<or> c = CHR 0x5C then [CHR 0x5C, c]
     else if c = CHR 0x0A then [CHR 0x5C, CHR ''n'']
     else if c = CHR 0x0D then [CHR 0x5C, CHR ''r'']
     else if c = CHR 0x09 then [CHR 0x5C, CHR ''t'']
     else if of_char c < (32::nat) \<or> in_range 127 160 c \<or> of_char c = (173::nat)
       then [CHR 0x5C, CHR ''x''] @ hex2 (of_char c)
     else [c])"

definition repr_str :: "string \<Rightarrow> string" where
  "repr_str s =
    (let quote = (if CHR 0x27 \<in> set s \<and> CHR 0x22 \<notin> set s then CHR 0x22 else CHR 0x27)
     in [quote] @ concat (map (repr_char quote) s) @ [quote])"

primrec py_repr :: "pyval \<Rightarrow> string" where
  "py_repr PNone = ''None''"
| "py_repr (PBool b) = (if b then ''True'' else ''False'')"
| "py_repr (PInt i) = int_str i"
| "py_repr (PStr s) = repr_str s"
| "py_repr (PList xs) = ''['' @ join '', '' (map py_repr xs) @ '']''"
| "py_repr (PDict d) =
    ''{'' @ join '', '' (map (\<lambda>(k, r). repr_str k @ '': '' @ r) (map (map_prod id py_repr) d)) @ ''}''"

definition py_str :: "pyval \<Rightarrow> string" where
  "py_str v = (case v of PStr s \<Rightarrow> s | _ \<Rightarrow> py_repr v)"

definition json_char :: "bool \<Rightarrow> char \<Rightarrow> string" where
  "json_char ascii c =
    (if c = CHR 0x22 \<or> c = CHR 0x5C then [CHR 0x5C, c]
     else if c = CHR 0x0A then [CHR 0x5C, CHR ''n'']
     else if c = CHR 0x0D then [CHR 0x5C, CHR ''r'']
     else if c = CHR 0x09 then [CHR 0x5C, CHR ''t'']
     else if c = CHR 0x0C then [CHR 0x5C, CHR ''f'']
     else if c = CHR 0x08 then [CHR 0x5C, CHR ''b'']
     else if of_char c < (32::nat) \<or> ascii \<and> (126::nat) < of_char c
       then [CHR 0x5C, CHR ''u'', CHR ''0'', CHR ''0''] @ hex2 (of_char c)
     else [c])"

definition json_str :: "bool \<Rightarrow> string \<Rightarrow> string" where
  "json_str ascii s = [CHR 0x22] @ concat (map (json_char ascii) s) @ [CHR 0x22]"

text \<open>\<open>sort_keys=True\<close> and separators without spaces.\<close>

primrec json_dumps :: "bool \<Rightarrow> pyval \<Rightarrow> string" where
  "json_dumps a PNone = ''null''"
| "json_dumps a (PBool b) = (if b then ''true'' else ''false'')"
| "json_dumps a (PInt i) = int_str i"
| "json_dumps a (PStr s) = json_str a s"
| "json_dumps a (PList xs) = ''['' @ join '','' (map (json_dumps a) xs) @ '']''"
| "json_dumps a (PDict d) =
    ''{'' @ join '','' (map (\<lambda>(k, r). json_str a k @ '':'' @ r)
                        (sort_key fst (map (map_prod id (json_dumps a)) d))) @ ''}''"

lemma py_str_PStr [simp]: "py_str (PStr s) = s"
  by (simp add: py_str_def)

end
