(* ===== verification/Model_Fields.thy ===== *)
theory Model_Fields
  imports Py_Regex Py_Text
begin

text \<open>
  The constants at the head of \<^verbatim>\<open>ansible/lib/platform_resource_model.py\<close>: the patterns of
  names and addresses, the fixed settings of the Debian application guests, and the closed
  field lists of every kind of declaration. A Python set of strings is the list of its
  members; \<open>a | b\<close> of two sets is the concatenation.
\<close>

definition COMPILER_VERSION :: int where "COMPILER_VERSION = 28"

definition ROLE_SUFFIXES :: "string list" where
  "ROLE_SUFFIXES = [''router'', ''bak'', ''dmz'', ''iot'']"

definition CLEANUP_HOST_ROLES :: "string list" where
  "CLEANUP_HOST_ROLES = [''router'', ''backend'', ''dmz'', ''iot'']"

definition PODMAN_ROLE_SUFFIXES :: "string list" where
  "PODMAN_ROLE_SUFFIXES = [''bak'', ''dmz'', ''iot'']"

definition PODMAN_NODE_ROLES :: "(string \<times> string) list" where
  "PODMAN_NODE_ROLES = [(''bak'', ''backend''), (''dmz'', ''dmz''), (''iot'', ''iot'')]"

definition ROLE_HOST_SUFFIXES :: "(string \<times> string) list" where
  "ROLE_HOST_SUFFIXES =
    [(''router'', ''router''), (''backend'', ''bak''), (''bak'', ''bak''),
     (''dmz'', ''dmz''), (''iot'', ''iot'')]"


section \<open>Patterns\<close>

abbreviation "az \<equiv> (CHR ''a'', CHR ''z'')"
abbreviation "AZ \<equiv> (CHR ''A'', CHR ''Z'')"
abbreviation "d09 \<equiv> (CHR ''0'', CHR ''9'')"
abbreviation "one c \<equiv> (c, c)"

definition BOX_RE :: rx where
  "BOX_RE = Seq (Cls [az, d09])
     (Opt (Seq (Rep (Cls [az, d09, one CHR ''-'']) 0 61) (Cls [az, d09])))"

definition ID_RE :: rx where
  "ID_RE = Seq (Cls [az]) (Rep (Cls [az, d09, one CHR ''-'']) 0 63)"

definition USER_FIELD_RE :: rx where
  "USER_FIELD_RE = Seq (Cls [az]) (Rep (Cls [az, d09, one CHR ''_'']) 0 63)"

definition SLUG_RE :: rx where
  "SLUG_RE = Seq (Cls [az]) (Rep (Cls [az, d09, one CHR ''-'']) 0 23)"

definition SYSTEM_USER_RE :: rx where
  "SYSTEM_USER_RE = Seq (Cls [az, one CHR ''_''])
     (Rep (Cls [az, d09, one CHR ''_'', one CHR ''-'']) 0 31)"

definition IFACE_RE :: rx where
  "IFACE_RE = Rep (Cls [AZ, az, d09, one CHR ''_'', one CHR ''.'', one CHR '':'', one CHR ''-'']) 1 32"

definition TAG_RE :: rx where
  "TAG_RE = Seq (Lit ''tag:'')
     (Seq (Cls [AZ, az, d09]) (Star (Cls [AZ, az, d09, one CHR ''_'', one CHR ''-''])))"

text \<open>\<open>\\s\<close> on code points below 256.\<close>

definition LOGIN_RE :: rx where
  "LOGIN_RE =
    (let c = NCls [one CHR ''@'', (CHR 0x09, CHR 0x0D), (CHR 0x1C, CHR 0x20),
                   one (CHR 0x85), one (CHR 0xA0)]
     in Seq (Plus c) (Seq (Lit ''@'') (Plus c)))"

definition MAC_RE :: rx where
  "MAC_RE =
    (let h = Rep (Cls [d09, (CHR ''A'', CHR ''F''), (CHR ''a'', CHR ''f'')]) 2 2
     in Seq h (Rep (Seq (Lit '':'') h) 5 5))"


section \<open>Fixed settings\<close>

definition WORKLOAD_ROLES :: "string list" where
  "WORKLOAD_ROLES = [''backend'', ''dmz'', ''iot'', ''usr'']"

definition DEBIAN_APP_VM_SECURITY_MIRROR :: string where
  "DEBIAN_APP_VM_SECURITY_MIRROR = ''http://security.debian.org/debian-security''"

definition DEBIAN_APP_VM_ARCHITECTURE :: string where
  "DEBIAN_APP_VM_ARCHITECTURE = ''amd64''"

definition DEBIAN_APP_VM_VARIANT :: string where
  "DEBIAN_APP_VM_VARIANT = ''minbase''"

definition DEBIAN_APP_VM_IMAGE_SIZE :: string where
  "DEBIAN_APP_VM_IMAGE_SIZE = ''8G''"

definition DEBIAN_APP_VM_BUILD_PROFILE_VERSION :: int where
  "DEBIAN_APP_VM_BUILD_PROFILE_VERSION = 2"

definition DEBIAN_APP_VM_BUILDER_ARTIFACT_PORT :: int where
  "DEBIAN_APP_VM_BUILDER_ARTIFACT_PORT = 18082"

definition DOM0_XEN_CONFIG_DIR :: string where
  "DOM0_XEN_CONFIG_DIR = ''/etc/xen''"

definition DOM0_XEN_IMAGES_PATH :: string where
  "DOM0_XEN_IMAGES_PATH = ''/mnt/dom0_data/xen_images''"

definition DEBIAN_APP_VM_PACKAGES :: "string list" where
  "DEBIAN_APP_VM_PACKAGES =
    [''bash'', ''ca-certificates'', ''curl'', ''dbus'', ''dbus-user-session'', ''gnupg'',
     ''ifupdown'', ''initramfs-tools'', ''iproute2'', ''iptables'', ''linux-image-amd64'',
     ''locales'', ''netbase'', ''nftables'', ''openssh-client'', ''openssh-server'',
     ''procps'', ''python3'', ''sudo'', ''systemd-sysv'', ''udev'']"


section \<open>Closed field lists\<close>

definition RAW_NETWORK_FIELDS :: "string list" where
  "RAW_NETWORK_FIELDS =
    [''router'', ''vm_input'', ''source'', ''destination'', ''interface'', ''in_interface'',
     ''out_interface'', ''wan_interface'', ''target_role'']"

definition TCB_CONTROL_FIELDS :: "string list" where
  "TCB_CONTROL_FIELDS =
    [''auth_key'', ''authkey'', ''box'', ''boxes'', ''builder_box'', ''builder_host'',
     ''builder_node'', ''builder_vm'', ''node'', ''nodes'', ''oauth_client'',
     ''oauth_secret'', ''owner'', ''owners'', ''placement'', ''privileged_builder_host'',
     ''tag_owner'', ''tag_owners'', ''tailnet_tag_owner'', ''tailnet_tag_owners'',
     ''target_box'']"

definition MANIFEST_TOP_LEVEL_FIELDS :: "string list" where
  "MANIFEST_TOP_LEVEL_FIELDS =
    [''schema_version'', ''app'', ''risk_class'', ''default_isolation'', ''placement_mode'',
     ''datasets'', ''features'', ''resources'', ''_manifest_path'']"

definition FEATURE_FIELDS :: "string list" where
  "FEATURE_FIELDS = [''id'', ''type'', ''values'', ''resource_bindings'']"

definition FEATURE_TYPES :: "string list" where
  "FEATURE_TYPES = [''boolean'', ''enum'']"

definition DATASET_FIELDS :: "string list" where
  "DATASET_FIELDS = [''id'', ''type'', ''rationale'']"

definition DATASET_TYPES :: "string list" where
  "DATASET_TYPES = [''durable_user_data'']"

definition RESOURCE_SECTION_FIELDS :: "string list" where
  "RESOURCE_SECTION_FIELDS = [''compute'', ''network'', ''tailnet'', ''artifacts'']"

definition COMPUTE_COMMON_FIELDS :: "string list" where
  "COMPUTE_COMMON_FIELDS =
    [''id'', ''type'', ''zone'', ''privilege'', ''lifecycle'', ''rationale'', ''isolation'',
     ''cleanup_required'', ''access'', ''requires_capability'']"

definition COMPUTE_FIELDS_BY_TYPE :: "(string \<times> string list) list" where
  "COMPUTE_FIELDS_BY_TYPE =
    [(''podman_workload'', COMPUTE_COMMON_FIELDS),
     (''host_service'', COMPUTE_COMMON_FIELDS),
     (''ephemeral_privileged_builder'', COMPUTE_COMMON_FIELDS),
     (''managed_iot_device'', COMPUTE_COMMON_FIELDS
        @ [''hostname_suffix'', ''hostname_default'', ''management_tag_default'']),
     (''per_user_app_vm'', COMPUTE_COMMON_FIELDS
        @ [''vm_name_prefix'', ''tailnet_tag_prefix'', ''guest_os'', ''debian_release'',
           ''container_runtime'', ''memory_mb'', ''vcpus'', ''lv_size'']),
     (''app_vm'', COMPUTE_COMMON_FIELDS
        @ [''hostname_suffix'', ''tailnet_tag_default'', ''guest_os'', ''container_runtime'',
           ''memory_mb'', ''vcpus'', ''lv_size''])]"

definition NETWORK_COMMON_FIELDS :: "string list" where
  "NETWORK_COMMON_FIELDS =
    [''id'', ''type'', ''required'', ''enabled_by_default'', ''exclusive'', ''rationale'',
     ''access'', ''requires_capability'']"

definition NETWORK_FIELDS_BY_TYPE :: "(string \<times> string list) list" where
  "NETWORK_FIELDS_BY_TYPE =
    [(''rg_lan_ipp'', NETWORK_COMMON_FIELDS),
     (''interzone_tcp'', NETWORK_COMMON_FIELDS
        @ [''from_zone'', ''to_zone'', ''ports'', ''port'', ''ports_from_user'']),
     (''realm_to_zone_tcp'', NETWORK_COMMON_FIELDS
        @ [''from_realm'', ''to_zone'', ''ports'', ''port'']),
     (''wan_egress'', NETWORK_COMMON_FIELDS @ [''from_zone'', ''tcp_ports'', ''udp_ports'']),
     (''zone_to_device_tcp'', NETWORK_COMMON_FIELDS
        @ [''from_zone'', ''device'', ''ports'', ''port'']),
     (''device_to_zone_tcp'', NETWORK_COMMON_FIELDS
        @ [''device'', ''to_zone'', ''ports'', ''port'']),
     (''device_wan_egress'', NETWORK_COMMON_FIELDS @ [''device'', ''tcp_ports'', ''udp_ports'']),
     (''tailnet_tcp'', NETWORK_COMMON_FIELDS)]"

definition TAILNET_RESOURCE_FIELDS :: "string list" where
  "TAILNET_RESOURCE_FIELDS =
    [''id'', ''required'', ''enabled_by_default'', ''hostname_default'', ''hostname'',
     ''hostname_pattern'', ''tag_default'', ''tag'', ''tag_pattern'', ''grants'', ''access'',
     ''requires_capability'']"

definition TAILNET_GRANT_FIELDS :: "string list" where
  "TAILNET_GRANT_FIELDS = [''src'', ''dst'', ''ports'', ''tcp_ports'', ''udp_ports'']"

definition ARTIFACT_COMMON_FIELDS :: "string list" where
  "ARTIFACT_COMMON_FIELDS = [''id'', ''type'', ''rationale'']"

definition ARTIFACT_FIELDS_BY_TYPE :: "(string \<times> string list) list" where
  "ARTIFACT_FIELDS_BY_TYPE =
    [(''release_artifact'', ARTIFACT_COMMON_FIELDS @ [''secret_free'', ''require_sha512'']),
     (''npm_package'', ARTIFACT_COMMON_FIELDS @ [''package'', ''version'', ''integrity'']),
     (''oci_images'', ARTIFACT_COMMON_FIELDS @ [''lock_file'', ''require_digest''])]"

definition RESERVED_APP_TAILNET_TAGS :: "string list" where
  "RESERVED_APP_TAILNET_TAGS =
    [''tag:bootstrap'', ''tag:dom0'', ''tag:infra'', ''tag:infra-agent'', ''tag:oob'',
     ''tag:ops'', ''tag:router'', ''tag:vm'']"

definition ACCESS_CAPABILITIES :: "string list" where
  "ACCESS_CAPABILITIES =
    [''ap-uplink'', ''local-lan'', ''rg-lan'', ''overlay'', ''vpn-egress'', ''edge-ingress'',
     ''direct-egress'', ''direct-ingress'']"

definition ACCESS_POLICY_INTENTS :: "string list" where
  "ACCESS_POLICY_INTENTS =
    [''local-presence-control'', ''private-service-ingress'', ''file-upload'',
     ''household-wan-egress'', ''public-ingress'']"

definition ACCESS_RESOURCE_FIELDS :: "string list" where
  "ACCESS_RESOURCE_FIELDS = [''intent'', ''capability'']"

definition ACCESS_BOX_FIELDS :: "string list" where
  "ACCESS_BOX_FIELDS = [''available_capabilities'', ''enabled_capabilities'', ''prohibited_capabilities'']"

definition BOX_CONFIG_FIELDS :: "string list" where
  "BOX_CONFIG_FIELDS =
    [''rg_lan'', ''bootstrap_dns'', ''routing_profile'', ''vpn_egress'', ''access'',
     ''dhcp_reservations'', ''dom0_bridge_ports'', ''shared_guests'']"

definition SHARED_GUEST_ROLES :: "string list" where
  "SHARED_GUEST_ROLES = [''bak'', ''dmz'', ''iot'']"

definition SHARED_GUEST_STATES :: "string list" where
  "SHARED_GUEST_STATES = [''running'', ''stopped'']"

definition SHARED_GUEST_FIELDS :: "string list" where
  "SHARED_GUEST_FIELDS = [''runtime_state'']"


section \<open>What the name patterns accept\<close>

definition id_tail :: "char \<Rightarrow> bool" where
  "id_tail c \<longleftrightarrow> in_class [az, d09, one CHR ''-''] c"

lemma ID_RE_iff:
  "fullmatch ID_RE s \<longleftrightarrow>
    (case s of [] \<Rightarrow> False | c # t \<Rightarrow> in_class [az] c \<and> length t \<le> 63 \<and> list_all id_tail t)"
  unfolding ID_RE_def fullmatch_head_rep id_tail_def [abs_def] by (simp split: list.splits)

lemma SLUG_RE_iff:
  "fullmatch SLUG_RE s \<longleftrightarrow>
    (case s of [] \<Rightarrow> False | c # t \<Rightarrow> in_class [az] c \<and> length t \<le> 23 \<and> list_all id_tail t)"
  unfolding SLUG_RE_def fullmatch_head_rep id_tail_def [abs_def] by (simp split: list.splits)

lemma SLUG_RE_ID_RE: "fullmatch SLUG_RE s \<Longrightarrow> fullmatch ID_RE s"
  unfolding SLUG_RE_iff ID_RE_iff by (auto split: list.splits)

lemma BOX_RE_length: "fullmatch BOX_RE s \<Longrightarrow> s \<noteq> [] \<and> length s \<le> 63"
  unfolding fullmatch_iff BOX_RE_def lang.simps(2,4) lang_Rep_Cls lang_Opt by auto

lemma BOX_RE_chars: "fullmatch BOX_RE s \<Longrightarrow> list_all (in_class [az, d09, one CHR ''-'']) s"
  unfolding fullmatch_iff BOX_RE_def lang.simps(2,4) lang_Rep_Cls lang_Opt
  by (auto simp: in_class_def)

text \<open>A hostname label neither starts nor ends with a hyphen.\<close>

lemma BOX_RE_ends: "fullmatch BOX_RE s \<Longrightarrow> in_class [az, d09] (hd s) \<and> in_class [az, d09] (last s)"
  unfolding fullmatch_iff BOX_RE_def lang.simps(2,4) lang_Rep_Cls lang_Opt by auto

lemma MAC_RE_length: "fullmatch MAC_RE s \<Longrightarrow> length s = 17"
  unfolding fullmatch_iff MAC_RE_def Let_def lang.simps(1,4) lang_Rep_Cls
  by (auto simp: lang_Rep_Cls eval_nat_numeral atLeastAtMost_singleton)

end
