(* ===== verification/Controller_Guard.thy ===== *)
theory Controller_Guard
  imports Model_Fields Py_Text
begin

text \<open>
  Which controller may act for the Platform. Every controller holds a marker file; the guard
  (\<^verbatim>\<open>roles/ops-controller/files/klokast-controller-guard\<close>) reads it and answers with a status, and refuses
  with exit code 78 when the controller is not the active one. \<^verbatim>\<open>bin/ops-controller-ha\<close> writes the markers and
  judges what the controllers answer: a repository (\<open>check_repository\<close>), the identity status of the source
  (\<open>validate_source_status\<close>).

  Left out of the documents, because nothing that decides reads them: the times, and the two reports
  \<open>provider_api_seeded\<close> and \<open>repository\<close> that \<open>controller_status\<close> adds.
\<close>

section \<open>The marker and the guard\<close>

datatype marker_file = NoGuard | NoMarker | BadMarker string | Marker pyval

definition controller_name :: "string \<Rightarrow> string" where
  "controller_name box = box @ ''-ops''"

definition marker_json :: "string \<Rightarrow> string \<Rightarrow> string \<Rightarrow> pydict" where
  "marker_json box role active_box =
    [(''schema_version'', PInt 1), (''configured'', PBool True), (''box'', PStr box),
     (''hostname'', PStr (controller_name box)), (''role'', PStr role), (''active_box'', PStr active_box)]"

definition refused_marker :: "string \<Rightarrow> string \<Rightarrow> string \<Rightarrow> pydict" where
  "refused_marker local role err =
    [(''schema_version'', PInt 1), (''configured'', PBool False), (''role'', PStr role),
     (''hostname'', PStr local), (''active'', PBool False), (''error'', PStr err)]"

definition setdefault :: "pydict \<Rightarrow> string \<Rightarrow> pyval \<Rightarrow> pydict" where
  "setdefault d k v = (if dhas d k then d else dset d k v)"

definition marker_role :: "pydict \<Rightarrow> string" where
  "marker_role d = lower (py_str (dgetd d ''role'' (PStr '''')))"

definition load_marker :: "string \<Rightarrow> marker_file \<Rightarrow> pydict" where
  "load_marker local file = (case file of
     Marker (PDict d) \<Rightarrow>
       if marker_role d \<notin> set [''active'', ''standby'', ''fenced''] \<or> \<not> py_eq (dget d ''schema_version'') (PInt 1)
          \<or> dget d ''hostname'' \<noteq> PStr local \<or> dgetd d ''configured'' (PBool True) \<noteq> PBool True
       then refused_marker local ''invalid'' ''controller marker has invalid identity, role, or version''
       else dset (setdefault (setdefault (setdefault d ''schema_version'' (PInt 1)) ''configured'' (PBool True))
                   ''hostname'' (PStr local)) ''active'' (PBool (marker_role d = ''active''))
   | Marker _ \<Rightarrow> refused_marker local ''invalid'' ''marker JSON root is not an object''
   | BadMarker err \<Rightarrow> refused_marker local ''invalid'' err
   | _ \<Rightarrow> refused_marker local ''unconfigured''
       ''controller HA marker is absent; configure and fence the active controller first'')"

text \<open>The guard with \<open>--require-active\<close>, and its exit code. \<open>placement\<close> is what the Instance file of the same
  controller says (\<open>None\<close>: it cannot be read as JSON).\<close>

definition placement_error :: "pydict \<Rightarrow> pyval option \<Rightarrow> bool" where
  "placement_error status placement = (case placement of
     None \<Rightarrow> True
   | Some v \<Rightarrow> (case bind (vitem v ''controllers'') (\<lambda>c. vitem c ''active'') of
       Inl _ \<Rightarrow> True
     | Inr active \<Rightarrow> \<not> py_eq active (dget status ''box'') \<or> \<not> py_eq (dget status ''active_box'') (dget status ''box'')))"

definition require_active :: "string \<Rightarrow> marker_file \<Rightarrow> pyval option \<Rightarrow> int" where
  "require_active local file placement =
    (if file = NoGuard then 127
     else let status = load_marker local file in
       if \<not> truthy (dget status ''active'') then 78
       else if placement_error status placement then 78 else 0)"


section \<open>What the other controllers see\<close>

definition guard_answer :: "string \<Rightarrow> marker_file \<Rightarrow> pydict" where
  "guard_answer box file =
    (if file = NoGuard then
       [(''schema_version'', PInt 1), (''box'', PStr box), (''hostname'', PStr (controller_name box)),
        (''role'', PStr ''missing-guard''), (''active'', PBool False)]
     else load_marker (controller_name box) file)"

definition unreachable :: "string \<Rightarrow> pydict" where
  "unreachable box = [(''box'', PStr box), (''hostname'', PStr (controller_name box)), (''reachable'', PBool False)]"

definition controller_status :: "string \<Rightarrow> marker_file \<Rightarrow> pydict" where
  "controller_status box file =
    dset (setdefault (setdefault (guard_answer box file) ''box'' (PStr box)) ''hostname'' (PStr (controller_name box)))
      ''reachable'' (PBool True)"

definition active_marker :: "string \<Rightarrow> marker_file \<Rightarrow> bool" where
  "active_marker box file \<longleftrightarrow> truthy (dget (controller_status box file) ''active'')"

lemma dget_setdefault [simp]:
  "dget (setdefault d k v) k' = (if k' = k \<and> \<not> dhas d k then v else dget d k')"
  by (simp add: setdefault_def)

lemma marker_answer:
  "role \<in> set [''active'', ''standby''] \<Longrightarrow> load_marker (controller_name box) (Marker (PDict (marker_json box role a))) =
    marker_json box role a @ [(''active'', PBool (role = ''active''))]"
  by (auto simp: load_marker_def marker_json_def marker_role_def py_str_def setdefault_def dhas_def
      lower_def lower_char_def in_range_def dgetd_def dget_def)

text \<open>A marker that was written by \<open>set_marker\<close> is what every status of that controller shows.\<close>

lemma status_of_marker [simp]:
  assumes "role \<in> set [''active'', ''standby'']"
  shows "dget (controller_status box (Marker (PDict (marker_json box role a)))) ''active'' = PBool (role = ''active'')"
    "dget (controller_status box (Marker (PDict (marker_json box role a)))) ''role'' = PStr role"
    "dget (controller_status box (Marker (PDict (marker_json box role a)))) ''active_box'' = PStr a"
    "dget (controller_status box (Marker (PDict (marker_json box role a)))) ''reachable'' = PBool True"
  by (simp_all add: controller_status_def guard_answer_def marker_answer [OF assms]) (simp_all add: marker_json_def)

lemma active_marker_json [simp]:
  "active_marker box (Marker (PDict (marker_json box ''active'' a)))"
  "\<not> active_marker box (Marker (PDict (marker_json box ''standby'' a)))"
  by (simp_all add: active_marker_def)

text \<open>The guard lets only a controller act whose status is active, and then only where the marker and the Instance
  name this very controller.\<close>

lemma guard_lets_active:
  "require_active (controller_name box) file placement = 0 \<Longrightarrow> active_marker box file \<and> \<not> placement_error
    (load_marker (controller_name box) file) placement"
  by (auto simp: require_active_def active_marker_def controller_status_def guard_answer_def Let_def split: if_splits)

lemma guard_refuses_inactive:
  "file \<noteq> NoGuard \<Longrightarrow> \<not> active_marker box file \<Longrightarrow> require_active (controller_name box) file placement = 78"
  by (auto simp: require_active_def active_marker_def controller_status_def guard_answer_def Let_def)


section \<open>Judging the answers\<close>

definition valid_box :: "string \<Rightarrow> bool" where
  "valid_box s \<longleftrightarrow> fullmatch (Seq (Cls [az, d09]) (Opt (Seq (Rep (Cls [az, d09, one CHR ''-'']) 0 61) (Cls [az, d09])))) s"

text \<open>\<open>re.fullmatch\<close> of a value: of anything but a string it raises.\<close>

definition value_match :: "rx \<Rightarrow> pyval \<Rightarrow> bool res" where
  "value_match r v = bind (as_str v) (\<lambda>s. Inr (fullmatch r s))"

definition any_char :: rx where "any_char = NCls [one CHR 0x0A]"

definition INSTANCE_ORIGIN :: rx where
  "INSTANCE_ORIGIN = Seq (Alt (Seq (Lit ''git@github'') (Seq any_char (Lit ''com:''))) (Lit ''ssh://git@ssh.github.com:443/''))
    (Seq (Cls [AZ, az, d09]) (Seq (Rep (Cls [AZ, az, d09, one CHR ''-'']) 0 38) (Lit ''/klokast-instance.git'')))"

definition ENGINE_ORIGIN :: string where "ENGINE_ORIGIN = ''https://github.com/klokast/klokast-box.git''"

datatype repository = Implementation | Instance

text \<open>One round of the loop of \<open>require_readiness\<close>: the report \<open>repository_status\<close> gives of one repository.\<close>

definition check_repository :: "repository \<Rightarrow> pyval \<Rightarrow> unit res" where
  "check_repository label report =
    bind (require (is_dict report \<and> truthy (dget (dict_of report) ''available'') \<and> truthy (dget (dict_of report) ''clean''))
      ''repository must exist and be clean'') (\<lambda>_.
    let d = dict_of report; origin = dgetd d ''origin'' (PStr '''') in
    bind (require (dget d ''branch'' = PStr ''main'' \<and> truthy (dget d ''remote_reachable'') \<and> truthy (dget d ''up_to_date''))
      ''repository must match its live upstream main branch'') (\<lambda>_.
    case label of
      Implementation \<Rightarrow> require (origin = PStr ENGINE_ORIGIN) ''implementation origin must be the public Klokast repository''
    | Instance \<Rightarrow> bind (value_match INSTANCE_ORIGIN origin) (\<lambda>ok.
        require ok ''Instance origin must be the private GitHub Instance repository'')))"

definition placement_of :: "string \<Rightarrow> string \<Rightarrow> pyval" where
  "placement_of active standby = PDict [(''active'', PStr active), (''standby'', PStr standby)]"

definition key_set :: "pyval \<Rightarrow> string list \<Rightarrow> bool" where
  "key_set v ks \<longleftrightarrow> is_dict v \<and> set (dkeys (dict_of v)) = set ks"

definition check_entry :: "pyval \<Rightarrow> unit res" where
  "check_entry entry =
    (if \<not> key_set entry [''box'', ''hostname''] then Inl (ValueError ''invalid controller identity'')
     else let box = dget (dict_of entry) ''box'' in
       bind (if truthy box then as_str box else Inr '''') (\<lambda>name.
       if \<not> valid_box name \<or> dget (dict_of entry) ''hostname'' \<noteq> PStr (controller_name name)
       then Inl (ValueError ''invalid controller identity'') else Inr ()))"

definition validate_source_status :: "pyval \<Rightarrow> string \<Rightarrow> unit res" where
  "validate_source_status status contact =
    (if \<not> key_set status [''schema_version'', ''kind'', ''source'', ''instance_sha256'', ''engine_commit'', ''controllers'']
     then Inl (ValueError ''unknown or missing status fields'')
     else let d = dict_of status; pair = dget d ''controllers'' in
       bind (if py_eq (dget d ''schema_version'') (PInt 1) \<and> dget d ''kind'' = PStr ''klokast.controller-identity-status.v1''
             then str_member (dget d ''source'') [''instance''] else Inr False) (\<lambda>known.
       bind (if known then Inr () else Inl (ValueError ''unknown status version or source'')) (\<lambda>_.
       bind (value_match (Rep (Cls [d09, (CHR ''a'', CHR ''f'')]) 64 64) (dget d ''instance_sha256'')) (\<lambda>sha.
       bind (if sha then value_match (Rep (Cls [d09, (CHR ''a'', CHR ''f'')]) 40 40) (dget d ''engine_commit'') else Inr False) (\<lambda>ok.
       bind (if ok then Inr () else Inl (ValueError ''invalid source or engine digest'')) (\<lambda>_.
       bind (if key_set pair [''active''] \<or> key_set pair [''active'', ''standby'']
             then Inr () else Inl (ValueError ''incomplete controller pair'')) (\<lambda>_.
       bind (checks (map (\<lambda>(k, entry). check_entry entry) (dict_of pair))) (\<lambda>_.
       let active = dget (dict_of pair) ''active'' in
       if py_eq active (dget (dict_of pair) ''standby'') \<or> dget (dict_of active) ''hostname'' \<noteq> PStr contact
       then Inl (ValueError ''reply did not come from the declared active controller'') else Inr ()))))))))"

end
