(* ===== verification/Effects.thy ===== *)
theory Effects
  imports Prelude
begin

text \<open>
  Programs that act on the outside world. A program of type \<open>('s, 'a) run\<close> moves a state and
  either returns, or raises an exception (\<open>Raised\<close>, which \<open>try\<close> can catch), or is cut off by a
  crash of the host (\<open>Crash\<close>, which nothing catches).

  \<open>triple ok obs P m Q\<close>: whenever the invariant \<open>ok\<close> and the precondition hold, \<open>ok\<close> holds in every
  state in which \<open>m\<close> can stop, by whatever of the three ways, and \<open>Q\<close> holds if it returns. \<open>obs\<close> is the part
  of the state the conditions may talk about.
\<close>

datatype stop = Raised string | Crash

type_synonym ('s, 'a) run = "'s \<Rightarrow> (stop + 'a) \<times> 's"

definition rbind :: "('s, 'a) run \<Rightarrow> ('a \<Rightarrow> ('s, 'b) run) \<Rightarrow> ('s, 'b) run" where
  "rbind m f s = (case m s of (Inl e, s') \<Rightarrow> (Inl e, s') | (Inr x, s') \<Rightarrow> f x s')"

definition rreturn :: "'a \<Rightarrow> ('s, 'a) run" where "rreturn x s = (Inr x, s)"

definition raise :: "string \<Rightarrow> ('s, 'a) run" where "raise msg s = (Inl (Raised msg), s)"

definition rrequire :: "bool \<Rightarrow> string \<Rightarrow> ('s, unit) run" where
  "rrequire c msg = (if c then rreturn () else raise msg)"

text \<open>\<open>except Exception\<close> does not see a crash.\<close>

definition catch :: "('s, 'a) run \<Rightarrow> (string \<Rightarrow> ('s, 'a) run) \<Rightarrow> ('s, 'a) run" where
  "catch m h s = (case m s of (Inl (Raised msg), s') \<Rightarrow> h msg s' | r \<Rightarrow> r)"

primrec in_order :: "('s, unit) run list \<Rightarrow> ('s, unit) run" where
  "in_order [] = rreturn ()"
| "in_order (m # ms) = rbind m (\<lambda>_. in_order ms)"

definition triple :: "('s \<Rightarrow> bool) \<Rightarrow> ('s \<Rightarrow> 'c) \<Rightarrow> ('c \<Rightarrow> bool) \<Rightarrow> ('s, 'a) run \<Rightarrow> ('a \<Rightarrow> 'c \<Rightarrow> bool) \<Rightarrow> bool" where
  "triple ok obs P m Q \<longleftrightarrow> (\<forall>s r s'. ok s \<longrightarrow> P (obs s) \<longrightarrow> m s = (r, s') \<longrightarrow>
    ok s' \<and> (\<forall>x. r = Inr x \<longrightarrow> Q x (obs s')))"

lemma tripleD:
  "triple ok obs P m Q \<Longrightarrow> ok s \<Longrightarrow> P (obs s) \<Longrightarrow> m s = (r, s') \<Longrightarrow>
    ok s' \<and> (\<forall>x. r = Inr x \<longrightarrow> Q x (obs s'))"
  unfolding triple_def by blast

lemma tripleI:
  "(\<And>s r s'. ok s \<Longrightarrow> P (obs s) \<Longrightarrow> m s = (r, s') \<Longrightarrow>
    ok s' \<and> (\<forall>x. r = Inr x \<longrightarrow> Q x (obs s'))) \<Longrightarrow> triple ok obs P m Q"
  unfolding triple_def by blast

lemma triple_bind:
  assumes "triple ok obs P m R" "\<And>x. triple ok obs (R x) (f x) Q"
  shows "triple ok obs P (rbind m f) Q"
proof (rule tripleI)
  fix s r s' assume s: "ok s" "P (obs s)" and run: "rbind m f s = (r, s')"
  obtain r1 s1 where m: "m s = (r1, s1)" by fastforce
  with tripleD [OF assms(1)] s have 1: "ok s1" "\<And>x. r1 = Inr x \<Longrightarrow> R x (obs s1)"
    by blast+
  show "ok s' \<and> (\<forall>x. r = Inr x \<longrightarrow> Q x (obs s'))"
  proof (cases r1)
    case (Inl e)
    with run m 1 show ?thesis by (auto simp: rbind_def)
  next
    case (Inr x)
    with run m have "f x s1 = (r, s')" by (simp add: rbind_def)
    with tripleD [OF assms(2) 1(1)] 1(2) Inr show ?thesis by blast
  qed
qed

lemma triple_weaken:
  "triple ok obs P m Q \<Longrightarrow> (\<And>c. P' c \<Longrightarrow> P c) \<Longrightarrow> (\<And>x c. Q x c \<Longrightarrow> Q' x c) \<Longrightarrow> triple ok obs P' m Q'"
  unfolding triple_def by blast

lemma triple_return [intro]: "(\<And>c. P c \<Longrightarrow> Q x c) \<Longrightarrow> triple ok obs P (rreturn x) Q"
  by (auto simp: triple_def rreturn_def)

lemma triple_raise [intro]: "triple ok obs P (raise msg) Q"
  by (auto simp: triple_def raise_def)

lemma triple_require: "triple ok obs P (rrequire c msg) (\<lambda>_ s. P s \<and> c)"
  by (auto simp: triple_def rrequire_def raise_def rreturn_def)

lemma triple_require_weaken:
  "(\<And>s. P s \<Longrightarrow> c \<Longrightarrow> Q s) \<Longrightarrow> triple ok obs P (rrequire c msg) (\<lambda>_. Q)"
  by (auto simp: triple_def rrequire_def raise_def rreturn_def)

lemma triple_require_then:
  assumes "c \<Longrightarrow> triple ok obs P m Q"
  shows "triple ok obs P (rbind (rrequire c msg) (\<lambda>_. m)) Q"
proof (cases c)
  case True
  then have "rbind (rrequire c msg) (\<lambda>_. m) = m"
    by (simp add: fun_eq_iff rbind_def rrequire_def rreturn_def)
  with assms True show ?thesis by simp
next
  case False
  then have "rbind (rrequire c msg) (\<lambda>_. m) = raise msg"
    by (simp add: fun_eq_iff rbind_def rrequire_def raise_def)
  then show ?thesis by (simp add: triple_raise)
qed

lemma triple_catch:
  assumes "triple ok obs P m Q" "\<And>msg. triple ok obs (\<lambda>_. True) (h msg) Q"
  shows "triple ok obs P (catch m h) Q"
proof (rule tripleI)
  fix s r s' assume s: "ok s" "P (obs s)" and run: "catch m h s = (r, s')"
  obtain r1 s1 where m: "m s = (r1, s1)" by fastforce
  with tripleD [OF assms(1)] s have 1: "ok s1" "\<And>x. r1 = Inr x \<Longrightarrow> Q x (obs s1)"
    by blast+
  show "ok s' \<and> (\<forall>x. r = Inr x \<longrightarrow> Q x (obs s'))"
  proof (cases "\<exists>msg. r1 = Inl (Raised msg)")
    case True
    then obtain msg where "h msg s1 = (r, s')" using run m by (auto simp: catch_def)
    with tripleD [OF assms(2) 1(1)] show ?thesis by blast
  next
    case False
    then have "catch m h s = (r1, s1)"
      using m by (auto simp: catch_def split: sum.splits stop.splits)
    with run 1 show ?thesis by auto
  qed
qed

lemma triple_cond:
  assumes "triple ok obs (\<lambda>c. P c \<and> b c) m Q" "triple ok obs (\<lambda>c. P c \<and> \<not> b c) n Q"
  shows "triple ok obs P (\<lambda>s. if b (obs s) then m s else n s) Q"
proof (rule tripleI)
  fix s r s' assume s: "ok s" "P (obs s)" "(if b (obs s) then m s else n s) = (r, s')"
  show "ok s' \<and> (\<forall>x. r = Inr x \<longrightarrow> Q x (obs s'))"
  proof (cases "b (obs s)")
    case True
    then show ?thesis by (intro tripleD [OF assms(1) s(1)]) (use s in simp_all)
  next
    case False
    then show ?thesis by (intro tripleD [OF assms(2) s(1)]) (use s in simp_all)
  qed
qed

lemma triple_if:
  "(b \<Longrightarrow> triple ok obs P m Q) \<Longrightarrow> (\<not> b \<Longrightarrow> triple ok obs P n Q) \<Longrightarrow>
    triple ok obs P (if b then m else n) Q"
  by simp

lemma triple_in_order_Nil: "triple ok obs P (in_order []) (\<lambda>_. P)"
  by (simp add: triple_return)

lemma triple_in_order_Cons:
  "triple ok obs P m (\<lambda>_. R) \<Longrightarrow> triple ok obs R (in_order ms) (\<lambda>_. Q) \<Longrightarrow>
    triple ok obs P (in_order (m # ms)) (\<lambda>_. Q)"
  unfolding in_order.simps by (rule triple_bind)


section \<open>How long a command can take\<close>

text \<open>\<open>within rest n m\<close>: whatever it is answered, \<open>m\<close> takes at most \<open>n\<close> of the answers left, and it is not cut off
  if there are that many.\<close>

definition within :: "('s \<Rightarrow> 'r list) \<Rightarrow> nat \<Rightarrow> ('s, 'a) run \<Rightarrow> bool" where
  "within rest n m \<longleftrightarrow> (\<forall>s r s'. m s = (r, s') \<longrightarrow>
    length (rest s) \<le> length (rest s') + n \<and> (n \<le> length (rest s) \<longrightarrow> r \<noteq> Inl Crash))"

lemma withinI:
  "(\<And>s r s'. m s = (r, s') \<Longrightarrow> length (rest s) \<le> length (rest s') + n \<and> (n \<le> length (rest s) \<longrightarrow> r \<noteq> Inl Crash)) \<Longrightarrow>
    within rest n m"
  by (simp add: within_def)

lemma withinD: "within rest n m \<Longrightarrow> m s = (r, s') \<Longrightarrow>
    length (rest s) \<le> length (rest s') + n \<and> (n \<le> length (rest s) \<longrightarrow> r \<noteq> Inl Crash)"
  by (simp add: within_def)

lemma within_return: "within rest 0 (rreturn x)"
  by (simp add: within_def rreturn_def)

lemma within_raise: "within rest n (raise msg)"
  by (simp add: within_def raise_def)

lemma within_mono: "within rest n m \<Longrightarrow> n \<le> k \<Longrightarrow> within rest k m"
  by (fastforce simp: within_def)

lemma within_bind:
  assumes "within rest n m" "\<And>x. within rest k (f x)"
  shows "within rest (n + k) (rbind m f)"
proof (rule withinI)
  fix s r s' assume run: "rbind m f s = (r, s')"
  obtain r1 s1 where m: "m s = (r1, s1)" by fastforce
  note 1 = withinD [OF assms(1) m]
  show "length (rest s) \<le> length (rest s') + (n + k) \<and> (n + k \<le> length (rest s) \<longrightarrow> r \<noteq> Inl Crash)"
  proof (cases r1)
    case (Inl e)
    with run m 1 show ?thesis by (auto simp: rbind_def)
  next
    case (Inr x)
    with run m have "f x s1 = (r, s')" by (simp add: rbind_def)
    with withinD [OF assms(2) this] 1 show ?thesis by auto
  qed
qed

lemma within_catch:
  assumes "within rest n m" "\<And>msg. within rest k (h msg)"
  shows "within rest (n + k) (catch m h)"
proof (rule withinI)
  fix s r s' assume run: "catch m h s = (r, s')"
  obtain r1 s1 where m: "m s = (r1, s1)" by fastforce
  note 1 = withinD [OF assms(1) m]
  show "length (rest s) \<le> length (rest s') + (n + k) \<and> (n + k \<le> length (rest s) \<longrightarrow> r \<noteq> Inl Crash)"
  proof (cases "\<exists>msg. r1 = Inl (Raised msg)")
    case True
    with run m obtain msg where "h msg s1 = (r, s')" by (auto simp: catch_def)
    with withinD [OF assms(2) this] 1 show ?thesis by auto
  next
    case False
    with run m have "r = r1 \<and> s' = s1" by (auto simp: catch_def split: sum.splits stop.splits)
    with 1 show ?thesis by auto
  qed
qed

lemma within_in_order: "list_all2 (within rest) ns ms \<Longrightarrow> within rest (sum_list ns) (in_order ms)"
  by (induction rule: list_all2_induct) (auto intro: within_return within_bind)

text \<open>A command that goes on in one of several ways, read off the state.\<close>

lemma within_state: "(\<And>s. within rest n (f s)) \<Longrightarrow> within rest n (\<lambda>s. f s s)"
  by (simp add: within_def)

text \<open>Guards: the command refuses, or goes on.\<close>

lemma within_guarded:
  "within rest n m \<Longrightarrow> (\<And>s. f s = m s \<or> (\<exists>msg. f s = raise msg s)) \<Longrightarrow> within rest n f"
  unfolding within_def raise_def by (metis (no_types, lifting) Pair_inject Inl_inject le_add1 stop.distinct(1))

end
