(* ===== verification/Py_Hash.thy ===== *)
theory Py_Hash
  imports Py_Text "HOL-Library.Word"
begin

unbundle bit_operations_syntax

text \<open>
  \<open>hashlib.sha1(s.encode("utf-8")).hexdigest()\<close> and the same of \<open>sha256\<close> (FIPS 180-4), on 32-bit
  words. The components only rely on the length and the alphabet of a digest
  (\<open>sha256_hex_length\<close>, \<open>sha1_hex_chars\<close>); no property assumes that a digest has no collision.
\<close>

section \<open>Encoding and padding\<close>

definition utf8 :: "string \<Rightarrow> nat list" where
  "utf8 s = concat (map (\<lambda>c. let n = of_char c in
     if n < 128 then [n] else [192 + n div 64, 128 + n mod 64]) s)"

definition be_bytes :: "nat \<Rightarrow> nat \<Rightarrow> nat list" where
  "be_bytes k n = map (\<lambda>i. n div 256 ^ (k - 1 - i) mod 256) [0 ..< k]"

definition pad_message :: "nat list \<Rightarrow> nat list" where
  "pad_message bs =
    bs @ [128] @ replicate ((119 - length bs mod 64) mod 64) 0 @ be_bytes 8 (8 * length bs)"

fun words32 :: "nat list \<Rightarrow> 32 word list" where
  "words32 (a # b # c # d # bs) =
    of_nat (((a * 256 + b) * 256 + c) * 256 + d) # words32 bs"
| "words32 _ = []"

text \<open>Blocks of sixteen words; the fuel is the number of words.\<close>

primrec chunks :: "nat \<Rightarrow> 'a list \<Rightarrow> 'a list list" where
  "chunks 0 xs = []"
| "chunks (Suc n) xs = (if xs = [] then [] else take 16 xs # chunks n (drop 16 xs))"

definition blocks :: "string \<Rightarrow> 32 word list list" where
  "blocks s = (let ws = words32 (pad_message (utf8 s)) in chunks (length ws) ws)"

definition rotl :: "nat \<Rightarrow> 32 word \<Rightarrow> 32 word" where
  "rotl n w = push_bit n w OR drop_bit (32 - n) w"

definition rotr :: "nat \<Rightarrow> 32 word \<Rightarrow> 32 word" where
  "rotr n w = rotl (32 - n) w"

definition hex_word :: "32 word \<Rightarrow> string" where
  "hex_word w = concat (map hex2 (be_bytes 4 (unat w)))"

definition hexdigest :: "32 word list \<Rightarrow> string" where
  "hexdigest ws = concat (map hex_word ws)"


section \<open>SHA-1\<close>

text \<open>The schedule grows to eighty words by appending.\<close>

definition sha1_schedule :: "32 word list \<Rightarrow> 32 word list" where
  "sha1_schedule b = foldl (\<lambda>w i.
      w @ [rotl 1 (w ! (i - 3) XOR w ! (i - 8) XOR w ! (i - 14) XOR w ! (i - 16))])
    b [16 ..< 80]"

definition sha1_fk :: "nat \<Rightarrow> 32 word \<Rightarrow> 32 word \<Rightarrow> 32 word \<Rightarrow> 32 word \<times> 32 word" where
  "sha1_fk i b c d =
    (if i < 20 then ((b AND c) OR (NOT b AND d), 0x5A827999)
     else if i < 40 then (b XOR c XOR d, 0x6ED9EBA1)
     else if i < 60 then ((b AND c) OR (b AND d) OR (c AND d), 0x8F1BBCDC)
     else (b XOR c XOR d, 0xCA62C1D6))"

definition sha1_round :: "32 word list \<Rightarrow> nat \<times> 32 word \<Rightarrow> 32 word list" where
  "sha1_round st = (\<lambda>(i, w).
    let a = st ! 0; b = st ! 1; c = st ! 2; d = st ! 3; e = st ! 4; (f, k) = sha1_fk i b c d
    in [rotl 5 a + f + e + k + w, a, rotl 30 b, c, d])"

definition sha1_block :: "32 word list \<Rightarrow> 32 word list \<Rightarrow> 32 word list" where
  "sha1_block h b = map2 (+) h (foldl sha1_round h (enumerate 0 (sha1_schedule b)))"

definition sha1_hex :: "string \<Rightarrow> string" where
  "sha1_hex s = hexdigest
    (foldl sha1_block [0x67452301, 0xEFCDAB89, 0x98BADCFE, 0x10325476, 0xC3D2E1F0] (blocks s))"


section \<open>SHA-256\<close>

definition sha256_k :: "32 word list" where
  "sha256_k =
   [1116352408, 1899447441, 3049323471, 3921009573, 961987163, 1508970993, 2453635748, 2870763221,
    3624381080, 310598401, 607225278, 1426881987, 1925078388, 2162078206, 2614888103, 3248222580,
    3835390401, 4022224774, 264347078, 604807628, 770255983, 1249150122, 1555081692, 1996064986,
    2554220882, 2821834349, 2952996808, 3210313671, 3336571891, 3584528711, 113926993, 338241895,
    666307205, 773529912, 1294757372, 1396182291, 1695183700, 1986661051, 2177026350, 2456956037,
    2730485921, 2820302411, 3259730800, 3345764771, 3516065817, 3600352804, 4094571909, 275423344,
    430227734, 506948616, 659060556, 883997877, 958139571, 1322822218, 1537002063, 1747873779,
    1955562222, 2024104815, 2227730452, 2361852424, 2428436474, 2756734187, 3204031479, 3329325298]"

definition sha256_schedule :: "32 word list \<Rightarrow> 32 word list" where
  "sha256_schedule b = foldl (\<lambda>w i.
      let x = w ! (i - 15); y = w ! (i - 2);
          s0 = rotr 7 x XOR rotr 18 x XOR drop_bit 3 x;
          s1 = rotr 17 y XOR rotr 19 y XOR drop_bit 10 y
      in w @ [w ! (i - 16) + s0 + w ! (i - 7) + s1])
    b [16 ..< 64]"

definition sha256_round :: "32 word list \<Rightarrow> 32 word \<times> 32 word \<Rightarrow> 32 word list" where
  "sha256_round st = (\<lambda>(k, w).
    let a = st ! 0; b = st ! 1; c = st ! 2; d = st ! 3; e = st ! 4; f = st ! 5; g = st ! 6; h = st ! 7;
        s1 = rotr 6 e XOR rotr 11 e XOR rotr 25 e;
        ch = (e AND f) XOR (NOT e AND g);
        t1 = h + s1 + ch + k + w;
        s0 = rotr 2 a XOR rotr 13 a XOR rotr 22 a;
        maj = (a AND b) XOR (a AND c) XOR (b AND c)
    in [t1 + (s0 + maj), a, b, c, d + t1, e, f, g])"

definition sha256_block :: "32 word list \<Rightarrow> 32 word list \<Rightarrow> 32 word list" where
  "sha256_block h b = map2 (+) h (foldl sha256_round h (zip sha256_k (sha256_schedule b)))"

definition sha256_hex :: "string \<Rightarrow> string" where
  "sha256_hex s = hexdigest (foldl sha256_block
    [0x6a09e667, 0xbb67ae85, 0x3c6ef372, 0xa54ff53a, 0x510e527f, 0x9b05688c, 0x1f83d9ab, 0x5be0cd19]
    (blocks s))"


section \<open>Shape of a digest\<close>

definition is_hex_digit :: "char \<Rightarrow> bool" where
  "is_hex_digit c \<longleftrightarrow> c \<in> set ''0123456789abcdef''"

lemma hex_digit_is_hex: "d < 16 \<Longrightarrow> is_hex_digit (hex_digit d)"
  by (simp add: is_hex_digit_def hex_digit_def del: set_simps)

lemma hex_word_props: "length (hex_word w) = 8" "list_all is_hex_digit (hex_word w)"
  by (simp_all add: hex_word_def be_bytes_def hex2_def upt_rec hex_digit_is_hex)

lemma hexdigest_props: "length (hexdigest ws) = 8 * length ws" "list_all is_hex_digit (hexdigest ws)"
  by (induction ws) (simp_all add: hexdigest_def hex_word_props)

lemma sha256_block_length: "length (foldl sha256_block h bs) = length h" if "length h = 8" for h bs
proof -
  have round: "length st = 8 \<Longrightarrow> length (foldl sha256_round st kws) = 8" for st kws
    by (induction kws arbitrary: st) (auto simp: sha256_round_def Let_def)
  show ?thesis using that
    by (induction bs arbitrary: h) (simp_all add: sha256_block_def round)
qed

lemma sha1_block_length: "length (foldl sha1_block h bs) = length h" if "length h = 5" for h bs
proof -
  have round: "length st = 5 \<Longrightarrow> length (foldl sha1_round st kws) = 5" for st kws
    by (induction kws arbitrary: st) (auto simp: sha1_round_def Let_def split: prod.splits)
  show ?thesis using that
    by (induction bs arbitrary: h) (simp_all add: sha1_block_def round)
qed

lemma sha256_hex_length [simp]: "length (sha256_hex s) = 64"
  by (simp add: sha256_hex_def hexdigest_props sha256_block_length)

lemma sha1_hex_length [simp]: "length (sha1_hex s) = 40"
  by (simp add: sha1_hex_def hexdigest_props sha1_block_length)

lemma sha256_hex_chars: "list_all is_hex_digit (sha256_hex s)"
  by (simp add: sha256_hex_def hexdigest_props)

lemma sha1_hex_chars: "list_all is_hex_digit (sha1_hex s)"
  by (simp add: sha1_hex_def hexdigest_props)

end
