(* ===== verification/Vm_Config.thy ===== *)
theory Vm_Config
  imports Model_Fields Py_Hash
begin

text \<open>
  The parts of \<^verbatim>\<open>roles/vm-update-recovery/files/vm_update_native.py\<close> that decide on data: the constants,
  the digest of a document, \<open>configuration\<close> (the guest definition of Xen), the identity checks of \<open>Native.inventory\<close> and
  the identity of a logical volume.

  A guest definition is the list of statements \<open>ast.parse\<close> returns for it (\<open>None\<close>: it is not a Python
  module); a literal is the value \<open>ast.literal_eval\<close> returns (\<open>None\<close>: it is not a literal). \<open>ast_parse\<close>,
  which takes the text to its statements, is an argument of the definitions that read a file.
\<close>

section \<open>Refusing\<close>

text \<open>\<open>if condition: raise Refused(message)\<close>.\<close>

definition refuse_if :: "bool \<Rightarrow> string \<Rightarrow> unit res" where
  "refuse_if c msg = (if c then Inl (Refused msg) else Inr ())"

lemma refuse_if_eq_Inr [res_simps]: "refuse_if c msg = Inr u \<longleftrightarrow> \<not> c"
  by (simp add: refuse_if_def)

lemma refuse_if_simps [simp]: "refuse_if False msg = Inr ()" "refuse_if True msg = Inl (Refused msg)"
  by (simp_all add: refuse_if_def)


section \<open>Constants\<close>

definition OP :: rx where "OP = Rep (Cls [d09, (CHR ''a'', CHR ''f'')]) 24 24"

definition HEX :: rx where "HEX = Rep (Cls [d09, (CHR ''a'', CHR ''f'')]) 64 64"

abbreviation lv_class :: "(char \<times> char) list" where
  "lv_class \<equiv> [AZ, az, d09, one CHR ''_'', one CHR ''+'', one CHR ''.'', one CHR ''-'']"

definition LV :: rx where
  "LV = Seq (Lit ''/dev/'') (Seq (Plus (Cls lv_class)) (Seq (Lit ''/'') (Plus (Cls lv_class))))"

definition SERVICE_KIND :: string where "SERVICE_KIND = ''klokast.vm-switch.v4''"

definition RETAINED_KIND :: string where "RETAINED_KIND = ''klokast.vm-switch.v5''"

definition SERVICE_KINDS :: "string list" where "SERVICE_KINDS = [SERVICE_KIND, RETAINED_KIND]"

definition ROLES :: "string list" where
  "ROLES = [''bak'', ''dmz'', ''iot'', ''vpn-egress'', ''router'', ''ops'', ''air'']"

definition ROUTER_PROFILE :: string where "ROUTER_PROFILE = ''router-alpine-v3''"

definition stage_names :: "string list" where
  "stage_names = [''armed'', ''stopping'', ''stopped'', ''starting'', ''booted'', ''tested'', ''recovering'',
     ''adopted'', ''accepted'', ''complete'', ''recovered'', ''recovery-failed'']"

text \<open>\<open>digest(value)\<close>: the SHA-256 of the canonical JSON text.\<close>

definition digest :: "pyval \<Rightarrow> string" where
  "digest v = sha256_hex (json_dumps False v)"

text \<open>The digest of a document, as every pattern of a checksum wants it.\<close>

lemma hex_class: "in_class [d09, (CHR ''a'', CHR ''f'')] c" if "is_hex_digit c"
  using that by (auto simp: is_hex_digit_def in_class_def less_eq_char_def)

lemma sha256_hex_HEX [simp]: "fullmatch HEX (sha256_hex s)"
  using sha256_hex_chars [of s]
  by (auto simp: HEX_def fullmatch_rep list_all_iff intro: hex_class)


section \<open>Guest definitions\<close>

datatype stmt = Assign string "pyval option" | OtherStmt

definition allowed_settings :: "string list" where
  "allowed_settings = [''name'', ''uuid'', ''type'', ''memory'', ''maxmem'', ''vcpus'', ''cpus'', ''kernel'',
     ''ramdisk'', ''extra'', ''disk'', ''vif'', ''on_crash'', ''on_reboot'', ''on_poweroff'']"

definition read_statement :: "pydict \<Rightarrow> stmt \<Rightarrow> pydict res" where
  "read_statement result st = (case st of
     OtherStmt \<Rightarrow> Inl (Refused ''Xen configuration must contain literal assignments only'')
   | Assign name v \<Rightarrow>
      bind (refuse_if (name \<notin> set allowed_settings \<or> dhas result name)
        ''Xen configuration contains an unknown or repeated setting'') (\<lambda>_.
      case v of
        None \<Rightarrow> Inl (Refused ''invalid Xen literal configuration'')
      | Some x \<Rightarrow> Inr (dset result name x)))"

definition read_module :: "stmt list option \<Rightarrow> pydict res" where
  "read_module m = (case m of
     None \<Rightarrow> Inl (Refused ''invalid Xen literal configuration'')
   | Some sts \<Rightarrow> fold_res read_statement [] sts)"

text \<open>\<open>re.fullmatch(r'phy:([^,]+),(xvd[a-z]),w', disk)\<close> and its two groups: neither contains a comma.\<close>

definition DISK_RE :: rx where
  "DISK_RE = Seq (Lit ''phy:'') (Seq (Plus (NCls [one CHR '','']))
     (Seq (Lit '','') (Seq (Seq (Lit ''xvd'') (Cls [az])) (Lit '',w''))))"

definition disk_groups :: "string \<Rightarrow> (string \<times> string) option" where
  "disk_groups disk =
    (if fullmatch DISK_RE disk
     then (case split_on CHR '','' disk of a # b # _ \<Rightarrow> Some (drop 4 a, b) | _ \<Rightarrow> None)
     else None)"

text \<open>\<open>Path(path).parts\<close> of an absolute path, without its root: empty components and \<open>.\<close> are dropped.\<close>

definition path_parts :: "string \<Rightarrow> string list" where
  "path_parts path = filter (\<lambda>w. w \<noteq> [] \<and> w \<noteq> ''.'') (split_on CHR ''/'' path)"

definition has_alias :: "string \<Rightarrow> bool" where
  "has_alias path \<longleftrightarrow> list_ex (\<lambda>part. part \<in> set [''.'', ''..'']) (path_parts path)"

definition read_disk :: "pyval \<Rightarrow> (string \<times> string) res" where
  "read_disk disk = (case disk of
     PStr s \<Rightarrow>
      (case disk_groups s of
         None \<Rightarrow> Inl (Refused ''only explicit writable LVM guest disks are supported'')
       | Some (path, device) \<Rightarrow>
          bind (refuse_if (\<not> fullmatch LV path) ''only explicit writable LVM guest disks are supported'') (\<lambda>_.
          bind (refuse_if (has_alias path) ''disk path contains an alias'') (\<lambda>_.
          Inr (path, device))))
   | _ \<Rightarrow> Inl (Refused ''invalid Xen disk entry''))"

definition check_boot_artifact :: "pydict \<Rightarrow> string \<Rightarrow> unit res" where
  "check_boot_artifact result name =
    refuse_if (case dget result name of
        PStr path \<Rightarrow> \<not> starts_with path ''/mnt/dom0_data/'' \<or> has_alias path | _ \<Rightarrow> True)
      ''boot artifact must use persistent dom0 storage''"

text \<open>\<open>configuration(content, role, identity)\<close>: the settings and the paths of the disks in their order.\<close>

definition configuration :: "stmt list option \<Rightarrow> string \<Rightarrow> string \<Rightarrow> (pydict \<times> string list) res" where
  "configuration content role identity =
    bind (read_module content) (\<lambda>result.
    bind (refuse_if (dget result ''name'' \<noteq> PStr role \<or> dget result ''type'' \<noteq> PStr ''pvh'')
      ''configuration does not describe the selected shared PVH guest'') (\<lambda>_.
    bind (refuse_if (dgetd result ''uuid'' (PStr identity) \<noteq> PStr identity)
      ''Xen configuration UUID differs from the recorded domain'') (\<lambda>_.
    let disks = dget result ''disk'' in
    bind (refuse_if (\<not> is_list disks \<or> length (list_of disks) < 1 \<or> 8 < length (list_of disks))
      ''guest requires a bounded explicit disk list'') (\<lambda>_.
    bind (traverse read_disk (list_of disks)) (\<lambda>groups.
    bind (refuse_if (\<not> distinct (map fst groups) \<or> \<not> distinct (map snd groups))
      ''guest disk mappings overlap'') (\<lambda>_.
    bind (checks (map (check_boot_artifact result) [''kernel'', ''ramdisk''])) (\<lambda>_.
    Inr (result, map fst groups))))))))"


section \<open>Domains and logical volumes\<close>

text \<open>\<open>inventory()\<close> on the decoded output of \<^verbatim>\<open>xl list -l\<close>. A name or an id that is not a string or an integer is
  refused before it is looked up in the set of those seen.\<close>

definition inventory_item :: "pyval list \<times> pyval list \<Rightarrow> pyval \<Rightarrow> (pyval list \<times> pyval list) res" where
  "inventory_item = (\<lambda>(names, ids) item.
    bind (vgetd item ''config'' (PDict [])) (\<lambda>config.
    bind (vgetd config ''c_info'' (PDict [])) (\<lambda>info.
    bind (vget info ''name'') (\<lambda>name.
    bind (vget item ''domid'') (\<lambda>domid.
    bind (refuse_if (\<not> is_str name
        \<or> (case domid of PInt i \<Rightarrow> i < 0 | _ \<Rightarrow> True)
        \<or> name \<in> set names \<or> domid \<in> set ids \<or> domid = PInt 0 \<and> name \<noteq> PStr ''Domain-0'')
      ''Xen returned an invalid domain identity'') (\<lambda>_.
    bind (vget info ''uuid'') (\<lambda>identity.
    bind (refuse_if (truthy domid \<and> \<not> is_str identity) ''Xen returned a guest without a UUID'') (\<lambda>_.
    Inr (name # names, domid # ids)))))))))"

definition inventory :: "pyval \<Rightarrow> pyval list res" where
  "inventory records =
    bind (refuse_if (\<not> is_list records \<or> list_of records = []) ''Xen returned an incomplete inventory'') (\<lambda>_.
    bind (fold_res inventory_item ([], []) (list_of records)) (\<lambda>(names, ids).
    bind (refuse_if (PInt 0 \<notin> set ids) ''Xen inventory does not include dom0'') (\<lambda>_.
    Inr (list_of records))))"

section \<open>What a definition promises\<close>

text \<open>The two groups of a disk entry determine it.\<close>

lemma lang_Plus_NCls: "lang (Plus (NCls rs)) = {s. s \<noteq> [] \<and> list_all (\<lambda>c. \<not> in_class rs c) s}"
  unfolding lang.simps(4) lang_Star_NCls by (auto simp: neq_Nil_conv) (metis append_Cons append_Nil)

lemma in_class_one: "in_class [one d] c \<longleftrightarrow> c = d"
  by (auto simp: in_class_def)

lemma mem_Seq_Lit: "s \<in> lang (Seq (Lit a) r) \<longleftrightarrow> (\<exists>v. s = a @ v \<and> v \<in> lang r)"
  by auto

lemma mem_Seq_NCls: "s \<in> lang (Seq (Plus (NCls rs)) r) \<longleftrightarrow>
    (\<exists>u v. s = u @ v \<and> u \<noteq> [] \<and> list_all (\<lambda>c. \<not> in_class rs c) u \<and> v \<in> lang r)"
  unfolding lang.simps(4) [of "Plus _"] lang_Plus_NCls by blast

lemma disk_device: "s \<in> lang (Seq (Seq (Lit ''xvd'') (Cls [az])) (Lit '',w'')) \<longleftrightarrow>
    (\<exists>c. in_class [az] c \<and> s = ''xvd'' @ [c] @ '',w'')"
  by auto

lemma DISK_RE_iff: "fullmatch DISK_RE s \<longleftrightarrow>
    (\<exists>p c. p \<noteq> [] \<and> CHR '','' \<notin> set p \<and> in_class [az] c \<and> s = ''phy:'' @ p @ '',xvd'' @ [c] @ '',w'')"
proof -
  have 1: "list_all (\<lambda>c. \<not> in_class [one CHR '',''] c) p \<longleftrightarrow> CHR '','' \<notin> set p" for p
    by (auto simp: in_class_one list_all_iff)
  have 2: "'','' @ ''xvd'' @ [c] @ '',w'' = '',xvd'' @ [c] @ '',w''" for c by simp
  show ?thesis
    unfolding fullmatch_iff DISK_RE_def mem_Seq_Lit mem_Seq_NCls disk_device 1
    by (metis 2)
qed

lemma disk_groups_Some: "disk_groups s = Some (p, d) \<longleftrightarrow>
    (\<exists>c. p \<noteq> [] \<and> CHR '','' \<notin> set p \<and> in_class [az] c \<and> d = ''xvd'' @ [c] \<and> s = ''phy:'' @ p @ '','' @ d @ '',w'')"
  (is "?l \<longleftrightarrow> ?r")
proof -
  have split: "split_on CHR '','' (''phy:'' @ q @ '',xvd'' @ [c] @ '',w'') = [''phy:'' @ q, ''xvd'' @ [c], ''w'']"
    if "CHR '','' \<notin> set q" "in_class [az] c" for q c
  proof -
    have c: "c \<noteq> CHR '',''" using that(2) by (auto simp: in_class_def less_eq_char_def)
    have "split_on CHR '','' ((''phy:'' @ q) @ CHR '','' # (''xvd'' @ [c]) @ CHR '','' # ''w'') =
        [''phy:'' @ q, ''xvd'' @ [c], ''w'']"
      using that(1) c by (subst split_on_append, simp, subst split_on_append) (simp_all add: split_on_free)
    then show ?thesis by simp
  qed
  show ?thesis
  proof
    assume ?l
    then have "fullmatch DISK_RE s" by (simp add: disk_groups_def split: if_splits)
    then obtain q c where q: "q \<noteq> []" "CHR '','' \<notin> set q" "in_class [az] c" "s = ''phy:'' @ q @ '',xvd'' @ [c] @ '',w''"
      unfolding DISK_RE_iff by blast
    with \<open>?l\<close> split [OF q(2,3)] have "p = q \<and> d = ''xvd'' @ [c]"
      by (simp add: disk_groups_def split: if_splits)
    with q show ?r by simp
  next
    assume ?r
    then obtain c where c: "p \<noteq> []" "CHR '','' \<notin> set p" "in_class [az] c" "d = ''xvd'' @ [c]"
      "s = ''phy:'' @ p @ '',xvd'' @ [c] @ '',w''" by auto
    then have "fullmatch DISK_RE s" unfolding DISK_RE_iff by blast
    with c split [OF c(2,3)] show ?l by (simp add: disk_groups_def)
  qed
qed

lemma has_alias_iff: "has_alias path \<longleftrightarrow> ''..'' \<in> set (split_on CHR ''/'' path)"
  by (auto simp: has_alias_def path_parts_def list_ex_iff)

lemma read_disk_Inr [res_simps]: "read_disk v = Inr (path, device) \<longleftrightarrow>
    (\<exists>s. v = PStr s \<and> disk_groups s = Some (path, device) \<and> fullmatch LV path \<and> \<not> has_alias path)"
  by (auto simp: read_disk_def res_simps split: pyval.splits option.splits)

text \<open>The code also looks for a component \<open>.\<close>, which \<open>Path.parts\<close> never has.\<close>

lemma alias_check_misses_dot:
  "read_disk (PStr ''phy:/dev/./sda,xvda,w'') = Inr (''/dev/./sda'', ''xvda'')"
  by code_simp

definition disk_entries :: "pydict \<Rightarrow> (string \<times> string) list \<Rightarrow> bool" where
  "disk_entries cfg groups \<longleftrightarrow>
    (\<exists>es. dget cfg ''disk'' = PList es \<and> list_all2 (\<lambda>e g. read_disk e = Inr g) es groups)"

definition persistent_artifact :: "pydict \<Rightarrow> string \<Rightarrow> bool" where
  "persistent_artifact cfg name \<longleftrightarrow> (\<exists>path. dget cfg name = PStr path \<and>
     starts_with path ''/mnt/dom0_data/'' \<and> ''..'' \<notin> set (split_on CHR ''/'' path))"

lemma configuration_Inr:
  assumes "configuration m role identity = Inr (cfg, paths)"
  shows "dget cfg ''name'' = PStr role \<and> dget cfg ''type'' = PStr ''pvh'' \<and>
    dgetd cfg ''uuid'' (PStr identity) = PStr identity \<and>
    persistent_artifact cfg ''kernel'' \<and> persistent_artifact cfg ''ramdisk'' \<and>
    (\<exists>groups. disk_entries cfg groups \<and> paths = map fst groups \<and> 1 \<le> length groups \<and> length groups \<le> 8 \<and>
       distinct (map fst groups) \<and> distinct (map snd groups))"
proof -
  have art: "check_boot_artifact cfg name = Inr u \<longleftrightarrow> persistent_artifact cfg name" for name u
    by (auto simp: check_boot_artifact_def persistent_artifact_def res_simps has_alias_iff split: pyval.splits)
  from assms obtain groups where g:
    "dget cfg ''name'' = PStr role" "dget cfg ''type'' = PStr ''pvh''"
    "dgetd cfg ''uuid'' (PStr identity) = PStr identity" "is_list (dget cfg ''disk'')"
    "1 \<le> length (list_of (dget cfg ''disk''))" "length (list_of (dget cfg ''disk'')) \<le> 8"
    "traverse read_disk (list_of (dget cfg ''disk'')) = Inr groups" "paths = map fst groups"
    "distinct (map fst groups)" "distinct (map snd groups)"
    "persistent_artifact cfg ''kernel''" "persistent_artifact cfg ''ramdisk''"
    by (auto simp: configuration_def res_simps Let_def art not_less Suc_le_eq)
  from g(4,7) have "disk_entries cfg groups"
    by (auto simp: disk_entries_def is_list_iff traverse_eq_Inr)
  with g traverse_length [OF g(7)] show ?thesis by (metis (no_types))
qed

end
