(* ===== verification/Controller_Switch.thy ===== *)
theory Controller_Switch
  imports Controller_Guard Effects Vm_Config
begin

text \<open>
  The planned switch of the active controller, \<^verbatim>\<open>controller_switch.py\<close>, and the handoff of
  \<^verbatim>\<open>bin/ops-controller-ha\<close>. Every interaction with a controller, with git or with the disk takes one \<open>sw_reply\<close>:
  \<open>Lost\<close>, it raised and had no effect; \<open>LostAfter\<close>, it took effect and then raised; \<open>Got v\<close>, it returned \<open>v\<close>.
  When the replies run out the process has died there. The markers, the records of the switches and, for each
  controller, the Instance file in the working tree, in the index and in the last commit are the state: what the guard
  answers is computed, and so is what \<open>git status\<close> and \<open>git diff\<close> say of that file. The names of the commits, what a
  pull brings, the tests of readiness and the credentials are read off the replies; a pull is followed by the check
  that it brought nothing.

  Each interaction is kept in the \<open>trail\<close> with the operation it belongs to and the result it had.
\<close>

section \<open>Records, interactions, state\<close>

record switch_record =
  sw_operation :: string
  sw_old :: string
  sw_new :: string
  sw_phase :: string
  sw_original_commit :: string
  sw_instance :: pyval
  sw_published :: string

datatype sw_act =
    AcquireLocks | CheckLocks | NewToken
  | Status string | SetMarker string string string | Guard string
  | Repository string repository | ReadPlacement string | Development string
  | Credentials string bool | CredentialsAbsent string | CredentialIdentity string | SourceStatus string
  | Git string "string list" | CheckInstance string | ReadInstance string | WriteInstance string pyval
  | PullInstance string | WriteRecord switch_record | Dispatch string "string list"

datatype sw_reply = Lost | LostAfter | Got pyval

type_synonym sw_entry = "string option \<times> sw_act \<times> sw_reply"

record sw_state =
  markers :: "string \<Rightarrow> marker_file"
  stores :: "string \<Rightarrow> (string \<times> switch_record) list"
  instances :: "string \<Rightarrow> pyval option"
  indexed :: "string \<Rightarrow> pyval option"
  committed :: "string \<Rightarrow> pyval option"
  tag :: "string option"
  trail :: "sw_entry list"
  answers :: "sw_reply list"

type_synonym 'a sw_run = "(sw_state, 'a) run"

definition sw_store :: "switch_record \<Rightarrow> sw_state \<Rightarrow> sw_state" where
  "sw_store r s = s\<lparr>stores := (stores s)(sw_old r := AList.update (sw_operation r) r (stores s (sw_old r)))\<rparr>"

definition INSTANCE_FILE :: string where "INSTANCE_FILE = ''klokast-instance.json''"

text \<open>What git does with the Instance file of a controller: \<open>git add\<close> copies it to the index, \<open>git commit\<close> copies the
  index to the last commit, and the status shows where the three differ (a line about the file precedes whatever the
  reply says of other files).\<close>

definition git_effect :: "string \<Rightarrow> string list \<Rightarrow> sw_state \<Rightarrow> sw_state" where
  "git_effect box args s =
    (if args = [''add'', ''--'', INSTANCE_FILE] then s\<lparr>indexed := (indexed s)(box := instances s box)\<rparr>
     else if take 2 args = [''commit'', ''-m''] then s\<lparr>committed := (committed s)(box := indexed s box)\<rparr>
     else s)"

definition changed_mark :: "bool \<Rightarrow> char" where
  "changed_mark changed = (if changed then CHR ''M'' else CHR '' '')"

definition status_line :: "string \<Rightarrow> sw_state \<Rightarrow> string" where
  "status_line box s = (let staged = indexed s box \<noteq> committed s box; edited = instances s box \<noteq> indexed s box in
     if staged \<or> edited then [changed_mark staged, changed_mark edited, CHR '' ''] @ INSTANCE_FILE @ [CHR 0x0A] else '''')"

definition git_answer :: "string \<Rightarrow> string list \<Rightarrow> sw_state \<Rightarrow> pyval \<Rightarrow> pyval" where
  "git_answer box args s v = (let others = (case v of PStr out \<Rightarrow> out | _ \<Rightarrow> '''') in
     if args = [''status'', ''--porcelain''] \<and> status_line box s \<noteq> '''' then PStr (status_line box s @ others)
     else if args = [''diff'', ''HEAD'', ''--'', INSTANCE_FILE] \<and> instances s box \<noteq> committed s box then PStr (''diff '' @ others)
     else v)"

text \<open>What an interaction changes. The marker and the record are replaced atomically; the Instance file is written in
  place, so a write that fails leaves it torn.\<close>

fun sw_effect :: "sw_act \<Rightarrow> sw_state \<Rightarrow> sw_state" where
  "sw_effect (SetMarker box role active_box) s =
    s\<lparr>markers := (markers s)(box := Marker (PDict (marker_json box role active_box)))\<rparr>"
| "sw_effect (WriteRecord r) s = sw_store r s"
| "sw_effect (WriteInstance box v) s = s\<lparr>instances := (instances s)(box := Some v)\<rparr>"
| "sw_effect (Git box args) s = git_effect box args s"
| "sw_effect _ s = s"

fun sw_failed :: "sw_act \<Rightarrow> sw_state \<Rightarrow> sw_state" where
  "sw_failed (WriteInstance box v) s = s\<lparr>instances := (instances s)(box := None)\<rparr>"
| "sw_failed _ s = s"

text \<open>What a reply that arrived says. The reply to the guard is the placement in the Instance of that controller.\<close>

definition placement_reply :: "pyval \<Rightarrow> pyval option" where
  "placement_reply v = (if v = PNone then None else Some v)"

fun sw_result :: "sw_act \<Rightarrow> sw_state \<Rightarrow> sw_reply \<Rightarrow> sw_reply" where
  "sw_result (Status box) s (Got v) = Got (PDict (controller_status box (markers s box)))"
| "sw_result (Guard box) s (Got v) = Got (PInt (require_active (controller_name box) (markers s box) (placement_reply v)))"
| "sw_result (ReadInstance box) s (Got v) = (case instances s box of None \<Rightarrow> Lost | Some doc \<Rightarrow> Got doc)"
| "sw_result (Git box args) s (Got v) = Got (git_answer box args s v)"
| "sw_result _ s r = r"

definition interact_sw :: "sw_act \<Rightarrow> sw_reply sw_run" where
  "interact_sw a s = (case answers s of
     [] \<Rightarrow> (Inl Crash, s)
   | r # rs \<Rightarrow> (let q = sw_result a s r; t = s\<lparr>answers := rs, trail := trail s @ [(tag s, a, q)]\<rparr>
       in (Inr q, if q = Lost then sw_failed a t else sw_effect a t)))"

definition ask :: "sw_act \<Rightarrow> pyval sw_run" where
  "ask a = rbind (interact_sw a) (\<lambda>q. case q of Got v \<Rightarrow> rreturn v | _ \<Rightarrow> raise ''interaction failed'')"

definition tell :: "sw_act \<Rightarrow> unit sw_run" where
  "tell a = rbind (ask a) (\<lambda>_. rreturn ())"

definition sw_lift :: "'a res \<Rightarrow> 'a sw_run" where
  "sw_lift m = (case m of Inl e \<Rightarrow> raise ''refused'' | Inr x \<Rightarrow> rreturn x)"

text \<open>A controller that does not answer has the status \<open>unreachable\<close>; asking raises nothing.\<close>

definition status :: "string \<Rightarrow> pydict sw_run" where
  "status box = rbind (interact_sw (Status box)) (\<lambda>q. case q of
     Got v \<Rightarrow> rreturn (dict_of v) | _ \<Rightarrow> rreturn (unreachable box))"

definition git :: "string \<Rightarrow> string list \<Rightarrow> string sw_run" where
  "git box args = rbind (ask (Git box args)) (\<lambda>v. case v of
     PStr out \<Rightarrow> rreturn (strip_chars is_space out) | _ \<Rightarrow> raise ''git'')"

definition git_do :: "string \<Rightarrow> string list \<Rightarrow> unit sw_run" where
  "git_do box args = rbind (git box args) (\<lambda>_. rreturn ())"

definition save :: "switch_record \<Rightarrow> unit sw_run" where
  "save r = tell (WriteRecord r)"


section \<open>Readiness\<close>

definition require_readiness :: "string \<Rightarrow> string \<Rightarrow> pyval option \<Rightarrow> unit sw_run" where
  "require_readiness box old_active placement =
    rbind (ask (Repository box Implementation)) (\<lambda>report.
    rbind (sw_lift (check_repository Implementation report)) (\<lambda>_.
    rbind (ask (Repository box Instance)) (\<lambda>report.
    rbind (sw_lift (check_repository Instance report)) (\<lambda>_.
    rbind (ask (ReadPlacement box)) (\<lambda>observed.
    rbind (rrequire (py_eq observed (case placement of Some v \<Rightarrow> v | None \<Rightarrow> placement_of box old_active))
      ''commit and push Instance controller placement, then pull it on the destination'') (\<lambda>_.
    tell (Development box)))))))"

definition credential_identity :: "string \<Rightarrow> pydict sw_run" where
  "credential_identity box = rbind (ask (CredentialIdentity box)) (\<lambda>v. case v of
     PList [PDict d, PStr line] \<Rightarrow>
       if fullmatch HEX line then rreturn (dset d ''instance_write'' (PStr line))
       else raise ''controller credential readiness returned invalid evidence''
   | _ \<Rightarrow> raise ''controller credential readiness returned invalid evidence'')"

definition shares_credentials :: "pydict \<Rightarrow> pydict \<Rightarrow> bool res" where
  "shares_credentials a b = any_res (\<lambda>k. bind (ditem a k) (\<lambda>x. bind (ditem b k) (\<lambda>y. Inr (py_eq x y)))) (dkeys a)"

definition verify_promotion :: "string \<Rightarrow> unit sw_run" where
  "verify_promotion box =
    rbind (ask (SourceStatus box)) (\<lambda>v.
    rbind (sw_lift (validate_source_status v (controller_name box))) (\<lambda>_.
    tell (Credentials box True)))"


section \<open>The states of the two controllers\<close>

definition is_active :: "pydict \<Rightarrow> bool" where "is_active d \<longleftrightarrow> truthy (dget d ''active'')"

definition is_reachable :: "pydict \<Rightarrow> bool" where "is_reachable d \<longleftrightarrow> truthy (dget d ''reachable'')"

definition has_role :: "pydict \<Rightarrow> string \<Rightarrow> bool" where "has_role d role \<longleftrightarrow> dget d ''role'' = PStr role"

definition names_active :: "pydict \<Rightarrow> string \<Rightarrow> bool" where "names_active d box \<longleftrightarrow> dget d ''active_box'' = PStr box"

definition states :: "switch_record \<Rightarrow> (pydict \<times> pydict) sw_run" where
  "states r = rbind (status (sw_old r)) (\<lambda>old. rbind (status (sw_new r)) (\<lambda>new.
    rbind (rrequire (is_reachable old \<and> is_reachable new) ''both controllers must be reachable; no automatic promotion'') (\<lambda>_.
    rbind (rrequire (\<not> (is_active old \<and> is_active new)) ''conflicting controller authority; use explicit recovery'') (\<lambda>_.
    rreturn (old, new)))))"

abbreviation check_locks :: "unit sw_run" where "check_locks \<equiv> tell CheckLocks"


section \<open>Publishing the placement\<close>

definition expected_instance :: "switch_record \<Rightarrow> pydict \<Rightarrow> pyval" where
  "expected_instance r original = PDict (dset original ''controllers'' (placement_of (sw_new r) (sw_old r)))"

definition write_placement :: "switch_record \<Rightarrow> string \<Rightarrow> pyval \<Rightarrow> unit sw_run" where
  "write_placement r changed expected =
    rbind (rrequire (changed = '''') ''Instance has unrelated edits'') (\<lambda>_.
    rbind (git_do (sw_old r) [''pull'', ''--ff-only'']) (\<lambda>_.
    rbind (git (sw_old r) [''rev-parse'', ''HEAD'']) (\<lambda>head.
    rbind (rrequire (head = sw_original_commit r) ''Instance upstream advanced; start a new switch after review'') (\<lambda>_.
    rbind check_locks (\<lambda>_.
    tell (WriteInstance (sw_old r) expected))))))"

definition commit_placement :: "switch_record \<Rightarrow> unit sw_run" where
  "commit_placement r =
    rbind (git (sw_old r) [''diff'', ''HEAD'', ''--'', INSTANCE_FILE]) (\<lambda>diff.
    if diff \<noteq> '''' then in_order [check_locks, git_do (sw_old r) [''add'', ''--'', INSTANCE_FILE],
      git_do (sw_old r) [''commit'', ''-m'', ''Switch controller authority '' @ sw_operation r]]
    else rreturn ())"

definition UPSTREAM :: string where "UPSTREAM = ''@'' @ ''{upstream}''"

definition push_placement :: "switch_record \<Rightarrow> unit sw_run" where
  "push_placement r =
    rbind (save r) (\<lambda>_.
    rbind check_locks (\<lambda>_.
    rbind (git_do (sw_old r) [''push'', ''origin'', ''HEAD:main'']) (\<lambda>_.
    rbind (git (sw_old r) [''rev-parse'', UPSTREAM]) (\<lambda>upstream.
    rrequire (upstream = sw_published r) ''Instance push did not synchronize upstream''))))"

definition publish_instance :: "switch_record \<Rightarrow> switch_record sw_run" where
  "publish_instance r =
    rbind (ask (ReadInstance (sw_old r))) (\<lambda>current.
    rbind (sw_lift (as_dict (sw_instance r))) (\<lambda>original.
    let expected = expected_instance r original in
    rbind (rrequire (py_in current [sw_instance r, expected])
      ''Instance changed during the switch; preserve the edits and reconcile before resume'') (\<lambda>_.
    rbind (git (sw_old r) [''status'', ''--porcelain'']) (\<lambda>changed.
    rbind (rrequire (changed \<in> set ['''', ''M klokast-instance.json'', '' M klokast-instance.json''])
      ''Instance has unrelated or staged edits; switch cannot publish them'') (\<lambda>_.
    rbind (if py_eq current (sw_instance r) then write_placement r changed expected else rreturn ()) (\<lambda>_.
    rbind (tell (CheckInstance (sw_old r))) (\<lambda>_.
    rbind (commit_placement r) (\<lambda>_.
    rbind (git (sw_old r) [''rev-parse'', ''HEAD'']) (\<lambda>revision.
    rbind (git (sw_old r) [''diff'', ''--name-only'', sw_original_commit r, ''HEAD'']) (\<lambda>names.
    rbind (rrequire (names = INSTANCE_FILE) ''switch commit changed unexpected files'') (\<lambda>_.
    let r' = r\<lparr>sw_published := revision\<rparr> in
    rbind (push_placement r') (\<lambda>_. rreturn r'))))))))))))"


section \<open>The phases\<close>

definition enter :: "switch_record \<Rightarrow> string \<Rightarrow> switch_record sw_run" where
  "enter r phase = (let r' = r\<lparr>sw_phase := phase\<rparr> in rbind (save r') (\<lambda>_. rreturn r'))"

definition placement_before :: "switch_record \<Rightarrow> pyval" where
  "placement_before r = placement_of (sw_old r) (sw_new r)"

definition placement_after :: "switch_record \<Rightarrow> pyval" where
  "placement_after r = placement_of (sw_new r) (sw_old r)"

definition prepared :: "pydict \<Rightarrow> pydict \<Rightarrow> switch_record \<Rightarrow> switch_record sw_run" where
  "prepared old new r =
    rbind (rrequire (is_active old \<and> has_role new ''standby'' \<and> names_active new (sw_old r))
      ''initial controller authority changed'') (\<lambda>_.
    rbind (require_readiness (sw_old r) (sw_old r) (Some (placement_before r))) (\<lambda>_.
    rbind (tell (Credentials (sw_old r) True)) (\<lambda>_.
    rbind (require_readiness (sw_new r) (sw_old r) (Some (placement_before r))) (\<lambda>_.
    rbind (tell (Credentials (sw_new r) (sw_new r = sw_old r))) (\<lambda>_.
    rbind (credential_identity (sw_old r)) (\<lambda>a.
    rbind (credential_identity (sw_new r)) (\<lambda>b.
    rbind (sw_lift (shares_credentials a b)) (\<lambda>shared.
    rbind (rrequire (\<not> shared) ''controllers must have independent provider and Instance write credentials'') (\<lambda>_.
    enter r ''publishing'')))))))))"

definition publishing :: "switch_record \<Rightarrow> switch_record sw_run" where
  "publishing r = rbind (publish_instance r) (\<lambda>r'. enter r' ''published'')"

definition published :: "switch_record \<Rightarrow> switch_record sw_run" where
  "published r =
    rbind check_locks (\<lambda>_.
    rbind (tell (PullInstance (sw_new r))) (\<lambda>_.
    rbind (require_readiness (sw_new r) (sw_old r) (Some (placement_after r))) (\<lambda>_.
    enter r ''synchronized'')))"

definition synchronized :: "switch_record \<Rightarrow> switch_record sw_run" where
  "synchronized r =
    rbind check_locks (\<lambda>_.
    rbind (states r) (\<lambda>(old, new).
    rbind (rrequire (\<not> is_active new) ''destination became active before recorded demotion'') (\<lambda>_.
    rbind (if is_active old then in_order [check_locks, tell (SetMarker (sw_old r) ''standby'' (sw_new r))]
           else rreturn ()) (\<lambda>_.
    rbind (states r) (\<lambda>(old, new).
    rbind (rrequire (\<not> is_active old \<and> has_role old ''standby'' \<and> names_active old (sw_new r))
      ''old controller demotion is unverified'') (\<lambda>_.
    rbind (ask (Guard (sw_old r))) (\<lambda>code.
    rbind (rrequire (code = PInt 78) ''old controller can still start Platform-wide operations'') (\<lambda>_.
    enter r ''demoted''))))))))"

definition demoted :: "switch_record \<Rightarrow> switch_record sw_run" where
  "demoted r =
    rbind check_locks (\<lambda>_.
    rbind (states r) (\<lambda>(old, new).
    rbind (rrequire (\<not> is_active old \<and> names_active old (sw_new r))
      ''old controller authority changed before activation'') (\<lambda>_.
    rbind (if is_active new then rreturn ()
           else rbind (rrequire (has_role new ''standby'') ''destination is not the expected standby'') (\<lambda>_.
             in_order [check_locks, tell (SetMarker (sw_new r) ''active'' (sw_new r))])) (\<lambda>_.
    enter r ''activated''))))"

definition switched :: "switch_record \<Rightarrow> pydict \<times> pydict \<Rightarrow> bool" where
  "switched r = (\<lambda>(old, new). \<not> is_active old \<and> is_active new \<and> names_active new (sw_new r))"

definition activated :: "switch_record \<Rightarrow> switch_record sw_run" where
  "activated r =
    rbind check_locks (\<lambda>_.
    rbind (states r) (\<lambda>both.
    rbind (rrequire (switched r both) ''final controller authority differs'') (\<lambda>_.
    rbind (verify_promotion (sw_new r)) (\<lambda>_.
    enter r ''complete''))))"

definition at_phase :: "string \<Rightarrow> (switch_record \<Rightarrow> switch_record sw_run) \<Rightarrow> switch_record \<Rightarrow> switch_record sw_run" where
  "at_phase phase f r = (if sw_phase r = phase then f r else rreturn r)"

definition completed :: "switch_record \<Rightarrow> switch_record sw_run" where
  "completed r =
    rbind (rrequire (sw_phase r = ''complete'') ''unknown controller switch phase'') (\<lambda>_.
    rbind (states r) (\<lambda>(old, new).
    rbind (rrequire (switched r (old, new) \<and> names_active old (sw_new r))
      ''completed switch no longer matches controller authority'') (\<lambda>_.
    rreturn r)))"

definition transition :: "switch_record \<Rightarrow> switch_record sw_run" where
  "transition r0 =
    rbind check_locks (\<lambda>_.
    rbind (states r0) (\<lambda>(old, new).
    rbind (at_phase ''prepared'' (prepared old new) r0) (\<lambda>r1.
    rbind (at_phase ''publishing'' publishing r1) (\<lambda>r2.
    rbind (at_phase ''published'' published r2) (\<lambda>r3.
    rbind (at_phase ''synchronized'' synchronized r3) (\<lambda>r4.
    rbind (at_phase ''demoted'' demoted r4) (\<lambda>r5.
    rbind (at_phase ''activated'' activated r5) completed)))))))"


section \<open>The commands\<close>

record sw_args =
  ar_old :: string
  ar_new :: string
  ar_resume :: "string option"
  ar_operation :: "string option"
  ar_dry_run :: bool
  ar_local :: bool
  ar_user :: string

definition requested :: "sw_args \<Rightarrow> string" where
  "requested args = (case ar_resume args of
     Some (c # cs) \<Rightarrow> c # cs
   | _ \<Rightarrow> (case ar_operation args of None \<Rightarrow> '''' | Some op \<Rightarrow> op))"

definition resumes :: "sw_args \<Rightarrow> sw_state \<Rightarrow> bool" where
  "resumes args s \<longleftrightarrow> ar_resume args \<notin> {None, Some ''''} \<or>
    requested args \<noteq> '''' \<and> map_of (stores s (ar_old args)) (requested args) \<noteq> None"

definition set_tag :: "string \<Rightarrow> unit sw_run" where
  "set_tag op s = (Inr (), s\<lparr>tag := Some op\<rparr>)"

definition resume_record :: "sw_args \<Rightarrow> switch_record sw_run" where
  "resume_record args s = (case map_of (stores s (ar_old args)) (requested args) of
     None \<Rightarrow> raise ''No such file or directory'' s
   | Some r \<Rightarrow> rbind (rrequire (sw_old r = ar_old args \<and> sw_new r = ar_new args \<and> sw_operation r = requested args)
       ''switch resume selects a different controller pair'') (\<lambda>_.
       rbind (set_tag (sw_operation r)) (\<lambda>_. rreturn r)) s)"

definition operation_id :: "sw_args \<Rightarrow> string sw_run" where
  "operation_id args = (if requested args \<noteq> '''' then rreturn (requested args)
     else rbind (ask NewToken) (\<lambda>v. sw_lift (as_str v)))"

definition new_record :: "sw_args \<Rightarrow> switch_record sw_run" where
  "new_record args =
    rbind (\<lambda>s. rrequire (\<forall>(op, r)\<in>set (stores s (ar_old args)). sw_phase r = ''complete'')
      ''unfinished controller switch'' s) (\<lambda>_.
    rbind (git (ar_old args) [''status'', ''--porcelain'']) (\<lambda>changed.
    rbind (rrequire (changed = '''') ''Instance must be clean before switching'') (\<lambda>_.
    rbind (operation_id args) (\<lambda>op.
    rbind (git (ar_old args) [''rev-parse'', ''HEAD'']) (\<lambda>head.
    rbind (ask (ReadInstance (ar_old args))) (\<lambda>doc.
    let r = \<lparr>sw_operation = op, sw_old = ar_old args, sw_new = ar_new args, sw_phase = ''prepared'',
             sw_original_commit = head, sw_instance = doc, sw_published = ''''\<rparr> in
    rbind (set_tag op) (\<lambda>_. rbind (save r) (\<lambda>_. rreturn r))))))))"

text \<open>\<open>run(config, args, ha)\<close>. \<open>ar_local\<close>: this is the controller of the old active box; from anywhere else the command
  is sent there, where it is a run of its own. The two checks around \<open>transition\<close> are those of the context manager \<open>locks\<close>.\<close>

definition dispatch_arguments :: "sw_args \<Rightarrow> string list" where
  "dispatch_arguments args =
    [''ansible/bin/ops-controller-ha'', ''switchover'', ''--old-active'', ar_old args, ''--new-active'', ar_new args]
    @ (case ar_resume args of
         Some (c # cs) \<Rightarrow> [''--resume'', c # cs]
       | _ \<Rightarrow> if requested args \<noteq> '''' then [''--operation-id'', requested args] else [])"

definition run_switch :: "sw_args \<Rightarrow> switch_record option sw_run" where
  "run_switch args =
    rbind (rrequire (ar_old args \<noteq> ar_new args) ''controller switch needs two different boxes'') (\<lambda>_.
    rbind (rrequire (requested args = '''' \<or> fullmatch OP (requested args)) ''invalid switch operation ID'') (\<lambda>_.
    if ar_dry_run args then rreturn None
    else if \<not> ar_local args then rbind (tell (Dispatch (ar_old args) (dispatch_arguments args))) (\<lambda>_. rreturn None)
    else rbind (tell (Development (ar_old args))) (\<lambda>_.
    rbind (rrequire (ar_user args = ''smith'') ''run the planned switch as smith'') (\<lambda>_.
    rbind (tell AcquireLocks) (\<lambda>_.
    rbind check_locks (\<lambda>_.
    rbind (\<lambda>s. if resumes args s then resume_record args s else new_record args s) (\<lambda>r.
    rbind (transition r) (\<lambda>r'.
    rbind check_locks (\<lambda>_. rreturn (Some r'))))))))))"

record handoff_args =
  ho_old_active :: string
  ho_new_active :: string
  ho_emergency :: bool
  ho_old_active_fenced :: bool
  ho_old_credentials_revoked :: bool
  ho_dry_run :: bool

definition demote_old :: "handoff_args \<Rightarrow> pydict \<Rightarrow> bool \<Rightarrow> unit sw_run" where
  "demote_old args old promoted =
    rbind (tell (CredentialsAbsent (ho_old_active args))) (\<lambda>_.
    let fenced = \<not> is_active old \<and> str_in (dget old ''role'') [''standby'', ''fenced''] \<and> names_active old (ho_new_active args) in
    rbind (rrequire (\<not> (promoted \<and> \<not> fenced))
      ''destination is active but the old controller is not fenced; inspect both controllers'') (\<lambda>_.
    if fenced then rreturn ()
    else rbind (rrequire (is_active old \<or> ho_emergency args)
        ''old controller is neither active nor demoted for this handoff'') (\<lambda>_.
      rbind (tell (CredentialsAbsent (ho_new_active args))) (\<lambda>_.
      rbind (tell (SetMarker (ho_old_active args) ''standby'' (ho_new_active args))) (\<lambda>_.
      rbind (status (ho_old_active args)) (\<lambda>old_after.
      rrequire (is_reachable old_after \<and> \<not> is_active old_after \<and> has_role old_after ''standby''
          \<and> names_active old_after (ho_new_active args))
        ''cannot verify old controller demotion; fence it before emergency promotion''))))))"

definition handoff :: "handoff_args \<Rightarrow> unit sw_run" where
  "handoff args =
    rbind (rrequire (ho_new_active args \<noteq> ho_old_active args) ''--new-active and --old-active must differ'') (\<lambda>_.
    rbind (rrequire (ho_emergency args \<longrightarrow> ho_old_active_fenced args)
      ''--old-active-fenced is required for manual controller promotion'') (\<lambda>_.
    if ho_dry_run args then rreturn ()
    else rbind (rrequire (ho_old_credentials_revoked args) ''revoke the old controller's provider clients'') (\<lambda>_.
    rbind (status (ho_new_active args)) (\<lambda>new.
    rbind (status (ho_old_active args)) (\<lambda>old.
    rbind (rrequire (is_reachable new \<and> (ho_emergency args \<or> is_reachable old))
      ''both controllers must be reachable for a planned switchover'') (\<lambda>_.
    let promoted = dget new ''active'' = PBool True \<and> has_role new ''active'' \<and> names_active new (ho_new_active args) in
    rbind (rrequire (promoted \<or> \<not> is_active new \<and> has_role new ''standby'' \<and> names_active new (ho_old_active args))
      ''destination must be the standby for --old-active or the already promoted destination'') (\<lambda>_.
    rbind (require_readiness (ho_new_active args) (ho_old_active args) None) (\<lambda>_.
    rbind (if is_reachable old then demote_old args old promoted else rreturn ()) (\<lambda>_.
    rbind (if promoted then rreturn ()
           else rbind (tell (CredentialsAbsent (ho_new_active args))) (\<lambda>_.
             tell (SetMarker (ho_new_active args) ''active'' (ho_new_active args)))) (\<lambda>_.
    verify_promotion (ho_new_active args)))))))))))"

text \<open>\<open>demote\<close> only ever makes a standby.\<close>

definition demote :: "string \<Rightarrow> string \<Rightarrow> bool \<Rightarrow> unit sw_run" where
  "demote box active dry_run = (if dry_run then rreturn () else tell (SetMarker box ''standby'' active))"

end
