(* ===== verification/Controller_Rules.thy ===== *)
theory Controller_Rules
  imports Controller_Switch
begin

text \<open>
  Rules for the programs of \<open>Controller_Switch\<close>. Most of what they do is quiet: it changes no marker and no record.
  The locale \<open>quiet_steps\<close> states that as the interface of an invariant: whoever keeps \<open>ok\<close> under such interactions
  gets the rules of all the programs built from them. It is interpreted on the safety invariant (\<open>Controller_Runs\<close>)
  and on the invariant of one switch (\<open>Controller_Course\<close>).
\<close>

section \<open>Interactions\<close>

text \<open>\<open>stable P\<close>: a quiet interaction keeps \<open>P\<close>.\<close>

definition stable :: "(sw_state \<Rightarrow> bool) \<Rightarrow> bool" where
  "stable P \<longleftrightarrow> (\<forall>s e as ins ix hd. P s \<longrightarrow>
     P (s\<lparr>answers := as, trail := trail s @ [e], instances := ins, indexed := ix, committed := hd\<rparr>))"

definition quiet :: "sw_act \<Rightarrow> bool" where
  "quiet act \<longleftrightarrow> (case act of SetMarker box role active \<Rightarrow> False | WriteRecord r \<Rightarrow> False | _ \<Rightarrow> True)"

lemma quiet_acts [simp]:
  "quiet AcquireLocks" "quiet CheckLocks" "quiet NewToken" "quiet (Status x)" "quiet (Guard x)" "quiet (Repository x l)"
  "quiet (ReadPlacement x)" "quiet (Development x)" "quiet (Credentials x w)" "quiet (CredentialsAbsent x)"
  "quiet (CredentialIdentity x)" "quiet (SourceStatus x)" "quiet (Git x args)" "quiet (CheckInstance x)"
  "quiet (ReadInstance x)" "quiet (WriteInstance x v)" "quiet (PullInstance x)" "quiet (Dispatch x args)"
  by (simp_all add: quiet_def)

definition after_quiet :: "sw_act \<Rightarrow> sw_reply \<Rightarrow> sw_reply list \<Rightarrow> sw_state \<Rightarrow> sw_state" where
  "after_quiet act q rs s = (let t = s\<lparr>answers := rs, trail := trail s @ [(tag s, act, q)]\<rparr> in
     if q = Lost then sw_failed act t else sw_effect act t)"

lemma after_quiet_form:
  "quiet act \<Longrightarrow> \<exists>ins ix hd. after_quiet act q rs s =
     s\<lparr>answers := rs, trail := trail s @ [(tag s, act, q)], instances := ins, indexed := ix, committed := hd\<rparr>"
  by (rule exI [of _ "instances (after_quiet act q rs s)"], rule exI [of _ "indexed (after_quiet act q rs s)"],
      rule exI [of _ "committed (after_quiet act q rs s)"], rule sw_state.equality)
    (cases act; simp add: after_quiet_def quiet_def git_effect_def Let_def)+

lemma quiet_stable: "quiet act \<Longrightarrow> stable P \<Longrightarrow> P s \<Longrightarrow> P (after_quiet act q rs s)"
  using after_quiet_form [of act q rs s] unfolding stable_def by metis

lemma after_quiet_simps [simp]:
  assumes "quiet act"
  shows "markers (after_quiet act q rs s) = markers s" "stores (after_quiet act q rs s) = stores s"
    "tag (after_quiet act q rs s) = tag s" "trail (after_quiet act q rs s) = trail s @ [(tag s, act, q)]"
  using after_quiet_form [OF assms, of q rs s] by auto

text \<open>What changes nothing at all.\<close>

definition silent :: "sw_act \<Rightarrow> bool" where
  "silent act \<longleftrightarrow> (case act of SetMarker box role active \<Rightarrow> False | WriteRecord r \<Rightarrow> False | WriteInstance box v \<Rightarrow> False
     | Git box args \<Rightarrow> False | _ \<Rightarrow> True)"

lemma silent_acts [simp]:
  "silent AcquireLocks" "silent CheckLocks" "silent (Status x)" "silent (Guard x)" "silent (Development x)"
  "silent (ReadInstance x)" "silent (Dispatch x args)"
  by (simp_all add: silent_def)

lemma silent_effect: "silent act \<Longrightarrow> sw_effect act s = s" "silent act \<Longrightarrow> sw_failed act s = s"
  by (cases act; simp add: silent_def)+

lemma interact_sw_cases:
  assumes "interact_sw act s = (x, s')"
  obtains "x = Inl Crash" "s' = s"
  | r rs where "answers s = r # rs" "x = Inr (sw_result act s r)" "s' = after_quiet act (sw_result act s r) rs s"
  using assms by (auto simp: interact_sw_def after_quiet_def Let_def split: list.splits)

lemma stable_basic [simp]:
  "stable (\<lambda>s. c)" "stable (\<lambda>s. tag s = t)" "stable (\<lambda>s. d = f (markers s))" "stable (\<lambda>s. e \<in> set (trail s))"
  by (simp_all add: stable_def)

lemma stable_conj: "stable P \<Longrightarrow> stable Q \<Longrightarrow> stable (\<lambda>s. P s \<and> Q s)"
  by (simp add: stable_def)

lemma stable_ex: "(\<And>x. stable (P x)) \<Longrightarrow> stable (\<lambda>s. \<exists>x. P x s)"
  unfolding stable_def by blast

lemma triple_then:
  "triple ok obs P m (\<lambda>_. P) \<Longrightarrow> (\<And>x. triple ok obs P (f x) Q) \<Longrightarrow> triple ok obs P (rbind m f) Q"
  by (rule triple_bind)

lemma triple_pure: "(c \<Longrightarrow> triple ok obs P m Q) \<Longrightarrow> triple ok obs (\<lambda>s. P s \<and> c) m Q"
  unfolding triple_def by blast

lemma triple_must: "triple ok obs P (rrequire c msg) (\<lambda>_. P)"
  by (rule triple_require_weaken) simp

lemma triple_in_order: "\<forall>m\<in>set ms. triple ok obs P m (\<lambda>_. P) \<Longrightarrow> triple ok obs P (in_order ms) (\<lambda>_. P)"
proof (induction ms)
  case (Cons m ms)
  then show ?case by (intro triple_in_order_Cons [where R = P]) auto
qed (auto intro: triple_return)

lemma triple_either:
  assumes "triple ok obs P m Q" "triple ok obs P n Q"
  shows "triple ok obs P (\<lambda>s. if c s then m s else n s) Q"
proof (rule tripleI)
  fix s r s' assume s: "ok s" "P (obs s)" "(if c s then m s else n s) = (r, s')"
  show "ok s' \<and> (\<forall>x. r = Inr x \<longrightarrow> Q x (obs s'))"
  proof (cases "c s")
    case True
    then show ?thesis by (intro tripleD [OF assms(1) s(1,2)]) (use s in simp)
  next
    case False
    then show ?thesis by (intro tripleD [OF assms(2) s(1,2)]) (use s in simp)
  qed
qed

lemma triple_lift: "triple ok (\<lambda>s. s) P (sw_lift m) (\<lambda>_. P)"
  unfolding sw_lift_def by (auto split: sum.split)

lemma triple_lift_value: "triple ok (\<lambda>s. s) P (sw_lift m) (\<lambda>x s. P s \<and> m = Inr x)"
  unfolding sw_lift_def by (auto split: sum.split)

definition after_marker :: "sw_act \<Rightarrow> sw_reply \<Rightarrow> sw_reply list \<Rightarrow> sw_state \<Rightarrow> sw_state" where
  "after_marker act q rs s = (let t = s\<lparr>answers := rs, trail := trail s @ [(tag s, act, q)]\<rparr> in
     if q = Lost then t else sw_effect act t)"

definition unmarked :: "(sw_state \<Rightarrow> bool) \<Rightarrow> bool" where
  "unmarked P \<longleftrightarrow> (\<forall>s e as ms. P s \<longrightarrow> P (s\<lparr>answers := as, trail := trail s @ [e], markers := ms\<rparr>))"

lemma after_marker_unmarked: "unmarked P \<Longrightarrow> P s \<Longrightarrow> P (after_marker (SetMarker box role active) q rs s)"
proof -
  assume 1: "unmarked P" "P s"
  have "\<exists>ms. after_marker (SetMarker box role active) q rs s =
      s\<lparr>answers := rs, trail := trail s @ [(tag s, SetMarker box role active, q)], markers := ms\<rparr>"
    by (auto simp: after_marker_def Let_def intro: exI [of _ "markers s"])
  with 1 show ?thesis unfolding unmarked_def by metis
qed

lemma update_member: "x \<in> set (AList.update k v xs) \<Longrightarrow> x = (k, v) \<or> x \<in> set xs"
  by (induction xs) (auto split: if_splits)

text \<open>What a reply that arrived says of the state it was given in.\<close>

definition truthful :: "sw_act \<Rightarrow> sw_reply \<Rightarrow> sw_state \<Rightarrow> bool" where
  "truthful act q s \<longleftrightarrow> (\<forall>box v. q = Got v \<longrightarrow> act = Status box \<longrightarrow> v = PDict (controller_status box (markers s box)))"

lemma result_truthful: "truthful act (sw_result act s r) s"
  by (cases act; cases r) (auto simp: truthful_def split: option.splits)

lemma triple_interact:
  assumes "\<And>s q rs. ok s \<Longrightarrow> ok (after_quiet act q rs s)"
    and "\<And>s q rs. P s \<Longrightarrow> P (after_quiet act q rs s) \<and> (truthful act q s \<longrightarrow> Q q (after_quiet act q rs s))"
  shows "triple ok (\<lambda>s. s) P (interact_sw act) (\<lambda>q s. P s \<and> Q q s)"
proof (rule tripleI)
  fix s x s' assume ok: "ok s" and p: "P s" and run: "interact_sw act s = (x, s')"
  from run show "ok s' \<and> (\<forall>q. x = Inr q \<longrightarrow> P s' \<and> Q q s')"
  proof (cases rule: interact_sw_cases)
    case 1
    with ok show ?thesis by simp
  next
    case (2 r rs)
    with assms(1) [OF ok] assms(2) [OF p] result_truthful show ?thesis by auto
  qed
qed

lemma triple_tell_quiet:
  assumes "\<And>s q rs. ok s \<Longrightarrow> ok (after_quiet act q rs s)" "\<And>s q rs. P s \<Longrightarrow> P (after_quiet act q rs s)"
  shows "triple ok (\<lambda>s. s) P (tell act) (\<lambda>_. P)"
proof -
  have "triple ok (\<lambda>s. s) P (interact_sw act) (\<lambda>q s. P s \<and> True)"
    by (rule triple_interact) (use assms in auto)
  then show ?thesis
    unfolding tell_def ask_def
    by (rule triple_bind [where R = "\<lambda>_. P", OF triple_bind]) (auto split: sw_reply.split intro: triple_return)
qed

section \<open>Invariants that quiet interactions keep\<close>

locale quiet_steps =
  fixes ok :: "sw_state \<Rightarrow> bool"
  assumes quiet_keeps: "quiet act \<Longrightarrow> ok s \<Longrightarrow> ok (after_quiet act q rs s)"
begin

lemma triple_interact_quiet:
  assumes "quiet act" "stable P"
  shows "triple ok (\<lambda>s. s) P (interact_sw act) (\<lambda>q s. P s \<and> (tag s, act, q) \<in> set (trail s) \<and> truthful act q s)"
proof (rule triple_interact)
  fix s q rs assume "P s"
  then have "P (after_quiet act q rs s)" by (rule quiet_stable [OF assms])
  then show "P (after_quiet act q rs s) \<and> (truthful act q s \<longrightarrow>
      (tag (after_quiet act q rs s), act, q) \<in> set (trail (after_quiet act q rs s)) \<and> truthful act q (after_quiet act q rs s))"
    by (simp add: assms(1) truthful_def)
qed (rule quiet_keeps [OF assms(1)])

lemma triple_ask:
  assumes "quiet act" "stable P"
  shows "triple ok (\<lambda>s. s) P (ask act) (\<lambda>v s. P s \<and> (tag s, act, Got v) \<in> set (trail s))"
  unfolding ask_def
  by (rule triple_bind [OF triple_interact_quiet [OF assms]]) (auto split: sw_reply.split)

lemma triple_tell_seen:
  assumes "quiet act" "stable P"
  shows "triple ok (\<lambda>s. s) P (tell act) (\<lambda>_ s. P s \<and> (\<exists>v. (tag s, act, Got v) \<in> set (trail s)))"
  unfolding tell_def by (rule triple_bind [OF triple_ask [OF assms]]) auto

lemma triple_tell: "quiet act \<Longrightarrow> stable P \<Longrightarrow> triple ok (\<lambda>s. s) P (tell act) (\<lambda>_. P)"
  by (rule triple_weaken [OF triple_tell_seen [where P = P]]) auto

lemma triple_status:
  assumes "stable P"
  shows "triple ok (\<lambda>s. s) P (status box) (\<lambda>d s. P s \<and> (d = controller_status box (markers s box) \<or> d = unreachable box))"
  unfolding status_def
  by (rule triple_bind [OF triple_interact_quiet [OF _ assms]]) (auto simp: truthful_def split: sw_reply.split)

lemma triple_git:
  assumes "stable P"
  shows "triple ok (\<lambda>s. s) P (git box args)
    (\<lambda>out s. P s \<and> (\<exists>v. (tag s, Git box args, Got (PStr v)) \<in> set (trail s) \<and> strip_chars is_space v = out))"
  unfolding git_def
  by (rule triple_bind [OF triple_ask [OF _ assms]]) (auto split: pyval.split)

lemma triple_git_any: "stable P \<Longrightarrow> triple ok (\<lambda>s. s) P (git box args) (\<lambda>_. P)"
  by (rule triple_weaken [OF triple_git [where P = P]]) auto

lemma triple_git_do_seen:
  assumes "stable P"
  shows "triple ok (\<lambda>s. s) P (git_do box args) (\<lambda>_ s. P s \<and> (\<exists>v. (tag s, Git box args, Got v) \<in> set (trail s)))"
  unfolding git_do_def by (rule triple_bind [OF triple_git [OF assms]]) auto

lemma triple_git_do: "stable P \<Longrightarrow> triple ok (\<lambda>s. s) P (git_do box args) (\<lambda>_. P)"
  by (rule triple_weaken [OF triple_git_do_seen [where P = P]]) auto

lemma triple_states:
  assumes "stable P"
  shows "triple ok (\<lambda>s. s) P (states r) (\<lambda>(old, new) s. P s \<and>
    old = controller_status (sw_old r) (markers s (sw_old r)) \<and> new = controller_status (sw_new r) (markers s (sw_new r)))"
  unfolding states_def
  by (rule triple_bind [OF triple_status [OF assms]],
      rule triple_bind [OF triple_status [where box = "sw_new r"]],
      force simp: stable_def assms [unfolded stable_def],
      intro triple_require_then)
    (auto simp: is_reachable_def unreachable_def intro!: triple_return)

lemma triple_states_any: "stable P \<Longrightarrow> triple ok (\<lambda>s. s) P (states r) (\<lambda>_. P)"
  by (rule triple_weaken [OF triple_states [where P = P]]) auto

lemma triple_ask_any: "quiet act \<Longrightarrow> stable P \<Longrightarrow> triple ok (\<lambda>s. s) P (ask act) (\<lambda>_. P)"
  by (rule triple_weaken [OF triple_ask [where P = P]]) auto

lemmas asking = triple_must triple_lift triple_tell triple_ask_any triple_git_any triple_git_do triple_states_any

lemma triple_placement_seen:
  assumes "stable P"
  shows "triple ok (\<lambda>s. s) P (rbind (ask (ReadPlacement box)) (\<lambda>observed. rbind (rrequire (py_eq observed v) msg)
      (\<lambda>_. tell (Development box))))
    (\<lambda>_ s. P s \<and> (\<exists>doc. (tag s, ReadPlacement box, Got doc) \<in> set (trail s) \<and> py_eq doc v))"
proof (rule triple_bind [OF triple_ask [OF quiet_acts(7) assms]], rule triple_require_then)
  fix doc assume eq: "py_eq doc v"
  have "stable (\<lambda>s. P s \<and> (tag s, ReadPlacement box, Got doc) \<in> set (trail s))"
    using assms by (simp add: stable_def)
  from triple_tell [OF quiet_acts(8) this] show "triple ok (\<lambda>s. s) (\<lambda>s. P s \<and> (tag s, ReadPlacement box, Got doc) \<in> set (trail s)) (tell (Development box))
      (\<lambda>_ s. P s \<and> (\<exists>doc. (tag s, ReadPlacement box, Got doc) \<in> set (trail s) \<and> py_eq doc v))"
    by (rule triple_weaken) (use eq in auto)
qed

lemma triple_readiness_seen:
  assumes "stable P"
  shows "triple ok (\<lambda>s. s) P (require_readiness box old (Some v))
    (\<lambda>_ s. P s \<and> (\<exists>doc. (tag s, ReadPlacement box, Got doc) \<in> set (trail s) \<and> py_eq doc v))"
  unfolding require_readiness_def option.case
  by (rule triple_then [OF triple_ask_any [OF quiet_acts(6) assms]], rule triple_then [OF triple_lift])+
    (rule triple_placement_seen [OF assms])

lemma triple_readiness: "stable P \<Longrightarrow> triple ok (\<lambda>s. s) P (require_readiness box old placement) (\<lambda>_. P)"
  unfolding require_readiness_def by (intro triple_then asking quiet_acts)

lemma triple_identity: "stable P \<Longrightarrow> triple ok (\<lambda>s. s) P (credential_identity box) (\<lambda>_. P)"
  unfolding credential_identity_def
  by (rule triple_then [OF triple_ask_any])
    (auto split: pyval.split list.split intro: triple_return)

lemma triple_promotion: "stable P \<Longrightarrow> triple ok (\<lambda>s. s) P (verify_promotion box) (\<lambda>_. P)"
  unfolding verify_promotion_def by (intro triple_then asking quiet_acts)

lemma triple_commit: "stable P \<Longrightarrow> triple ok (\<lambda>s. s) P (commit_placement r) (\<lambda>_. P)"
  unfolding commit_placement_def
  by (intro triple_then asking quiet_acts triple_if triple_in_order triple_return) (auto intro!: triple_then asking)

lemmas steps = triple_then asking quiet_acts triple_readiness triple_identity triple_promotion

end

end
