(* ===== verification/Controller_Runs.thy ===== *)
theory Controller_Runs
  imports Controller_Rules
begin

text \<open>
  What holds in every history of switches, handoffs and demotions between two controllers, whatever fails and
  wherever the process dies: as long as no handoff found a controller unreachable, the markers never make both active;
  and a switch activates its destination only after the placement is pushed, the destination has it, and the old
  controller refuses to act.
\<close>

section \<open>The invariant\<close>

definition exclusive :: "string \<Rightarrow> string \<Rightarrow> sw_state \<Rightarrow> bool" where
  "exclusive a b s \<longleftrightarrow> \<not> (active_marker a (markers s a) \<and> active_marker b (markers s b))"

text \<open>Every controller whose status a handoff asked for answered. (A switch asks under the name of its operation, and
  goes no further without an answer.)\<close>

definition answered :: "sw_entry list \<Rightarrow> bool" where
  "answered tr \<longleftrightarrow> (\<forall>box q. (None, Status box, q) \<in> set tr \<longrightarrow> (\<exists>v. q = Got v))"

lemma answered_snoc: "answered (tr @ [e]) \<Longrightarrow> answered tr"
  by (auto simp: answered_def)

definition got :: "sw_entry list \<Rightarrow> switch_record \<Rightarrow> sw_act \<Rightarrow> pyval \<Rightarrow> bool" where
  "got tr r a v \<longleftrightarrow> (Some (sw_operation r), a, Got v) \<in> set tr"

definition pushed :: "switch_record \<Rightarrow> sw_entry list \<Rightarrow> bool" where
  "pushed r tr \<longleftrightarrow> (\<exists>v out. got tr r (Git (sw_old r) [''push'', ''origin'', ''HEAD:main'']) v \<and>
     got tr r (Git (sw_old r) [''rev-parse'', UPSTREAM]) (PStr out) \<and> strip_chars is_space out = sw_published r)"

definition delivered :: "switch_record \<Rightarrow> sw_entry list \<Rightarrow> bool" where
  "delivered r tr \<longleftrightarrow> (\<exists>v doc. got tr r (PullInstance (sw_new r)) v \<and> got tr r (ReadPlacement (sw_new r)) doc \<and>
     py_eq doc (placement_after r))"

definition stood_down :: "switch_record \<Rightarrow> sw_entry list \<Rightarrow> bool" where
  "stood_down r tr \<longleftrightarrow> got tr r (Guard (sw_old r)) (PInt 78)"

definition phase_names :: "string list" where
  "phase_names = [''prepared'', ''publishing'', ''published'', ''synchronized'', ''demoted'', ''activated'', ''complete'']"

definition reached :: "string \<Rightarrow> switch_record \<Rightarrow> bool" where
  "reached phase r \<longleftrightarrow> sw_phase r \<in> set (dropWhile (\<lambda>p. p \<noteq> phase) phase_names)"

definition evidence :: "switch_record \<Rightarrow> sw_entry list \<Rightarrow> bool" where
  "evidence r tr \<longleftrightarrow> (reached ''published'' r \<longrightarrow> pushed r tr) \<and> (reached ''synchronized'' r \<longrightarrow> delivered r tr) \<and>
     (reached ''demoted'' r \<longrightarrow> stood_down r tr)"

definition records_ok :: "sw_state \<Rightarrow> bool" where
  "records_ok s \<longleftrightarrow> (\<forall>box. \<forall>(op, r)\<in>set (stores s box). sw_old r = box \<and> sw_operation r = op \<and> evidence r (trail s))"

text \<open>An activation by a switch is justified by what its operation did before.\<close>

definition justified :: "sw_entry list \<Rightarrow> sw_entry \<Rightarrow> bool" where
  "justified before e \<longleftrightarrow> (\<forall>op box active q. e = (Some op, SetMarker box ''active'' active, q) \<longrightarrow>
     active = box \<and> (\<exists>r. sw_operation r = op \<and> sw_new r = box \<and> sw_old r \<noteq> box \<and>
       pushed r before \<and> delivered r before \<and> stood_down r before))"

definition ordered :: "sw_entry list \<Rightarrow> bool" where
  "ordered tr \<longleftrightarrow> (\<forall>before e after. tr = before @ e # after \<longrightarrow> justified before e)"

definition sw_ok :: "string \<Rightarrow> string \<Rightarrow> sw_state \<Rightarrow> bool" where
  "sw_ok a b s \<longleftrightarrow> (answered (trail s) \<longrightarrow> exclusive a b s) \<and> records_ok s \<and> ordered (trail s)"

lemma ordered_snoc: "ordered (tr @ [e]) \<longleftrightarrow> ordered tr \<and> justified tr e"
proof
  assume 1: "ordered (tr @ [e])"
  then have "justified tr e" unfolding ordered_def by blast
  moreover have "ordered tr" unfolding ordered_def
  proof (intro allI impI)
    fix before x "after" assume "tr = before @ x # after"
    then have "tr @ [e] = before @ x # (after @ [e])" by simp
    with 1 show "justified before x" unfolding ordered_def by blast
  qed
  ultimately show "ordered tr \<and> justified tr e" by simp
next
  assume 1: "ordered tr \<and> justified tr e"
  show "ordered (tr @ [e])" unfolding ordered_def
  proof (intro allI impI)
    fix before x "after" assume 2: "tr @ [e] = before @ x # after"
    show "justified before x"
    proof (cases "after" rule: rev_cases)
      case Nil
      with 2 1 show ?thesis by simp
    next
      case (snoc ys y)
      with 2 have "tr = before @ x # ys" by simp
      with 1 show ?thesis unfolding ordered_def by blast
    qed
  qed
qed

lemma got_mono: "got tr r a v \<Longrightarrow> got (tr @ [e]) r a v"
  by (simp add: got_def)

lemma evidence_mono [simp]:
  "pushed r tr \<Longrightarrow> pushed r (tr @ [e])" "delivered r tr \<Longrightarrow> delivered r (tr @ [e])"
  "stood_down r tr \<Longrightarrow> stood_down r (tr @ [e])" "evidence r tr \<Longrightarrow> evidence r (tr @ [e])"
  by (auto simp: evidence_def pushed_def delivered_def stood_down_def intro: got_mono)

lemma reached_simps [simp]: "reached p (r\<lparr>sw_phase := q\<rparr>) \<longleftrightarrow> q \<in> set (dropWhile (\<lambda>p'. p' \<noteq> p) phase_names)"
  "reached p (r\<lparr>sw_published := x\<rparr>) \<longleftrightarrow> reached p r"
  by (simp_all add: reached_def)

lemma got_simps [simp]: "got tr (r\<lparr>sw_phase := q\<rparr>) = got tr r" "got tr (r\<lparr>sw_published := x\<rparr>) = got tr r"
  by (simp_all add: got_def fun_eq_iff)

lemma placement_after_phase [simp]: "placement_after (r\<lparr>sw_phase := q\<rparr>) = placement_after r"
  by (simp add: placement_after_def)

lemma evidence_phase [simp]:
  "pushed (r\<lparr>sw_phase := q\<rparr>) tr = pushed r tr" "delivered (r\<lparr>sw_phase := q\<rparr>) tr = delivered r tr"
  "stood_down (r\<lparr>sw_phase := q\<rparr>) tr = stood_down r tr"
  by (simp_all add: pushed_def delivered_def stood_down_def placement_after_def)


section \<open>Rules for the interactions\<close>

abbreviation sw_triple ::
  "string \<Rightarrow> string \<Rightarrow> (sw_state \<Rightarrow> bool) \<Rightarrow> 'a sw_run \<Rightarrow> ('a \<Rightarrow> sw_state \<Rightarrow> bool) \<Rightarrow> bool" where
  "sw_triple a b \<equiv> triple (sw_ok a b) (\<lambda>s. s)"

lemma quiet_justified: "quiet act \<Longrightarrow> justified tr (t, act, q)"
  by (auto simp: justified_def quiet_def)

lemma sw_ok_quiet: "quiet act \<Longrightarrow> sw_ok a b s \<Longrightarrow> sw_ok a b (after_quiet act q rs s)"
  by (auto simp: sw_ok_def exclusive_def records_ok_def ordered_snoc quiet_justified dest!: bspec dest: answered_snoc)

interpretation sw: quiet_steps "sw_ok a b" for a b
  by unfold_locales (rule sw_ok_quiet)


section \<open>The phases of a switch\<close>

text \<open>The record in hand belongs to the pair and to the operation of the session, and what it says is true.\<close>

definition in_hand :: "string \<Rightarrow> string \<Rightarrow> switch_record \<Rightarrow> sw_state \<Rightarrow> bool" where
  "in_hand a b r s \<longleftrightarrow> tag s = Some (sw_operation r) \<and> sw_old r \<noteq> sw_new r \<and> {sw_old r, sw_new r} = {a, b} \<and>
     evidence r (trail s)"

lemma stable_rules [simp]:
  "stable (\<lambda>s. c)" "stable (in_hand a b r)"
  "stable (\<lambda>s. pushed r (trail s))" "stable (\<lambda>s. delivered r (trail s))" "stable (\<lambda>s. stood_down r (trail s))"
  "stable (\<lambda>s. got (trail s) r act v)"
  by (simp_all add: stable_def in_hand_def got_mono)

lemmas steps = sw.steps stable_rules stable_basic

text \<open>Writing a record that is true, and writing a marker.\<close>


lemma triple_save: "sw_triple a b (in_hand a b r) (save r) (\<lambda>_. in_hand a b r)"
proof (rule tripleI)
  fix s x s' assume ok: "sw_ok a b s" and p: "in_hand a b r s" and run: "save r s = (x, s')"
  show "sw_ok a b s' \<and> (\<forall>y. x = Inr y \<longrightarrow> in_hand a b r s')"
  proof (cases "answers s")
    case Nil
    with run ok show ?thesis by (auto simp: save_def tell_def ask_def rbind_def interact_sw_def)
  next
    case (Cons q rs)
    let ?t = "s\<lparr>answers := rs, trail := trail s @ [(tag s, WriteRecord r, q)]\<rparr>"
    have s': "s' = (if q = Lost then ?t else sw_store r ?t)"
      using run Cons by (auto simp: save_def tell_def ask_def rbind_def interact_sw_def Let_def rreturn_def raise_def
          split: sw_reply.splits)
    have t: "sw_ok a b ?t"
      using ok by (auto simp: sw_ok_def exclusive_def records_ok_def ordered_snoc justified_def dest!: bspec dest: answered_snoc)
    have "evidence r (trail ?t)" using p by (simp add: in_hand_def)
    then have "sw_ok a b (sw_store r ?t)"
      using t by (auto simp: sw_ok_def exclusive_def records_ok_def sw_store_def
          dest!: update_member bspec split: if_splits)
    with t p s' show ?thesis by (auto simp: in_hand_def sw_store_def)
  qed
qed


lemma triple_marker:
  assumes keep: "\<And>s q rs. sw_ok a b s \<Longrightarrow> P s \<Longrightarrow>
      (answered (trail s) \<longrightarrow> exclusive a b (after_marker (SetMarker box role active) q rs s)) \<and>
      justified (trail s) (tag s, SetMarker box role active, q)"
    and post: "\<And>s q rs. P s \<Longrightarrow> Q (after_marker (SetMarker box role active) q rs s)"
  shows "sw_triple a b P (tell (SetMarker box role active)) (\<lambda>_. Q)"
proof (rule tripleI)
  fix s x s' assume ok: "sw_ok a b s" and p: "P s" and run: "tell (SetMarker box role active) s = (x, s')"
  show "sw_ok a b s' \<and> (\<forall>y. x = Inr y \<longrightarrow> Q s')"
  proof (cases "answers s")
    case Nil
    with run ok show ?thesis by (auto simp: tell_def ask_def rbind_def interact_sw_def)
  next
    case (Cons q rs)
    have s': "s' = after_marker (SetMarker box role active) q rs s"
      using run Cons by (auto simp: after_marker_def tell_def ask_def rbind_def interact_sw_def Let_def rreturn_def raise_def
          split: sw_reply.splits)
    have "records_ok s' \<and> trail s' = trail s @ [(tag s, SetMarker box role active, q)]"
      using ok by (auto simp: s' after_marker_def Let_def sw_ok_def records_ok_def dest!: bspec)
    with keep [OF ok p, of q rs] post [OF p] ok s' show ?thesis
      by (auto simp: sw_ok_def ordered_snoc dest: answered_snoc)
  qed
qed


lemma unmarked_rules [simp]: "unmarked (\<lambda>s. c)" "unmarked (in_hand a b r)" "unmarked (\<lambda>s. tag s = t)"
  by (simp_all add: unmarked_def in_hand_def)


lemma after_standby_exclusive: "exclusive a b s \<Longrightarrow> exclusive a b (after_marker (SetMarker box ''standby'' active) q rs s)"
  by (auto simp: exclusive_def after_marker_def Let_def)

lemma triple_standby:
  assumes "unmarked P"
  shows "sw_triple a b P (tell (SetMarker box ''standby'' active)) (\<lambda>_. P)"
  by (rule triple_marker)
    (auto simp: sw_ok_def justified_def intro: after_standby_exclusive after_marker_unmarked [OF assms])

lemma after_active_exclusive:
  assumes "{box, other} = {a, b}" "a \<noteq> b" "\<not> active_marker other (markers s other)" "exclusive a b s"
  shows "exclusive a b (after_marker (SetMarker box ''active'' box) q rs s)"
  using assms by (auto simp: exclusive_def after_marker_def Let_def doubleton_eq_iff)

lemma triple_activate:
  "sw_triple a b (\<lambda>s. in_hand a b r s \<and> reached ''demoted'' r \<and> \<not> active_marker (sw_old r) (markers s (sw_old r)))
    (tell (SetMarker (sw_new r) ''active'' (sw_new r))) (\<lambda>_. in_hand a b r)"
proof (rule triple_marker)
  fix s q rs
  assume ok: "sw_ok a b s" and p: "in_hand a b r s \<and> reached ''demoted'' r \<and> \<not> active_marker (sw_old r) (markers s (sw_old r))"
  have "reached ''published'' r \<and> reached ''synchronized'' r"
    using p by (auto simp: reached_def phase_names_def)
  with p ok show "(answered (trail s) \<longrightarrow> exclusive a b (after_marker (SetMarker (sw_new r) ''active'' (sw_new r)) q rs s)) \<and>
      justified (trail s) (tag s, SetMarker (sw_new r) ''active'' (sw_new r), q)"
    by (auto simp: sw_ok_def in_hand_def evidence_def justified_def doubleton_eq_iff
        intro!: after_active_exclusive [where other = "sw_old r"])
next
  fix s q rs
  assume "in_hand a b r s \<and> reached ''demoted'' r \<and> \<not> active_marker (sw_old r) (markers s (sw_old r))"
  then show "in_hand a b r (after_marker (SetMarker (sw_new r) ''active'' (sw_new r)) q rs s)"
    by (auto intro: after_marker_unmarked)
qed

lemma triple_activate_handoff:
  assumes "{new, old} = {a, b}" "a \<noteq> b"
  shows "sw_triple a b (\<lambda>s. tag s = None \<and> (answered (trail s) \<longrightarrow> \<not> active_marker old (markers s old)))
    (tell (SetMarker new ''active'' new)) (\<lambda>_ s. tag s = None)"
  by (rule triple_marker)
    (auto simp: sw_ok_def justified_def intro: after_active_exclusive [OF assms] after_marker_unmarked)

lemma triple_enter: "sw_triple a b (in_hand a b (r\<lparr>sw_phase := p\<rparr>)) (enter r p) (in_hand a b)"
  unfolding enter_def Let_def by (rule triple_bind [OF triple_save]) auto

lemma enter_from:
  assumes "\<And>s. P s \<Longrightarrow> in_hand a b (r\<lparr>sw_phase := p\<rparr>) s"
  shows "sw_triple a b P (enter r p) (in_hand a b)"
  using triple_enter by (rule triple_weaken) (use assms in auto)

lemma triple_prepared: "sw_phase r = ''prepared'' \<Longrightarrow> sw_triple a b (in_hand a b r) (prepared old new r) (in_hand a b)"
  unfolding prepared_def
  by (intro steps enter_from) (simp add: in_hand_def evidence_def phase_names_def)

lemma triple_push: "sw_triple a b (in_hand a b r) (push_placement r) (\<lambda>_ s. in_hand a b r s \<and> pushed r (trail s))"
proof -
  let ?P = "\<lambda>s. in_hand a b r s \<and>
    (\<exists>v. got (trail s) r (Git (sw_old r) [''push'', ''origin'', ''HEAD:main'']) v)"
  have P: "stable ?P" by (intro stable_conj stable_ex stable_rules)
  have 1: "sw_triple a b (in_hand a b r) (git_do (sw_old r) [''push'', ''origin'', ''HEAD:main'']) (\<lambda>_. ?P)"
    by (rule triple_weaken [OF sw.triple_git_do_seen [OF stable_rules(2) [of a b r]]]) (auto simp: in_hand_def got_def)
  have 2: "sw_triple a b ?P (rbind (git (sw_old r) [''rev-parse'', UPSTREAM])
      (\<lambda>upstream. rrequire (upstream = sw_published r) msg)) (\<lambda>_ s. in_hand a b r s \<and> pushed r (trail s))" for msg
    by (rule triple_bind [OF sw.triple_git [OF P]], rule triple_require_weaken)
      (auto simp: pushed_def got_def in_hand_def)
  show ?thesis
    unfolding push_placement_def
    by (rule triple_then [OF triple_save], rule triple_then [OF sw.triple_tell], simp, simp,
        rule triple_bind [OF 1], rule 2)
qed

lemma triple_write_placement: "sw_triple a b (in_hand a b r) (write_placement r changed expected) (\<lambda>_. in_hand a b r)"
proof -
  have put: "sw_triple a b (in_hand a b r) (tell (WriteInstance box doc)) (\<lambda>_. in_hand a b r)" for box doc
    by (rule triple_tell_quiet, rule sw_ok_quiet) (auto simp: after_quiet_def in_hand_def Let_def)
  show ?thesis
    unfolding write_placement_def
    by (intro triple_then [OF triple_must] triple_then [OF sw.triple_git_do] triple_then [OF sw.triple_git_any]
        triple_then [OF sw.triple_tell] put quiet_acts stable_rules)
qed

lemma triple_publishing: "sw_phase r = ''publishing'' \<Longrightarrow> sw_triple a b (in_hand a b r) (publishing r) (in_hand a b)"
proof -
  assume phase: "sw_phase r = ''publishing''"
  have push: "sw_triple a b (in_hand a b r) (push_placement (r\<lparr>sw_published := x\<rparr>))
      (\<lambda>_ s. in_hand a b (r\<lparr>sw_published := x\<rparr>) s \<and> pushed (r\<lparr>sw_published := x\<rparr>) (trail s))" for x
    by (rule triple_weaken [OF triple_push])
      (use phase in \<open>auto simp: in_hand_def evidence_def reached_def phase_names_def\<close>)
  have publish: "sw_triple a b (in_hand a b r) (publish_instance r)
      (\<lambda>r' s. in_hand a b r' s \<and> pushed r' (trail s) \<and> sw_phase r' = ''publishing'')"
    unfolding publish_instance_def Let_def
    by (intro triple_then [OF sw.triple_ask_any] triple_then [OF triple_lift] triple_then [OF triple_must]
          triple_then [OF sw.triple_git_any] triple_then [OF sw.triple_tell] triple_then [OF sw.triple_commit]
          triple_then [OF triple_if [OF triple_write_placement triple_return]] triple_bind [OF push]
          quiet_acts stable_rules triple_return)
      (auto simp: phase)
  show ?thesis
    unfolding publishing_def
    by (rule triple_bind [OF publish], rule enter_from) (auto simp: in_hand_def evidence_def phase_names_def)
qed

lemma triple_published: "sw_phase r = ''published'' \<Longrightarrow> sw_triple a b (in_hand a b r) (published r) (in_hand a b)"
proof -
  assume phase: "sw_phase r = ''published''"
  let ?P = "\<lambda>s. in_hand a b r s \<and> (\<exists>v. got (trail s) r (PullInstance (sw_new r)) v)"
  have P: "stable ?P" by (intro stable_conj stable_ex stable_rules)
  have pull: "sw_triple a b (in_hand a b r) (tell (PullInstance (sw_new r))) (\<lambda>_. ?P)"
    by (rule triple_weaken [OF sw.triple_tell_seen [OF quiet_acts(17) stable_rules(2) [of a b r]]]) (auto simp: in_hand_def got_def)
  show ?thesis
    unfolding published_def
    by (rule triple_then [OF sw.triple_tell], simp, simp, rule triple_bind [OF pull],
        rule triple_bind [OF sw.triple_readiness_seen [OF P]], rule enter_from)
      (use phase in \<open>auto simp: in_hand_def evidence_def reached_def phase_names_def delivered_def got_def\<close>)
qed

lemma triple_synchronized:
  "sw_phase r = ''synchronized'' \<Longrightarrow> sw_triple a b (in_hand a b r) (synchronized r) (in_hand a b)"
proof -
  assume phase: "sw_phase r = ''synchronized''"
  have stop: "sw_triple a b (in_hand a b r) (if c then in_order [check_locks, tell (SetMarker (sw_old r) ''standby'' (sw_new r))]
      else rreturn ()) (\<lambda>_. in_hand a b r)" for c
    by (intro triple_if triple_in_order triple_return) (auto intro!: steps triple_standby)
  show ?thesis
    unfolding synchronized_def
    apply (rule triple_then [OF sw.triple_tell], simp, simp, rule triple_then [OF sw.triple_states_any], simp)
    apply (simp only: split_paired_all prod.case)
    apply (rule triple_then [OF triple_must], rule triple_then [OF stop], rule triple_then [OF sw.triple_states_any], simp)
    apply (simp only: split_paired_all prod.case)
    apply (rule triple_then [OF triple_must], rule triple_bind [OF sw.triple_ask], simp, simp, rule triple_require_then, rule enter_from)
    using phase apply (auto simp: in_hand_def evidence_def reached_def phase_names_def stood_down_def got_def)
    done
qed

lemma triple_demoted: "sw_phase r = ''demoted'' \<Longrightarrow> sw_triple a b (in_hand a b r) (demoted r) (in_hand a b)"
proof -
  assume phase: "sw_phase r = ''demoted''"
  let ?P = "\<lambda>s. in_hand a b r s \<and> \<not> active_marker (sw_old r) (markers s (sw_old r))"
  have P: "stable ?P" by (simp add: stable_def in_hand_def)
  have start: "sw_triple a b ?P (in_order [check_locks, tell (SetMarker (sw_new r) ''active'' (sw_new r))])
      (\<lambda>_. in_hand a b r)"
    by (rule triple_in_order_Cons [OF sw.triple_tell [OF quiet_acts(2) P]], rule triple_in_order_Cons [OF _ triple_in_order_Nil],
        rule triple_weaken [OF triple_activate])
      (auto simp: phase reached_def phase_names_def)
  have enter: "sw_triple a b (in_hand a b r) (enter r ''activated'') (in_hand a b)"
    by (rule enter_from) (use phase in \<open>auto simp: in_hand_def evidence_def reached_def phase_names_def\<close>)
  show ?thesis
    unfolding demoted_def
    apply (rule triple_then [OF sw.triple_tell], simp, simp, rule triple_bind [OF sw.triple_states], simp)
    apply (simp only: split_paired_all prod.case)
    apply (rule triple_require_then, rule triple_bind [OF _ enter], rule triple_if)
     apply (auto intro!: triple_return)[1]
    apply (rule triple_require_then, rule triple_weaken [OF start])
     apply (auto simp: is_active_def active_marker_def)
    done
qed

lemma triple_activated: "sw_phase r = ''activated'' \<Longrightarrow> sw_triple a b (in_hand a b r) (activated r) (in_hand a b)"
  unfolding activated_def
  by (intro steps enter_from) (auto simp: in_hand_def evidence_def reached_def phase_names_def)


section \<open>Switches, handoffs and histories\<close>

lemma triple_at_phase:
  "(sw_phase r = p \<Longrightarrow> sw_triple a b (in_hand a b r) (f r) (in_hand a b)) \<Longrightarrow>
    sw_triple a b (in_hand a b r) (at_phase p f r) (in_hand a b)"
  by (auto simp: at_phase_def intro: triple_return)

lemma triple_completed: "sw_triple a b (in_hand a b r) (completed r) (in_hand a b)"
  unfolding completed_def
  apply (intro triple_then [OF triple_must] triple_then [OF sw.triple_states_any] stable_rules)
  apply (simp only: split_paired_all prod.case)
  apply (intro triple_then [OF triple_must] triple_return)
  apply assumption
  done

lemma triple_transition: "sw_triple a b (in_hand a b r) (transition r) (in_hand a b)"
  unfolding transition_def
  apply (rule triple_then [OF sw.triple_tell], simp, simp, rule triple_then [OF sw.triple_states_any], simp)
  apply (simp only: split_paired_all prod.case)
  apply (intro triple_bind [OF triple_at_phase] triple_prepared triple_publishing triple_published triple_synchronized
      triple_demoted triple_activated triple_completed)
  apply simp_all
  done

definition on_pair :: "string \<Rightarrow> string \<Rightarrow> string \<Rightarrow> string \<Rightarrow> bool" where
  "on_pair a b old new \<longleftrightarrow> {old, new} = {a, b}"

lemma sw_ok_tag [simp]: "sw_ok a b (s\<lparr>tag := t\<rparr>) = sw_ok a b s"
  by (simp add: sw_ok_def exclusive_def records_ok_def)

lemma triple_resume:
  assumes "on_pair a b (ar_old args) (ar_new args)" "ar_old args \<noteq> ar_new args"
  shows "sw_triple a b (\<lambda>_. True) (resume_record args) (in_hand a b)"
proof (rule tripleI)
  fix s x s' assume ok: "sw_ok a b s" and run: "resume_record args s = (x, s')"
  show "sw_ok a b s' \<and> (\<forall>r. x = Inr r \<longrightarrow> in_hand a b r s')"
  proof (cases "map_of (stores s (ar_old args)) (requested args)")
    case None
    with run ok show ?thesis by (auto simp: resume_record_def raise_def)
  next
    case (Some r)
    then have "evidence r (trail s)"
      using ok map_of_SomeD [OF Some] unfolding sw_ok_def records_ok_def by blast
    with Some run ok assms show ?thesis
      by (auto simp: resume_record_def rbind_def rrequire_def raise_def rreturn_def set_tag_def in_hand_def on_pair_def
          split: if_splits)
  qed
qed

lemma triple_new:
  assumes "on_pair a b (ar_old args) (ar_new args)" "ar_old args \<noteq> ar_new args"
  shows "sw_triple a b (\<lambda>_. True) (new_record args) (in_hand a b)"
proof -
  have scan: "sw_triple a b (\<lambda>_. True) (\<lambda>s. rrequire (\<forall>(op, r)\<in>set (stores s (ar_old args)). sw_phase r = ''complete'') msg s) (\<lambda>_ _. True)" for msg
    by (auto simp: triple_def rrequire_def raise_def rreturn_def split: if_splits)
  have op: "sw_triple a b (\<lambda>_. True) (operation_id args) (\<lambda>_ _. True)"
    unfolding operation_id_def by (auto intro!: triple_then [OF sw.triple_ask_any] triple_lift triple_return)
  have tag: "sw_triple a b (\<lambda>_. True) (set_tag op) (\<lambda>_ s. tag s = Some op)" for op
    by (auto simp: triple_def set_tag_def)
  have save: "sw_triple a b (\<lambda>s. tag s = Some (sw_operation r)) (rbind (save r) (\<lambda>_. rreturn r)) (in_hand a b)"
    if r: "sw_phase r = ''prepared''" "sw_old r = ar_old args" "sw_new r = ar_new args" for r
  proof (rule triple_bind)
    show "sw_triple a b (\<lambda>s. tag s = Some (sw_operation r)) (save r) (\<lambda>_. in_hand a b r)"
      by (rule triple_weaken [OF triple_save])
        (use r assms in \<open>auto simp: in_hand_def on_pair_def evidence_def reached_def phase_names_def\<close>)
  qed (auto intro: triple_return)
  show ?thesis
    unfolding new_record_def Let_def
    apply (rule triple_then [OF scan])
    apply (intro triple_then [OF sw.triple_git_any] triple_then [OF triple_must] triple_then [OF op] triple_then [OF sw.triple_ask_any]
        quiet_acts stable_rules)
    apply (rule triple_bind [OF tag])
    apply (rule triple_weaken [OF save])
    apply simp_all
    done
qed


lemma triple_run_switch:
  assumes "on_pair a b (ar_old args) (ar_new args)"
  shows "sw_triple a b (\<lambda>_. True) (run_switch args) (\<lambda>_ _. True)"
proof -
  have choose: "sw_triple a b (\<lambda>_. True) (\<lambda>s. if resumes args s then resume_record args s else new_record args s) (in_hand a b)"
    if "ar_old args \<noteq> ar_new args"
    by (rule triple_either [OF triple_resume [OF assms that] triple_new [OF assms that]])
  show ?thesis
    unfolding run_switch_def
    apply (rule triple_require_then)
    apply (intro triple_then [OF triple_must] triple_if triple_return triple_then [OF sw.triple_tell] quiet_acts stable_rules)
      apply simp
     apply simp
    apply (rule triple_bind [OF choose], assumption)
    apply (rule triple_bind [OF triple_transition])
    apply (rule triple_then [OF sw.triple_tell])
      apply (auto intro: triple_return)
    done
qed

text \<open>A handoff knows the status of the old controller or has found it unreachable, which it accepts only in an
  emergency.\<close>

lemma stable_unanswered [simp]: "stable (\<lambda>s. \<not> answered (trail s))"
  by (auto simp: stable_def dest: answered_snoc)

lemma is_reachable_status [simp]: "is_reachable (controller_status box m)"
  by (simp add: is_reachable_def controller_status_def)

lemma triple_status_answered:
  assumes "stable P" "\<And>s. P s \<Longrightarrow> tag s = None"
  shows "sw_triple a b P (status box)
    (\<lambda>d s. P s \<and> (d = controller_status box (markers s box) \<or> d = unreachable box \<and> \<not> answered (trail s)))"
  unfolding status_def
  by (rule triple_bind [OF sw.triple_interact_quiet [OF _ assms(1)]])
    (force simp: truthful_def answered_def assms(2) intro!: triple_return split: sw_reply.split)+

lemma triple_demote_old:
  fixes args
  defines "o_box \<equiv> ho_old_active args"
  shows "sw_triple a b (\<lambda>s. tag s = None \<and> old = controller_status o_box (markers s o_box)) (demote_old args old promoted)
    (\<lambda>_ s. tag s = None \<and> \<not> active_marker o_box (markers s o_box))"
proof -
  let ?P = "\<lambda>s. tag s = None \<and> old = controller_status o_box (markers s o_box)"
  have P: "stable ?P" by (simp add: stable_def)
  have N: "stable (\<lambda>s. tag s = None)" by simp
  have verify: "sw_triple a b (\<lambda>s. tag s = None) (rbind (status o_box) (\<lambda>d. rrequire (is_reachable d \<and> \<not> is_active d \<and>
      has_role d ''standby'' \<and> names_active d (ho_new_active args)) msg))
      (\<lambda>_ s. tag s = None \<and> \<not> active_marker o_box (markers s o_box))" for msg
    by (rule triple_bind [OF sw.triple_status [OF N]], rule triple_require_weaken)
      (auto simp: is_active_def active_marker_def is_reachable_def unreachable_def)
  have stand: "sw_triple a b ?P (rbind (tell (SetMarker o_box ''standby'' (ho_new_active args))) (\<lambda>_. m))
      (\<lambda>_ s. tag s = None \<and> \<not> active_marker o_box (markers s o_box))"
    if "sw_triple a b (\<lambda>s. tag s = None) m (\<lambda>_ s. tag s = None \<and> \<not> active_marker o_box (markers s o_box))" for m :: "unit sw_run"
    by (rule triple_bind [OF triple_weaken [OF triple_standby [OF unmarked_rules(3) [of None]]]]) (use that in auto)
  show ?thesis
    unfolding demote_old_def Let_def o_box_def [symmetric]
    apply (rule triple_then [OF sw.triple_tell [OF quiet_acts(10) P]], rule triple_then [OF triple_must], rule triple_if)
     apply (rule triple_return, force simp: is_active_def active_marker_def)
    apply (rule triple_then [OF triple_must], rule triple_then [OF sw.triple_tell [OF quiet_acts(10) P]])
    apply (rule stand, rule verify)
    done
qed

lemma triple_handoff:
  assumes pair: "on_pair a b (ho_old_active args) (ho_new_active args)" and "a \<noteq> b"
  shows "sw_triple a b (\<lambda>s. tag s = None) (handoff args) (\<lambda>_ _. True)"
proof -
  let ?o = "ho_old_active args" and ?n = "ho_new_active args"
  let ?off = "\<lambda>s. answered (trail s) \<longrightarrow> \<not> active_marker ?o (markers s ?o)"
  let ?P = "\<lambda>s. tag s = None" and ?R = "\<lambda>promoted s. tag s = None \<and> (promoted \<or> ?off s)"
  let ?known = "\<lambda>old s. ?P s \<and> (old = controller_status ?o (markers s ?o) \<or> old = unreachable ?o \<and> \<not> answered (trail s))"
  have start: "sw_triple a b (?R promoted) (if promoted then rreturn () else
      rbind (tell (CredentialsAbsent ?n)) (\<lambda>_. tell (SetMarker ?n ''active'' ?n))) (\<lambda>_ _. True)" for promoted
  proof (rule triple_if)
    assume no: "\<not> promoted"
    have "stable (?R promoted)" by (auto simp: stable_def dest: answered_snoc)
    moreover have "sw_triple a b (?R promoted) (tell (SetMarker ?n ''active'' ?n)) (\<lambda>_ _. True)"
      by (rule triple_weaken [OF triple_activate_handoff [of ?n ?o]]) (use no pair assms(2) in \<open>auto simp: on_pair_def\<close>)
    ultimately show "sw_triple a b (?R promoted)
        (rbind (tell (CredentialsAbsent ?n)) (\<lambda>_. tell (SetMarker ?n ''active'' ?n))) (\<lambda>_ _. True)"
      by (intro triple_then [OF sw.triple_tell] quiet_acts)
  qed (auto intro: triple_return)
  have known: "stable (?known old)" for old
    by (auto simp: stable_def dest: answered_snoc)
  have middle: "sw_triple a b (?known old) (if is_reachable old then demote_old args old promoted else rreturn ()) (\<lambda>_. ?R promoted)"
    for old promoted
  proof (rule triple_if)
    assume "is_reachable old"
    then show "sw_triple a b (?known old) (demote_old args old promoted) (\<lambda>_. ?R promoted)"
      by (intro triple_weaken [OF triple_demote_old]) (auto simp: is_reachable_def unreachable_def)
  qed (auto intro!: triple_return)
  show ?thesis
    unfolding handoff_def Let_def
    apply (rule triple_then [OF triple_must], rule triple_then [OF triple_must], rule triple_if, rule triple_return, simp)
    apply (rule triple_then [OF triple_must])
    apply (rule triple_then [OF triple_weaken [OF sw.triple_status [where P = ?P]]], simp, assumption, simp)
    apply (rule triple_bind [OF triple_status_answered [where P = ?P]], simp, assumption)
    apply (rule triple_require_then, rule triple_then [OF triple_must], rule triple_then [OF sw.triple_readiness [OF known]])
    apply (rule triple_bind [OF middle])
    apply (rule triple_bind [OF start], rule sw.triple_promotion, simp)
    done
qed

definition sw_boot :: "sw_reply list \<Rightarrow> sw_state \<Rightarrow> sw_state" where
  "sw_boot rs s = s\<lparr>tag := None, answers := rs\<rparr>"

text \<open>The commands one after the other, each with any replies and so cut off anywhere; between them anybody may edit,
  stage and commit the Instance files. Whether a controller is fenced in an emergency is the word of the operator.\<close>

inductive sw_history :: "string \<Rightarrow> string \<Rightarrow> sw_state \<Rightarrow> bool" for a b where
  start: "a \<noteq> b \<Longrightarrow> exclusive a b s \<Longrightarrow> \<forall>box. stores s box = [] \<Longrightarrow> trail s = [] \<Longrightarrow> sw_history a b s"
| switch: "sw_history a b s \<Longrightarrow> on_pair a b (ar_old args) (ar_new args) \<Longrightarrow>
    run_switch args (sw_boot rs s) = (x, s') \<Longrightarrow> sw_history a b s'"
| hand: "sw_history a b s \<Longrightarrow> on_pair a b (ho_old_active args) (ho_new_active args) \<Longrightarrow>
    handoff args (sw_boot rs s) = (y, s') \<Longrightarrow> sw_history a b s'"
| stand_down: "sw_history a b s \<Longrightarrow> demote box active dry (sw_boot rs s) = (y, s') \<Longrightarrow> sw_history a b s'"
| edit: "sw_history a b s \<Longrightarrow> sw_history a b (s\<lparr>instances := ins, indexed := ix, committed := cm\<rparr>)"

lemma triple_demote: "sw_triple a b (\<lambda>_. True) (demote box active dry) (\<lambda>_ _. True)"
  unfolding demote_def by (intro triple_if triple_return triple_standby) simp_all

lemma sw_boot_ok: "sw_ok a b (sw_boot rs s) = sw_ok a b s"
  by (simp add: sw_boot_def sw_ok_def exclusive_def records_ok_def)

lemma sw_history_ok: "sw_history a b s \<Longrightarrow> sw_ok a b s \<and> a \<noteq> b"
proof (induction rule: sw_history.induct)
  case (start s)
  then show ?case by (simp add: sw_ok_def records_ok_def ordered_def)
next
  case (switch s args rs x s')
  then show ?case using tripleD [OF triple_run_switch [of a b args], of "sw_boot rs s"] by (simp add: sw_boot_ok)
next
  case (hand s args rs y s')
  then show ?case using tripleD [OF triple_handoff [of a b args], of "sw_boot rs s"]
    by (simp add: sw_boot_ok) (simp add: sw_boot_def)
next
  case (stand_down s box active dry rs y s')
  then show ?case using tripleD [OF triple_demote [of a b box active dry], of "sw_boot rs s"] by (simp add: sw_boot_ok)
next
  case (edit s ins ix cm)
  then show ?case by (simp add: sw_ok_def exclusive_def records_ok_def)
qed

end
