(* ===== verification/Controller_Course.thy ===== *)
theory Controller_Course
  imports Controller_Runs
begin

text \<open>
  One switch, interrupted and resumed any number of times: what its record says always fits the markers, so it is
  never in a state whose markers would stop it (\<open>on_course\<close>, kept by every session: preservation). \<open>Controller_Progress\<close>
  then finishes it, once it is published; \<open>Controller_Stuck\<close> is about the one that is cut off while it publishes.
\<close>

section \<open>Where a switch stands\<close>

text \<open>What the status of a controller shows.\<close>

definition shown :: "string \<Rightarrow> string \<Rightarrow> string \<Rightarrow> sw_state \<Rightarrow> bool" where
  "shown box role active s \<longleftrightarrow> (let d = controller_status box (markers s box) in
     (is_active d \<longleftrightarrow> role = ''active'') \<and> has_role d role \<and> names_active d active)"

definition fits :: "string \<Rightarrow> string \<Rightarrow> string \<Rightarrow> sw_state \<Rightarrow> bool" where
  "fits old new phase s \<longleftrightarrow>
    (if phase \<in> set [''prepared'', ''publishing'', ''published''] then shown old ''active'' old s \<and> shown new ''standby'' old s
     else if phase = ''synchronized'' then (shown old ''active'' old s \<or> shown old ''standby'' new s) \<and> shown new ''standby'' old s
     else if phase = ''demoted'' then shown old ''standby'' new s \<and> (shown new ''standby'' old s \<or> shown new ''active'' new s)
     else phase \<in> set [''activated'', ''complete''] \<and> shown old ''standby'' new s \<and> shown new ''active'' new s)"

definition on_course :: "string \<Rightarrow> string \<Rightarrow> string \<Rightarrow> sw_state \<Rightarrow> bool" where
  "on_course old new op s \<longleftrightarrow> old \<noteq> new \<and> (case map_of (stores s old) op of
     None \<Rightarrow> fits old new ''prepared'' s \<and> (\<forall>(op', r)\<in>set (stores s old). sw_phase r = ''complete'')
   | Some r \<Rightarrow> sw_operation r = op \<and> sw_old r = old \<and> sw_new r = new \<and> fits old new (sw_phase r) s)"

definition at_hand :: "string \<Rightarrow> string \<Rightarrow> string \<Rightarrow> switch_record \<Rightarrow> sw_state \<Rightarrow> bool" where
  "at_hand old new op r s \<longleftrightarrow> map_of (stores s old) op = Some r \<and> sw_operation r = op \<and> sw_old r = old \<and> sw_new r = new"

lemma shown_simps [simp]:
  "shown box role active (s\<lparr>answers := as\<rparr>) = shown box role active s"
  "shown box role active (s\<lparr>trail := tr\<rparr>) = shown box role active s"
  "shown box role active (s\<lparr>tag := t\<rparr>) = shown box role active s"
  "shown box role active (s\<lparr>stores := st\<rparr>) = shown box role active s"
  "shown box role active (s\<lparr>instances := ins\<rparr>) = shown box role active s"
  "shown box role active (s\<lparr>indexed := ix\<rparr>) = shown box role active s"
  "shown box role active (s\<lparr>committed := cm\<rparr>) = shown box role active s"
  by (simp_all add: shown_def)

lemma fits_cong: "markers s = markers t \<Longrightarrow> fits old new p s = fits old new p t"
  by (simp add: fits_def shown_def)

lemma fits_simps [simp]:
  "fits old new p (s\<lparr>answers := as\<rparr>) = fits old new p s" "fits old new p (s\<lparr>trail := tr\<rparr>) = fits old new p s"
  "fits old new p (s\<lparr>tag := t\<rparr>) = fits old new p s" "fits old new p (s\<lparr>stores := st\<rparr>) = fits old new p s"
  "fits old new p (s\<lparr>instances := ins\<rparr>) = fits old new p s" "fits old new p (s\<lparr>indexed := ix\<rparr>) = fits old new p s"
  "fits old new p (s\<lparr>committed := cm\<rparr>) = fits old new p s"
  by (simp_all add: fits_def)

lemma shown_marker:
  "shown box role active (s\<lparr>markers := (markers s)(box' := Marker (PDict (marker_json box' role' active')))\<rparr>) \<longleftrightarrow>
    (if box' = box then role' = role \<and> active' = active else shown box role active s)"
  if "role' \<in> set [''active'', ''standby'']"
  using that by (auto simp: shown_def Let_def is_active_def has_role_def names_active_def)

lemma on_course_cong: "stores s = stores t \<Longrightarrow> markers s = markers t \<Longrightarrow> on_course old new op s = on_course old new op t"
  by (auto simp: on_course_def fits_cong [of s t] split: option.splits)

interpretation course: quiet_steps "on_course old new op" for old new op
  by unfold_locales (simp add: on_course_cong [of "after_quiet act q rs s" s for act q rs s])

abbreviation course_triple ::
  "string \<Rightarrow> string \<Rightarrow> string \<Rightarrow> (sw_state \<Rightarrow> bool) \<Rightarrow> 'a sw_run \<Rightarrow> ('a \<Rightarrow> sw_state \<Rightarrow> bool) \<Rightarrow> bool" where
  "course_triple old new op \<equiv> triple (on_course old new op) (\<lambda>s. s)"

lemma stable_hand [simp]: "stable (at_hand old new op r)" "stable (\<lambda>s. shown box role active s)"
  "stable (\<lambda>s. fits old new p s)"
  by (simp_all add: stable_def at_hand_def)

lemmas course_steps = course.steps stable_basic stable_hand


section \<open>The writes\<close>

text \<open>A write of the record whose phase fits the markers.\<close>

lemma save_keeps:
  assumes "on_course old new op s" "sw_operation r = op" "sw_old r = old" "sw_new r = new"
    and "fits old new (sw_phase r) s"
  shows "on_course old new op (sw_store r s) \<and> at_hand old new op r (sw_store r s)"
proof -
  have "map_of (stores (sw_store r s) old) op = Some r"
    using assms(2,3) by (simp add: sw_store_def update_conv')
  moreover have "fits old new (sw_phase r) (sw_store r s)"
    using assms(5) by (simp add: sw_store_def)
  ultimately show ?thesis
    using assms(1-4) by (simp add: on_course_def at_hand_def)
qed

lemma course_save:
  assumes "\<And>s. on_course old new op s \<Longrightarrow> P s \<Longrightarrow> sw_operation r = op \<and> sw_old r = old \<and> sw_new r = new \<and>
    fits old new (sw_phase r) s"
  shows "course_triple old new op P (save r) (\<lambda>_. at_hand old new op r)"
proof (rule tripleI)
  fix s x s' assume ok: "on_course old new op s" and p: "P s" and run: "save r s = (x, s')"
  show "on_course old new op s' \<and> (\<forall>y. x = Inr y \<longrightarrow> at_hand old new op r s')"
  proof (cases "answers s")
    case Nil
    with run ok show ?thesis by (auto simp: save_def tell_def ask_def rbind_def interact_sw_def)
  next
    case (Cons q rs)
    let ?t = "s\<lparr>answers := rs, trail := trail s @ [(tag s, WriteRecord r, q)]\<rparr>"
    have s': "s' = (if q = Lost then ?t else sw_store r ?t) \<and> (q = Lost \<longrightarrow> (\<forall>y. x \<noteq> Inr y))"
      using run Cons by (auto simp: save_def tell_def ask_def rbind_def interact_sw_def Let_def rreturn_def raise_def
          split: sw_reply.splits)
    have "on_course old new op ?t" using ok by (simp add: on_course_cong [of ?t s])
    moreover have "on_course old new op (sw_store r ?t) \<and> at_hand old new op r (sw_store r ?t)"
      using assms [OF ok p] calculation by (intro save_keeps) simp_all
    ultimately show ?thesis using s' by auto
  qed
qed

lemma hand_course:
  "on_course old new op s \<Longrightarrow> at_hand old new op r s \<Longrightarrow> fits old new (sw_phase r) s"
  by (simp add: on_course_def at_hand_def)

lemma course_enter:
  "course_triple old new op (\<lambda>s. at_hand old new op r s \<and> fits old new p s) (enter r p) (at_hand old new op)"
  unfolding enter_def Let_def
  by (rule triple_bind [OF course_save [where r = "r\<lparr>sw_phase := p\<rparr>"]])
    (auto dest: hand_course simp: at_hand_def intro!: triple_return)

lemma course_enter_from:
  assumes "\<And>s. P s \<Longrightarrow> at_hand old new op r s \<and> fits old new p s"
  shows "course_triple old new op P (enter r p) (at_hand old new op)"
  using course_enter by (rule triple_weaken) (use assms in auto)

text \<open>A fact that holds of every state of the switch can be used.\<close>

lemma course_fact:
  assumes "\<And>s. on_course old new op s \<Longrightarrow> P s \<Longrightarrow> R s" "course_triple old new op (\<lambda>s. P s \<and> R s) m Q"
  shows "course_triple old new op P m Q"
  using assms unfolding triple_def by blast

lemma course_result:
  "course_triple old new op P m Q \<Longrightarrow> (\<And>x s. on_course old new op s \<Longrightarrow> Q x s \<Longrightarrow> Q' x s) \<Longrightarrow> course_triple old new op P m Q'"
  unfolding triple_def by blast

lemma course_fits: "course_triple old new op (\<lambda>s. at_hand old new op r s \<and> fits old new (sw_phase r) s) m Q \<Longrightarrow>
    course_triple old new op (at_hand old new op r) m Q"
  by (rule course_fact) (auto dest: hand_course)

lemma course_marker:
  assumes "role \<in> set [''active'', ''standby'']"
    and "\<And>s. on_course old new op s \<Longrightarrow> P s \<Longrightarrow> at_hand old new op r s \<and>
      fits old new (sw_phase r) (s\<lparr>markers := (markers s)(box := Marker (PDict (marker_json box role active)))\<rparr>)"
  shows "course_triple old new op P (tell (SetMarker box role active)) (\<lambda>_ s. at_hand old new op r s \<and> shown box role active s)"
proof (rule tripleI)
  fix s x s' assume ok: "on_course old new op s" and p: "P s" and run: "tell (SetMarker box role active) s = (x, s')"
  show "on_course old new op s' \<and> (\<forall>y. x = Inr y \<longrightarrow> at_hand old new op r s' \<and> shown box role active s')"
  proof (cases "answers s")
    case Nil
    with run ok show ?thesis by (auto simp: tell_def ask_def rbind_def interact_sw_def)
  next
    case (Cons q rs)
    let ?t = "s\<lparr>answers := rs, trail := trail s @ [(tag s, SetMarker box role active, q)]\<rparr>"
    let ?m = "(markers s)(box := Marker (PDict (marker_json box role active)))"
    have s': "s' = (if q = Lost then ?t else ?t\<lparr>markers := ?m\<rparr>) \<and> (q = Lost \<longrightarrow> (\<forall>y. x \<noteq> Inr y))"
      using run Cons by (auto simp: tell_def ask_def rbind_def interact_sw_def Let_def rreturn_def raise_def
          split: sw_reply.splits)
    have hand: "at_hand old new op r s" "fits old new (sw_phase r) (s\<lparr>markers := ?m\<rparr>)" using assms(2) [OF ok p] by simp_all
    have t: "on_course old new op ?t" using ok by (simp add: on_course_cong [of ?t s])
    have "fits old new (sw_phase r) (?t\<lparr>markers := ?m\<rparr>)"
      using hand(2) by (subst fits_cong [where t = "s\<lparr>markers := ?m\<rparr>"]) simp_all
    then have "on_course old new op (?t\<lparr>markers := ?m\<rparr>)"
      using hand(1) t by (simp add: on_course_def at_hand_def)
    moreover have "shown box role active (?t\<lparr>markers := ?m\<rparr>)"
      using shown_marker [OF assms(1), of box role active ?t box active] by simp
    ultimately show ?thesis using s' t hand(1) by (auto simp: at_hand_def)
  qed
qed

section \<open>The phases\<close>

lemma course_prepared: "sw_phase r = ''prepared'' \<Longrightarrow>
    course_triple old new op (at_hand old new op r) (prepared o_st n_st r) (at_hand old new op)"
  unfolding prepared_def
  by (rule course_fits, intro course_steps course_enter_from stable_conj) (simp add: fits_def)

lemma course_push: "course_triple old new op (at_hand old new op r) (push_placement r) (\<lambda>_. at_hand old new op r)"
  unfolding push_placement_def
  by (rule triple_then [OF course_save])
    (auto dest: hand_course simp: at_hand_def intro!: course_steps)

lemma course_publishing: "sw_phase r = ''publishing'' \<Longrightarrow>
    course_triple old new op (at_hand old new op r) (publishing r) (at_hand old new op)"
proof -
  assume phase: "sw_phase r = ''publishing''"
  let ?H = "at_hand old new op r"
  have put: "course_triple old new op ?H (if c then write_placement r changed doc else rreturn ()) (\<lambda>_. ?H)" for c changed doc
    unfolding write_placement_def
    by (intro triple_if triple_return triple_then [OF triple_must] triple_then [OF course.triple_git_do]
        triple_then [OF course.triple_git_any] triple_then [OF course.triple_tell] course.triple_tell quiet_acts stable_hand)
  have push: "course_triple old new op ?H (rbind (save r') (\<lambda>_. m)) (\<lambda>_. at_hand old new op r')"
    if "course_triple old new op (at_hand old new op r') m (\<lambda>_. at_hand old new op r')" "r' = r\<lparr>sw_published := x\<rparr>" for r' x m
    by (rule triple_bind [OF course_save [where r = r']])
      (use that in \<open>auto dest: hand_course simp: at_hand_def\<close>)
  have push': "course_triple old new op ?H (push_placement (r\<lparr>sw_published := x\<rparr>)) (\<lambda>_. at_hand old new op (r\<lparr>sw_published := x\<rparr>))" for x
    unfolding push_placement_def
    by (rule push [OF _ refl], intro course_steps)
  have publish: "course_triple old new op ?H (publish_instance r) (\<lambda>r' s. at_hand old new op r' s \<and> sw_phase r' = ''publishing'')"
    unfolding publish_instance_def Let_def
    apply (rule triple_then [OF course.triple_ask_any], simp, simp)
    apply (rule triple_then [OF triple_lift])
    apply (intro triple_then [OF triple_must] triple_then [OF course.triple_git_any] triple_then [OF put]
        triple_then [OF course.triple_tell] triple_then [OF course.triple_commit] triple_bind [OF push'] triple_return
        quiet_acts stable_hand)
    apply (simp add: phase)
    done
  show ?thesis
    unfolding publishing_def
    apply (rule triple_bind [OF publish])
    apply (rule course_fact [where R = "\<lambda>s. fits old new ''published'' s"])
     apply (auto dest!: hand_course simp: fits_def)[1]
    apply (rule course_enter_from)
    apply blast
    done
qed

lemma course_published: "sw_phase r = ''published'' \<Longrightarrow>
    course_triple old new op (at_hand old new op r) (published r) (at_hand old new op)"
  unfolding published_def
  by (rule course_fits, intro course_steps course_enter_from stable_conj) (simp add: fits_def)

lemma course_synchronized: "sw_phase r = ''synchronized'' \<Longrightarrow>
    course_triple old new op (at_hand old new op r) (synchronized r) (at_hand old new op)"
proof -
  assume phase: "sw_phase r = ''synchronized''"
  let ?H = "at_hand old new op r"
  have stand: "course_triple old new op ?H (tell (SetMarker (sw_old r) ''standby'' (sw_new r))) (\<lambda>_. ?H)"
    by (rule triple_weaken [OF course_marker [where r = r and P = ?H]])
      (auto dest!: hand_course simp: phase fits_def shown_marker at_hand_def on_course_def)
  have stop: "course_triple old new op ?H (if c then in_order [check_locks, tell (SetMarker (sw_old r) ''standby'' (sw_new r))]
      else rreturn ()) (\<lambda>_. ?H)" for c
    by (intro triple_if triple_in_order triple_return) (auto intro!: course_steps stand)
  have demoted: "course_triple old new op (\<lambda>s. ?H s \<and> old_st = controller_status (sw_old r) (markers s (sw_old r)) \<and>
        new_st = controller_status (sw_new r) (markers s (sw_new r)))
      (rbind (rrequire (\<not> is_active old_st \<and> has_role old_st ''standby'' \<and> names_active old_st (sw_new r)) msg) (\<lambda>_.
       rbind (ask (Guard (sw_old r))) (\<lambda>code. rbind (rrequire (code = PInt 78) msg') (\<lambda>_. enter r ''demoted''))))
      (at_hand old new op)" for old_st new_st msg msg'
  proof (rule triple_require_then)
    assume st: "\<not> is_active old_st \<and> has_role old_st ''standby'' \<and> names_active old_st (sw_new r)"
    show "course_triple old new op (\<lambda>s. ?H s \<and> old_st = controller_status (sw_old r) (markers s (sw_old r)) \<and>
        new_st = controller_status (sw_new r) (markers s (sw_new r)))
      (rbind (ask (Guard (sw_old r))) (\<lambda>code. rbind (rrequire (code = PInt 78) msg') (\<lambda>_. enter r ''demoted'')))
      (at_hand old new op)"
      apply (rule course_fact [where R = "fits old new ''demoted''"])
       apply (use st in \<open>auto dest!: hand_course simp: phase fits_def at_hand_def shown_def Let_def\<close>)[1]
      apply (rule triple_weaken [where P = "\<lambda>s. ?H s \<and> fits old new ''demoted'' s" and Q = "at_hand old new op"])
        apply (intro triple_then [OF course.triple_ask_any] triple_then [OF triple_must] course_enter stable_conj stable_hand quiet_acts)
       apply auto
      done
  qed
  show ?thesis
    unfolding synchronized_def
    apply (rule triple_then [OF course.triple_tell], simp, simp, rule triple_then [OF course.triple_states_any], simp)
    apply (simp only: split_paired_all prod.case)
    apply (rule triple_then [OF triple_must], rule triple_then [OF stop], rule triple_bind [OF course.triple_states], simp)
    apply (simp only: split_paired_all prod.case)
    apply (rule demoted)
    done
qed

lemma shown_active: "shown box role active s \<Longrightarrow> is_active (controller_status box (markers s box)) \<longleftrightarrow> role = ''active''"
  by (simp add: shown_def Let_def)

lemma demoted_active:
  "fits old new ''demoted'' s \<Longrightarrow> is_active (controller_status new (markers s new)) \<Longrightarrow> fits old new ''activated'' s"
  by (auto simp: fits_def dest: shown_active)

lemma course_demoted: "sw_phase r = ''demoted'' \<Longrightarrow>
    course_triple old new op (at_hand old new op r) (demoted r) (at_hand old new op)"
proof -
  assume phase: "sw_phase r = ''demoted''"
  let ?H = "at_hand old new op r"
  let ?F = "\<lambda>s. ?H s \<and> fits old new ''activated'' s"
  have act: "course_triple old new op (\<lambda>s. ?H s \<and> shown old ''standby'' new s) (tell (SetMarker (sw_new r) ''active'' (sw_new r)))
     (\<lambda>_ s. ?H s \<and> shown (sw_new r) ''active'' (sw_new r) s)"
    by (rule course_marker [where r = r])
      (auto dest!: hand_course simp: phase fits_def shown_marker at_hand_def on_course_def)
  have act': "course_triple old new op ?H (tell (SetMarker (sw_new r) ''active'' (sw_new r)))
     (\<lambda>_ s. ?H s \<and> shown (sw_new r) ''active'' (sw_new r) s)"
    by (rule course_fact [OF _ act]) (auto dest!: hand_course simp: phase fits_def)
  have act'': "course_triple old new op ?H (tell (SetMarker (sw_new r) ''active'' (sw_new r))) (\<lambda>_. ?F)"
    by (rule course_result [OF act']) (auto dest!: hand_course simp: phase fits_def at_hand_def)
  have start: "course_triple old new op ?H
      (in_order [check_locks, tell (SetMarker (sw_new r) ''active'' (sw_new r))]) (\<lambda>_. ?F)"
    by (rule triple_in_order_Cons [OF course.triple_tell triple_in_order_Cons [OF act'' triple_in_order_Nil]]) simp_all
  have go: "course_triple old new op (\<lambda>s. ?H s \<and> old_st = controller_status (sw_old r) (markers s (sw_old r)) \<and>
        new_st = controller_status (sw_new r) (markers s (sw_new r)))
      (if is_active new_st then rreturn () else rbind (rrequire (has_role new_st ''standby'') msg) (\<lambda>_.
         in_order [check_locks, tell (SetMarker (sw_new r) ''active'' (sw_new r))])) (\<lambda>_. ?F)" for old_st new_st msg
  proof (rule triple_if)
    assume "is_active new_st"
    then show "course_triple old new op (\<lambda>s. ?H s \<and> old_st = controller_status (sw_old r) (markers s (sw_old r)) \<and>
        new_st = controller_status (sw_new r) (markers s (sw_new r))) (rreturn ()) (\<lambda>_. ?F)"
      by (rule_tac course_fact [where R = "fits old new ''activated''", OF _ triple_return])
        (metis demoted_active hand_course at_hand_def phase, blast)
  next
    show "course_triple old new op (\<lambda>s. ?H s \<and> old_st = controller_status (sw_old r) (markers s (sw_old r)) \<and>
        new_st = controller_status (sw_new r) (markers s (sw_new r))) (rbind (rrequire (has_role new_st ''standby'') msg) (\<lambda>_.
         in_order [check_locks, tell (SetMarker (sw_new r) ''active'' (sw_new r))])) (\<lambda>_. ?F)"
      by (rule triple_require_then, rule triple_weaken [OF start]) auto
  qed
  show ?thesis
    unfolding demoted_def
    apply (rule triple_then [OF course.triple_tell], simp, simp, rule triple_bind [OF course.triple_states], simp)
    apply (simp only: split_paired_all prod.case)
    apply (rule triple_then [OF triple_must], rule triple_bind [OF go], rule course_enter)
    done
qed

lemma course_activated: "sw_phase r = ''activated'' \<Longrightarrow>
    course_triple old new op (at_hand old new op r) (activated r) (at_hand old new op)"
  unfolding activated_def
  by (rule course_fits, intro course_steps course_enter_from stable_conj) (simp add: fits_def)

lemma course_at_phase:
  "(sw_phase r = p \<Longrightarrow> course_triple old new op (at_hand old new op r) (f r) (at_hand old new op)) \<Longrightarrow>
    course_triple old new op (at_hand old new op r) (at_phase p f r) (at_hand old new op)"
  by (auto simp: at_phase_def intro: triple_return)

lemma course_transition:
  "course_triple old new op (at_hand old new op r) (transition r) (\<lambda>_ _. True)"
  unfolding transition_def
  apply (rule triple_then [OF course.triple_tell], simp, simp, rule triple_then [OF course.triple_states_any], simp)
  apply (simp only: split_paired_all prod.case)
  apply (intro triple_bind [OF course_at_phase] course_prepared course_publishing course_published course_synchronized
      course_demoted course_activated)
        apply simp_all
  apply (unfold completed_def, rule triple_then [OF triple_must], rule triple_then [OF course.triple_states_any], simp)
  apply (simp only: split_paired_all prod.case)
  apply (rule triple_then [OF triple_must], rule triple_return, simp)
  done


section \<open>Sessions\<close>

lemma on_course_tag [simp]: "on_course old new op (s\<lparr>tag := t\<rparr>) = on_course old new op s"
  by (simp add: on_course_def split: option.splits)

lemma course_resume:
  assumes "ar_old args = old" "ar_new args = new" "requested args = op"
  shows "course_triple old new op (\<lambda>_. True) (resume_record args) (at_hand old new op)"
proof (rule tripleI)
  fix s x s' assume ok: "on_course old new op s" and run: "resume_record args s = (x, s')"
  show "on_course old new op s' \<and> (\<forall>r. x = Inr r \<longrightarrow> at_hand old new op r s')"
  proof (cases "map_of (stores s old) op")
    case None
    with run ok assms show ?thesis by (auto simp: resume_record_def raise_def)
  next
    case (Some r)
    with run ok assms show ?thesis
      by (auto simp: resume_record_def rbind_def rrequire_def raise_def rreturn_def set_tag_def at_hand_def split: if_splits)
  qed
qed

lemma course_new:
  assumes "ar_old args = old" "ar_new args = new" "requested args = op" "op \<noteq> ''''"
  shows "course_triple old new op (\<lambda>s. map_of (stores s old) op = None) (new_record args) (at_hand old new op)"
proof -
  let ?N = "\<lambda>s. map_of (stores s old) op = None"
  have N: "stable ?N" by (simp add: stable_def)
  have scan: "course_triple old new op ?N (\<lambda>s. rrequire (\<forall>(op, r)\<in>set (stores s old). sw_phase r = ''complete'') msg s) (\<lambda>_. ?N)" for msg
    by (auto simp: triple_def rrequire_def raise_def rreturn_def split: if_splits)
  have tag: "course_triple old new op ?N (set_tag op) (\<lambda>_. ?N)"
    by (auto simp: triple_def set_tag_def)
  have save: "course_triple old new op ?N (rbind (save r) (\<lambda>_. rreturn r)) (at_hand old new op)"
    if r: "sw_operation r = op" "sw_old r = old" "sw_new r = new" "sw_phase r = ''prepared''" for r
  proof (rule triple_bind)
    show "course_triple old new op ?N (save r) (\<lambda>_. at_hand old new op r)"
      by (rule course_save) (use r in \<open>auto simp: on_course_def\<close>)
  qed (auto intro: triple_return)
  have id: "operation_id args = rreturn op" using assms by (simp add: operation_id_def)
  show ?thesis
    unfolding new_record_def Let_def id assms(1-3)
    apply (rule triple_then [OF scan])
    apply (rule triple_then [OF course.triple_git_any [OF N]])
    apply (rule triple_then [OF triple_must])
    apply (rule triple_bind [OF triple_return [where Q = "\<lambda>x s. ?N s \<and> x = op"]], simp, rule triple_pure, simp)
    apply (rule triple_then [OF course.triple_git_any [OF N]])
    apply (rule triple_then [OF course.triple_ask_any [OF _ N]], simp)
    apply (rule triple_bind [OF tag], rule save)
       apply simp_all
    done
qed

lemma course_run_switch:
  assumes "ar_old args = old" "ar_new args = new" "requested args = op" "op \<noteq> ''''"
  shows "course_triple old new op (\<lambda>_. True) (run_switch args) (\<lambda>_ _. True)"
proof -
  have new: "course_triple old new op (\<lambda>_. True) (\<lambda>s. if resumes args s then resume_record args s else new_record args s)
      (at_hand old new op)"
  proof (rule tripleI)
    fix s x s' assume s: "on_course old new op s"
      "(if resumes args s then resume_record args s else new_record args s) = (x, s')"
    show "on_course old new op s' \<and> (\<forall>r. x = Inr r \<longrightarrow> at_hand old new op r s')"
    proof (cases "resumes args s")
      case True
      with s show ?thesis using tripleD [OF course_resume [OF assms(1-3)] s(1)] by simp
    next
      case False
      then have "map_of (stores s old) op = None" using assms by (simp add: resumes_def)
      with False s show ?thesis using tripleD [OF course_new [OF assms] s(1)] by simp
    qed
  qed
  show ?thesis
    unfolding run_switch_def
    apply (intro triple_then [OF triple_must] triple_if triple_return triple_then [OF course.triple_tell] quiet_acts stable_basic)
      apply simp
     apply simp
    apply (rule triple_bind [OF new], rule triple_bind [OF course_transition])
    apply (rule triple_then [OF course.triple_tell])
      apply (auto intro: triple_return)
    done
qed

text \<open>One switch: it starts with the old controller active, the new one its standby and every earlier
  switch complete, and is then run any number of times, cut off anywhere; between the sessions anybody may edit, stage
  and commit the Instance files.\<close>

inductive switching :: "string \<Rightarrow> string \<Rightarrow> string \<Rightarrow> sw_state \<Rightarrow> bool" for old new op where
  ready: "old \<noteq> new \<Longrightarrow> map_of (stores s old) op = None \<Longrightarrow> \<forall>(op', r)\<in>set (stores s old). sw_phase r = ''complete'' \<Longrightarrow>
    fits old new ''prepared'' s \<Longrightarrow> switching old new op s"
| session: "switching old new op s \<Longrightarrow> ar_old args = old \<Longrightarrow> ar_new args = new \<Longrightarrow> requested args = op \<Longrightarrow> op \<noteq> '''' \<Longrightarrow>
    run_switch args (sw_boot rs s) = (x, s') \<Longrightarrow> switching old new op s'"
| edit: "switching old new op s \<Longrightarrow> switching old new op (s\<lparr>instances := ins, indexed := ix, committed := cm\<rparr>)"

lemma switching_on_course: "switching old new op s \<Longrightarrow> on_course old new op s"
proof (induction rule: switching.induct)
  case (ready s)
  then show ?case by (simp add: on_course_def)
next
  case (session s args rs x s')
  have "on_course old new op (sw_boot rs s)"
    using session.IH by (simp add: sw_boot_def on_course_cong [of "s\<lparr>tag := None, answers := rs\<rparr>" s])
  then show ?case using tripleD [OF course_run_switch [OF session.hyps(2-5)]] session.hyps(6) by blast
next
  case (edit s)
  then show ?case by (subst on_course_cong [where t = s]) simp_all
qed

end
