(* ===== verification/Controller_Progress.thy ===== *)
theory Controller_Progress
  imports Controller_Course
begin

text \<open>
  A switch that is on course and published can be finished: \<open>reaches P m Q\<close> says that from every state with \<open>P\<close> there
  are replies, none of them a failure, with which \<open>m\<close> returns and \<open>Q\<close> holds. From there on the switch no longer
  looks at the repository of the old controller; what the markers are and what the guard says is computed, so the
  replies chosen are those of the locks, of the destination's pull, of its tests of readiness and of the promotion.
\<close>

section \<open>Runs without a failure\<close>

definition is_got :: "sw_reply \<Rightarrow> bool" where "is_got q \<longleftrightarrow> (\<exists>v. q = Got v)"

definition reaches :: "(sw_state \<Rightarrow> bool) \<Rightarrow> 'a sw_run \<Rightarrow> ('a \<Rightarrow> sw_state \<Rightarrow> bool) \<Rightarrow> bool" where
  "reaches P m Q \<longleftrightarrow> (\<forall>s. P s \<longrightarrow> (\<exists>rs x s'. list_all is_got rs \<and> Q x s' \<and>
     (\<forall>rest. m (s\<lparr>answers := rs @ rest\<rparr>) = (Inr x, s'\<lparr>answers := rest\<rparr>))))"

lemma reachesI:
  "(\<And>s. P s \<Longrightarrow> \<exists>rs x s'. list_all is_got rs \<and> Q x s' \<and> (\<forall>rest. m (s\<lparr>answers := rs @ rest\<rparr>) = (Inr x, s'\<lparr>answers := rest\<rparr>))) \<Longrightarrow>
    reaches P m Q"
  by (simp add: reaches_def)

lemma reaches_bind:
  assumes "reaches P m R" "\<And>x. reaches (R x) (f x) Q"
  shows "reaches P (rbind m f) Q"
proof (rule reachesI)
  fix s assume "P s"
  then obtain rs x s' where 1: "list_all is_got rs" "R x s'" "\<And>rest. m (s\<lparr>answers := rs @ rest\<rparr>) = (Inr x, s'\<lparr>answers := rest\<rparr>)"
    using assms(1) unfolding reaches_def by blast
  then obtain rs' y s'' where 2: "list_all is_got rs'" "Q y s''" "\<And>rest. f x (s'\<lparr>answers := rs' @ rest\<rparr>) = (Inr y, s''\<lparr>answers := rest\<rparr>)"
    using assms(2) unfolding reaches_def by blast
  have "rbind m f (s\<lparr>answers := (rs @ rs') @ rest\<rparr>) = (Inr y, s''\<lparr>answers := rest\<rparr>)" for rest
    using 1(3) [of "rs' @ rest"] 2(3) by (simp add: rbind_def)
  with 1(1) 2(1,2) show "\<exists>rs x s'. list_all is_got rs \<and> Q x s' \<and>
      (\<forall>rest. rbind m f (s\<lparr>answers := rs @ rest\<rparr>) = (Inr x, s'\<lparr>answers := rest\<rparr>))"
    by (intro exI [of _ "rs @ rs'"] exI) auto
qed

lemma reaches_weaken:
  "reaches P m Q \<Longrightarrow> (\<And>s. P' s \<Longrightarrow> P s) \<Longrightarrow> (\<And>x s. Q x s \<Longrightarrow> Q' x s) \<Longrightarrow> reaches P' m Q'"
  unfolding reaches_def by blast

lemma reaches_pure: "(c \<Longrightarrow> reaches P m Q) \<Longrightarrow> reaches (\<lambda>s. P s \<and> c) m Q"
  unfolding reaches_def by blast

lemma reaches_return: "(\<And>s. P s \<Longrightarrow> Q x s) \<Longrightarrow> reaches P (rreturn x) Q"
  by (rule reachesI, rule exI [of _ "[]"]) (auto simp: rreturn_def)

lemma reaches_require: "(\<And>s. P s \<Longrightarrow> c) \<Longrightarrow> reaches P m Q \<Longrightarrow> reaches P (rbind (rrequire c msg) (\<lambda>_. m)) Q"
proof (cases c)
  case True
  then have "rbind (rrequire c msg) (\<lambda>_. m) = m" by (simp add: fun_eq_iff rbind_def rrequire_def rreturn_def)
  then show "reaches P m Q \<Longrightarrow> ?thesis" by simp
qed (auto simp: reaches_def)

lemma reaches_require_end: "(\<And>s. P s \<Longrightarrow> c \<and> Q () s) \<Longrightarrow> reaches P (rrequire c msg) Q"
  by (rule reachesI, rule exI [of _ "[]"]) (auto simp: rreturn_def rrequire_def)

text \<open>The value is known, and the state keeps what it had.\<close>

lemma reaches_value:
  "reaches P m (\<lambda>x s. P s \<and> x = v) \<Longrightarrow> reaches P (f v) Q \<Longrightarrow> reaches P (rbind m f) Q"
  by (erule reaches_bind, rule reaches_pure, simp)

lemma reaches_then': "reaches P m (\<lambda>_. R) \<Longrightarrow> reaches R n Q \<Longrightarrow> reaches P (rbind m (\<lambda>_. n)) Q"
  by (rule reaches_bind)

lemma reaches_then: "reaches P m (\<lambda>_. P) \<Longrightarrow> reaches P n Q \<Longrightarrow> reaches P (rbind m (\<lambda>_. n)) Q"
  by (rule reaches_bind)

lemma reaches_in_order_Cons: "reaches P m (\<lambda>_. R) \<Longrightarrow> reaches R (in_order ms) Q \<Longrightarrow> reaches P (in_order (m # ms)) Q"
  unfolding in_order.simps by (rule reaches_bind)

lemma reaches_in_order_Nil: "(\<And>s. P s \<Longrightarrow> Q () s) \<Longrightarrow> reaches P (in_order []) Q"
  by (simp add: reaches_return)

section \<open>Interactions that succeed\<close>

text \<open>What only looks at the markers, the records, the Instance files and the tag.\<close>

definition lasting :: "(sw_state \<Rightarrow> bool) \<Rightarrow> bool" where
  "lasting P \<longleftrightarrow> (\<forall>s tr as. P s \<longrightarrow> P (s\<lparr>trail := tr, answers := as\<rparr>))"

lemma lastingD: "lasting P \<Longrightarrow> P s \<Longrightarrow> P (s\<lparr>trail := tr\<rparr>)"
  unfolding lasting_def by (metis sw_state.surjective sw_state.surjective sw_state.update_convs(7,8))

lemma reaches_interact:
  assumes "silent act" "lasting P" "\<And>s. P s \<Longrightarrow> sw_result act s (Got u) = Got (v s)"
    and "\<And>s. P s \<Longrightarrow> w = v s" "\<And>s t. v (s\<lparr>answers := t\<rparr>) = v s"
  shows "reaches P (interact_sw act) (\<lambda>q s. P s \<and> q = Got w)"
proof (rule reachesI)
  fix s assume p: "P s"
  let ?s = "s\<lparr>trail := trail s @ [(tag s, act, Got w)]\<rparr>"
  have P': "P (s\<lparr>answers := as\<rparr>)" for as
    using assms(2) p unfolding lasting_def by (metis sw_state.surjective sw_state.surjective sw_state.update_convs(7,8))
  have "interact_sw act (s\<lparr>answers := [Got u] @ rest\<rparr>) = (Inr (Got w), ?s\<lparr>answers := rest\<rparr>)" for rest
  proof -
    let ?a = "s\<lparr>answers := [Got u] @ rest\<rparr>"
    have res: "sw_result act ?a (Got u) = Got w"
      using assms(3) [OF P'] assms(4) [OF P'] by simp
    show ?thesis
      unfolding interact_sw_def Let_def using res by (simp add: silent_effect [OF assms(1)])
  qed
  moreover have "P ?s" by (rule lastingD [OF assms(2) p])
  ultimately show "\<exists>rs x s'. list_all is_got rs \<and> (P s' \<and> x = Got w) \<and>
      (\<forall>rest. interact_sw act (s\<lparr>answers := rs @ rest\<rparr>) = (Inr x, s'\<lparr>answers := rest\<rparr>))"
    by (intro exI [of _ "[Got u]"] exI [of _ "Got w"] exI [of _ ?s]) (auto simp: is_got_def)
qed

definition free :: "sw_act \<Rightarrow> bool" where
  "free act \<longleftrightarrow> silent act \<and> (case act of Status b \<Rightarrow> False | Guard b \<Rightarrow> False | ReadInstance b \<Rightarrow> False | _ \<Rightarrow> True)"

lemma free_acts [simp]:
  "free AcquireLocks" "free CheckLocks" "free NewToken" "free (Repository x l)" "free (ReadPlacement x)" "free (Development x)"
  "free (Credentials x w)" "free (CredentialsAbsent x)" "free (CredentialIdentity x)" "free (SourceStatus x)"
  "free (CheckInstance x)" "free (PullInstance x)"
  by (simp_all add: free_def silent_def)

lemma free_result: "free act \<Longrightarrow> sw_result act s q = q"
  by (cases act) (auto simp: free_def silent_def)

lemma reaches_ask_value:
  assumes "reaches P (interact_sw act) (\<lambda>q s. P s \<and> q = Got w)"
  shows "reaches P (ask act) (\<lambda>v s. P s \<and> v = w)"
  unfolding ask_def by (rule reaches_value [OF assms]) (simp add: reaches_return)

lemma reaches_ask: "free act \<Longrightarrow> lasting P \<Longrightarrow> reaches P (ask act) (\<lambda>v s. P s \<and> v = w)"
  by (rule reaches_ask_value, rule reaches_interact [where u = w and v = "\<lambda>_. w"])
    (simp_all add: free_result, simp add: free_def)

lemma reaches_tell: "free act \<Longrightarrow> lasting P \<Longrightarrow> reaches P (tell act) (\<lambda>_. P)"
  unfolding tell_def by (rule reaches_value [OF reaches_ask [where w = PNone]]) (simp_all add: reaches_return)

lemma reaches_status:
  assumes "lasting P"
  shows "reaches (\<lambda>s. P s \<and> markers s = ms) (status box) (\<lambda>d s. (P s \<and> markers s = ms) \<and> d = controller_status box (ms box))"
  unfolding status_def
  by (rule reaches_value [OF reaches_interact [where u = PNone and w = "PDict (controller_status box (ms box))"
        and v = "\<lambda>s. PDict (controller_status box (markers s box))"]])
    (use assms in \<open>auto simp: lasting_def intro: reaches_return\<close>)

lemma reaches_fact: "(\<And>v. reaches (\<lambda>s. P s \<and> g s = v) m Q) \<Longrightarrow> reaches P m Q"
  unfolding reaches_def by blast

lemma reaches_states:
  assumes "lasting P" "\<not> (is_active (controller_status (sw_old r) (ms (sw_old r))) \<and> is_active (controller_status (sw_new r) (ms (sw_new r))))"
  shows "reaches (\<lambda>s. P s \<and> markers s = ms) (states r) (\<lambda>v s. (P s \<and> markers s = ms) \<and>
    v = (controller_status (sw_old r) (ms (sw_old r)), controller_status (sw_new r) (ms (sw_new r))))"
  unfolding states_def
  by (rule reaches_value [OF reaches_status [OF assms(1)]], rule reaches_value [OF reaches_status [OF assms(1)]],
      rule reaches_require, use assms(2) in simp, rule reaches_require, use assms(2) in simp, rule reaches_return)
    simp

lemma reaches_lift: "m = Inr v \<Longrightarrow> reaches P (sw_lift m) (\<lambda>x s. P s \<and> x = v)"
  by (simp add: sw_lift_def reaches_return)


section \<open>Answers that satisfy the tests\<close>

definition good_report :: "repository \<Rightarrow> pyval" where
  "good_report label = PDict [(''available'', PBool True), (''clean'', PBool True), (''branch'', PStr ''main''),
     (''remote_reachable'', PBool True), (''up_to_date'', PBool True),
     (''origin'', PStr (case label of Implementation \<Rightarrow> ENGINE_ORIGIN
        | Instance \<Rightarrow> ''git@github.com:klokast/klokast-instance.git''))]"

lemma good_origin: "fullmatch INSTANCE_ORIGIN ''git@github.com:klokast/klokast-instance.git''"
  by code_simp

lemma check_good_report [simp]: "check_repository label (good_report label) = Inr ()"
  by (cases label) (simp_all add: check_repository_def good_report_def value_match_def good_origin Let_def)

definition good_source :: "string \<Rightarrow> pyval" where
  "good_source box = PDict [(''schema_version'', PInt 1), (''kind'', PStr ''klokast.controller-identity-status.v1''),
     (''source'', PStr ''instance''), (''instance_sha256'', PStr (replicate 64 CHR ''0'')),
     (''engine_commit'', PStr (replicate 40 CHR ''0'')),
     (''controllers'', PDict [(''active'', PDict [(''box'', PStr box), (''hostname'', PStr (controller_name box))])])]"

lemma zero_match: "n < 100 \<Longrightarrow> fullmatch (Rep (Cls [d09, (CHR ''a'', CHR ''f'')]) n n) (replicate n CHR ''0'')"
  by (simp add: fullmatch_rep in_class_def list_all_iff)

lemma check_good_source:
  "valid_box box \<Longrightarrow> validate_source_status (good_source box) (controller_name box) = Inr ()"
proof -
  assume valid: "valid_box box"
  then have "box \<noteq> ''''" by (auto simp: valid_box_def fullmatch_def)
  then show ?thesis
    using valid zero_match [of 64] zero_match [of 40]
    by (simp add: validate_source_status_def good_source_def key_set_def check_entry_def value_match_def Let_def insert_commute)
qed

lemma reaches_readiness:
  assumes "lasting P"
  shows "reaches P (require_readiness box old (Some (placement_of x y))) (\<lambda>_. P)"
proof -
  have eq: "py_eq (placement_of x y) (placement_of x y)" by (simp add: placement_of_def)
  show ?thesis
    unfolding require_readiness_def option.case
    apply (rule reaches_value [OF reaches_ask [where w = "good_report Implementation"]], simp, rule assms)
    apply (rule reaches_value [OF reaches_lift], simp)
    apply (rule reaches_value [OF reaches_ask [where w = "good_report Instance"]], simp, rule assms)
    apply (rule reaches_value [OF reaches_lift], simp)
    apply (rule reaches_value [OF reaches_ask [where w = "placement_of x y"]], simp, rule assms)
    apply (rule reaches_require, rule eq, rule reaches_tell, simp, rule assms)
    done
qed

lemma reaches_promotion:
  assumes "lasting P" "valid_box box"
  shows "reaches P (verify_promotion box) (\<lambda>_. P)"
  unfolding verify_promotion_def
  apply (rule reaches_value [OF reaches_ask [where w = "good_source box"]], simp, rule assms)
  apply (rule reaches_value [OF reaches_lift], rule check_good_source [OF assms(2)])
  apply (rule reaches_tell, simp, rule assms)
  done

lemma reaches_write:
  assumes "\<And>s q. sw_result act s q = q" "\<And>s as. sw_effect act (s\<lparr>answers := as\<rparr>) = (sw_effect act s)\<lparr>answers := as\<rparr>"
    and "\<And>s. P s \<Longrightarrow> Q () (sw_effect act (s\<lparr>trail := trail s @ [(tag s, act, Got PNone)]\<rparr>))"
  shows "reaches P (tell act) Q"
proof (rule reachesI)
  fix s assume p: "P s"
  let ?s = "s\<lparr>trail := trail s @ [(tag s, act, Got PNone)]\<rparr>"
  have e: "s\<lparr>answers := rest, trail := tr\<rparr> = s\<lparr>trail := tr, answers := rest\<rparr>" for rest tr by simp
  have "tell act (s\<lparr>answers := [Got PNone] @ rest\<rparr>) = (Inr (), (sw_effect act ?s)\<lparr>answers := rest\<rparr>)" for rest
    using assms(2) [where s = ?s and as = rest] by (simp add: tell_def ask_def rbind_def interact_sw_def assms(1) rreturn_def Let_def e)
  then show "\<exists>rs x s'. list_all is_got rs \<and> Q x s' \<and>
      (\<forall>rest. tell act (s\<lparr>answers := rs @ rest\<rparr>) = (Inr x, s'\<lparr>answers := rest\<rparr>))"
    using assms(3) [OF p] by (intro exI [of _ "[Got PNone]"] exI) (auto simp: is_got_def)
qed


section \<open>Finishing a switch\<close>

definition going :: "string \<Rightarrow> string \<Rightarrow> string \<Rightarrow> switch_record \<Rightarrow> sw_state \<Rightarrow> bool" where
  "going old new op r s \<longleftrightarrow> old \<noteq> new \<and> valid_box new \<and> at_hand old new op r s \<and> fits old new (sw_phase r) s"

lemma lasting_rules [simp]:
  "lasting (going old new op r)" "lasting (\<lambda>s. shown box role active s)" "lasting (\<lambda>s. fits old new p s)"
  "lasting (\<lambda>s. markers s = ms)" "lasting (\<lambda>s. c)"
  by (simp_all add: lasting_def going_def at_hand_def)

lemma lasting_conj [simp]: "lasting P \<Longrightarrow> lasting Q \<Longrightarrow> lasting (\<lambda>s. P s \<and> Q s)"
  by (simp add: lasting_def)

lemma going_store:
  assumes "going old new op r s" "sw_operation r' = op" "sw_old r' = old" "sw_new r' = new"
    "fits old new (sw_phase r') s"
  shows "going old new op r' (sw_store r' s)"
  using assms by (simp add: going_def at_hand_def sw_store_def update_conv')

lemma reaches_enter:
  assumes "\<And>s. P s \<Longrightarrow> going old new op r s \<and> fits old new p s"
  shows "reaches P (enter r p) (\<lambda>r' s. going old new op r' s \<and> sw_phase r' = p)"
  unfolding enter_def Let_def
proof (rule reaches_then' [where R = "going old new op (r\<lparr>sw_phase := p\<rparr>)"])
  show "reaches P (save (r\<lparr>sw_phase := p\<rparr>)) (\<lambda>_. going old new op (r\<lparr>sw_phase := p\<rparr>))"
    unfolding save_def
  proof (rule reaches_write)
    fix s assume "P s"
    with assms have "going old new op r s" "fits old new p s" by blast+
    then show "going old new op (r\<lparr>sw_phase := p\<rparr>)
        (sw_effect (WriteRecord (r\<lparr>sw_phase := p\<rparr>)) (s\<lparr>trail := trail s @ [(tag s, WriteRecord (r\<lparr>sw_phase := p\<rparr>), Got PNone)]\<rparr>))"
      by (simp del: sw_state.simps, intro going_store [where r = r]) (auto simp: going_def at_hand_def)
  qed (simp_all add: sw_store_def)
qed (rule reaches_return, simp)

lemma reaches_marker:
  assumes "role \<in> set [''active'', ''standby'']"
    and "\<And>s. P s \<Longrightarrow> going old new op r s \<and>
      fits old new (sw_phase r) (s\<lparr>markers := (markers s)(box := Marker (PDict (marker_json box role active)))\<rparr>)"
  shows "reaches P (tell (SetMarker box role active)) (\<lambda>_ s. going old new op r s \<and> shown box role active s)"
proof (rule reaches_write)
  fix s assume p: "P s"
  let ?m = "(markers s)(box := Marker (PDict (marker_json box role active)))"
  let ?t = "s\<lparr>trail := trail s @ [(tag s, SetMarker box role active, Got PNone)], markers := ?m\<rparr>"
  have g: "going old new op r s" "fits old new (sw_phase r) (s\<lparr>markers := ?m\<rparr>)" using assms(2) [OF p] by simp_all
  have "fits old new (sw_phase r) ?t" using g(2) by (subst fits_cong [where t = "s\<lparr>markers := ?m\<rparr>"]) simp_all
  then have "going old new op r ?t" using g(1) by (simp add: going_def at_hand_def)
  moreover have "shown box role active ?t" using assms(1) shown_marker [of role box role active "?t" box active] by simp
  ultimately show "going old new op r (sw_effect (SetMarker box role active) (s\<lparr>trail := trail s @ [(tag s, SetMarker box role active, Got PNone)]\<rparr>)) \<and>
      shown box role active (sw_effect (SetMarker box role active) (s\<lparr>trail := trail s @ [(tag s, SetMarker box role active, Got PNone)]\<rparr>))"
    by simp
qed simp_all

lemma reaches_if:
  "(b \<Longrightarrow> reaches P m Q) \<Longrightarrow> (\<not> b \<Longrightarrow> reaches P n Q) \<Longrightarrow> reaches P (if b then m else n) Q"
  by simp

lemma reaches_given: "(\<And>s. P s \<Longrightarrow> reaches P m Q) \<Longrightarrow> reaches P m Q"
  unfolding reaches_def by blast

lemma going_record: "going old new op r s \<Longrightarrow> sw_old r = old \<and> sw_new r = new \<and> sw_operation r = op \<and> old \<noteq> new \<and> valid_box new"
  by (simp add: going_def at_hand_def)

lemma reach_published:
  assumes "sw_phase r = ''published''"
  shows "reaches (going old new op r) (published r) (\<lambda>r' s. going old new op r' s \<and> sw_phase r' = ''synchronized'')"
  unfolding published_def placement_after_def
  apply (rule reaches_then [OF reaches_tell], simp, simp, rule reaches_then [OF reaches_tell], simp, simp)
  apply (rule reaches_then [OF reaches_readiness], simp)
  apply (rule reaches_enter, use assms in \<open>auto simp: going_def fits_def\<close>)
  done

lemma reach_activated:
  assumes "sw_phase r = ''activated''"
  shows "reaches (going old new op r) (activated r) (\<lambda>r' s. going old new op r' s \<and> sw_phase r' = ''complete'')"
proof (rule reaches_given)
  fix t assume "going old new op r t"
  note rec = going_record [OF this]
  show ?thesis
    unfolding activated_def
  proof (rule reaches_then [OF reaches_tell], simp, simp, rule reaches_fact [where g = markers], rule reaches_given)
    fix ms s assume s: "going old new op r s \<and> markers s = ms"
    then have sh: "shown old ''standby'' new s" "shown new ''active'' new s" using assms by (auto simp: going_def fits_def)
    then have both: "switched r (controller_status old (ms old), controller_status new (ms new))"
      "\<not> is_active (controller_status old (ms old))"
      using s rec by (auto simp: switched_def shown_def Let_def)
    show "reaches (\<lambda>s. going old new op r s \<and> markers s = ms) (rbind (states r) (\<lambda>both.
        rbind (rrequire (switched r both) ''final controller authority differs'') (\<lambda>_. rbind (verify_promotion (sw_new r)) (\<lambda>_.
          enter r ''complete'')))) (\<lambda>r' s. going old new op r' s \<and> sw_phase r' = ''complete'')"
      apply (rule reaches_value [OF reaches_states], simp, use both rec in simp)
      apply (rule reaches_require, use both rec in simp)
      apply (rule reaches_then [OF reaches_promotion], simp, use rec in simp)
      apply (rule reaches_enter, use assms in \<open>auto simp: going_def fits_def\<close>)
      done
  qed
qed

lemma reach_completed:
  assumes "sw_phase r = ''complete''"
  shows "reaches (going old new op r) (completed r) (\<lambda>r' s. going old new op r' s \<and> sw_phase r' = ''complete'')"
proof (rule reaches_given)
  fix t assume "going old new op r t"
  note rec = going_record [OF this]
  show ?thesis
    unfolding completed_def
  proof (rule reaches_require, simp add: assms, rule reaches_fact [where g = markers], rule reaches_given)
    fix ms s assume s: "going old new op r s \<and> markers s = ms"
    then have sh: "shown old ''standby'' new s" "shown new ''active'' new s" using assms by (auto simp: going_def fits_def)
    then have both: "switched r (controller_status old (ms old), controller_status new (ms new))"
      "\<not> is_active (controller_status old (ms old))" "names_active (controller_status old (ms old)) new"
      using s rec by (auto simp: switched_def shown_def Let_def)
    show "reaches (\<lambda>s. going old new op r s \<and> markers s = ms) (rbind (states r) (\<lambda>(old, new).
        rbind (rrequire (switched r (old, new) \<and> names_active old (sw_new r))
          ''completed switch no longer matches controller authority'') (\<lambda>_. rreturn r)))
      (\<lambda>r' s. going old new op r' s \<and> sw_phase r' = ''complete'')"
      apply (rule reaches_value [OF reaches_states], simp, use both rec in simp)
      apply (simp only: prod.case)
      apply (rule reaches_require, use both rec in simp, rule reaches_return, use assms in simp)
      done
  qed
qed

lemma guard_of_standby: "shown box ''standby'' active s \<Longrightarrow> require_active (controller_name box) (markers s box) placement = 78"
proof (rule guard_refuses_inactive)
  assume sh: "shown box ''standby'' active s"
  then show "markers s box \<noteq> NoGuard"
    by (auto simp: shown_def Let_def has_role_def controller_status_def guard_answer_def setdefault_def dhas_def)
  from sh show "\<not> active_marker box (markers s box)"
    by (simp add: shown_def Let_def is_active_def active_marker_def)
qed

lemma reaches_guard:
  assumes "lasting P" "\<And>s. P s \<Longrightarrow> shown box ''standby'' active s"
  shows "reaches P (ask (Guard box)) (\<lambda>v s. P s \<and> v = PInt 78)"
  by (rule reaches_ask_value, rule reaches_interact [where u = PNone and v = "\<lambda>_. PInt 78"])
    (use assms guard_of_standby [of box active] in auto)

lemma reach_synchronized:
  assumes "sw_phase r = ''synchronized''"
  shows "reaches (going old new op r) (synchronized r) (\<lambda>r' s. going old new op r' s \<and> sw_phase r' = ''demoted'')"
proof (rule reaches_given)
  fix t assume "going old new op r t"
  note rec = going_record [OF this]
  let ?S = "\<lambda>s. going old new op r s \<and> shown old ''standby'' new s"
  have stand: "reaches (going old new op r) (in_order [check_locks, tell (SetMarker (sw_old r) ''standby'' (sw_new r))]) (\<lambda>_. ?S)"
    apply (rule reaches_in_order_Cons [OF reaches_tell], simp, simp, rule reaches_in_order_Cons)
     apply (rule reaches_marker [where r = r and old = old and new = new and op = op], simp)
     apply (use assms rec in \<open>auto simp: going_def fits_def shown_marker\<close>)[1]
    apply (rule reaches_in_order_Nil, use rec in simp)
    done
  have verified: "reaches ?S (rbind (states r) (\<lambda>(old, new).
      rbind (rrequire (\<not> is_active old \<and> has_role old ''standby'' \<and> names_active old (sw_new r)) msg) (\<lambda>_.
      rbind (ask (Guard (sw_old r))) (\<lambda>code. rbind (rrequire (code = PInt 78) msg') (\<lambda>_. enter r ''demoted'')))))
      (\<lambda>r' s. going old new op r' s \<and> sw_phase r' = ''demoted'')" for msg msg'
  proof (rule reaches_fact [where g = markers], rule reaches_given)
    fix ms s assume s: "?S s \<and> markers s = ms"
    then have st: "\<not> is_active (controller_status old (ms old))" "has_role (controller_status old (ms old)) ''standby''"
      "names_active (controller_status old (ms old)) new"
      by (auto simp: shown_def Let_def)
    show "reaches (\<lambda>s. ?S s \<and> markers s = ms) (rbind (states r) (\<lambda>(old, new).
      rbind (rrequire (\<not> is_active old \<and> has_role old ''standby'' \<and> names_active old (sw_new r)) msg) (\<lambda>_.
      rbind (ask (Guard (sw_old r))) (\<lambda>code. rbind (rrequire (code = PInt 78) msg') (\<lambda>_. enter r ''demoted'')))))
      (\<lambda>r' s. going old new op r' s \<and> sw_phase r' = ''demoted'')"
      apply (rule reaches_value [OF reaches_states], simp, use st rec in simp)
      apply (simp only: prod.case)
      apply (rule reaches_require, use st rec in simp)
      apply (rule reaches_value [OF reaches_guard [where active = new]], simp, use rec in simp)
      apply (rule reaches_require, simp, rule reaches_enter, use assms in \<open>auto simp: going_def fits_def\<close>)
      done
  qed
  show ?thesis
    unfolding synchronized_def
  proof (rule reaches_then [OF reaches_tell], simp, simp, rule reaches_fact [where g = markers], rule reaches_given)
    fix ms s assume s: "going old new op r s \<and> markers s = ms"
    then have new: "\<not> is_active (controller_status new (ms new))" using assms by (auto simp: going_def fits_def shown_def Let_def)
    have old: "\<not> is_active (controller_status old (ms old)) \<Longrightarrow> going old new op r s' \<and> markers s' = ms \<Longrightarrow> shown old ''standby'' new s'" for s'
      using assms by (auto simp: going_def fits_def shown_def Let_def)
    show "reaches (\<lambda>s. going old new op r s \<and> markers s = ms) (rbind (states r) (\<lambda>(old, new).
      rbind (rrequire (\<not> is_active new) ''destination became active before recorded demotion'') (\<lambda>_.
      rbind (if is_active old then in_order [check_locks, tell (SetMarker (sw_old r) ''standby'' (sw_new r))]
             else rreturn ()) (\<lambda>_.
      rbind (states r) (\<lambda>(old, new).
      rbind (rrequire (\<not> is_active old \<and> has_role old ''standby'' \<and> names_active old (sw_new r))
        ''old controller demotion is unverified'') (\<lambda>_.
      rbind (ask (Guard (sw_old r))) (\<lambda>code.
      rbind (rrequire (code = PInt 78) ''old controller can still start Platform-wide operations'') (\<lambda>_.
      enter r ''demoted''))))))))
      (\<lambda>r' s. going old new op r' s \<and> sw_phase r' = ''demoted'')"
      apply (rule reaches_value [OF reaches_states], simp, use new rec in simp)
      apply (simp only: prod.case)
      apply (rule reaches_require, use new rec in simp)
      apply (rule reaches_then' [OF _ verified])
      apply (rule reaches_if, rule reaches_weaken [OF stand], simp, simp)
      apply (rule reaches_return, use old rec in auto)
      done
  qed
qed

lemma reach_demoted:
  assumes "sw_phase r = ''demoted''"
  shows "reaches (going old new op r) (demoted r) (\<lambda>r' s. going old new op r' s \<and> sw_phase r' = ''activated'')"
proof (rule reaches_given)
  fix t assume "going old new op r t"
  note rec = going_record [OF this]
  let ?A = "\<lambda>s. going old new op r s \<and> shown new ''active'' new s"
  have start: "reaches (going old new op r) (in_order [check_locks, tell (SetMarker (sw_new r) ''active'' (sw_new r))]) (\<lambda>_. ?A)"
    apply (rule reaches_in_order_Cons [OF reaches_tell], simp, simp, rule reaches_in_order_Cons)
     apply (rule reaches_marker [where r = r and old = old and new = new and op = op], simp)
     apply (use assms rec in \<open>auto simp: going_def fits_def shown_marker\<close>)[1]
    apply (rule reaches_in_order_Nil, use rec in simp)
    done
  have last: "reaches ?A (enter r ''activated'') (\<lambda>r' s. going old new op r' s \<and> sw_phase r' = ''activated'')"
    by (rule reaches_enter) (use assms in \<open>auto simp: going_def fits_def\<close>)
  show ?thesis
    unfolding demoted_def
  proof (rule reaches_then [OF reaches_tell], simp, simp, rule reaches_fact [where g = markers], rule reaches_given)
    fix ms s assume s: "going old new op r s \<and> markers s = ms"
    then have old: "\<not> is_active (controller_status old (ms old))" "names_active (controller_status old (ms old)) new"
      using assms by (auto simp: going_def fits_def shown_def Let_def)
    have new: "\<not> is_active (controller_status new (ms new)) \<Longrightarrow> has_role (controller_status new (ms new)) ''standby''"
      using s assms by (auto simp: going_def fits_def shown_def Let_def)
    have on: "is_active (controller_status new (ms new)) \<Longrightarrow> going old new op r s' \<and> markers s' = ms \<Longrightarrow> shown new ''active'' new s'" for s'
      using assms by (auto simp: going_def fits_def shown_def Let_def)
    show "reaches (\<lambda>s. going old new op r s \<and> markers s = ms) (rbind (states r) (\<lambda>(old, new).
      rbind (rrequire (\<not> is_active old \<and> names_active old (sw_new r))
        ''old controller authority changed before activation'') (\<lambda>_.
      rbind (if is_active new then rreturn ()
             else rbind (rrequire (has_role new ''standby'') ''destination is not the expected standby'') (\<lambda>_.
               in_order [check_locks, tell (SetMarker (sw_new r) ''active'' (sw_new r))])) (\<lambda>_.
      enter r ''activated''))))
      (\<lambda>r' s. going old new op r' s \<and> sw_phase r' = ''activated'')"
      apply (rule reaches_value [OF reaches_states], simp, use old rec in simp)
      apply (simp only: prod.case)
      apply (rule reaches_require, use old rec in simp)
      apply (rule reaches_then' [OF _ last])
      apply (rule reaches_if)
       apply (rule reaches_return, use on rec in auto)[1]
      apply (rule reaches_require, use new rec in simp)
      apply (rule reaches_weaken [OF start], simp, simp)
      done
  qed
qed

lemma reach_at:
  "(sw_phase r = p \<Longrightarrow> reaches (going old new op r) (f r) (\<lambda>r' s. going old new op r' s \<and> sw_phase r' = p')) \<Longrightarrow>
    sw_phase r \<in> set (p # p' # ps) \<Longrightarrow>
    reaches (going old new op r) (at_phase p f r) (\<lambda>r' s. going old new op r' s \<and> sw_phase r' \<in> set (p' # ps))"
  unfolding at_phase_def
  by (rule reaches_if, rule reaches_weaken [where P = "going old new op r" and Q = "\<lambda>r' s. going old new op r' s \<and> sw_phase r' = p'"])
    (auto intro: reaches_return)

lemma fits_phase: "fits old new p s \<Longrightarrow> p \<in> set phase_names"
  by (auto simp: fits_def phase_names_def split: if_splits)

lemma fits_one_active:
  "fits old new p s \<Longrightarrow> \<not> (is_active (controller_status old (markers s old)) \<and> is_active (controller_status new (markers s new)))"
  by (auto simp: fits_def shown_def Let_def split: if_splits)

lemma reach_skip: "sw_phase r \<noteq> p \<Longrightarrow> reaches P (at_phase p f r) (\<lambda>r' s. P s \<and> r' = r)"
  by (simp add: at_phase_def reaches_return)

lemma reach_transition:
  assumes "reached ''published'' r"
  shows "reaches (going old new op r) (transition r) (\<lambda>r' s. going old new op r' s \<and> sw_phase r' = ''complete'')"
  unfolding transition_def
proof (rule reaches_then [OF reaches_tell], simp, simp, rule reaches_fact [where g = markers], rule reaches_given)
  fix ms s assume s: "going old new op r s \<and> markers s = ms"
  then have fit: "fits old new (sw_phase r) s" by (simp add: going_def)
  have rec: "sw_old r = old" "sw_new r = new" using s going_record by blast+
  let ?old = "controller_status old (ms old)" and ?new = "controller_status new (ms new)"
  have phase: "sw_phase r \<in> set [''published'', ''synchronized'', ''demoted'', ''activated'', ''complete'']"
    "sw_phase r \<noteq> ''prepared''" "sw_phase r \<noteq> ''publishing''"
    using assms by (auto simp: reached_def phase_names_def)
  have one: "\<not> (is_active ?old \<and> is_active ?new)" using fits_one_active [OF fit] s by simp
  show "reaches (\<lambda>s. going old new op r s \<and> markers s = ms) (rbind (states r) (\<lambda>(old, new).
    rbind (at_phase ''prepared'' (prepared old new) r) (\<lambda>r1.
    rbind (at_phase ''publishing'' publishing r1) (\<lambda>r2.
    rbind (at_phase ''published'' published r2) (\<lambda>r3.
    rbind (at_phase ''synchronized'' synchronized r3) (\<lambda>r4.
    rbind (at_phase ''demoted'' demoted r4) (\<lambda>r5.
    rbind (at_phase ''activated'' activated r5) completed)))))))
    (\<lambda>r' s. going old new op r' s \<and> sw_phase r' = ''complete'')"
    apply (rule reaches_value [OF reaches_states], simp, use one rec in simp)
    apply (simp only: prod.case rec)
    apply (rule reaches_value [OF reach_skip [OF phase(2)]], rule reaches_value [OF reach_skip [OF phase(3)]])
    apply (rule reaches_weaken [where P = "going old new op r", rotated], simp, assumption)
    apply (rule reaches_bind [OF reach_at [OF reach_published]], assumption, rule phase(1))
    apply (rule reaches_pure, rule reaches_bind [OF reach_at [OF reach_synchronized]], assumption, assumption)
    apply (rule reaches_pure, rule reaches_bind [OF reach_at [OF reach_demoted]], assumption, assumption)
    apply (rule reaches_pure, rule reaches_bind [OF reach_at [OF reach_activated]], assumption, assumption)
    apply (rule reaches_pure, rule reach_completed, simp)
    done
qed

text \<open>The command of a switch, to start it or to resume it.\<close>

definition switch_args :: "string \<Rightarrow> string \<Rightarrow> string \<Rightarrow> sw_args" where
  "switch_args old new op = \<lparr>ar_old = old, ar_new = new, ar_resume = None, ar_operation = Some op, ar_dry_run = False,
     ar_local = True, ar_user = ''smith''\<rparr>"

lemma switch_args_simps [simp]:
  "ar_old (switch_args old new op) = old" "ar_new (switch_args old new op) = new" "requested (switch_args old new op) = op"
  "ar_dry_run (switch_args old new op) = False" "ar_user (switch_args old new op) = ''smith''" "ar_local (switch_args old new op)"
  by (simp_all add: switch_args_def requested_def)

lemma resumes_switch: "op \<noteq> '''' \<Longrightarrow> resumes (switch_args old new op) s \<longleftrightarrow> map_of (stores s old) op \<noteq> None"
  by (simp add: resumes_def) (simp add: switch_args_def)

lemma reaches_branch:
  "lasting P \<Longrightarrow> (\<And>s. P s \<Longrightarrow> c s = b) \<Longrightarrow> reaches P (if b then m else n) Q \<Longrightarrow> reaches P (\<lambda>s. if c s then m s else n s) Q"
proof (rule reachesI)
  fix s assume las: "lasting P" and cb: "\<And>s. P s \<Longrightarrow> c s = b" and r: "reaches P (if b then m else n) Q" and p: "P s"
  have "P (s\<lparr>answers := as\<rparr>)" for as
    using las p unfolding lasting_def by (metis sw_state.surjective sw_state.surjective sw_state.update_convs(7,8))
  then have "c (s\<lparr>answers := as\<rparr>) = b" for as using cb by blast
  then show "\<exists>rs x s'. list_all is_got rs \<and> Q x s' \<and>
      (\<forall>rest. (if c (s\<lparr>answers := rs @ rest\<rparr>) then m (s\<lparr>answers := rs @ rest\<rparr>) else n (s\<lparr>answers := rs @ rest\<rparr>)) = (Inr x, s'\<lparr>answers := rest\<rparr>))"
    using r p unfolding reaches_def by (cases b) auto
qed

lemma reaches_silent:
  assumes "\<And>s. P s \<Longrightarrow> \<exists>x. Q x (f s) \<and> (\<forall>as. m (s\<lparr>answers := as\<rparr>) = (Inr x, (f s)\<lparr>answers := as\<rparr>))"
  shows "reaches P m Q"
proof (rule reachesI)
  fix s assume "P s"
  from assms [OF this] obtain x where "Q x (f s)" "\<And>as. m (s\<lparr>answers := as\<rparr>) = (Inr x, (f s)\<lparr>answers := as\<rparr>)" by blast
  then show "\<exists>rs x s'. list_all is_got rs \<and> Q x s' \<and> (\<forall>rest. m (s\<lparr>answers := rs @ rest\<rparr>) = (Inr x, s'\<lparr>answers := rest\<rparr>))"
    by (intro exI [of _ "[]"] exI) auto
qed

lemma reach_resume:
  "reaches (going old new op r) (resume_record (switch_args old new op)) (\<lambda>r' s. going old new op r' s \<and> r' = r)"
  by (rule reaches_silent [where f = "\<lambda>s. s\<lparr>tag := Some op\<rparr>"])
    (auto simp: going_def at_hand_def resume_record_def rbind_def rrequire_def rreturn_def set_tag_def)

definition finished_switch :: "string \<Rightarrow> string \<Rightarrow> string \<Rightarrow> switch_record \<Rightarrow> sw_state \<Rightarrow> bool" where
  "finished_switch old new op r s \<longleftrightarrow> sw_phase r = ''complete'' \<and> map_of (stores s old) op = Some r \<and>
     shown old ''standby'' new s \<and> shown new ''active'' new s"

lemma going_finished: "going old new op r s \<Longrightarrow> sw_phase r = ''complete'' \<Longrightarrow> finished_switch old new op r s"
  by (auto simp: going_def at_hand_def fits_def finished_switch_def)

definition published_switch :: "string \<Rightarrow> string \<Rightarrow> string \<Rightarrow> switch_record \<Rightarrow> sw_state \<Rightarrow> bool" where
  "published_switch old new op r s \<longleftrightarrow> going old new op r s \<and> reached ''published'' r"

lemma lasting_published [simp]: "lasting (published_switch old new op r)"
  by (simp add: published_switch_def lasting_def going_def at_hand_def)

lemma reach_run:
  assumes "fullmatch OP op" "op \<noteq> ''''" "old \<noteq> new"
  shows "reaches (published_switch old new op r) (run_switch (switch_args old new op))
    (\<lambda>x s. \<exists>r. x = Some r \<and> finished_switch old new op r s)"
proof -
  have choose: "reaches (published_switch old new op r) (\<lambda>s. if resumes (switch_args old new op) s
      then resume_record (switch_args old new op) s else new_record (switch_args old new op) s)
      (\<lambda>r s. going old new op r s \<and> reached ''published'' r)"
  proof (rule reaches_branch [where b = True])
    show "reaches (published_switch old new op r) (if True then resume_record (switch_args old new op)
        else new_record (switch_args old new op)) (\<lambda>r s. going old new op r s \<and> reached ''published'' r)"
      unfolding if_True published_switch_def
      by (rule reaches_pure, rule reaches_weaken [OF reach_resume]) auto
  qed (use assms in \<open>auto simp: resumes_switch published_switch_def going_def at_hand_def\<close>)
  show ?thesis
    unfolding run_switch_def switch_args_simps
    apply (rule reaches_require, use assms in simp, rule reaches_require, use assms in simp)
    apply (simp only: if_False not_True_eq_False switch_args_simps)
    apply (rule reaches_then [OF reaches_tell], simp, simp, rule reaches_require, simp)
    apply (rule reaches_then [OF reaches_tell], simp, simp, rule reaches_then [OF reaches_tell], simp, simp)
    apply (rule reaches_bind [OF choose], rule reaches_pure, rule reaches_bind [OF reach_transition], assumption)
    apply (rule reaches_pure, rule reaches_then [OF reaches_tell], simp, simp)
    apply (rule reaches_return, use going_finished in blast)
    done
qed

text \<open>A switch that is on course either has not published yet, and then the old controller is still the active one, or
  can be finished.\<close>

definition unpublished :: "string \<Rightarrow> string \<Rightarrow> sw_state \<Rightarrow> bool" where
  "unpublished old op s \<longleftrightarrow> (case map_of (stores s old) op of None \<Rightarrow> True | Some r \<Rightarrow> \<not> reached ''published'' r)"

lemma on_course_unpublished:
  "on_course old new op s \<Longrightarrow> unpublished old op s \<Longrightarrow> shown old ''active'' old s \<and> shown new ''standby'' old s"
  by (auto simp: on_course_def unpublished_def fits_def reached_def phase_names_def split: option.splits if_splits)

lemma on_course_finishes:
  assumes "on_course old new op s" "\<not> unpublished old op s" "valid_box new" "fullmatch OP op"
  shows "\<exists>rs r s'. list_all is_got rs \<and> run_switch (switch_args old new op) (sw_boot rs s) = (Inr (Some r), s') \<and>
    finished_switch old new op r s'"
proof -
  obtain r0 where r0: "map_of (stores s old) op = Some r0" "reached ''published'' r0"
    using assms(2) by (auto simp: unpublished_def split: option.splits)
  have op: "op \<noteq> ''''" using assms(4) by (auto simp: OP_def fullmatch_rep)
  have diff: "old \<noteq> new" using assms(1) by (simp add: on_course_def)
  have now: "published_switch old new op r0 (s\<lparr>tag := None\<rparr>)"
    using r0 assms by (auto simp: published_switch_def going_def at_hand_def on_course_def)
  obtain rs x s' r where 1: "list_all is_got rs" "x = Some r" "finished_switch old new op r s'"
    "\<And>rest. run_switch (switch_args old new op) (s\<lparr>tag := None, answers := rs @ rest\<rparr>) = (Inr x, s'\<lparr>answers := rest\<rparr>)"
    using reach_run [OF assms(4) op diff, of r0] now unfolding reaches_def by blast
  have "finished_switch old new op r (s'\<lparr>answers := []\<rparr>)" using 1(3) by (simp add: finished_switch_def)
  then show ?thesis using 1(1,2) 1(4) [of "[]"] by (intro exI [of _ rs] exI conjI) (auto simp: sw_boot_def)
qed

end
