(* ===== verification/Controller_Stuck.thy ===== *)
theory Controller_Stuck
  imports Controller_Course
begin

text \<open>
  A switch that was cut off between \<open>git add\<close> and \<open>git commit\<close>. Its edit of the Instance file is staged, the status
  says so in a form that a resume refuses, and a resume does nothing about it: the switch stays where it is.
\<close>

definition stuck :: "string \<Rightarrow> string \<Rightarrow> switch_record \<Rightarrow> (string \<Rightarrow> marker_file) \<Rightarrow> sw_state \<Rightarrow> bool" where
  "stuck old op r ms s \<longleftrightarrow> map_of (stores s old) op = Some r \<and> sw_phase r = ''publishing'' \<and> sw_old r = old \<and>
     indexed s old \<noteq> committed s old \<and> markers s = ms"

text \<open>The status of a staged edit is none of the three that a resume accepts.\<close>

lemma dropWhile_stops: "\<not> P y \<Longrightarrow> dropWhile P (xs @ y # ys) = dropWhile P xs @ y # ys"
  by (induction xs) auto

lemma strip_between:
  "\<not> P x \<Longrightarrow> \<not> P y \<Longrightarrow> strip_chars P (x # mid @ y # rest) = x # mid @ y # rev (dropWhile P (rev rest))"
  using dropWhile_stops [of P y "rev rest" "rev mid @ [x]"] by (simp add: strip_chars_def)

lemma staged_status:
  assumes "indexed s box \<noteq> committed s box"
  shows "strip_chars is_space (status_line box s @ others) \<notin>
    set ['''', ''M klokast-instance.json'', '' M klokast-instance.json'']"
proof -
  let ?mark = "changed_mark (instances s box \<noteq> indexed s box)"
  have "status_line box s @ others = CHR ''M'' # (?mark # '' klokast-instance.jso'') @ CHR ''n'' # CHR 0x0A # others"
    using assms by (simp add: status_line_def Let_def changed_mark_def INSTANCE_FILE_def)
  moreover have "\<not> is_space CHR ''M''" "\<not> is_space CHR ''n''" by code_simp+
  ultimately have "strip_chars is_space (status_line box s @ others) =
      CHR ''M'' # ?mark # '' klokast-instance.json'' @ rev (dropWhile is_space (rev (CHR 0x0A # others)))"
    using strip_between [of is_space "CHR ''M''" "CHR ''n''" "?mark # '' klokast-instance.jso''" "CHR 0x0A # others"] by simp
  then show ?thesis by (simp add: changed_mark_def)
qed

section \<open>A resume of a stuck switch\<close>

abbreviation stuck_triple ::
  "string \<Rightarrow> string \<Rightarrow> switch_record \<Rightarrow> (string \<Rightarrow> marker_file) \<Rightarrow> 'a sw_run \<Rightarrow> ('a \<Rightarrow> bool) \<Rightarrow> bool" where
  "stuck_triple old op r ms m Q \<equiv> triple (stuck old op r ms) (\<lambda>s. ()) (\<lambda>_. True) m (\<lambda>x _. Q x)"

lemma stuck_simps [simp]:
  "stuck old op r ms (s\<lparr>answers := as\<rparr>) = stuck old op r ms s" "stuck old op r ms (s\<lparr>trail := tr\<rparr>) = stuck old op r ms s"
  "stuck old op r ms (s\<lparr>tag := t\<rparr>) = stuck old op r ms s"
  by (simp_all add: stuck_def)

lemma stuck_interact:
  assumes "\<And>s. sw_effect act s = s" "\<And>s. sw_failed act s = s"
    and "\<And>s q. stuck old op r ms s \<Longrightarrow> Q (sw_result act s q)"
  shows "stuck_triple old op r ms (interact_sw act) Q"
  by (rule tripleI) (auto simp: interact_sw_def Let_def assms split: list.splits if_splits)

lemma stuck_ask: "silent act \<Longrightarrow> stuck_triple old op r ms (ask act) (\<lambda>_. True)"
  unfolding ask_def
  by (rule triple_bind [OF stuck_interact [where Q = "\<lambda>_. True"]]) (auto simp: silent_effect split: sw_reply.split)

lemma stuck_tell: "silent act \<Longrightarrow> stuck_triple old op r ms (tell act) (\<lambda>_. True)"
  unfolding tell_def by (rule triple_bind [OF stuck_ask]) auto

lemma stuck_status: "stuck_triple old op r ms (status box) (\<lambda>_. True)"
  unfolding status_def
  by (rule triple_bind [OF stuck_interact [where Q = "\<lambda>_. True"]]) (auto split: sw_reply.split)

lemma stuck_states: "stuck_triple old op r ms (states r') (\<lambda>_. True)"
  unfolding states_def
  by (intro triple_bind [OF stuck_status] triple_require_then) (auto intro: triple_return)

lemma stuck_git_status:
  "stuck_triple old op r ms (git old [''status'', ''--porcelain''])
    (\<lambda>out. out \<notin> set ['''', ''M klokast-instance.json'', '' M klokast-instance.json''])"
  unfolding git_def ask_def
proof (rule triple_bind [OF triple_bind [OF stuck_interact]])
  let ?ok = "\<lambda>v. \<forall>out. v = PStr out \<longrightarrow> strip_chars is_space out \<notin>
    set ['''', ''M klokast-instance.json'', '' M klokast-instance.json'']"
  show "(\<lambda>q. \<forall>v. q = Got v \<longrightarrow> ?ok v) (sw_result (Git old [''status'', ''--porcelain'']) s q)" if "stuck old op r ms s" for s q
  proof (cases q)
    case (Got v)
    have "indexed s old \<noteq> committed s old" using that by (simp add: stuck_def)
    then have "status_line old s \<noteq> ''''" by (simp add: status_line_def Let_def)
    with staged_status [OF \<open>indexed s old \<noteq> committed s old\<close>] Got show ?thesis by (auto simp: git_answer_def Let_def)
  qed simp_all
  show "triple (stuck old op r ms) (\<lambda>s. ()) (\<lambda>_. \<forall>v. q = Got v \<longrightarrow> ?ok v) (case q of Got v \<Rightarrow> rreturn v | _ \<Rightarrow> raise ''interaction failed'')
      (\<lambda>v _. ?ok v)" for q
    by (auto split: sw_reply.split)
  show "triple (stuck old op r ms) (\<lambda>s. ()) (\<lambda>_. ?ok v) (case v of PStr out \<Rightarrow> rreturn (strip_chars is_space out) | _ \<Rightarrow> raise ''git'')
      (\<lambda>out _. out \<notin> set ['''', ''M klokast-instance.json'', '' M klokast-instance.json''])" for v
    by (auto split: pyval.split)
qed (simp_all add: git_effect_def INSTANCE_FILE_def)

lemma stuck_lift: "stuck_triple old op r ms (sw_lift m) (\<lambda>_. True)"
  unfolding sw_lift_def by (auto split: sum.split)

lemma stuck_never: "triple ok obs (\<lambda>_. False) m Q"
  by (simp add: triple_def)

lemma stuck_publishing:
  assumes "sw_old r = old"
  shows "stuck_triple old op r ms (publishing r) (\<lambda>_. False)"
proof -
  have refused: "triple (stuck old op r ms) (\<lambda>s. ())
      (\<lambda>_. out \<notin> set ['''', ''M klokast-instance.json'', '' M klokast-instance.json''])
      (rbind (rrequire (out \<in> set ['''', ''M klokast-instance.json'', '' M klokast-instance.json'']) msg) (\<lambda>_. m)) (\<lambda>_ _. False)"
    for out msg and m :: "switch_record sw_run"
    by (rule triple_require_then, rule triple_weaken [OF stuck_never]) auto
  have publish: "stuck_triple old op r ms (publish_instance r) (\<lambda>_. False)"
    unfolding publish_instance_def Let_def assms
    by (rule triple_bind [OF stuck_ask], simp, rule triple_bind [OF stuck_lift], rule triple_bind [OF triple_must],
        rule triple_bind [OF stuck_git_status], rule refused)
  show ?thesis
    unfolding publishing_def by (rule triple_bind [OF publish], rule stuck_never)
qed

lemma stuck_transition:
  assumes "sw_phase r = ''publishing''" "sw_old r = old"
  shows "stuck_triple old op r ms (transition r) (\<lambda>_. False)"
proof -
  have skip: "at_phase ''prepared'' f r = rreturn r" for f by (simp add: at_phase_def assms(1))
  have publish: "at_phase ''publishing'' publishing r = publishing r" by (simp add: at_phase_def assms(1))
  have next_: "rbind (rreturn r) f = f r" for f :: "switch_record \<Rightarrow> switch_record sw_run"
    by (simp add: rbind_def rreturn_def fun_eq_iff)
  show ?thesis
    unfolding transition_def skip next_ publish
    by (rule triple_bind [OF stuck_tell], simp, rule triple_bind [OF stuck_states], simp only: split_paired_all prod.case,
        rule triple_bind [OF stuck_publishing [OF assms(2)]], rule stuck_never)
qed

lemma stuck_resume:
  assumes "ar_old args = old" "requested args = op"
  shows "stuck_triple old op r ms (resume_record args) (\<lambda>r'. r' = r \<and> sw_phase r = ''publishing'' \<and> sw_old r = old)"
proof (rule tripleI)
  fix s x s' assume s: "stuck old op r ms s" and run: "resume_record args s = (x, s')"
  then have "map_of (stores s (ar_old args)) (requested args) = Some r" by (simp add: stuck_def assms)
  with run s show "stuck old op r ms s' \<and> (\<forall>r'. x = Inr r' \<longrightarrow> r' = r \<and> sw_phase r = ''publishing'' \<and> sw_old r = old)"
    by (auto simp: resume_record_def rbind_def rrequire_def raise_def rreturn_def set_tag_def split: if_splits)
      (auto simp: stuck_def)
qed

lemma stuck_run:
  assumes "ar_old args = old" "requested args = op" "op \<noteq> ''''"
  shows "stuck_triple old op r ms (run_switch args) (\<lambda>done. done = None)"
proof -
  have choose: "stuck_triple old op r ms (\<lambda>s. if resumes args s then resume_record args s else new_record args s)
      (\<lambda>r'. r' = r \<and> sw_phase r = ''publishing'' \<and> sw_old r = old)"
  proof (rule tripleI)
    fix s x s' assume s: "stuck old op r ms s"
      and run: "(if resumes args s then resume_record args s else new_record args s) = (x, s')"
    from s have "resumes args s" by (simp add: resumes_def stuck_def assms)
    with run have "resume_record args s = (x, s')" by simp
    from tripleD [OF stuck_resume [OF assms(1,2)] s TrueI this]
    show "stuck old op r ms s' \<and> (\<forall>r'. x = Inr r' \<longrightarrow> r' = r \<and> sw_phase r = ''publishing'' \<and> sw_old r = old)" .
  qed
  have go: "triple (stuck old op r ms) (\<lambda>s. ()) (\<lambda>_. r' = r \<and> sw_phase r = ''publishing'' \<and> sw_old r = old)
      (rbind (transition r') m) (\<lambda>done _. done = None)" for r' and m :: "switch_record \<Rightarrow> switch_record option sw_run"
  proof (cases "r' = r \<and> sw_phase r = ''publishing'' \<and> sw_old r = old")
    case True
    then have "stuck_triple old op r ms (rbind (transition r) m) (\<lambda>done. done = None)"
      by (intro triple_bind [OF stuck_transition stuck_never]) auto
    with True show ?thesis by simp
  next
    case False
    then show ?thesis by (auto simp: triple_def)
  qed
  show ?thesis
    unfolding run_switch_def
    apply (rule triple_bind [OF triple_must], rule triple_bind [OF triple_must])
    apply (rule triple_if, rule triple_return, simp)
    apply (rule triple_if, rule triple_bind [OF stuck_tell], simp, rule triple_return, simp)
    apply (rule triple_bind [OF stuck_tell], simp, rule triple_bind [OF triple_must])
    apply (rule triple_bind [OF stuck_tell], simp, rule triple_bind [OF stuck_tell], simp)
    apply (rule triple_bind [OF choose], rule go)
    done
qed

text \<open>The switch run again and again, each time with any replies.\<close>

inductive resumed :: "string \<Rightarrow> string \<Rightarrow> sw_state \<Rightarrow> sw_state \<Rightarrow> bool" for old op s where
  none: "resumed old op s s"
| again: "resumed old op s t \<Longrightarrow> ar_old args = old \<Longrightarrow> requested args = op \<Longrightarrow> op \<noteq> '''' \<Longrightarrow>
    run_switch args (sw_boot rs t) = (x, t') \<Longrightarrow> resumed old op s t'"

lemma resumed_stuck: "resumed old op s t \<Longrightarrow> stuck old op r ms s \<Longrightarrow> stuck old op r ms t"
proof (induction rule: resumed.induct)
  case (again t args rs x t')
  then have "stuck old op r ms (sw_boot rs t)" by (simp add: sw_boot_def)
  with again.hyps show ?case using tripleD [OF stuck_run [OF again.hyps(2-4)]] by blast
qed

text \<open>A resumed publication also stops at an Instance file that was torn while it was written.\<close>

lemma torn_instance_blocks:
  "instances s (sw_old r) = None \<Longrightarrow> \<exists>e s'. publish_instance r s = (Inl e, s')"
  by (cases "answers s"; cases "hd (answers s)")
    (auto simp: publish_instance_def rbind_def ask_def interact_sw_def Let_def raise_def)

end
