(* ===== verification/Controller_Properties.thy ===== *)
theory Controller_Properties
  imports Controller_Progress Controller_Stuck
begin

text \<open>
  The properties of the controllers' authority. The sample is a pair of controllers \<open>a\<close> (active) and \<open>b\<close> (its
  standby); the witnesses let a switch from \<open>a\<close> to \<open>b\<close> run until it has published, where it is cut off, and then to
  its end; another one is cut off between \<open>git add\<close> and \<open>git commit\<close>.
\<close>

section \<open>A pair of controllers\<close>

definition sample_op :: string where "sample_op = replicate 24 CHR ''a''"

definition sample_instance :: pyval where "sample_instance = PDict [(''controllers'', placement_of ''a'' ''b'')]"

definition sample_controllers :: sw_state where
  "sample_controllers = \<lparr>markers = (\<lambda>box. Marker (PDict (marker_json box (if box = ''a'' then ''active'' else ''standby'') ''a''))),
     stores = (\<lambda>_. []), instances = (\<lambda>_. Some sample_instance), indexed = (\<lambda>_. Some sample_instance),
     committed = (\<lambda>_. Some sample_instance), tag = None, trail = [], answers = []\<rparr>"

lemma sample_checks: "fullmatch OP sample_op" "valid_box ''b''" "sample_op \<noteq> ''''"
  by code_simp+

lemma sample_shown: "shown ''a'' ''active'' ''a'' sample_controllers" "shown ''b'' ''standby'' ''a'' sample_controllers"
  by (simp_all add: shown_def sample_controllers_def Let_def is_active_def has_role_def names_active_def)

lemma sample_fits: "fits ''a'' ''b'' ''prepared'' sample_controllers"
  by (simp add: fits_def sample_shown)

lemma sample_switching: "switching ''a'' ''b'' sample_op sample_controllers"
  by (rule switching.ready [OF _ _ _ sample_fits]) (simp_all add: sample_controllers_def)

lemma shown_inactive: "shown box ''standby'' a s \<Longrightarrow> \<not> active_marker box (markers s box)"
  "shown box ''active'' a s \<Longrightarrow> active_marker box (markers s box)"
  by (simp_all add: shown_def Let_def is_active_def active_marker_def)

lemma sample_history: "sw_history ''a'' ''b'' sample_controllers"
  by (rule sw_history.start) (use shown_inactive(1) [OF sample_shown(2)] in \<open>simp_all add: exclusive_def sample_controllers_def\<close>)

text \<open>The replies up to the commit; with the rest, the switch is cut off as soon as the record says that it is published.\<close>

definition sample_ready :: "sw_reply list" where
  "sample_ready = [Got (good_report Implementation), Got (good_report Instance), Got (placement_of ''a'' ''b''), Got PNone, Got PNone]"

definition sample_identity :: "char \<Rightarrow> sw_reply" where
  "sample_identity c = Got (PList [PDict [(''tailscale-policy.env'', PStr [c])], PStr (replicate 64 c)])"

definition staging_replies :: "sw_reply list" where
  "staging_replies = [Got PNone, Got PNone, Got PNone, Got (PStr ''''), Got (PStr ''c''), Got PNone, Got PNone,
     Got PNone, Got PNone, Got PNone] @ sample_ready @ sample_ready @
     [sample_identity CHR ''a'', sample_identity CHR ''b'', Got PNone,
      Got PNone, Got (PStr ''''), Got (PStr ''''), Got (PStr ''c''), Got PNone, Got PNone, Got PNone, Got (PStr ''''), Got PNone,
      Got (PStr '''')]"

definition publishing_replies :: "sw_reply list" where
  "publishing_replies = staging_replies @ [Got (PStr ''''), Got (PStr ''d''), Got (PStr INSTANCE_FILE), Got PNone, Got PNone,
     Got (PStr ''''), Got (PStr ''d''), Got PNone]"

abbreviation sample_args :: sw_args where "sample_args \<equiv> switch_args ''a'' ''b'' sample_op"

definition sample_staged :: sw_state where
  "sample_staged = snd (run_switch sample_args (sw_boot staging_replies sample_controllers))"

definition sample_published :: sw_state where
  "sample_published = snd (run_switch sample_args (sw_boot publishing_replies sample_controllers))"

definition record_where :: "(switch_record \<Rightarrow> bool) \<Rightarrow> sw_state \<Rightarrow> bool" where
  "record_where P s \<longleftrightarrow> (case map_of (stores s ''a'') sample_op of None \<Rightarrow> False | Some r \<Rightarrow> P r)"

lemma record_whereD: "record_where P s \<Longrightarrow> \<exists>r. map_of (stores s ''a'') sample_op = Some r \<and> P r"
  by (auto simp: record_where_def split: option.splits)

definition no_handoff :: "sw_state \<Rightarrow> bool" where
  "no_handoff s \<longleftrightarrow> list_all (\<lambda>(t, act, q). t \<noteq> None \<or> (case act of Status box \<Rightarrow> False | _ \<Rightarrow> True)) (trail s)"

lemma no_handoff_answered: "no_handoff s \<Longrightarrow> answered (trail s)"
  by (fastforce simp: no_handoff_def answered_def list_all_iff)

definition staged_halfway :: "sw_state \<Rightarrow> bool" where
  "staged_halfway s \<longleftrightarrow> record_where (\<lambda>r. sw_phase r = ''publishing'' \<and> sw_old r = ''a'') s \<and> indexed s ''a'' \<noteq> committed s ''a''"

definition just_published :: "sw_state \<Rightarrow> bool" where
  "just_published s \<longleftrightarrow> record_where (\<lambda>r. sw_phase r = ''published'') s \<and> no_handoff s \<and> active_marker ''a'' (markers s ''a'')"

lemma sample_runs: "staged_halfway sample_staged" "just_published sample_published"
  by code_simp+

lemma sample_session: "switching ''a'' ''b'' sample_op (snd (run_switch sample_args (sw_boot rs sample_controllers)))"
  "sw_history ''a'' ''b'' (snd (run_switch sample_args (sw_boot rs sample_controllers)))"
proof -
  obtain x s' where run: "run_switch sample_args (sw_boot rs sample_controllers) = (x, s')" by fastforce
  have "switching ''a'' ''b'' sample_op s'"
    by (rule switching.session [OF sample_switching _ _ _ _ run]) (simp_all add: sample_checks)
  moreover have "sw_history ''a'' ''b'' s'"
    by (rule sw_history.switch [OF sample_history _ run]) (simp add: on_pair_def)
  ultimately show "switching ''a'' ''b'' sample_op (snd (run_switch sample_args (sw_boot rs sample_controllers)))"
    "sw_history ''a'' ''b'' (snd (run_switch sample_args (sw_boot rs sample_controllers)))"
    by (simp_all add: run)
qed

lemmas sample_reached = sample_session [where rs = staging_replies, folded sample_staged_def]
  sample_session [where rs = publishing_replies, folded sample_published_def]

text \<open>A history in which the switch went through.\<close>

lemma sample_unpublished: "\<not> unpublished ''a'' sample_op sample_published"
  using sample_runs(2) by (auto simp: just_published_def unpublished_def reached_def phase_names_def dest!: record_whereD)

lemma sample_finished:
  "\<exists>s r. sw_history ''a'' ''b'' s \<and> finished_switch ''a'' ''b'' sample_op r s"
proof -
  from on_course_finishes [OF switching_on_course [OF sample_reached(3)] sample_unpublished sample_checks(2,1)]
  obtain rs r s' where run: "run_switch sample_args (sw_boot rs sample_published) = (Inr (Some r), s')"
    and fin: "finished_switch ''a'' ''b'' sample_op r s'" by blast
  have "sw_history ''a'' ''b'' s'"
    by (rule sw_history.switch [OF sample_reached(4) _ run]) (simp add: on_pair_def)
  with fin show ?thesis by blast
qed

text \<open>A handoff in an emergency rests on the word of the operator: if the old controller is not fenced and does not
  answer, both end up active.\<close>

definition blind_handoff :: handoff_args where
  "blind_handoff = \<lparr>ho_old_active = ''a'', ho_new_active = ''b'', ho_emergency = True, ho_old_active_fenced = True,
     ho_old_credentials_revoked = True, ho_dry_run = False\<rparr>"

definition blind_replies :: "sw_reply list" where
  "blind_replies = [Got PNone, Lost, Got (good_report Implementation), Got (good_report Instance),
     Got (placement_of ''b'' ''a''), Got PNone, Got PNone, Got PNone]"

definition both_active :: "sw_state \<Rightarrow> bool" where
  "both_active s \<longleftrightarrow> active_marker ''a'' (markers s ''a'') \<and> active_marker ''b'' (markers s ''b'')"

lemma emergency_needs_fence: "both_active (snd (handoff blind_handoff (sw_boot blind_replies sample_controllers)))"
  by code_simp

section \<open>Properties\<close>

text \<open>C4. In every history of switches, handoffs and demotions between two controllers, whatever fails and wherever the
  process dies, as long as every controller a handoff asked for its status answered: at most one marker makes its
  controller active, and whatever placements the two Instance files hold the guards let at most one controller act. (A
  handoff in an emergency goes on without an answer, on the operator's word that the old controller is fenced; by
  \<open>emergency_needs_fence\<close> both markers are then active.)\<close>

theorem single_authority:
  assumes "sw_history a b s" "answered (trail s)"
  shows "\<not> (active_marker a (markers s a) \<and> active_marker b (markers s b)) \<and>
    \<not> (require_active (controller_name a) (markers s a) here = 0 \<and> require_active (controller_name b) (markers s b) there = 0)"
proof -
  have "exclusive a b s" using sw_history_ok [OF assms(1)] assms(2) by (simp add: sw_ok_def)
  then show ?thesis using guard_lets_active unfolding exclusive_def by blast
qed

theorem single_authority_witness:
  "active_marker ''a'' (markers sample_published ''a'') \<and> \<not> active_marker ''b'' (markers sample_published ''b'')"
  using single_authority [OF sample_reached(4) no_handoff_answered] sample_runs(2) unfolding just_published_def by blast

text \<open>C5. A switch whose record has reached the demotion has pushed the placement, seen the destination hold it, and
  seen the guard of the old controller refuse with exit code 78; and every activation a switch wrote came after these
  three in its own operation, and named the controller it was written to.\<close>

theorem activation_follows_demotion:
  assumes "sw_history a b s" "(op, r) \<in> set (stores s box)" "reached ''demoted'' r"
  shows "pushed r (trail s) \<and> delivered r (trail s) \<and> stood_down r (trail s) \<and>
    (\<forall>before target active q after. trail s = before @ (Some op, SetMarker target ''active'' active, q) # after \<longrightarrow>
      active = target \<and> (\<exists>r'. sw_operation r' = op \<and> sw_new r' = target \<and> sw_old r' \<noteq> target \<and>
        pushed r' before \<and> delivered r' before \<and> stood_down r' before))"
proof -
  have ok: "records_ok s" "ordered (trail s)" using sw_history_ok [OF assms(1)] by (simp_all add: sw_ok_def)
  have "evidence r (trail s)" using ok(1) assms(2) unfolding records_ok_def by blast
  moreover have "reached ''published'' r \<and> reached ''synchronized'' r" using assms(3) by (auto simp: reached_def phase_names_def)
  ultimately have "pushed r (trail s) \<and> delivered r (trail s) \<and> stood_down r (trail s)"
    using assms(3) by (simp add: evidence_def)
  with ok(2) show ?thesis unfolding ordered_def justified_def by blast
qed

theorem activation_follows_demotion_witness:
  "\<exists>(s :: sw_state) r. sw_phase r = ''complete'' \<and> pushed r (trail s) \<and> delivered r (trail s) \<and> stood_down r (trail s)"
proof -
  obtain s r where h: "sw_history ''a'' ''b'' s" and fin: "finished_switch ''a'' ''b'' sample_op r s"
    using sample_finished by blast
  have "(sample_op, r) \<in> set (stores s ''a'')" "reached ''demoted'' r"
    using fin by (auto simp: finished_switch_def reached_def phase_names_def dest: map_of_SomeD)
  from activation_follows_demotion [OF h this] fin show ?thesis
    by (intro exI [of _ s] exI [of _ r]) (simp add: finished_switch_def)
qed

text \<open>C10. A switch never strands the pair, however often it was run and cut off and whatever was done to the Instance
  files in between. As long as its record does not say that it is published, the old controller is still the active
  one and the new one is not. From then on there are replies, none of them a failure, with which running it once more
  completes it: the record says so, the old controller is no longer active and the new one is.\<close>

theorem switch_finishes:
  assumes "switching old new op s" "valid_box new" "fullmatch OP op"
  shows "if unpublished old op s then active_marker old (markers s old) \<and> \<not> active_marker new (markers s new)
    else \<exists>rs r s'. list_all is_got rs \<and> run_switch (switch_args old new op) (sw_boot rs s) = (Inr (Some r), s') \<and>
      sw_phase r = ''complete'' \<and> map_of (stores s' old) op = Some r \<and>
      \<not> active_marker old (markers s' old) \<and> active_marker new (markers s' new)"
proof (cases "unpublished old op s")
  case True
  then show ?thesis
    using on_course_unpublished [OF switching_on_course [OF assms(1)]] by (auto dest: shown_inactive)
next
  case False
  with on_course_finishes [OF switching_on_course [OF assms(1)] _ assms(2,3)] obtain rs r s' where
    "list_all is_got rs" "run_switch (switch_args old new op) (sw_boot rs s) = (Inr (Some r), s')"
    "finished_switch old new op r s'" by blast
  with False shown_inactive show ?thesis unfolding finished_switch_def by auto
qed

theorem switch_finishes_witness:
  "\<exists>rs r s'. list_all is_got rs \<and> run_switch sample_args (sw_boot rs sample_published) = (Inr (Some r), s') \<and>
    sw_phase r = ''complete'' \<and> \<not> active_marker ''a'' (markers s' ''a'') \<and> active_marker ''b'' (markers s' ''b'')"
  using switch_finishes [OF sample_reached(3) sample_checks(2,1)] sample_unpublished by auto

text \<open>C37. A switch that is cut off between \<open>git add\<close> and \<open>git commit\<close>, or whose commit fails, is stuck: however often
  it is resumed, and whatever it is answered, no run completes it, the record stays at the publication, the markers
  stay as they are and the edit stays staged.\<close>

theorem staged_edit_blocks:
  assumes "map_of (stores s old) op = Some r" "sw_phase r = ''publishing''" "sw_old r = old"
    and "indexed s old \<noteq> committed s old" "resumed old op s t" "ar_old args = old" "requested args = op" "op \<noteq> ''''"
  shows "fst (run_switch args (sw_boot rs t)) \<noteq> Inr (Some r') \<and> map_of (stores t old) op = Some r \<and>
    markers t = markers s \<and> indexed t old \<noteq> committed t old"
proof -
  have "stuck old op r (markers s) s" using assms(1-4) by (simp add: stuck_def)
  with resumed_stuck [OF assms(5)] have t: "stuck old op r (markers s) t" .
  then have boot: "stuck old op r (markers s) (sw_boot rs t)" by (simp add: sw_boot_def)
  obtain x t' where run: "run_switch args (sw_boot rs t) = (x, t')" by fastforce
  have "x \<noteq> Inr (Some r')" using tripleD [OF stuck_run [OF assms(6-8)] boot TrueI run] by blast
  with t run show ?thesis by (simp add: stuck_def)
qed

theorem staged_edit_blocks_witness:
  "switching ''a'' ''b'' sample_op sample_staged \<and>
    (\<forall>rs r'. fst (run_switch sample_args (sw_boot rs sample_staged)) \<noteq> Inr (Some r'))"
proof -
  obtain r where r: "map_of (stores sample_staged ''a'') sample_op = Some r" "sw_phase r = ''publishing''" "sw_old r = ''a''"
    "indexed sample_staged ''a'' \<noteq> committed sample_staged ''a''"
    using sample_runs(1) by (auto simp: staged_halfway_def dest!: record_whereD)
  from staged_edit_blocks [OF this resumed.none, of sample_args] sample_reached(1) sample_checks(3)
  show ?thesis by (simp add: switch_args_simps)
qed

end
