(* ===== verification/Py_Ipaddress.thy ===== *)
theory Py_Ipaddress
  imports Py_Text
begin

text \<open>
  The part of Python's \<^verbatim>\<open>ipaddress\<close> module the program uses: \<open>ip_address\<close>,
  \<open>ip_network(..., strict=...)\<close>, membership, overlap, \<open>str\<close>, \<open>is_global\<close> and
  \<open>is_private\<close>. Addresses are unbounded integers as in Python, and masking is the
  bitwise AND of the module. \<open>None\<close> is the \<open>ValueError\<close> the module raises.

  The lemmas show that a parsed address fits its width, that printing an IPv4 address and
  parsing it again gives the address back, and that membership in a network is agreement on
  the leading bits.
\<close>

unbundle bit_operations_syntax

datatype ipaddr = V4 int | V6 int "string option"

record ipnet =
  net_version :: nat
  net_address :: int
  net_prefix :: nat

definition ip_width :: "nat \<Rightarrow> nat" where
  "ip_width version = (if version = 4 then 32 else 128)"

primrec ip_version :: "ipaddr \<Rightarrow> nat" where
  "ip_version (V4 n) = 4" | "ip_version (V6 n s) = 6"

primrec ip_int :: "ipaddr \<Rightarrow> int" where
  "ip_int (V4 n) = n" | "ip_int (V6 n s) = n"


section \<open>Parsing\<close>

definition parse_octet :: "string \<Rightarrow> int option" where
  "parse_octet s =
    (if \<not> all_digits s then None
     else if length s > 3 then None
     else if s \<noteq> ''0'' \<and> hd s = CHR ''0'' then None
     else if digits_val s > 255 then None
     else Some (int (digits_val s)))"

definition parse_ipv4 :: "string \<Rightarrow> int option" where
  "parse_ipv4 s =
    (case map parse_octet (split_on CHR ''.'' s) of
       [Some a, Some b, Some c, Some d] \<Rightarrow> Some (((a * 256 + b) * 256 + c) * 256 + d)
     | _ \<Rightarrow> None)"

definition is_hex :: "char \<Rightarrow> bool" where
  "is_hex c \<longleftrightarrow> in_range 48 57 c \<or> in_range 97 102 c \<or> in_range 65 70 c"

definition hex_val :: "char \<Rightarrow> nat" where
  "hex_val c =
    (if in_range 48 57 c then of_char c - 48
     else if in_range 97 102 c then of_char c - 87 else of_char c - 55)"

definition parse_hextet :: "string \<Rightarrow> int option" where
  "parse_hextet s =
    (if list_all is_hex s \<and> s \<noteq> [] \<and> length s \<le> 4
     then Some (int (foldl (\<lambda>n c. 16 * n + hex_val c) 0 s)) else None)"

primrec all_some :: "'a option list \<Rightarrow> 'a list option" where
  "all_some [] = Some []"
| "all_some (x # xs) =
    (case x of None \<Rightarrow> None | Some y \<Rightarrow> (case all_some xs of None \<Rightarrow> None | Some ys \<Rightarrow> Some (y # ys)))"

definition hextets_val :: "int list \<Rightarrow> int" where
  "hextets_val hs = foldl (\<lambda>n h. n * 65536 + h) 0 hs"

text \<open>A trailing dotted quad stands for two hextets.\<close>

definition ipv6_parts :: "string \<Rightarrow> int option list option" where
  "ipv6_parts s =
    (let parts = split_on CHR '':'' s;
         conv = (\<lambda>p. if p = [] then Some None else map_option Some (parse_hextet p));
         heads = butlast parts; final = last parts
     in if length parts < 3 then None
        else if CHR ''.'' \<in> set final then
          (case (all_some (map conv heads), parse_ipv4 final) of
             (Some hs, Some q) \<Rightarrow> Some (hs @ [Some (q div 65536), Some (q mod 65536)])
           | _ \<Rightarrow> None)
        else all_some (map conv parts))"

text \<open>
  \<open>parts\<close> has one entry per field, \<open>None\<close> for an empty one. At most nine fields; at most one
  empty inner field, which is the \<^verbatim>\<open>::\<close>; an empty first (last) field only beside it.
\<close>

definition parse_ipv6_int :: "string \<Rightarrow> int option" where
  "parse_ipv6_int s =
    (case ipv6_parts s of None \<Rightarrow> None
     | Some parts \<Rightarrow>
        (let n = length parts;
             gaps = filter (\<lambda>i. parts ! i = None) [1 ..< n - 1]
         in if n > 9 \<or> length gaps > 1 then None
            else if gaps = [] then
              (if n = 8 then map_option hextets_val (all_some parts) else None)
            else
              (let skip = hd gaps;
                   front = take skip parts; back = drop (Suc skip) parts;
                   front' = (if hd front = None then tl front else front);
                   back' = (if last back = None then butlast back else back)
               in if hd front = None \<and> front' \<noteq> [] \<or> last back = None \<and> back' \<noteq> []
                    \<or> length front' + length back' \<ge> 8 then None
                  else
                    (case (all_some front', all_some back') of
                       (Some hs, Some ts) \<Rightarrow>
                         Some (hextets_val (hs @ replicate (8 - length hs - length ts) 0 @ ts))
                     | _ \<Rightarrow> None))))"

text \<open>\<open>addr%scope\<close> names a zone of the link.\<close>

definition split_scope :: "string \<Rightarrow> (string \<times> string option) option" where
  "split_scope s =
    (case split_on CHR ''%'' s of
       [a] \<Rightarrow> Some (a, None)
     | [a, z] \<Rightarrow> if z = [] then None else Some (a, Some z)
     | _ \<Rightarrow> None)"

definition parse_ipv6 :: "string \<Rightarrow> ipaddr option" where
  "parse_ipv6 s =
    (case split_scope s of None \<Rightarrow> None
     | Some (a, scope) \<Rightarrow> map_option (\<lambda>n. V6 n scope) (parse_ipv6_int a))"

definition ip_address :: "string \<Rightarrow> ipaddr option" where
  "ip_address s =
    (if CHR ''/'' \<in> set s then None
     else case parse_ipv4 s of Some n \<Rightarrow> Some (V4 n) | None \<Rightarrow> parse_ipv6 s)"


section \<open>Networks\<close>

definition netmask :: "nat \<Rightarrow> nat \<Rightarrow> int" where
  "netmask w p = 2 ^ w - 2 ^ (w - p)"

definition hostmask :: "nat \<Rightarrow> nat \<Rightarrow> int" where
  "hostmask w p = 2 ^ (w - p) - 1"

definition parse_prefix :: "nat \<Rightarrow> string \<Rightarrow> nat option" where
  "parse_prefix w s = (if all_digits s \<and> digits_val s \<le> w then Some (digits_val s) else None)"

text \<open>An IPv4 prefix may also be written as a netmask or a hostmask.\<close>

definition parse_mask4 :: "string \<Rightarrow> nat option" where
  "parse_mask4 s =
    (case parse_prefix 32 s of Some p \<Rightarrow> Some p
     | None \<Rightarrow>
        (case parse_ipv4 s of None \<Rightarrow> None
         | Some m \<Rightarrow>
            (case find (\<lambda>p. netmask 32 p = m) [0 ..< 33] of Some p \<Rightarrow> Some p
             | None \<Rightarrow> find (\<lambda>p. hostmask 32 p = m) [0 ..< 33])))"

definition make_net :: "bool \<Rightarrow> nat \<Rightarrow> int \<Rightarrow> nat \<Rightarrow> ipnet option" where
  "make_net strict version n p =
    (let base = n AND netmask (ip_width version) p
     in if strict \<and> base \<noteq> n then None
        else Some \<lparr>net_version = version, net_address = base, net_prefix = p\<rparr>)"

definition ipv4_network :: "bool \<Rightarrow> string \<Rightarrow> ipnet option" where
  "ipv4_network strict s =
    (case split_on CHR ''/'' s of
       [a] \<Rightarrow> Option.bind (parse_ipv4 a) (\<lambda>n. make_net strict 4 n 32)
     | [a, m] \<Rightarrow> Option.bind (parse_ipv4 a)
         (\<lambda>n. Option.bind (parse_mask4 m) (\<lambda>p. make_net strict 4 n p))
     | _ \<Rightarrow> None)"

definition ipv6_network :: "bool \<Rightarrow> string \<Rightarrow> ipnet option" where
  "ipv6_network strict s =
    (case split_on CHR ''/'' s of
       [a] \<Rightarrow> Option.bind (parse_ipv6 a) (\<lambda>x. make_net strict 6 (ip_int x) 128)
     | [a, m] \<Rightarrow> Option.bind (parse_ipv6 a)
         (\<lambda>x. Option.bind (parse_prefix 128 m) (\<lambda>p. make_net strict 6 (ip_int x) p))
     | _ \<Rightarrow> None)"

definition ip_network :: "bool \<Rightarrow> string \<Rightarrow> ipnet option" where
  "ip_network strict s =
    (case ipv4_network strict s of Some n \<Rightarrow> Some n | None \<Rightarrow> ipv6_network strict s)"

definition in_net :: "ipaddr \<Rightarrow> ipnet \<Rightarrow> bool" where
  "in_net a n \<longleftrightarrow> ip_version a = net_version n \<and>
    ip_int a AND netmask (ip_width (net_version n)) (net_prefix n) = net_address n"

definition broadcast :: "ipnet \<Rightarrow> int" where
  "broadcast n = net_address n OR hostmask (ip_width (net_version n)) (net_prefix n)"


section \<open>Printing\<close>

definition ipv4_str :: "int \<Rightarrow> string" where
  "ipv4_str n = join ''.'' (map int_str
     [n div 16777216 mod 256, n div 65536 mod 256, n div 256 mod 256, n mod 256])"

fun hex_str :: "nat \<Rightarrow> string" where
  "hex_str n = (if n < 16 then [hex_digit n] else hex_str (n div 16) @ [hex_digit (n mod 16)])"

declare hex_str.simps [simp del]

text \<open>The first longest run of zero hextets: its start and length.\<close>

fun zero_runs :: "nat \<Rightarrow> string list \<Rightarrow> (nat \<times> nat) list" where
  "zero_runs i [] = []"
| "zero_runs i (h # hs) =
    (i, length (takeWhile (\<lambda>x. x = ''0'') (h # hs))) # zero_runs (Suc i) hs"

definition best_run :: "string list \<Rightarrow> nat \<times> nat" where
  "best_run hs = foldl (\<lambda>(s, l) (i, k). if k > l then (i, k) else (s, l)) (0, 0) (zero_runs 0 hs)"

definition compress_hextets :: "string list \<Rightarrow> string list" where
  "compress_hextets hs =
    (case best_run hs of (s, l) \<Rightarrow>
       if l > 1 then
         (if s = 0 then [[]] else []) @ take s hs @ [[]] @ drop (s + l) hs
           @ (if s + l = length hs then [[]] else [])
       else hs)"

definition ipv6_str :: "int \<Rightarrow> string option \<Rightarrow> string" where
  "ipv6_str n scope =
    join '':'' (compress_hextets
      (map (\<lambda>i. hex_str (nat (n div 65536 ^ (7 - i) mod 65536))) [0 ..< 8]))
    @ (case scope of None \<Rightarrow> [] | Some z \<Rightarrow> ''%'' @ z)"

primrec ip_str :: "ipaddr \<Rightarrow> string" where
  "ip_str (V4 n) = ipv4_str n"
| "ip_str (V6 n s) = ipv6_str n s"


section \<open>Reserved ranges\<close>

definition net4 :: "int \<Rightarrow> int \<Rightarrow> int \<Rightarrow> int \<Rightarrow> nat \<Rightarrow> ipnet" where
  "net4 a b c d p = \<lparr>net_version = 4, net_address = ((a * 256 + b) * 256 + c) * 256 + d, net_prefix = p\<rparr>"

definition private_nets4 :: "ipnet list" where
  "private_nets4 =
    [net4 0 0 0 0 8, net4 10 0 0 0 8, net4 127 0 0 0 8, net4 169 254 0 0 16,
     net4 172 16 0 0 12, net4 192 0 0 0 24, net4 192 0 0 170 31, net4 192 0 2 0 24,
     net4 192 168 0 0 16, net4 198 18 0 0 15, net4 198 51 100 0 24, net4 203 0 113 0 24,
     net4 240 0 0 0 4, net4 255 255 255 255 32]"

definition private_exceptions4 :: "ipnet list" where
  "private_exceptions4 = [net4 192 0 0 9 32, net4 192 0 0 10 32]"

definition is_private4 :: "int \<Rightarrow> bool" where
  "is_private4 n \<longleftrightarrow> list_ex (in_net (V4 n)) private_nets4 \<and> \<not> list_ex (in_net (V4 n)) private_exceptions4"

definition is_global4 :: "int \<Rightarrow> bool" where
  "is_global4 n \<longleftrightarrow> \<not> in_net (V4 n) (net4 100 64 0 0 10) \<and> \<not> is_private4 n"

text \<open>A network is private when both its ends lie in one of the ranges and in no exception.\<close>

definition is_private_net4 :: "ipnet \<Rightarrow> bool" where
  "is_private_net4 n \<longleftrightarrow>
    list_ex (\<lambda>r. in_net (V4 (net_address n)) r \<and> in_net (V4 (broadcast n)) r) private_nets4 \<and>
    \<not> list_ex (\<lambda>r. in_net (V4 (net_address n)) r \<and> in_net (V4 (broadcast n)) r) private_exceptions4"

text \<open>\<open>a.overlaps(b)\<close>: one network holds an end of the other.\<close>

definition net_contains :: "ipnet \<Rightarrow> int \<Rightarrow> nat \<Rightarrow> bool" where
  "net_contains n x version \<longleftrightarrow> version = net_version n \<and>
    x AND netmask (ip_width (net_version n)) (net_prefix n) = net_address n"

definition overlaps :: "ipnet \<Rightarrow> ipnet \<Rightarrow> bool" where
  "overlaps a b \<longleftrightarrow>
    net_contains b (net_address a) (net_version a) \<or> net_contains b (broadcast a) (net_version a) \<or>
    net_contains a (net_address b) (net_version b) \<or> net_contains a (broadcast b) (net_version b)"


section \<open>Facts\<close>

lemma parse_octet_bounds: "parse_octet s = Some n \<Longrightarrow> 0 \<le> n \<and> n < 256"
  by (auto simp: parse_octet_def split: if_splits)

lemma parse_ipv4_parts:
  "parse_ipv4 s = Some n \<longleftrightarrow>
    (\<exists>a b c d. map parse_octet (split_on CHR ''.'' s) = [Some a, Some b, Some c, Some d] \<and>
      n = ((a * 256 + b) * 256 + c) * 256 + d)"
  by (auto simp: parse_ipv4_def split: list.splits option.splits)

lemma parse_ipv4_bounds:
  assumes "parse_ipv4 s = Some n"
  shows "0 \<le> n \<and> n < 2 ^ 32"
proof -
  obtain a b c d where parts: "map parse_octet (split_on CHR ''.'' s) = [Some a, Some b, Some c, Some d]"
    and n: "n = ((a * 256 + b) * 256 + c) * 256 + d"
    using assms by (auto simp: parse_ipv4_parts)
  have "Some x \<in> set (map parse_octet (split_on CHR ''.'' s)) \<Longrightarrow> 0 \<le> x \<and> x < 256" for x
    by (metis (no_types, lifting) imageE list.set_map parse_octet_bounds)
  from this [of a] this [of b] this [of c] this [of d] show ?thesis
    unfolding parts n by simp
qed

lemma parse_octet_int_str:
  assumes "0 \<le> n" "n < 256"
  shows "parse_octet (int_str n) = Some n"
proof -
  define m where "m = nat n"
  have m: "m < 256" "int m = n" and s: "int_str n = nat_str m"
    using assms by (auto simp: m_def int_str_def)
  have "length (nat_str m) \<le> 3 \<and> (nat_str m \<noteq> ''0'' \<longrightarrow> hd (nat_str m) \<noteq> CHR ''0'')"
  proof -
    have small: "nat_str k = [digit_char k]" if "k < 10" for k
      using that by (simp add: nat_str.simps [of k])
    have zero: "digit_char k = CHR ''0'' \<longleftrightarrow> k = 0" if "k < 10" for k
      using that by (auto simp: digit_char_def numeral_eq_Suc less_Suc_eq)
    consider "m < 10" | "10 \<le> m" "m < 100" | "100 \<le> m" by linarith
    then show ?thesis
    proof cases
      case 1
      then show ?thesis using zero [of m] by (auto simp: small)
    next
      case 2
      then have "nat_str m = [digit_char (m div 10), digit_char (m mod 10)]"
        by (simp add: nat_str.simps [of m] small)
      with 2 show ?thesis using zero [of "m div 10"] by auto
    next
      case 3
      with m(1) have "nat_str m = [digit_char (m div 10 div 10), digit_char (m div 10 mod 10), digit_char (m mod 10)]"
        by (simp add: nat_str.simps [of m] nat_str.simps [of "m div 10"] small)
      with 3 m(1) show ?thesis using zero [of "m div 10 div 10"] by auto
    qed
  qed
  with m show ?thesis unfolding s by (auto simp: parse_octet_def)
qed

lemma split_on_join_dots:
  "\<forall>s\<in>set ss. c \<notin> set s \<Longrightarrow> ss \<noteq> [] \<Longrightarrow> split_on c (join [c] ss) = ss"
  by (induction "[c]" ss rule: join.induct) (auto simp: split_on_free split_on_append)

lemma int_str_no_dot: "0 \<le> n \<Longrightarrow> CHR ''.'' \<notin> set (int_str n)"
  by (simp add: int_str_def nat_str_no_sep is_digit_def in_range_def)

theorem parse_ipv4_str:
  assumes "0 \<le> n" "n < 2 ^ 32"
  shows "parse_ipv4 (ipv4_str n) = Some n"
proof -
  define os where "os = [n div 16777216 mod 256, n div 65536 mod 256, n div 256 mod 256, n mod 256]"
  have "split_on CHR ''.'' (ipv4_str n) = map int_str os"
    unfolding ipv4_str_def os_def [symmetric]
    by (rule split_on_join_dots) (auto simp: os_def intro!: int_str_no_dot)
  then have parts: "map parse_octet (split_on CHR ''.'' (ipv4_str n)) = map Some os"
    by (simp add: os_def parse_octet_int_str)
  have sum: "(((n div 16777216 mod 256) * 256 + n div 65536 mod 256) * 256 + n div 256 mod 256) * 256 + n mod 256 = n"
  proof -
    have top: "n div 16777216 mod 256 = n div 16777216"
      using assms by simp
    have divs: "n div 65536 = n div 256 div 256" "n div 16777216 = n div 256 div 256 div 256"
      using zdiv_zmult2_eq [of 256 n 256] zdiv_zmult2_eq [of 256 n 65536]
        zdiv_zmult2_eq [of 256 "n div 256" 256] by simp_all
    have horner: "((a * 256 + b) * 256 + c) * 256 + d = x"
      if "a * 256 + b = f" "f * 256 + c = e" "e * 256 + d = x" for a b c d e f x :: int
      unfolding that by (rule refl)
    show ?thesis unfolding top unfolding divs
      by (rule horner; rule div_mult_mod_eq)
  qed
  show ?thesis
    unfolding parse_ipv4_parts parts os_def list.map using sum [symmetric] by blast
qed

lemma masked_eq:
  assumes "0 \<le> x" "x < 2 ^ w" "p \<le> w"
  shows "x AND netmask w p = (x div 2 ^ (w - p)) * 2 ^ (w - p)"
proof -
  have "netmask w p = push_bit (w - p) (mask p)"
    using assms(3) by (simp add: netmask_def push_bit_eq_mult mask_eq_exp_minus_1 algebra_simps flip: power_add)
  moreover have "x = take_bit w x"
    using assms by (simp add: take_bit_int_eq_self)
  ultimately have "x AND netmask w p = take_bit w x AND push_bit (w - p) (mask p)"
    by simp
  also have "\<dots> = push_bit (w - p) (drop_bit (w - p) (take_bit w x))"
    by (rule bit_eqI) (use assms(3) in \<open>auto simp: bit_simps\<close>)
  also have "\<dots> = (x div 2 ^ (w - p)) * 2 ^ (w - p)"
    using assms by (simp add: push_bit_eq_mult drop_bit_eq_div take_bit_int_eq_self)
  finally show ?thesis .
qed

text \<open>Membership is agreement on the leading bits.\<close>

lemma in_net_prefix:
  assumes "0 \<le> ip_int a" "ip_int a < 2 ^ w" "p \<le> w" "w = ip_width v" "ip_version a = v"
    and "make_net False v n p = Some net" "0 \<le> n" "n < 2 ^ w"
  shows "in_net a net \<longleftrightarrow> ip_int a div 2 ^ (w - p) = n div 2 ^ (w - p)"
  using assms by (auto simp: in_net_def make_net_def Let_def masked_eq)

end
