(* ===== verification/Py_Url.thy ===== *)
theory Py_Url
  imports Py_Ipaddress
begin

text \<open>
  What the program uses of \<^verbatim>\<open>urllib.parse\<close>: \<open>urlsplit\<close>, the members \<open>hostname\<close>, \<open>port\<close>,
  \<open>username\<close> and \<open>password\<close> of its result, and \<open>geturl()\<close>. A computation that raises
  \<open>ValueError\<close> there is \<open>None\<close> here, as every caller handles that exception as one case.
  No character below 256 normalises to a delimiter, so the NFKC check of the network location
  never fires on the strings of the model.
\<close>

section \<open>Splitting\<close>

text \<open>\<open>s.partition(c)\<close>: the part before the first \<open>c\<close>, whether there is one, and the rest.\<close>

definition partition_at :: "char \<Rightarrow> string \<Rightarrow> string \<times> bool \<times> string" where
  "partition_at c s =
    (let a = takeWhile (\<lambda>d. d \<noteq> c) s in (a, length a < length s, drop (Suc (length a)) s))"

definition before :: "char \<Rightarrow> string \<Rightarrow> string" where
  "before c s = fst (partition_at c s)"

definition after :: "char \<Rightarrow> string \<Rightarrow> string" where
  "after c s = snd (snd (partition_at c s))"

record url_parts =
  u_scheme :: string
  u_netloc :: string
  u_path :: string
  u_query :: string
  u_fragment :: string

definition is_alpha :: "char \<Rightarrow> bool" where
  "is_alpha c \<longleftrightarrow> in_range 97 122 c \<or> in_range 65 90 c"

definition scheme_char :: "char \<Rightarrow> bool" where
  "scheme_char c \<longleftrightarrow> is_alpha c \<or> is_digit c \<or> c \<in> set ''+-.''"

definition clean_url :: "string \<Rightarrow> string" where
  "clean_url s =
    filter (\<lambda>c. of_char c \<notin> {9, 10, 13 :: nat}) (dropWhile (\<lambda>c. (of_char c :: nat) \<le> 32) s)"

definition split_scheme :: "string \<Rightarrow> string \<times> string" where
  "split_scheme url =
    (let i = before CHR '':'' url in
     if CHR '':'' \<in> set url \<and> i \<noteq> [] \<and> is_alpha (hd i) \<and> list_all scheme_char i
     then (lower i, after CHR '':'' url) else ([], url))"

definition url_delimiter :: "char \<Rightarrow> bool" where
  "url_delimiter c \<longleftrightarrow> c \<in> set ''/?#''"

text \<open>A bracketed host is an IPv6 address or \<open>v<hex>.<anything>\<close>.\<close>

definition valid_bracketed :: "string \<Rightarrow> bool" where
  "valid_bracketed host =
    (if starts_with host ''v'' then
       (let version = before CHR ''.'' (tl host) in
        version \<noteq> [] \<and> list_all is_hex version \<and> after CHR ''.'' (tl host) \<noteq> [])
     else (case ip_address host of Some (V6 _ _) \<Rightarrow> True | _ \<Rightarrow> False))"

definition valid_brackets :: "string \<Rightarrow> bool" where
  "valid_brackets netloc =
    (let open_br = CHR ''['' \<in> set netloc; close_br = CHR '']'' \<in> set netloc in
     open_br = close_br \<and>
     (open_br \<longrightarrow> valid_bracketed (before CHR '']'' (after CHR ''['' netloc))))"

definition urlsplit :: "string \<Rightarrow> url_parts option" where
  "urlsplit s =
    (let (scheme, url) = split_scheme (clean_url s);
         (netloc, rest) = (if starts_with url ''//''
           then (takeWhile (\<lambda>c. \<not> url_delimiter c) (drop 2 url), dropWhile (\<lambda>c. \<not> url_delimiter c) (drop 2 url))
           else ([], url));
         (p, _, fragment) = partition_at CHR ''#'' rest;
         (path, _, query) = partition_at CHR ''?'' p in
     if valid_brackets netloc
     then Some \<lparr>u_scheme = scheme, u_netloc = netloc, u_path = path, u_query = query, u_fragment = fragment\<rparr>
     else None)"


section \<open>The network location\<close>

definition user_info :: "url_parts \<Rightarrow> (string \<times> string option) option" where
  "user_info u = map_option (\<lambda>(info, _).
      let (name, have, pw) = partition_at CHR '':'' info in (name, if have then Some pw else None))
    (rsplit1 CHR ''@'' (u_netloc u))"

definition username :: "url_parts \<Rightarrow> string option" where
  "username u = map_option fst (user_info u)"

definition password :: "url_parts \<Rightarrow> string option" where
  "password u = Option.bind (user_info u) snd"

definition host_info :: "url_parts \<Rightarrow> string \<times> string" where
  "host_info u =
    (let info = (case rsplit1 CHR ''@'' (u_netloc u) of Some (_, h) \<Rightarrow> h | None \<Rightarrow> u_netloc u) in
     if CHR ''['' \<in> set info then
       (let bracketed = after CHR ''['' info in
        (before CHR '']'' bracketed, after CHR '':'' (after CHR '']'' bracketed)))
     else (before CHR '':'' info, after CHR '':'' info))"

definition hostname :: "url_parts \<Rightarrow> string option" where
  "hostname u =
    (let (name, have, zone) = partition_at CHR ''%'' (fst (host_info u)) in
     if fst (host_info u) = [] then None
     else Some (lower name @ (if have then CHR ''%'' # zone else [])))"

text \<open>The outer \<open>None\<close> is the \<open>ValueError\<close> of a port that is no number up to 65535, the inner one
  the absence of a port.\<close>

definition url_port :: "url_parts \<Rightarrow> nat option option" where
  "url_port u =
    (let p = snd (host_info u) in
     if p = [] then Some None
     else if all_digits p \<and> digits_val p \<le> 65535 then Some (Some (digits_val p)) else None)"

definition uses_netloc :: "string list" where
  "uses_netloc =
    ['''', ''ftp'', ''http'', ''gopher'', ''nntp'', ''telnet'', ''imap'', ''wais'', ''file'', ''mms'',
     ''https'', ''shttp'', ''snews'', ''prospero'', ''rtsp'', ''rtsps'', ''rtspu'', ''rsync'', ''svn'',
     ''svn+ssh'', ''sftp'', ''nfs'', ''git'', ''git+ssh'', ''ws'', ''wss'']"

definition geturl :: "url_parts \<Rightarrow> string" where
  "geturl u =
    (let path = u_path u;
         located = (if u_netloc u \<noteq> [] \<or> u_scheme u \<noteq> [] \<and> u_scheme u \<in> set uses_netloc \<or> starts_with path ''//''
           then ''//'' @ u_netloc u @ (if path \<noteq> [] \<and> hd path \<noteq> CHR ''/'' then CHR ''/'' # path else path)
           else path);
         s = (if u_scheme u \<noteq> [] then u_scheme u @ '':'' @ located else located);
         q = (if u_query u \<noteq> [] then s @ ''?'' @ u_query u else s) in
     if u_fragment u \<noteq> [] then q @ ''#'' @ u_fragment u else q)"

end
