(* ===== verification/Interfaces.thy ===== *)
theory Interfaces
  imports Prelude "HOL-Library.Multiset"
begin

text \<open>
  The contracts several components rely on, as locales. Each is interpreted on the model's own
  definitions by the component that provides them.

  \<^item> \<open>normaliser\<close>: a check that returns a normal form accepts its own result unchanged.
  \<^item> \<open>grouping\<close>: the accumulator behind \<^verbatim>\<open>grouped.setdefault(key, []).append(item)\<close>.
  \<^item> \<open>guarded_machine\<close>: a transition function that refuses or moves, with an invariant that the
    start has and every accepted step keeps.
\<close>

section \<open>Normal forms\<close>

locale normaliser =
  fixes normalize :: "'v \<Rightarrow> string \<Rightarrow> 'n res" and embed :: "'n \<Rightarrow> 'v" and wf :: "'n \<Rightarrow> bool"
  assumes sound: "normalize v f = Inr n \<Longrightarrow> wf n"
    and fixed: "wf n \<Longrightarrow> normalize (embed n) f = Inr n"
begin

lemma idem: "normalize v f = Inr n \<Longrightarrow> normalize (embed n) g = Inr n"
  by (simp add: sound fixed)

lemma range_iff: "(\<exists>v. normalize v f = Inr n) \<longleftrightarrow> wf n"
  using sound fixed by blast

end


section \<open>Grouping\<close>

locale grouping =
  fixes key :: "'c \<Rightarrow> 'k" and add :: "('k \<times> 'c list) list \<Rightarrow> 'c \<Rightarrow> ('k \<times> 'c list) list"
  assumes add_lookup: "map_of (add g c) k =
      (if k = key c then Some (case map_of g k of None \<Rightarrow> [c] | Some cs \<Rightarrow> cs @ [c]) else map_of g k)"
    and add_distinct: "distinct (map fst g) \<Longrightarrow> distinct (map fst (add g c))"
begin

definition group_all :: "'c list \<Rightarrow> ('k \<times> 'c list) list" where
  "group_all cs = foldl add [] cs"

lemma lookup: "map_of (group_all cs) k =
    (case filter (\<lambda>c. key c = k) cs of [] \<Rightarrow> None | x # xs \<Rightarrow> Some (x # xs))"
  by (induction cs rule: rev_induct) (auto simp: group_all_def add_lookup split: list.splits)

lemma distinct_keys: "distinct (map fst (group_all cs))"
  by (induction cs rule: rev_induct) (simp_all add: group_all_def add_distinct)

lemma item: "(k, items) \<in> set (group_all cs) \<longleftrightarrow> items = filter (\<lambda>c. key c = k) cs \<and> items \<noteq> []"
proof -
  have "(k, items) \<in> set (group_all cs) \<longleftrightarrow> map_of (group_all cs) k = Some items"
    using map_of_eq_Some_iff [OF distinct_keys] by metis
  then show ?thesis
    by (cases "filter (\<lambda>c. key c = k) cs") (auto simp: lookup)
qed

lemma keys: "fst ` set (group_all cs) = key ` set cs"
proof -
  have "k \<in> fst ` set (group_all cs) \<longleftrightarrow> k \<in> key ` set cs" for k
  proof -
    have "k \<in> fst ` set (group_all cs) \<longleftrightarrow> (\<exists>items. (k, items) \<in> set (group_all cs))" by force
    also have "\<dots> \<longleftrightarrow> (\<exists>c\<in>set cs. key c = k)" by (auto simp: item filter_empty_conv)
    finally show ?thesis by auto
  qed
  then show ?thesis by blast
qed

end


section \<open>Guarded machines\<close>

locale guarded_machine =
  fixes step :: "'s \<Rightarrow> 'a \<Rightarrow> 's res" and start :: "'s \<Rightarrow> bool" and inv :: "'s \<Rightarrow> bool"
  assumes start_inv: "start s \<Longrightarrow> inv s"
    and step_inv: "inv s \<Longrightarrow> step s a = Inr s' \<Longrightarrow> inv s'"
begin

inductive reach :: "'s \<Rightarrow> bool" where
  start: "start s \<Longrightarrow> reach s"
| step: "reach s \<Longrightarrow> step s a = Inr s' \<Longrightarrow> reach s'"

lemma reach_inv: "reach s \<Longrightarrow> inv s"
  by (induction rule: reach.induct) (auto intro: start_inv step_inv)

lemma run_inv: "inv s \<Longrightarrow> fold_res step s as = Inr s' \<Longrightarrow> inv s'"
  by (erule fold_res_invariant) (auto intro: step_inv)

end

end
