(* ===== verification/Model_Validators.thy ===== *)
theory Model_Validators
  imports Model_Fields Py_Ipaddress "HOL-Library.Product_Lexorder" Interfaces
begin

text \<open>
  The scalar validators of \<^verbatim>\<open>platform_resource_model.py\<close>, from \<open>load_yaml\<close> to
  \<open>validate_ip_in_cidr\<close>, and what an accepted value is known to be. Each validator keeps the
  source's message.

  A port list keeps the values it was given: Python counts a Boolean as an integer, so
  \<open>true\<close> is accepted as port 1 and stays a Boolean (\<open>validate_ports_accepts_bool\<close> of Model_Properties).
\<close>

section \<open>Loading a document\<close>

text \<open>What reading and parsing a file can yield; the file system and the YAML parser are
  outside the model.\<close>

datatype yaml_file = Missing | Invalid string | Parsed pyval

definition load_yaml :: "string \<Rightarrow> yaml_file \<Rightarrow> pydict res" where
  "load_yaml path f =
    (case f of
       Missing \<Rightarrow> die (''missing YAML file: '' @ path)
     | Invalid e \<Rightarrow> die (''invalid YAML in '' @ path @ '': '' @ e)
     | Parsed PNone \<Rightarrow> Inr []
     | Parsed (PDict d) \<Rightarrow> Inr d
     | Parsed v \<Rightarrow> die (''YAML root must be a mapping: '' @ path))"


section \<open>Names\<close>

definition require_match :: "rx \<Rightarrow> pyval \<Rightarrow> string \<Rightarrow> unit res" where
  "require_match r v msg = require (case v of PStr s \<Rightarrow> fullmatch r s | _ \<Rightarrow> False) msg"

definition validate_id :: "pyval \<Rightarrow> string \<Rightarrow> unit res" where
  "validate_id v field =
    require_match ID_RE v (field @ '' must be kebab-case and start with a letter'')"

definition validate_app_id :: "string \<Rightarrow> unit res" where
  "validate_app_id name =
    checks [validate_id (PStr name) ''application name'',
      require (name \<notin> set [''platform'', ''doctor'', ''air'', ''update'', ''setup''])
        (''application name '' @ name @ '' is reserved for kk '' @ name)]"

definition validate_user_field :: "pyval \<Rightarrow> string \<Rightarrow> unit res" where
  "validate_user_field v field =
    require_match USER_FIELD_RE v (field @ '' must be snake_case and start with a letter'')"

definition box_role_suffixes :: "string list" where
  "box_role_suffixes =
    [''bootstrap'', ''dom0'', ''router'', ''bak'', ''dmz'', ''iot'', ''usr'', ''ops'', ''agent'', ''agt'']"

definition validate_box :: "pyval \<Rightarrow> string \<Rightarrow> unit res" where
  "validate_box v field =
    checks (require_match BOX_RE v (field @ '' must be a box name like boxa'')
      # map (\<lambda>suffix. require (case v of PStr s \<Rightarrow> s \<noteq> suffix \<and> \<not> ends_with s (''-'' @ suffix) | _ \<Rightarrow> True)
               (field @ '' must be a box name, not a role hostname'')) box_role_suffixes)"

definition validate_hostname :: "pyval \<Rightarrow> string \<Rightarrow> unit res" where
  "validate_hostname v field =
    require_match BOX_RE v (field @ '' must be a DNS-safe hostname'')"

definition validate_mac :: "pyval \<Rightarrow> string \<Rightarrow> unit res" where
  "validate_mac v field =
    require_match MAC_RE v (field @ '' must be a MAC address like aa:bb:cc:dd:ee:ff'')"

definition validate_iface :: "pyval \<Rightarrow> string \<Rightarrow> unit res" where
  "validate_iface v field =
    require_match IFACE_RE v (field @ '' must be a network interface name'')"

definition validate_tag :: "pyval \<Rightarrow> string \<Rightarrow> unit res" where
  "validate_tag v field =
    require_match TAG_RE v (field @ '' must be a Tailscale tag like tag:nextcloud'')"

definition validate_app_tailnet_tag :: "pyval \<Rightarrow> string \<Rightarrow> unit res" where
  "validate_app_tailnet_tag v field =
    checks [validate_tag v field,
      require (\<not> str_in v RESERVED_APP_TAILNET_TAGS)
        (field @ '' must not use reserved Platform control tag '' @ py_str v)]"

definition validate_slug :: "pyval \<Rightarrow> string \<Rightarrow> unit res" where
  "validate_slug v field =
    require_match SLUG_RE v (field @ '' must be a lowercase slug like alice'')"

definition validate_login :: "pyval \<Rightarrow> string \<Rightarrow> unit res" where
  "validate_login v field =
    require_match LOGIN_RE v (field @ '' must be an exact Tailscale login email'')"

definition reserved_accounts :: "string list" where
  "reserved_accounts =
    [''root'', ''daemon'', ''bin'', ''sys'', ''sync'', ''games'', ''man'', ''lp'', ''mail'',
     ''news'', ''uucp'', ''proxy'', ''www-data'', ''backup'', ''list'', ''irc'', ''gnats'', ''nobody'']"

definition validate_system_user :: "pyval \<Rightarrow> string \<Rightarrow> unit res" where
  "validate_system_user v field =
    checks [require_match SYSTEM_USER_RE v (field @ '' must be a POSIX user name like alice''),
      require (\<not> str_in v reserved_accounts)
        (field @ '' must not be a reserved system account: '' @ py_str v)]"


section \<open>Addresses\<close>

definition validate_ip :: "pyval \<Rightarrow> string \<Rightarrow> unit res" where
  "validate_ip v field =
    (case v of
       PStr s \<Rightarrow>
         if s = [] then die (field @ '' must be an IPv4 address or CIDR'')
         else require
           (if CHR ''/'' \<in> set s then ip_network False s \<noteq> None else ip_address s \<noteq> None)
           (field @ '' must be an IPv4 address or CIDR: '' @ s)
     | _ \<Rightarrow> die (field @ '' must be an IPv4 address or CIDR''))"

text \<open>\<open>ipaddress.ip_address(v)\<close> and \<open>ipaddress.ip_network(v, strict=False)\<close> outside a
  handler: a value that does not parse leaves as a \<open>ValueError\<close>.\<close>

definition py_ip_address :: "pyval \<Rightarrow> ipaddr res" where
  "py_ip_address v =
    (case Option.bind (str_of v) ip_address of
       Some a \<Rightarrow> Inr a | None \<Rightarrow> Inl (ValueError (py_str v)))"

definition py_ip_network :: "pyval \<Rightarrow> ipnet res" where
  "py_ip_network v =
    (case Option.bind (str_of v) (ip_network False) of
       Some n \<Rightarrow> Inr n | None \<Rightarrow> Inl (ValueError (py_str v)))"

definition validate_ip_in_cidr :: "pyval \<Rightarrow> pyval \<Rightarrow> string \<Rightarrow> unit res" where
  "validate_ip_in_cidr v cidr field =
    bind (validate_ip v field) (\<lambda>_.
    bind (py_ip_address v) (\<lambda>address.
    bind (py_ip_network cidr) (\<lambda>network.
    require (in_net address network)
      (field @ '' must be inside '' @ py_str cidr @ '': '' @ py_str v))))"


section \<open>Ports\<close>

definition port_num :: "pyval \<Rightarrow> int" where
  "port_num v = (case int_of v of Some i \<Rightarrow> i | None \<Rightarrow> 0)"

text \<open>\<open>sorted(set(ports))\<close>: of equal members a set keeps the first.\<close>

primrec dedup :: "('a \<Rightarrow> 'b) \<Rightarrow> 'b list \<Rightarrow> 'a list \<Rightarrow> 'a list" where
  "dedup f seen [] = []"
| "dedup f seen (x # xs) =
    (if f x \<in> set seen then dedup f seen xs else x # dedup f (f x # seen) xs)"

definition validate_port :: "string \<Rightarrow> pyval \<Rightarrow> pyval res" where
  "validate_port field v =
    (case int_of v of
       None \<Rightarrow> die (field @ '' must contain integer ports only'')
     | Some i \<Rightarrow>
         if i < 1 \<or> i > 65535 then die (field @ '' contains an invalid TCP/UDP port: '' @ py_str v)
         else Inr v)"

definition validate_ports :: "pyval \<Rightarrow> string \<Rightarrow> pyval list res" where
  "validate_ports v field =
    (if list_of v = [] then die (field @ '' must be a non-empty list of explicit ports'')
     else bind (traverse (validate_port field) (list_of v)) (\<lambda>ports.
       Inr (sort_key port_num (dedup port_num [] ports))))"

text \<open>\<open>re.fullmatch(r"([0-9]+)-([0-9]+)", value)\<close>.\<close>

definition parse_range :: "string \<Rightarrow> (string \<times> string) option" where
  "parse_range s =
    (case split_on CHR ''-'' s of
       [a, b] \<Rightarrow> if all_digits a \<and> all_digits b then Some (a, b) else None
     | _ \<Rightarrow> None)"

definition validate_selector :: "string \<Rightarrow> pyval \<Rightarrow> string res" where
  "validate_selector field v =
    (if int_of v \<noteq> None then
       bind (validate_ports (PList [v]) field) (\<lambda>_. Inr (py_str v))
     else case Option.bind (str_of v) parse_range of
       Some (a, b) \<Rightarrow>
         bind (validate_ports (PList [PInt (int (digits_val a)), PInt (int (digits_val b))]) field) (\<lambda>_.
         bind (require (digits_val a \<le> digits_val b)
                 (field @ '' contains an invalid port range: '' @ py_str v)) (\<lambda>_.
         Inr (py_str v)))
     | None \<Rightarrow> die (field @ '' must contain integer ports or start-end ranges''))"

text \<open>\<open>int(item.split("-", 1)[0])\<close>, the first component of the sort key.\<close>

definition selector_start :: "string \<Rightarrow> nat res" where
  "selector_start s =
    (let h = hd (split_on CHR ''-'' s)
     in if all_digits h then Inr (digits_val h) else Inl (ValueError h))"

definition validate_tailnet_port_selectors :: "pyval \<Rightarrow> string \<Rightarrow> string list res" where
  "validate_tailnet_port_selectors v field =
    (if list_of v = [] then die (field @ '' must be a non-empty list of ports or port ranges'')
     else bind (traverse (validate_selector field) (list_of v)) (\<lambda>selectors.
       bind (traverse (\<lambda>s. bind (selector_start s) (\<lambda>n. Inr (n, s))) (remdups selectors)) (\<lambda>keyed.
       Inr (map snd (sort keyed)))))"


section \<open>What an accepted value is\<close>

lemma require_match_iff [res_simps]:
  "require_match r v msg = Inr u \<longleftrightarrow> (\<exists>s. v = PStr s \<and> fullmatch r s)"
  by (auto simp: require_match_def res_simps split: pyval.splits)

lemma validate_id_iff [res_simps]: "validate_id v f = Inr u \<longleftrightarrow> (\<exists>s. v = PStr s \<and> fullmatch ID_RE s)"
  by (simp add: validate_id_def res_simps)

lemma validate_hostname_iff [res_simps]:
  "validate_hostname v f = Inr u \<longleftrightarrow> (\<exists>s. v = PStr s \<and> fullmatch BOX_RE s)"
  by (simp add: validate_hostname_def res_simps)

lemma validate_mac_iff [res_simps]:
  "validate_mac v f = Inr u \<longleftrightarrow> (\<exists>s. v = PStr s \<and> fullmatch MAC_RE s)"
  by (simp add: validate_mac_def res_simps)

lemma validate_iface_iff [res_simps]:
  "validate_iface v f = Inr u \<longleftrightarrow> (\<exists>s. v = PStr s \<and> fullmatch IFACE_RE s)"
  by (simp add: validate_iface_def res_simps)

lemma validate_slug_iff [res_simps]:
  "validate_slug v f = Inr u \<longleftrightarrow> (\<exists>s. v = PStr s \<and> fullmatch SLUG_RE s)"
  by (simp add: validate_slug_def res_simps)

lemma validate_login_iff [res_simps]:
  "validate_login v f = Inr u \<longleftrightarrow> (\<exists>s. v = PStr s \<and> fullmatch LOGIN_RE s)"
  by (simp add: validate_login_def res_simps)

lemma validate_app_tailnet_tag_iff [res_simps]:
  "validate_app_tailnet_tag v f = Inr u \<longleftrightarrow>
    (\<exists>s. v = PStr s \<and> fullmatch TAG_RE s \<and> s \<notin> set RESERVED_APP_TAILNET_TAGS)"
  by (auto simp: validate_app_tailnet_tag_def validate_tag_def res_simps)

lemma validate_system_user_iff [res_simps]:
  "validate_system_user v f = Inr u \<longleftrightarrow>
    (\<exists>s. v = PStr s \<and> fullmatch SYSTEM_USER_RE s \<and> s \<notin> set reserved_accounts)"
  by (auto simp: validate_system_user_def res_simps)

definition box_name :: "string \<Rightarrow> bool" where
  "box_name s \<longleftrightarrow> fullmatch BOX_RE s \<and>
    (\<forall>suffix\<in>set box_role_suffixes. s \<noteq> suffix \<and> \<not> ends_with s (''-'' @ suffix))"

lemma validate_box_iff [res_simps]:
  "validate_box v f = Inr u \<longleftrightarrow> (\<exists>s. v = PStr s \<and> box_name s)"
  by (cases v) (auto simp: validate_box_def box_name_def res_simps)

lemma validate_app_id_iff [res_simps]:
  "validate_app_id s = Inr u \<longleftrightarrow>
    fullmatch ID_RE s \<and> s \<notin> set [''platform'', ''doctor'', ''air'', ''update'', ''setup'']"
  by (simp add: validate_app_id_def res_simps)

lemma validate_ip_str: "validate_ip v f = Inr u \<Longrightarrow> \<exists>s. v = PStr s \<and> s \<noteq> []"
  by (auto simp: validate_ip_def res_simps split: pyval.splits if_splits)

lemma py_ip_address_iff [res_simps]:
  "py_ip_address v = Inr a \<longleftrightarrow> (\<exists>s. v = PStr s \<and> ip_address s = Some a)"
  by (cases v) (auto simp: py_ip_address_def split: option.splits)

lemma py_ip_network_iff [res_simps]:
  "py_ip_network v = Inr n \<longleftrightarrow> (\<exists>s. v = PStr s \<and> ip_network False s = Some n)"
  by (cases v) (auto simp: py_ip_network_def split: option.splits)

lemma validate_ip_in_cidrD:
  assumes "validate_ip_in_cidr v cidr f = Inr u"
  shows "\<exists>s c a n. v = PStr s \<and> cidr = PStr c \<and> ip_address s = Some a \<and>
    ip_network False c = Some n \<and> in_net a n"
  using assms by (auto simp: validate_ip_in_cidr_def res_simps)

lemma dedup_facts:
  "set (dedup f seen xs) \<subseteq> set xs"
  "f ` set (dedup f seen xs) = f ` set xs - set seen"
  "distinct (map f (dedup f seen xs))"
proof -
  show "set (dedup f seen xs) \<subseteq> set xs"
    by (induction xs arbitrary: seen) auto
  show im: "f ` set (dedup f seen xs) = f ` set xs - set seen" for seen xs
    by (induction xs arbitrary: seen) auto
  show "distinct (map f (dedup f seen xs))"
    by (induction xs arbitrary: seen) (auto simp: im)
qed

lemma validate_port_iff [res_simps]:
  "validate_port f v = Inr w \<longleftrightarrow> (\<exists>i. int_of v = Some i \<and> 1 \<le> i \<and> i \<le> 65535) \<and> w = v"
  by (auto simp: validate_port_def split: option.splits)

definition valid_port :: "pyval \<Rightarrow> bool" where
  "valid_port v \<longleftrightarrow> (case int_of v of None \<Rightarrow> False | Some i \<Rightarrow> 1 \<le> i \<and> i \<le> 65535)"

lemma traverse_validate_port:
  "traverse (validate_port f) xs = Inr ys \<longleftrightarrow> ys = xs \<and> list_all valid_port xs"
  by (induction xs arbitrary: ys) (auto simp: res_simps valid_port_def split: option.splits)

definition normal_ports :: "pyval list \<Rightarrow> bool" where
  "normal_ports ps \<longleftrightarrow> ps \<noteq> [] \<and> list_all valid_port ps \<and>
    sorted (map port_num ps) \<and> distinct (map port_num ps)"

lemma validate_ports_normal:
  assumes "validate_ports v f = Inr ps"
  shows "normal_ports ps" and "port_num ` set ps = port_num ` set (list_of v)"
    and "set ps \<subseteq> set (list_of v)"
proof -
  from assms have ne: "list_of v \<noteq> []" and vs: "list_all valid_port (list_of v)"
    and ps: "ps = sort_key port_num (dedup port_num [] (list_of v))"
    by (auto simp: validate_ports_def traverse_validate_port bind_eq_Inr split: if_splits)
  show sub: "set ps \<subseteq> set (list_of v)"
    and im: "port_num ` set ps = port_num ` set (list_of v)"
    using dedup_facts [of port_num "[]" "list_of v"] by (simp_all add: ps)
  from im ne have "ps \<noteq> []" by auto
  moreover have "distinct (map port_num ps)"
    using dedup_facts(3) [of port_num "[]" "list_of v"]
    by (simp add: ps distinct_map inj_on_def)
  ultimately show "normal_ports ps"
    using sub vs by (auto simp: normal_ports_def list_all_iff ps)
qed

text \<open>Validating a normal list gives it back: the check can be repeated freely.\<close>

lemma dedup_id: "distinct (map f xs) \<Longrightarrow> f ` set xs \<inter> set seen = {} \<Longrightarrow> dedup f seen xs = xs"
  by (induction xs arbitrary: seen) auto

lemma validate_ports_idem:
  assumes "normal_ports ps"
  shows "validate_ports (PList ps) f = Inr ps"
proof -
  have "dedup port_num [] ps = ps"
    using assms by (intro dedup_id) (auto simp: normal_ports_def)
  moreover have "traverse (validate_port f) ps = Inr ps"
    using assms by (simp add: traverse_validate_port normal_ports_def)
  ultimately show ?thesis
    using assms by (simp add: validate_ports_def normal_ports_def sorted_sort_id sort_key_id_if_sorted)
qed

interpretation ports: normaliser validate_ports PList normal_ports
  by unfold_locales (rule validate_ports_normal(1), assumption, rule validate_ports_idem)

end
