(* ===== verification/Routing_Profile.thy ===== *)
theory Routing_Profile
  imports Py_Url Model_Validators Model_Fields Py_Hash
begin

text \<open>
  Routing profiles: \<^verbatim>\<open>ansible/lib/routing_profile.py\<close>. A profile selects two bootstrap resolvers,
  two DNS-over-HTTPS resolvers and an optional domain list. \<open>validate_profile\<close> returns the
  profile it accepts; \<open>from_config\<close> reads the profile back out of an installed gateway's
  configuration.
\<close>

section \<open>Public addresses\<close>

definition PROFILE_FIELDS :: "string list" where
  "PROFILE_FIELDS = [''domain-list-url'', ''bootstrap-dns'', ''vpn-dns'']"

definition is_multicast4 :: "int \<Rightarrow> bool" where
  "is_multicast4 n \<longleftrightarrow> in_net (V4 n) (net4 224 0 0 0 4)"

definition public_ipv4 :: "pyval \<Rightarrow> bool" where
  "public_ipv4 v =
    (case Option.bind (str_of v) parse_ipv4 of
       Some n \<Rightarrow> is_global4 n \<and> \<not> is_multicast4 n
     | None \<Rightarrow> False)"

definition HOST_DIGITS_RE :: rx where
  "HOST_DIGITS_RE = Plus (Cls [d09, one CHR ''.''])"

definition LABEL_RE :: rx where
  "LABEL_RE = Seq (Cls [az, d09])
     (Opt (Seq (Rep (Cls [az, d09, one CHR ''-'']) 0 61) (Cls [az, d09])))"

definition private_suffixes :: "string list" where
  "private_suffixes =
    [''local'', ''lan'', ''localhost'', ''ts.net'', ''tailscale.com'', ''internal'', ''home.arpa'']"

definition public_host :: "string \<Rightarrow> bool" where
  "public_host host =
    (if fullmatch HOST_DIGITS_RE host then public_ipv4 (PStr host)
     else CHR '':'' \<notin> set host \<and> CHR ''.'' \<in> set host \<and> length host \<le> 253 \<and>
       \<not> list_ex (\<lambda>s. host = s \<or> ends_with host (CHR ''.'' # s)) private_suffixes \<and>
       list_all (fullmatch LABEL_RE) (split_on CHR ''.'' host))"

definition public_https :: "pyval \<Rightarrow> bool" where
  "public_https v =
    (case v of
       PStr s \<Rightarrow>
         length s \<le> 2048 \<and> \<not> list_ex (\<lambda>c. is_space c \<or> c = CHR ''#'') s \<and>
         (case urlsplit s of
            None \<Rightarrow> False
          | Some u \<Rightarrow>
              u_scheme u = ''https'' \<and> username u = None \<and> password u = None \<and>
              (url_port u = Some None \<or> url_port u = Some (Some 443)) \<and>
              public_host (case hostname u of Some h \<Rightarrow> h | None \<Rightarrow> []))
     | _ \<Rightarrow> False)"


section \<open>Profiles\<close>

definition value_error :: "string \<Rightarrow> 'a res" where
  "value_error msg = Inl (ValueError msg)"

definition expect :: "bool \<Rightarrow> string \<Rightarrow> unit res" where
  "expect c msg = (if c then Inr () else value_error msg)"

definition check_resolvers :: "pydict \<Rightarrow> string \<times> (pyval \<Rightarrow> bool) \<Rightarrow> unit res" where
  "check_resolvers d = (\<lambda>(name, check).
    expect (case dget d name of
        PList [a, b] \<Rightarrow> check a \<and> check b \<and> \<not> py_eq a b
      | _ \<Rightarrow> False)
      (name @ '' requires two distinct public resolver addresses of the supported type''))"

definition validate_profile :: "pyval \<Rightarrow> pydict res" where
  "validate_profile v =
    (case v of
       PDict d \<Rightarrow>
         bind (expect (set (dkeys d) = set PROFILE_FIELDS)
           ''routing profile requires domain-list-url, bootstrap-dns and vpn-dns'') (\<lambda>_.
         bind (checks (map (check_resolvers d) [(''bootstrap-dns'', public_ipv4), (''vpn-dns'', public_https)])) (\<lambda>_.
         bind (expect (dget d ''domain-list-url'' = PNone \<or> public_https (dget d ''domain-list-url''))
           ''domain-list-url requires a public HTTPS URL without credentials or fragments, or null'') (\<lambda>_.
         Inr d)))
     | _ \<Rightarrow> value_error ''routing profile requires domain-list-url, bootstrap-dns and vpn-dns'')"

definition size_limit :: int where
  "size_limit = 4 * 1024 * 1024"

definition providers :: "pyval \<Rightarrow> pydict res" where
  "providers profile =
    bind (validate_profile profile) (\<lambda>p.
    case dget p ''domain-list-url'' of
      PNone \<Rightarrow> Inr []
    | url \<Rightarrow> Inr [(''selected'', PDict [(''type'', PStr ''http''), (''behavior'', PStr ''domain''),
        (''format'', PStr ''yaml''), (''url'', url),
        (''path'', PStr (''./rules/'' @ sha256_hex (py_str url) @ ''.yaml'')),
        (''interval'', PInt 86400), (''proxy'', PStr ''VPN''), (''size-limit'', PInt size_limit)])])"

text \<open>\<open>len(v)\<close> and \<open>v.values()\<close>.\<close>

definition py_len :: "pyval \<Rightarrow> nat res" where
  "py_len v = (case v of PStr s \<Rightarrow> Inr (length s) | PList xs \<Rightarrow> Inr (length xs) | PDict d \<Rightarrow> Inr (length d)
     | _ \<Rightarrow> Inl TypeError)"

definition vpn_suffix :: string where
  "vpn_suffix = ''#VPN''"

definition strip_vpn :: "pyval \<Rightarrow> pyval" where
  "strip_vpn v = (case v of PStr s \<Rightarrow> PStr (take (length s - 4) s) | _ \<Rightarrow> v)"

definition uses_vpn :: "pyval \<Rightarrow> bool" where
  "uses_vpn v = (case v of PStr s \<Rightarrow> ends_with s vpn_suffix | _ \<Rightarrow> False)"

definition from_config :: "pyval \<Rightarrow> pydict res" where
  "from_config config =
    bind (vitem config ''rule-providers'') (\<lambda>entries.
    bind (py_len entries) (\<lambda>n.
    bind (expect (n \<le> 1) ''installed gateway has ambiguous domain providers'') (\<lambda>_.
    bind (if truthy entries
          then bind (as_dict entries) (\<lambda>d. vitem (snd (hd d)) ''url'')
          else Inr PNone) (\<lambda>url.
    bind (vitem config ''dns'') (\<lambda>dns.
    bind (vitem dns ''nameserver'') (\<lambda>nameserver.
    bind (viter nameserver) (\<lambda>endpoints.
    bind (expect (list_all uses_vpn endpoints) ''installed DNS does not use VPN transport'') (\<lambda>_.
    bind (vitem dns ''proxy-server-nameserver'') (\<lambda>bootstrap.
    validate_profile (PDict [(''domain-list-url'', url), (''bootstrap-dns'', bootstrap),
      (''vpn-dns'', PList (map strip_vpn endpoints))]))))))))))"


section \<open>Facts\<close>

lemma expect_eq_Inr [res_simps]: "expect c msg = Inr u \<longleftrightarrow> c"
  by (simp add: expect_def value_error_def)

lemma value_error_neq_Inr [simp]: "value_error msg \<noteq> Inr x"
  by (simp add: value_error_def)

definition resolver_pair :: "(pyval \<Rightarrow> bool) \<Rightarrow> pyval \<Rightarrow> bool" where
  "resolver_pair check v \<longleftrightarrow> (\<exists>a b. v = PList [a, b] \<and> check a \<and> check b \<and> \<not> py_eq a b)"

lemma check_resolvers_iff [res_simps]:
  "check_resolvers d (name, check) = Inr u \<longleftrightarrow> resolver_pair check (dget d name)"
  by (auto simp: check_resolvers_def resolver_pair_def res_simps split: pyval.splits list.splits)

lemma validate_profile_iff [res_simps]:
  "validate_profile v = Inr p \<longleftrightarrow>
    v = PDict p \<and> set (dkeys p) = set PROFILE_FIELDS \<and>
    resolver_pair public_ipv4 (dget p ''bootstrap-dns'') \<and>
    resolver_pair public_https (dget p ''vpn-dns'') \<and>
    (dget p ''domain-list-url'' = PNone \<or> public_https (dget p ''domain-list-url''))"
  by (cases v) (auto simp: validate_profile_def res_simps)

lemma public_https_str: "public_https v \<Longrightarrow> \<exists>s. v = PStr s \<and> CHR ''#'' \<notin> set s"
  by (auto simp: public_https_def list_ex_iff split: pyval.splits)

lemma public_ipv4_str: "public_ipv4 v \<Longrightarrow> \<exists>s. v = PStr s"
  by (cases v) (auto simp: public_ipv4_def)

end
