(* ===== verification/Model_Topology.thy ===== *)
theory Model_Topology
  imports Model_Validators
begin

text \<open>
  \<open>load_topology\<close> and the lookups of zones and realms, and the three recursive or closed-list
  field checks, of \<^verbatim>\<open>platform_resource_model.py\<close>. A \<open>topology\<close> is the record the
  function returns; its members stay the raw mappings of the inventory, which the checks have
  shown to have the shape every later lookup relies on (\<open>wf_topology\<close>).
\<close>

record topology =
  zones :: pydict
  air :: pyval
  vpn_egress :: pyval
  control_zones :: pydict
  aliases :: pydict
  realms :: pydict

text \<open>\<open>inventory_vars.get(key) or {}\<close> followed by the mapping check.\<close>

definition mapping_section :: "pydict \<Rightarrow> string \<Rightarrow> string \<Rightarrow> pydict res" where
  "mapping_section d key msg =
    (if truthy (dget d key)
     then (case dget d key of PDict m \<Rightarrow> Inr m | _ \<Rightarrow> die msg)
     else Inr [])"

definition check_zone :: "string \<times> pyval \<Rightarrow> unit res" where
  "check_zone = (\<lambda>(name, zone).
    let base = ''platform_zones.'' @ name in
    bind (validate_id (PStr name) base) (\<lambda>_.
    case zone of
      PDict z \<Rightarrow>
        checks (require (str_in (dget z ''role'') WORKLOAD_ROLES)
            (base @ ''.role must be one of '' @ join '', '' WORKLOAD_ROLES)
          # map (\<lambda>key. validate_iface (dget z key) (base @ ''.'' @ key))
              [''hostname_suffix'', ''bridge'', ''router_interface'', ''vm_interface'']
          @ map (\<lambda>key. validate_ip (dget z key) (base @ ''.'' @ key))
              [''router_ipv4_address'', ''vm_ipv4_address'']
          @ [validate_ip (dget z ''cidr'') (base @ ''.cidr'')])
    | _ \<Rightarrow> die (base @ '' must be a mapping'')))"

definition check_ops_zone :: "pydict \<Rightarrow> unit res" where
  "check_ops_zone controls =
    bind (mapping_section controls ''ops'' ''platform_control_zones.ops must be a mapping'') (\<lambda>ops.
    checks (map (\<lambda>key. validate_iface (dget ops key) (''platform_control_zones.ops.'' @ key))
        [''router_interface'', ''vm_interface'']
      @ map (\<lambda>key. validate_ip (dget ops key) (''platform_control_zones.ops.'' @ key))
        [''router_ipv4_address'', ''vm_ipv4_address'']
      @ [validate_ip (dget ops ''cidr'') ''platform_control_zones.ops.cidr'']))"

definition check_alias :: "pydict \<Rightarrow> string \<times> pyval \<Rightarrow> unit res" where
  "check_alias zs = (\<lambda>(name, target).
    let field = ''platform_zone_aliases.'' @ name in
    checks [validate_id (PStr name) field,
      validate_id target field,
      require (str_in target (dkeys zs)) (field @ '' points to unknown zone '' @ py_str target)])"

definition check_vlan :: "pyval \<Rightarrow> string \<Rightarrow> unit res" where
  "check_vlan vlan base =
    (if vlan = PNone then Inr ()
     else require (case int_of vlan of None \<Rightarrow> False | Some i \<Rightarrow> 1 \<le> i \<and> i \<le> 4094)
       (base @ ''.vlan_id must be 1-4094''))"

definition check_realm :: "string \<times> pyval \<Rightarrow> unit res" where
  "check_realm = (\<lambda>(name, realm).
    let base = ''platform_network_realms.'' @ name in
    bind (validate_id (PStr name) base) (\<lambda>_.
    case realm of
      PDict r \<Rightarrow>
        checks ([validate_iface (dget r ''router_interface'') (base @ ''.router_interface''),
            if truthy (dget r ''parent_interface'')
            then validate_iface (dget r ''parent_interface'') (base @ ''.parent_interface'')
            else Inr (),
            check_vlan (dget r ''vlan_id'') base]
          @ map (\<lambda>key. if truthy (dget r key) then validate_ip (dget r key) (base @ ''.'' @ key)
                       else Inr ())
              [''router_ipv4_address'', ''cidr'', ''dhcp_start'', ''dhcp_end'',
               ''ap_management_ipv4_address''])
    | _ \<Rightarrow> die (base @ '' must be a mapping'')))"

definition load_topology :: "string \<Rightarrow> yaml_file \<Rightarrow> topology res" where
  "load_topology path f =
    bind (load_yaml path f) (\<lambda>vars.
    bind (if truthy (dget vars ''platform_zones'')
          then (case dget vars ''platform_zones'' of PDict z \<Rightarrow> Inr z
                | _ \<Rightarrow> die (path @ '' platform_zones must be a non-empty mapping''))
          else die (path @ '' platform_zones must be a non-empty mapping'')) (\<lambda>zs.
    bind (mapping_section vars ''platform_zone_aliases''
            (path @ '' platform_zone_aliases must be a mapping'')) (\<lambda>als.
    bind (mapping_section vars ''platform_control_zones''
            (path @ '' platform_control_zones must be a mapping'')) (\<lambda>controls.
    bind (mapping_section vars ''platform_network_realms''
            (path @ '' platform_network_realms must be a mapping'')) (\<lambda>rs.
    bind (checks (map check_zone zs @ [check_ops_zone controls] @ map (check_alias zs) als
            @ map (\<lambda>r. require (dhas rs r) (''platform_network_realms.'' @ r @ '' is required''))
                [''wan'', ''lan'']
            @ map check_realm rs)) (\<lambda>_.
    Inr \<lparr>zones = zs, air = dgetd vars ''platform_air'' (PDict []),
         vpn_egress = dgetd vars ''platform_vpn_egress'' (PDict []),
         control_zones = controls, aliases = als, realms = rs\<rparr>))))))"


section \<open>Lookups\<close>

text \<open>\<open>topology["aliases"].get(value, value)\<close>; the alias check has shown targets to be names.\<close>

definition canonical_zone :: "topology \<Rightarrow> string \<Rightarrow> string" where
  "canonical_zone t s = (case map_of (aliases t) s of Some (PStr c) \<Rightarrow> c | _ \<Rightarrow> s)"

definition resolve_zone :: "pyval \<Rightarrow> string \<Rightarrow> topology \<Rightarrow> (string \<times> pyval) res" where
  "resolve_zone v field t =
    (case v of
       PStr s \<Rightarrow>
         if s = [] then die (field @ '' must be a Platform zone'')
         else (case map_of (zones t) (canonical_zone t s) of
            Some z \<Rightarrow> Inr (canonical_zone t s, z)
          | None \<Rightarrow> die (field @ '' must be one of: ''
                @ join '', '' (sorted_set (dkeys (zones t) @ dkeys (aliases t)))))
     | _ \<Rightarrow> die (field @ '' must be a Platform zone''))"

definition resolve_realm :: "pyval \<Rightarrow> string \<Rightarrow> topology \<Rightarrow> bool \<Rightarrow> (string \<times> pyval) res" where
  "resolve_realm v field t require_cidr =
    (case v of
       PStr s \<Rightarrow>
         if s = [] then die (field @ '' must be a Platform network realm'')
         else (case map_of (realms t) s of
            None \<Rightarrow> die (field @ '' must be one of: '' @ join '', '' (sorted_set (dkeys (realms t))))
          | Some realm \<Rightarrow>
             if require_cidr then
               bind (vget realm ''cidr'') (\<lambda>cidr.
               bind (require (truthy cidr) (field @ '' must reference a realm with a cidr'')) (\<lambda>_.
               Inr (s, realm)))
             else Inr (s, realm))
     | _ \<Rightarrow> die (field @ '' must be a Platform network realm''))"


section \<open>Field checks\<close>

text \<open>The two recursive checks differ in the refused names and the message.\<close>

primrec reject_nested :: "string list \<Rightarrow> string \<Rightarrow> pyval \<Rightarrow> string \<Rightarrow> unit res" where
  "reject_nested ks msg PNone = (\<lambda>field. Inr ())"
| "reject_nested ks msg (PBool b) = (\<lambda>field. Inr ())"
| "reject_nested ks msg (PInt i) = (\<lambda>field. Inr ())"
| "reject_nested ks msg (PStr s) = (\<lambda>field. Inr ())"
| "reject_nested ks msg (PList xs) = (\<lambda>field.
    checks (map (\<lambda>(i, check). check (field @ ''['' @ nat_str i @ '']''))
      (enumerate 0 (map (reject_nested ks msg) xs))))"
| "reject_nested ks msg (PDict d) = (\<lambda>field.
    checks (map (\<lambda>(key, check).
        bind (require (key \<notin> set ks) (field @ ''.'' @ key @ msg)) (\<lambda>_.
        check (field @ ''.'' @ key)))
      (map (map_prod id (reject_nested ks msg)) d)))"

definition reject_raw_network_fields :: "pyval \<Rightarrow> string \<Rightarrow> unit res" where
  "reject_raw_network_fields = reject_nested RAW_NETWORK_FIELDS
    '' is implementation topology; use from_zone/to_zone instead''"

definition reject_tcb_control_fields :: "pyval \<Rightarrow> string \<Rightarrow> unit res" where
  "reject_tcb_control_fields = reject_nested TCB_CONTROL_FIELDS
    '' is TCB-owned control data; app manifests may declare resource intent only''"

definition reject_unknown_fields :: "pyval \<Rightarrow> string list \<Rightarrow> string \<Rightarrow> unit res" where
  "reject_unknown_fields v allowed field =
    (case v of
       PDict d \<Rightarrow>
         (let unknown = sorted_set (filter (\<lambda>k. k \<notin> set allowed) (dkeys d))
          in require (unknown = [])
               (field @ '' contains unsupported app-manifest field(s): '' @ join '', '' unknown))
     | _ \<Rightarrow> die (field @ '' must be a mapping''))"


section \<open>Facts\<close>

text \<open>A key occurs in a document when some mapping at any depth has it.\<close>

inductive occurs_key :: "string \<Rightarrow> pyval \<Rightarrow> bool" where
  here: "k \<in> fst ` set d \<Longrightarrow> occurs_key k (PDict d)"
| in_dict: "(k', v) \<in> set d \<Longrightarrow> occurs_key k v \<Longrightarrow> occurs_key k (PDict d)"
| in_list: "v \<in> set xs \<Longrightarrow> occurs_key k v \<Longrightarrow> occurs_key k (PList xs)"

inductive_simps occurs_key_simps [simp]:
  "occurs_key k PNone" "occurs_key k (PBool b)" "occurs_key k (PInt i)" "occurs_key k (PStr s)"
  "occurs_key k (PList xs)" "occurs_key k (PDict d)"

lemma checks_enumerate:
  "checks (map (\<lambda>(i, check). check (g i)) (enumerate n (map f xs))) = Inr u \<longleftrightarrow>
    (\<forall>(i, x)\<in>set (enumerate n xs). f x (g i) = Inr ())"
  by (induction xs arbitrary: n) (auto simp: bind_eq_Inr)

lemma enumerate_all: "(\<forall>(i, x)\<in>set (enumerate n xs). P x) \<longleftrightarrow> (\<forall>x\<in>set xs. P x)"
  by (induction xs arbitrary: n) auto

text \<open>Acceptance does not depend on the path used in messages.\<close>

lemma reject_nested_iff:
  "reject_nested ks msg v field = Inr u \<longleftrightarrow> (\<forall>k\<in>set ks. \<not> occurs_key k v)"
proof (induction v arbitrary: field)
  case (PList xs)
  then have IH: "x \<in> set xs \<Longrightarrow> reject_nested ks msg x f = Inr () \<longleftrightarrow> (\<forall>k\<in>set ks. \<not> occurs_key k x)" for x f
    by auto
  have elem: "(i, x) \<in> set (enumerate 0 xs) \<Longrightarrow> x \<in> set xs" for i x
    by (auto simp: in_set_enumerate_eq)
  have "reject_nested ks msg (PList xs) field = Inr u \<longleftrightarrow>
      (\<forall>(i, x)\<in>set (enumerate 0 xs). reject_nested ks msg x (field @ ''['' @ nat_str i @ '']'') = Inr ())"
    unfolding reject_nested.simps checks_enumerate ..
  also have "\<dots> \<longleftrightarrow> (\<forall>(i, x)\<in>set (enumerate 0 xs). \<forall>k\<in>set ks. \<not> occurs_key k x)"
    using IH elem by fast
  also have "\<dots> \<longleftrightarrow> (\<forall>x\<in>set xs. \<forall>k\<in>set ks. \<not> occurs_key k x)"
    by (rule enumerate_all)
  finally show ?case by auto
next
  case (PDict d)
  then have IH: "(k, x) \<in> set d \<Longrightarrow> reject_nested ks msg x f = Inr () \<longleftrightarrow> (\<forall>k\<in>set ks. \<not> occurs_key k x)" for k x f
    by (auto simp: snds.simps)
  have "reject_nested ks msg (PDict d) field = Inr u \<longleftrightarrow>
      (\<forall>(k, x)\<in>set d. k \<notin> set ks \<and> (\<forall>k\<in>set ks. \<not> occurs_key k x))"
    unfolding reject_nested.simps checks_eq_Inr
    by (auto simp: IH bind_eq_Inr require_eq_Inr)
  then show ?case by auto
qed auto

lemma field_scan_iff [res_simps]:
  "reject_raw_network_fields v f = Inr u \<longleftrightarrow> (\<forall>k\<in>set RAW_NETWORK_FIELDS. \<not> occurs_key k v)"
  "reject_tcb_control_fields v f = Inr u \<longleftrightarrow> (\<forall>k\<in>set TCB_CONTROL_FIELDS. \<not> occurs_key k v)"
  by (simp_all add: reject_raw_network_fields_def reject_tcb_control_fields_def reject_nested_iff)

lemma reject_unknown_fields_iff [res_simps]:
  "reject_unknown_fields v allowed field = Inr u \<longleftrightarrow>
    (\<exists>d. v = PDict d \<and> fst ` set d \<subseteq> set allowed)"
  by (auto simp: reject_unknown_fields_def res_simps Let_def filter_empty_conv
      split: pyval.splits)

lemma mapping_section_eq [res_simps]:
  "mapping_section d key msg = Inr m \<longleftrightarrow>
    (if truthy (dget d key) then dget d key = PDict m else m = [])"
  by (auto simp: mapping_section_def split: pyval.splits)

text \<open>What every later lookup relies on.\<close>

definition wf_zone :: "pyval \<Rightarrow> bool" where
  "wf_zone zone \<longleftrightarrow> (\<exists>z. zone = PDict z \<and> str_in (dget z ''role'') WORKLOAD_ROLES \<and>
    (\<forall>key\<in>{''hostname_suffix'', ''bridge'', ''router_interface'', ''vm_interface''}.
       \<exists>s. dget z key = PStr s \<and> fullmatch IFACE_RE s) \<and>
    (\<forall>key\<in>{''router_ipv4_address'', ''vm_ipv4_address'', ''cidr''}.
       \<exists>s. dget z key = PStr s \<and> s \<noteq> []))"

definition wf_realm :: "pyval \<Rightarrow> bool" where
  "wf_realm realm \<longleftrightarrow> (\<exists>r. realm = PDict r \<and>
    (\<exists>s. dget r ''router_interface'' = PStr s \<and> fullmatch IFACE_RE s))"

definition wf_topology :: "topology \<Rightarrow> bool" where
  "wf_topology t \<longleftrightarrow> zones t \<noteq> [] \<and>
    (\<forall>(name, zone)\<in>set (zones t). fullmatch ID_RE name \<and> wf_zone zone) \<and>
    (\<forall>(name, target)\<in>set (aliases t). \<exists>z. target = PStr z \<and> dhas (zones t) z) \<and>
    (\<forall>(name, realm)\<in>set (realms t). fullmatch ID_RE name \<and> wf_realm realm) \<and>
    dhas (realms t) ''wan'' \<and> dhas (realms t) ''lan''"

lemma check_zone_wf: "check_zone (name, zone) = Inr u \<Longrightarrow> fullmatch ID_RE name \<and> wf_zone zone"
  by (cases zone)
    (auto simp: check_zone_def Let_def res_simps wf_zone_def dest!: validate_ip_str)

lemma check_realm_wf: "check_realm (name, realm) = Inr u \<Longrightarrow> fullmatch ID_RE name \<and> wf_realm realm"
  by (cases realm) (auto simp: check_realm_def Let_def res_simps wf_realm_def)

lemma load_topology_wf:
  assumes "load_topology path f = Inr t"
  shows "wf_topology t"
proof -
  from assms obtain zs als controls rs where t: "zones t = zs" "aliases t = als" "realms t = rs"
    and ne: "zs \<noteq> []"
    and ok: "checks (map check_zone zs @ [check_ops_zone controls] @ map (check_alias zs) als
            @ map (\<lambda>r. require (dhas rs r) (''platform_network_realms.'' @ r @ '' is required''))
                [''wan'', ''lan'']
            @ map check_realm rs) = Inr ()"
    unfolding load_topology_def bind_eq_Inr
    by (auto split: if_splits pyval.splits)
  from ok have zs: "\<And>p. p \<in> set zs \<Longrightarrow> check_zone p = Inr ()"
    and als: "\<And>p. p \<in> set als \<Longrightarrow> check_alias zs p = Inr ()"
    and rs: "\<And>p. p \<in> set rs \<Longrightarrow> check_realm p = Inr ()"
    and req: "dhas rs ''wan''" "dhas rs ''lan''"
    unfolding checks_eq_Inr by (auto simp: res_simps)
  have "\<exists>z. target = PStr z \<and> dhas zs z" if "(name, target) \<in> set als" for name target
    using als [OF that] by (auto simp: check_alias_def Let_def res_simps str_in_iff dhas_def)
  then show ?thesis
    using ne req check_zone_wf [OF zs] check_realm_wf [OF rs]
    by (auto simp: wf_topology_def t)
qed

lemma resolve_zone_iff [res_simps]:
  "resolve_zone v f t = Inr (c, z) \<longleftrightarrow>
    (\<exists>s. v = PStr s \<and> s \<noteq> [] \<and> c = canonical_zone t s \<and> map_of (zones t) c = Some z)"
  by (auto simp: resolve_zone_def split: pyval.splits option.splits)

lemma resolve_realm_iff [res_simps]:
  "resolve_realm v f t b = Inr (c, r) \<longleftrightarrow>
    v = PStr c \<and> c \<noteq> [] \<and> map_of (realms t) c = Some r \<and>
    (b \<longrightarrow> (\<exists>d. r = PDict d \<and> truthy (dget d ''cidr'')))"
  by (auto simp: resolve_realm_def res_simps split: pyval.splits option.splits)

text \<open>With a loaded topology an alias always resolves to a declared zone.\<close>

lemma canonical_zone_declared:
  assumes "wf_topology t" and "dhas (zones t) s \<or> dhas (aliases t) s"
  shows "dhas (zones t) (canonical_zone t s)"
proof (cases "map_of (aliases t) s")
  case None
  with assms(2) show ?thesis
    by (simp add: canonical_zone_def) (auto simp: dhas_def map_of_eq_None_iff)
next
  case (Some target)
  then have "(s, target) \<in> set (aliases t)" by (rule map_of_SomeD)
  with assms(1) obtain z where "target = PStr z" "dhas (zones t) z"
    unfolding wf_topology_def by blast
  with Some show ?thesis by (simp add: canonical_zone_def)
qed

lemma resolve_zone_complete:
  assumes "wf_topology t" and "dhas (zones t) s \<or> dhas (aliases t) s" and "s \<noteq> []"
  shows "\<exists>z. resolve_zone (PStr s) f t = Inr (canonical_zone t s, z) \<and> wf_zone z"
proof -
  from canonical_zone_declared [OF assms(1,2)] obtain z where
    z: "map_of (zones t) (canonical_zone t s) = Some z"
    by (auto simp: dhas_def dest: weak_map_of_SomeI)
  then have "(canonical_zone t s, z) \<in> set (zones t)" by (rule map_of_SomeD)
  with assms(1) have "wf_zone z" unfolding wf_topology_def by blast
  with z assms(3) show ?thesis by (auto simp: res_simps)
qed

end
