(* ===== verification/Model_Access.thy ===== *)
theory Model_Access
  imports Model_Topology Interfaces
begin

text \<open>
  Access capabilities of a box and of a resource: \<open>validate_access_capability\<close> to
  \<open>resource_access_allowed_for_any_box\<close> of \<^verbatim>\<open>platform_resource_model.py\<close>.

  A normalised access block (\<open>wf_access\<close>) offers only known capabilities, enables only what it
  offers, and enables nothing it prohibits. \<open>normalize_box_access\<close> returns such a block and
  gives a block it has returned back unchanged.
\<close>

definition validate_access_capability :: "pyval \<Rightarrow> string \<Rightarrow> unit res" where
  "validate_access_capability v field =
    bind (str_member v ACCESS_CAPABILITIES) (\<lambda>known.
    require known (field @ '' must be one of: '' @ join '', '' (sorted_set ACCESS_CAPABILITIES)))"

definition validate_access_intent :: "pyval \<Rightarrow> string \<Rightarrow> unit res" where
  "validate_access_intent v field =
    require (str_in v ACCESS_POLICY_INTENTS)
      (field @ '' must be one of: '' @ join '', '' (sorted_set ACCESS_POLICY_INTENTS))"

definition index_field :: "string \<Rightarrow> nat \<Rightarrow> string" where
  "index_field field i = field @ ''['' @ nat_str i @ '']''"

text \<open>The accumulating loop keeps the first of equal capabilities.\<close>

definition validate_access_capability_list :: "pyval \<Rightarrow> string \<Rightarrow> string list res" where
  "validate_access_capability_list values field =
    (case values of
       PList xs \<Rightarrow>
         bind (traverse (\<lambda>(i, v).
             bind (validate_access_capability v (index_field field i)) (\<lambda>_.
             case v of PStr s \<Rightarrow> Inr s | _ \<Rightarrow> Inl TypeError)) (enumerate 0 xs)) (\<lambda>names.
         Inr (foldl add_new [] names))
     | _ \<Rightarrow> die (field @ '' must be a list''))"

definition access_block :: "string list \<Rightarrow> string list \<Rightarrow> string list \<Rightarrow> pydict" where
  "access_block available enabled prohibited =
    [(''available_capabilities'', strs available),
     (''enabled_capabilities'', strs enabled),
     (''prohibited_capabilities'', strs prohibited)]"

definition default_box_access :: pydict where
  "default_box_access = access_block [''overlay''] [''overlay''] []"

definition normalize_box_access :: "pyval \<Rightarrow> string \<Rightarrow> pydict res" where
  "normalize_box_access v field =
    (case (if v = PNone then PDict [] else v) of
       PDict access \<Rightarrow>
         bind (reject_unknown_fields (PDict access) ACCESS_BOX_FIELDS field) (\<lambda>_.
         bind (validate_access_capability_list
                 (dgetd access ''available_capabilities'' (strs [''overlay'']))
                 (field @ ''.available_capabilities'')) (\<lambda>available.
         bind (validate_access_capability_list
                 (dgetd access ''prohibited_capabilities'' (PList []))
                 (field @ ''.prohibited_capabilities'')) (\<lambda>prohibited.
         (let both = sorted_set (filter (\<lambda>c. c \<in> set prohibited) available) in
         bind (require (both = [])
                 (field @ ''.available_capabilities includes prohibited capability: ''
                  @ join '', '' both)) (\<lambda>_.
         bind (validate_access_capability_list
                 (dgetd access ''enabled_capabilities''
                   (if ''overlay'' \<in> set available then strs [''overlay''] else PList []))
                 (field @ ''.enabled_capabilities'')) (\<lambda>enabled.
         bind (checks (concat (map (\<lambda>c.
                 [require (c \<in> set available)
                    (field @ ''.enabled_capabilities contains unavailable capability: '' @ c),
                  require (c \<notin> set prohibited)
                    (field @ ''.enabled_capabilities contains prohibited capability: '' @ c)])
               enabled))) (\<lambda>_.
         Inr (access_block available enabled prohibited))))))))
     | _ \<Rightarrow> die (field @ '' must be a mapping''))"

definition validate_resource_access :: "pydict \<Rightarrow> string \<Rightarrow> unit res" where
  "validate_resource_access resource field =
    bind (if dget resource ''requires_capability'' = PNone then Inr ()
          else validate_access_capability (dget resource ''requires_capability'')
            (field @ ''.requires_capability'')) (\<lambda>_.
    case dget resource ''access'' of
      PNone \<Rightarrow> Inr ()
    | PDict access \<Rightarrow>
        checks [reject_unknown_fields (PDict access) ACCESS_RESOURCE_FIELDS (field @ ''.access''),
          validate_access_intent (dget access ''intent'') (field @ ''.access.intent''),
          validate_access_capability (dget access ''capability'') (field @ ''.access.capability'')]
    | _ \<Rightarrow> die (field @ ''.access must be a mapping''))"

definition shared_guest_entry :: "string \<Rightarrow> string \<times> pyval" where
  "shared_guest_entry state = (''runtime_state'', PStr state)"

definition default_box_config :: pydict where
  "default_box_config =
    [(''dom0_bridge_ports'', PDict []),
     (''access'', PDict default_box_access),
     (''dhcp_reservations'', PList []),
     (''shared_guests'', PDict (map (\<lambda>role. (role, PDict [shared_guest_entry ''running''])) SHARED_GUEST_ROLES))]"

definition box_config_for :: "pydict \<Rightarrow> string \<Rightarrow> pyval" where
  "box_config_for box_configs box = py_or (dget box_configs box) (PDict default_box_config)"

text \<open>\<open>resource.get("requires_capability") or (resource.get("access") or {}).get("capability")\<close>.\<close>

definition resource_capability :: "pydict \<Rightarrow> pyval res" where
  "resource_capability resource =
    (if truthy (dget resource ''requires_capability'')
     then Inr (dget resource ''requires_capability'')
     else vget (py_or (dget resource ''access'') (PDict [])) ''capability'')"

definition resource_access_allowed :: "pydict \<Rightarrow> pyval \<Rightarrow> bool res" where
  "resource_access_allowed resource box_config =
    bind (resource_capability resource) (\<lambda>capability.
    if \<not> truthy capability then Inr True
    else bind (vget (py_or box_config (PDict default_box_config)) ''access'') (\<lambda>access.
      bind (vget (py_or access (PDict default_box_access)) ''enabled_capabilities'') (\<lambda>enabled.
      bind (viter (py_or enabled (PList []))) (\<lambda>names.
      set_member capability names))))"

definition resource_access_allowed_for_any_box :: "pydict \<Rightarrow> pydict \<Rightarrow> string list \<Rightarrow> bool res" where
  "resource_access_allowed_for_any_box resource box_configs boxes =
    (if \<not> truthy (dget resource ''access'') then Inr True
     else any_res (\<lambda>box. resource_access_allowed resource (box_config_for box_configs box))
       (if boxes = [] then [''''] else boxes))"


section \<open>Facts\<close>

lemma validate_access_capability_iff [res_simps]:
  "validate_access_capability v f = Inr u \<longleftrightarrow> (\<exists>s. v = PStr s \<and> s \<in> set ACCESS_CAPABILITIES)"
  by (auto simp: validate_access_capability_def res_simps hashable_def)

lemma validate_access_intent_iff [res_simps]:
  "validate_access_intent v f = Inr u \<longleftrightarrow> (\<exists>s. v = PStr s \<and> s \<in> set ACCESS_POLICY_INTENTS)"
  by (simp add: validate_access_intent_def res_simps str_in_iff)

lemma capability_traverse:
  "traverse (\<lambda>(i, v). bind (validate_access_capability v (g i)) (\<lambda>_.
      case v of PStr s \<Rightarrow> Inr s | _ \<Rightarrow> Inl TypeError)) (enumerate n xs) = Inr ns \<longleftrightarrow>
    xs = map PStr ns \<and> set ns \<subseteq> set ACCESS_CAPABILITIES"
  by (induction xs arbitrary: n ns) (auto simp: res_simps)

lemma capability_list_eq:
  "validate_access_capability_list v f = Inr ns \<longleftrightarrow>
    (\<exists>raw. v = strs raw \<and> set raw \<subseteq> set ACCESS_CAPABILITIES \<and> ns = foldl add_new [] raw)"
  by (cases v) (auto simp: validate_access_capability_list_def bind_eq_Inr capability_traverse)

lemma capability_list_facts:
  assumes "validate_access_capability_list v f = Inr ns"
  shows "set ns \<subseteq> set ACCESS_CAPABILITIES" "distinct ns"
  using assms by (auto simp: capability_list_eq foldl_add_new)

lemma capability_list_idem:
  assumes "set ns \<subseteq> set ACCESS_CAPABILITIES" "distinct ns"
  shows "validate_access_capability_list (strs ns) f = Inr ns"
  using assms foldl_add_new_distinct [of "[]" ns] by (auto simp: capability_list_eq)

definition wf_access :: "pydict \<Rightarrow> bool" where
  "wf_access a \<longleftrightarrow> (\<exists>available enabled prohibited.
    a = access_block available enabled prohibited \<and>
    distinct available \<and> distinct enabled \<and> distinct prohibited \<and>
    set available \<subseteq> set ACCESS_CAPABILITIES \<and> set prohibited \<subseteq> set ACCESS_CAPABILITIES \<and>
    set enabled \<subseteq> set available \<and> set available \<inter> set prohibited = {})"

lemma normalize_box_access_wf:
  assumes "normalize_box_access v f = Inr a"
  shows "wf_access a"
proof -
  obtain available enabled prohibited va ve vp fa fe fp where
    a: "a = access_block available enabled prohibited"
    and lists: "validate_access_capability_list va fa = Inr available"
      "validate_access_capability_list ve fe = Inr enabled"
      "validate_access_capability_list vp fp = Inr prohibited"
    and sets: "set available \<inter> set prohibited = {}" "set enabled \<subseteq> set available"
    using assms unfolding normalize_box_access_def
    by (auto simp: bind_eq_Inr require_eq_Inr checks_eq_Inr Let_def filter_empty_conv
        split: pyval.splits if_splits) blast+
  then show ?thesis
    unfolding wf_access_def a
    using capability_list_facts [OF lists(1)] capability_list_facts [OF lists(2)]
      capability_list_facts [OF lists(3)] by blast
qed

lemma access_block_get [simp]:
  "dgetd (access_block a e p) ''available_capabilities'' x = strs a"
  "dgetd (access_block a e p) ''enabled_capabilities'' x = strs e"
  "dgetd (access_block a e p) ''prohibited_capabilities'' x = strs p"
  "dget (access_block a e p) ''enabled_capabilities'' = strs e"
  by (simp_all add: access_block_def)

lemma normalize_box_access_idem:
  assumes "wf_access a"
  shows "normalize_box_access (PDict a) f = Inr a"
proof -
  from assms obtain available enabled prohibited where
    a: "a = access_block available enabled prohibited"
    and d: "distinct available" "distinct enabled" "distinct prohibited"
    and sub: "set available \<subseteq> set ACCESS_CAPABILITIES" "set prohibited \<subseteq> set ACCESS_CAPABILITIES"
      "set enabled \<subseteq> set available" "set available \<inter> set prohibited = {}"
    unfolding wf_access_def by blast
  have fields: "reject_unknown_fields (PDict a) ACCESS_BOX_FIELDS f = Inr ()"
    by (auto simp: res_simps a access_block_def ACCESS_BOX_FIELDS_def)
  have lists: "validate_access_capability_list (strs available) g = Inr available"
      "validate_access_capability_list (strs enabled) g = Inr enabled"
      "validate_access_capability_list (strs prohibited) g = Inr prohibited" for g
    using d sub by (auto intro!: capability_list_idem)
  have none: "filter (\<lambda>c. c \<in> set prohibited) available = []"
    using sub(4) by (auto simp: filter_empty_conv)
  have ok: "checks (concat (map (\<lambda>c. [require (c \<in> set available) (m1 c), require (c \<notin> set prohibited) (m2 c)]) enabled)) = Inr ()"
    for m1 m2 using sub by (auto simp: checks_eq_Inr require_eq_Inr)
  show ?thesis
    using fields unfolding normalize_box_access_def by (simp add: a lists none ok Let_def)
qed

interpretation access: normaliser normalize_box_access PDict wf_access
  by unfold_locales (rule normalize_box_access_wf, assumption, rule normalize_box_access_idem)

lemma default_box_access_wf: "wf_access default_box_access"
  unfolding wf_access_def default_box_access_def
  by (intro exI conjI, rule refl) (auto simp: ACCESS_CAPABILITIES_def)

text \<open>A resource is allowed on a box with a normalised block when it names no capability or one
  the block enables.\<close>

lemma resource_access_allowed_iff:
  assumes "wf_access a" and "dget cfg ''access'' = PDict a" and "cfg \<noteq> []"
    and "resource_capability r = Inr (PStr c)" "c \<noteq> []"
  shows "resource_access_allowed r (PDict cfg) = Inr b \<longleftrightarrow>
    (b \<longleftrightarrow> PStr c \<in> set (list_of (dget a ''enabled_capabilities'')))"
proof -
  from assms(1) obtain available enabled prohibited where a: "a = access_block available enabled prohibited"
    unfolding wf_access_def by blast
  then have ne: "a \<noteq> []" by (simp add: access_block_def)
  show ?thesis
    using assms ne unfolding resource_access_allowed_def
    by (cases "enabled = []") (auto simp: a py_or_def set_member_def [of _ "[]"] hashable_def [of "PStr c"] py_in_def [of _ "[]"])
qed

end
