(* ===== verification/Model_Selection.thy ===== *)
theory Model_Selection
  imports Model_Access
begin

text \<open>
  What an application's registry entry selects: its manifest, placement boxes, runtime state,
  and the resources that are switched on (\<open>app_manifest\<close> to \<open>app_runtime_state\<close>, and
  \<open>resource_enabled\<close> to \<open>selected_network_resources\<close>, of
  \<^verbatim>\<open>platform_resource_model.py\<close>).

  \<open>selected_boxes_placement\<close> states the placement rule: an enabled application is placed on at
  least one box, an active and a passive box differ, and a single-box application has no passive
  box.
\<close>

section \<open>Manifest\<close>

definition manifest_path :: "pydict \<Rightarrow> string" where
  "manifest_path manifest = py_str (dget manifest ''_manifest_path'')"

text \<open>\<open>file\<close> is what reading \<^verbatim>\<open>apps/<app>/platform-resources.yml\<close> at \<open>path\<close> yields.\<close>

definition app_manifest :: "string \<Rightarrow> string \<Rightarrow> yaml_file \<Rightarrow> pydict res" where
  "app_manifest app_name path file =
    bind (validate_app_id app_name) (\<lambda>_.
    bind (require (file \<noteq> Missing) (''missing platform resource manifest: '' @ path)) (\<lambda>_.
    bind (load_yaml path file) (\<lambda>manifest.
    bind (require (py_eq (dget manifest ''schema_version'') (PInt 1))
            (path @ '' must use schema_version: 1'')) (\<lambda>_.
    bind (require (py_eq (dget manifest ''app'') (PStr app_name))
            (path @ '' app field must equal '' @ app_name)) (\<lambda>_.
    bind (mapping_section manifest ''resources'' (path @ '' resources must be a mapping'')) (\<lambda>_.
    Inr (dset manifest ''_manifest_path'' (PStr path))))))))"

text \<open>\<open>(manifest.get("resources") or {}).get(section) or []\<close>.\<close>

definition manifest_section :: "pydict \<Rightarrow> string \<Rightarrow> pyval res" where
  "manifest_section manifest section =
    bind (vget (py_or (dget manifest ''resources'') (PDict [])) section) (\<lambda>v.
    Inr (py_or v (PList [])))"

definition has_type :: "string \<Rightarrow> pyval \<Rightarrow> bool" where
  "has_type t v \<longleftrightarrow> (case v of PDict d \<Rightarrow> dget d ''type'' = PStr t | _ \<Rightarrow> False)"

definition compute_of_type :: "string \<Rightarrow> pydict \<Rightarrow> pydict list res" where
  "compute_of_type t manifest =
    bind (manifest_section manifest ''compute'') (\<lambda>compute.
    bind (viter compute) (\<lambda>xs. Inr (map dict_of (filter (has_type t) xs))))"

definition per_user_app_vm_resources :: "pydict \<Rightarrow> pydict list res" where
  "per_user_app_vm_resources = compute_of_type ''per_user_app_vm''"

definition app_vm_resources :: "pydict \<Rightarrow> pydict list res" where
  "app_vm_resources = compute_of_type ''app_vm''"

definition managed_iot_device_resources :: "pydict \<Rightarrow> pydict list res" where
  "managed_iot_device_resources = compute_of_type ''managed_iot_device''"


section \<open>Placement\<close>

definition entry_placement :: "pydict \<Rightarrow> pydict res" where
  "entry_placement entry =
    bind (mapping_section entry ''placement'' ''app placement must be a mapping'') (\<lambda>placement.
    Inr (foldl (\<lambda>merged field.
           if dhas entry field \<and> \<not> dhas merged field then dset merged field (dget entry field)
           else merged)
         placement [''active_master'', ''passive_backup'', ''builder_box'', ''boxes'']))"

definition manifest_placement_mode :: "pydict \<Rightarrow> string res" where
  "manifest_placement_mode manifest =
    (let mode = py_or (dget manifest ''placement_mode'') (PStr ''active_passive'')
     in bind (require (str_in mode [''active_passive'', ''single_box'', ''multi_box''])
          (manifest_path manifest
           @ '' placement_mode must be active_passive, single_box, or multi_box'')) (\<lambda>_.
        as_str mode))"

definition placement_field :: "string \<Rightarrow> string \<Rightarrow> string" where
  "placement_field app_name field = ''apps.'' @ app_name @ ''.placement.'' @ field"

definition check_enabled_placement :: "string \<Rightarrow> string \<Rightarrow> bool \<Rightarrow> pydict \<Rightarrow> unit res" where
  "check_enabled_placement app_name mode per_user_vm_app placement =
    (let named = (\<lambda>f. truthy (dget placement f));
         needed = (\<lambda>f. require (named f) (placement_field app_name f @ '' is required when enabled''))
     in bind (if mode = ''multi_box'' then
            checks [needed ''boxes'',
              require (\<not> (named ''active_master'' \<or> named ''passive_backup''))
                (''apps.'' @ app_name @ ''.placement active_master/passive_backup must be empty for multi_box apps'')]
          else checks (map needed
            (if per_user_vm_app \<or> mode = ''single_box'' then [''active_master'']
             else [''active_master'', ''passive_backup'']))) (\<lambda>_.
        require (\<not> (mode = ''single_box'' \<and> named ''passive_backup''))
          (placement_field app_name ''passive_backup'' @ '' must be empty for single_box apps'')))"

definition listed_boxes :: "string \<Rightarrow> pyval \<Rightarrow> string list res" where
  "listed_boxes app_name v =
    (if truthy v then
       (case v of
          PList xs \<Rightarrow> traverse (\<lambda>(i, x).
              bind (validate_box x (index_field (placement_field app_name ''boxes'') i)) (\<lambda>_. as_str x))
            (enumerate 0 xs)
        | _ \<Rightarrow> die (placement_field app_name ''boxes'' @ '' must be a list''))
     else Inr [])"

definition named_boxes :: "string \<Rightarrow> pydict \<Rightarrow> string list res" where
  "named_boxes app_name placement =
    traverse (\<lambda>field.
        bind (validate_box (dget placement field) (placement_field app_name field)) (\<lambda>_.
        as_str (dget placement field)))
      (filter (\<lambda>field. truthy (dget placement field))
        [''active_master'', ''passive_backup'', ''builder_box''])"

definition selected_boxes :: "string \<Rightarrow> pydict \<Rightarrow> pydict \<Rightarrow> string list res" where
  "selected_boxes app_name manifest entry =
    (let enabled = truthy (dget entry ''enabled'') in
    bind (entry_placement entry) (\<lambda>placement.
    bind (manifest_placement_mode manifest) (\<lambda>mode.
    bind (per_user_app_vm_resources manifest) (\<lambda>per_user.
    bind (listed_boxes app_name (dget placement ''boxes'')) (\<lambda>listed.
    bind (named_boxes app_name placement) (\<lambda>named.
    bind (if enabled \<and> app_name \<noteq> ''bootstrap-iso-debian''
          then check_enabled_placement app_name mode (per_user \<noteq> []) placement
          else Inr ()) (\<lambda>_.
    bind (require (\<not> (enabled \<and> app_name = ''bootstrap-iso-debian''
              \<and> \<not> truthy (dget placement ''builder_box'')))
            ''apps.bootstrap-iso-debian.placement.builder_box is required when enabled'') (\<lambda>_.
    bind (require (distinct (listed @ named))
            (''apps.'' @ app_name @ '' placement boxes must be unique'')) (\<lambda>_.
    Inr (sorted_set (listed @ named)))))))))))"

definition app_runtime_state :: "string \<Rightarrow> pydict \<Rightarrow> string res" where
  "app_runtime_state app_name entry =
    (let given = dgetd entry ''runtime_state'' (PStr ''running'');
         v = (if given = PNone \<or> given = PStr [] then PStr ''running'' else given)
     in bind (require (str_in v [''running'', ''stopped''])
          (''apps.'' @ app_name @ ''.runtime_state must be running or stopped'')) (\<lambda>_.
        if truthy (dget entry ''enabled'') then as_str v else Inr ''stopped''))"

definition registry_managed_devices :: "pydict \<Rightarrow> pydict res" where
  "registry_managed_devices entry = mapping_section entry ''devices'' ''app devices must be a mapping''"

definition registry_app_vms :: "pydict \<Rightarrow> pydict res" where
  "registry_app_vms entry = mapping_section entry ''app_vms'' ''app app_vms must be a mapping''"


section \<open>Switched-on resources\<close>

definition resource_comment :: "string \<Rightarrow> string \<Rightarrow> string \<Rightarrow> string" where
  "resource_comment app_name resource_id sfx =
    (let base = ''app-'' @ app_name @ ''-'' @ resource_id
     in if sfx \<noteq> [] then base @ ''-'' @ sfx else base)"

definition resource_enabled :: "pydict \<Rightarrow> pydict \<Rightarrow> bool res" where
  "resource_enabled resource entry =
    bind (mapping_section entry ''resources'' ''app resources must be a mapping'') (\<lambda>flags.
    if truthy (dget resource ''required'') \<or> truthy (dget resource ''enabled_by_default'')
    then Inr True
    else case dget resource ''id'' of
      PStr s \<Rightarrow> Inr (truthy (dget flags s))
    | v \<Rightarrow> if hashable v then Inr False else Inl TypeError)"

definition resource_selected_for_box :: "pydict \<Rightarrow> pydict \<Rightarrow> pyval \<Rightarrow> bool res" where
  "resource_selected_for_box resource entry box_config =
    bind (resource_enabled resource entry) (\<lambda>enabled.
    if enabled then resource_access_allowed resource box_config else Inr False)"

text \<open>A section of the manifest as a list of mappings, dying with the source's messages.\<close>

definition section_resources :: "pydict \<Rightarrow> string \<Rightarrow> pydict list res" where
  "section_resources manifest section =
    bind (manifest_section manifest section) (\<lambda>v.
    case v of
      PList xs \<Rightarrow> traverse (\<lambda>x. case x of PDict d \<Rightarrow> Inr d
          | _ \<Rightarrow> die (manifest_path manifest @ '' '' @ section @ '' resources must be mappings'')) xs
    | _ \<Rightarrow> die (manifest_path manifest @ '' resources.'' @ section @ '' must be a list''))"

text \<open>The loop checks one resource completely before it looks at the next.\<close>

definition selected_network_resources :: "pydict \<Rightarrow> pydict \<Rightarrow> pyval \<Rightarrow> pydict list res" where
  "selected_network_resources manifest entry box_config =
    bind (manifest_section manifest ''network'') (\<lambda>v.
    case v of
      PList xs \<Rightarrow> fold_res (\<lambda>acc x.
          bind (case x of PDict d \<Rightarrow> Inr d
                | _ \<Rightarrow> die (manifest_path manifest @ '' network resources must be mappings'')) (\<lambda>resource.
          bind (validate_id (dget resource ''id'') (py_str (dget manifest ''app'') @ ''.network.id'')) (\<lambda>_.
          bind (resource_selected_for_box resource entry
                  (py_or box_config (PDict default_box_config))) (\<lambda>selected.
          Inr (if selected then acc @ [resource] else acc))))) [] xs
    | _ \<Rightarrow> die (manifest_path manifest @ '' resources.network must be a list''))"


section \<open>Facts\<close>

lemma traverse_box_names:
  "traverse (\<lambda>(i, x). bind (validate_box x (g i)) (\<lambda>_. as_str x)) (enumerate n xs) = Inr ns \<longleftrightarrow>
    xs = map PStr ns \<and> list_all box_name ns"
  by (induction xs arbitrary: n ns) (auto simp: res_simps)

lemma listed_boxes_iff [res_simps]:
  "listed_boxes app v = Inr ns \<longleftrightarrow>
    (if truthy v then v = strs ns \<and> list_all box_name ns else ns = [])"
  by (cases v) (auto simp: listed_boxes_def traverse_box_names)

lemma named_boxes_traverse:
  "traverse (\<lambda>field. bind (validate_box (dget p field) (g field)) (\<lambda>_. as_str (dget p field))) fs = Inr ns \<longleftrightarrow>
    map (dget p) fs = map PStr ns \<and> list_all box_name ns"
proof (induction fs arbitrary: ns)
  case (Cons f fs)
  show ?case
    by (cases ns) (auto simp: bind_eq_Inr validate_box_iff as_str_iff Cons.IH)
qed auto

lemma named_boxes_facts:
  assumes "named_boxes app p = Inr ns"
  shows "list_all box_name ns"
    and "\<And>f. f \<in> {''active_master'', ''passive_backup'', ''builder_box''} \<Longrightarrow> truthy (dget p f) \<Longrightarrow>
      \<exists>s\<in>set ns. dget p f = PStr s"
proof -
  let ?fs = "filter (\<lambda>f. truthy (dget p f)) [''active_master'', ''passive_backup'', ''builder_box'']"
  from assms have m: "map (dget p) ?fs = map PStr ns" and "list_all box_name ns"
    unfolding named_boxes_def named_boxes_traverse by auto
  then show "list_all box_name ns" by blast
  fix f assume "f \<in> {''active_master'', ''passive_backup'', ''builder_box''}" "truthy (dget p f)"
  then have "dget p f \<in> set (map (dget p) ?fs)" by auto
  then show "\<exists>s\<in>set ns. dget p f = PStr s" unfolding m by auto
qed

lemma named_boxes_pair:
  assumes "named_boxes app p = Inr ns" "distinct ns"
    and "truthy (dget p ''active_master'')" "truthy (dget p ''passive_backup'')"
  shows "dget p ''active_master'' \<noteq> dget p ''passive_backup''"
proof -
  obtain rest where "map (dget p) (filter (\<lambda>f. truthy (dget p f))
      [''active_master'', ''passive_backup'', ''builder_box'']) =
      dget p ''active_master'' # dget p ''passive_backup'' # rest"
    using assms(3,4) by simp
  then obtain a b more where "ns = a # b # more" "dget p ''active_master'' = PStr a"
    "dget p ''passive_backup'' = PStr b"
    using assms(1) unfolding named_boxes_def named_boxes_traverse
    by (cases ns rule: list.exhaust; cases "tl ns") auto
  with assms(2) show ?thesis by auto
qed

lemma selected_boxes_parts:
  assumes "selected_boxes app m e = Inr bs"
  obtains p mode per_user listed named where
    "entry_placement e = Inr p" "manifest_placement_mode m = Inr mode"
    "per_user_app_vm_resources m = Inr per_user"
    "listed_boxes app (dget p ''boxes'') = Inr listed" "named_boxes app p = Inr named"
    "truthy (dget e ''enabled'') \<Longrightarrow> app \<noteq> ''bootstrap-iso-debian'' \<Longrightarrow>
      check_enabled_placement app mode (per_user \<noteq> []) p = Inr ()"
    "truthy (dget e ''enabled'') \<Longrightarrow> app = ''bootstrap-iso-debian'' \<Longrightarrow> truthy (dget p ''builder_box'')"
    "distinct (listed @ named)" "sorted_set (listed @ named) = bs"
  using assms unfolding selected_boxes_def Let_def bind_eq_Inr require_eq_Inr
  by (elim exE conjE) (rule that; (assumption | simp))

lemma selected_boxes_names:
  assumes "selected_boxes app m e = Inr bs"
  shows "sorted bs" "distinct bs" "list_all box_name bs"
proof -
  from assms obtain p listed named where
    "listed_boxes app (dget p ''boxes'') = Inr listed" "named_boxes app p = Inr named"
    "sorted_set (listed @ named) = bs"
    by (rule selected_boxes_parts)
  then show "sorted bs" "distinct bs" "list_all box_name bs"
    using named_boxes_facts(1) [of app p named]
    by (auto simp: res_simps list_all_iff split: if_splits)
qed

lemma check_enabled_placement_iff:
  "check_enabled_placement app mode per_user p = Inr u \<longleftrightarrow>
    (if mode = ''multi_box'' then truthy (dget p ''boxes'') \<and>
        \<not> truthy (dget p ''active_master'') \<and> \<not> truthy (dget p ''passive_backup'')
     else truthy (dget p ''active_master'') \<and>
        (per_user \<or> mode = ''single_box'' \<or> truthy (dget p ''passive_backup'')) \<and>
        (mode = ''single_box'' \<longrightarrow> \<not> truthy (dget p ''passive_backup'')))"
  by (auto simp: check_enabled_placement_def Let_def res_simps)

lemma app_runtime_state_iff:
  "app_runtime_state app e = Inr s \<Longrightarrow> s = ''running'' \<or> s = ''stopped''"
  "app_runtime_state app e = Inr s \<Longrightarrow> \<not> truthy (dget e ''enabled'') \<Longrightarrow> s = ''stopped''"
  by (auto simp: app_runtime_state_def Let_def res_simps str_in_iff split: if_splits)

end
