(* ===== verification/Model_Registry.thy ===== *)
theory Model_Registry
  imports Model_Selection
begin

text \<open>
  The per-box section of the registry: \<open>registry_box_configs\<close>, \<open>bootstrap_dns\<close> and the
  compatibility of running applications with stopped shared guests, of
  \<^verbatim>\<open>platform_resource_model.py\<close>. One definition per part of the loop body of
  \<open>registry_box_configs\<close>, in the order of the source.

  A normalised box configuration satisfies \<open>wf_box_config\<close>: no two DHCP reservations share a
  host name, a MAC address (compared in lower case) or an IPv4 address, every shared guest has a
  state, and the access block is normalised.
\<close>

section \<open>Bridge ports\<close>

definition bridge_keys :: "topology \<Rightarrow> string list" where
  "bridge_keys t = sorted_set (dkeys (zones t) @ dkeys (aliases t) @ dkeys (realms t))"

definition alist_get :: "('k \<times> 'v list) list \<Rightarrow> 'k \<Rightarrow> 'v list" where
  "alist_get d k = (case map_of d k of None \<Rightarrow> [] | Some v \<Rightarrow> v)"

definition normalize_bridge :: "string \<Rightarrow> topology \<Rightarrow> (string \<times> string list) list \<Rightarrow> string \<times> pyval \<Rightarrow>
    (string \<times> string list) list res" where
  "normalize_bridge box t acc = (\<lambda>(key, ports).
    let base = ''boxes.'' @ box @ ''.dom0_bridge_ports.'' @ key; canonical = canonical_zone t key in
    bind (require (key \<in> set (bridge_keys t))
      (base @ '' must be one of: '' @ join '', '' (bridge_keys t))) (\<lambda>_.
    case ports of
      PList (p # ps) \<Rightarrow>
        bind (traverse (\<lambda>(i, port). bind (validate_iface port (index_field base i)) (\<lambda>_. as_str port))
                (enumerate 0 (p # ps))) (\<lambda>names.
        Inr (AList.update canonical (foldl add_new (alist_get acc canonical) names) acc))
    | _ \<Rightarrow> die (base @ '' must be a non-empty list'')))"

definition normalize_bridges :: "string \<Rightarrow> topology \<Rightarrow> pydict \<Rightarrow> pydict res" where
  "normalize_bridges box t config =
    bind (mapping_section config ''dom0_bridge_ports''
            (''boxes.'' @ box @ ''.dom0_bridge_ports must be a mapping'')) (\<lambda>raw.
    bind (fold_res (normalize_bridge box t) [] raw) (\<lambda>ports.
    Inr (map (map_prod id strs) ports)))"


section \<open>DHCP reservations\<close>

record reservation =
  res_hostname :: string
  res_mac :: string
  res_ipv4 :: string

definition reservation_value :: "reservation \<Rightarrow> pyval" where
  "reservation_value r = PDict
    [(''hostname'', PStr (res_hostname r)), (''mac'', PStr (res_mac r)),
     (''ipv4_address'', PStr (res_ipv4 r))]"

definition reservation_keys :: "reservation \<Rightarrow> (string \<times> string) list" where
  "reservation_keys r =
    [(''hostname'', res_hostname r), (''mac'', res_mac r), (''ipv4_address'', res_ipv4 r)]"

definition parse_reservation :: "string \<Rightarrow> pyval \<Rightarrow> reservation res" where
  "parse_reservation field v =
    (case v of
       PDict d \<Rightarrow>
         bind (validate_hostname (dget d ''hostname'') (field @ ''.hostname'')) (\<lambda>_.
         bind (validate_mac (dget d ''mac'') (field @ ''.mac'')) (\<lambda>_.
         bind (validate_ip (dget d ''ipv4_address'') (field @ ''.ipv4_address'')) (\<lambda>_.
         bind (as_str (dget d ''hostname'')) (\<lambda>hostname.
         bind (as_str (dget d ''mac'')) (\<lambda>mac.
         bind (as_str (dget d ''ipv4_address'')) (\<lambda>ip.
         Inr \<lparr>res_hostname = hostname, res_mac = lower mac, res_ipv4 = ip\<rparr>))))))
     | _ \<Rightarrow> die (field @ '' must be a mapping''))"

definition add_reservation :: "string \<Rightarrow> reservation list \<Rightarrow> nat \<times> pyval \<Rightarrow> reservation list res" where
  "add_reservation box acc = (\<lambda>(index, v).
    let field = index_field (''boxes.'' @ box @ ''.dhcp_reservations'') index in
    bind (parse_reservation field v) (\<lambda>r.
    bind (checks (map (\<lambda>key.
            require (key \<notin> set (concat (map reservation_keys acc)))
              (field @ ''.'' @ fst key @ '' duplicates another reservation on '' @ box))
          (reservation_keys r))) (\<lambda>_.
    Inr (acc @ [r]))))"

definition normalize_reservations :: "string \<Rightarrow> pydict \<Rightarrow> reservation list res" where
  "normalize_reservations box config =
    (case py_or (dget config ''dhcp_reservations'') (PList []) of
       PList xs \<Rightarrow> fold_res (add_reservation box) [] (enumerate 0 xs)
     | _ \<Rightarrow> die (''boxes.'' @ box @ ''.dhcp_reservations must be a list''))"


section \<open>Shared guests\<close>

definition normalize_shared_guest :: "string \<Rightarrow> pydict \<Rightarrow> string \<Rightarrow> (string \<times> string) res" where
  "normalize_shared_guest box guests role =
    (let field = ''boxes.'' @ box @ ''.shared_guests.'' @ role in
     bind (mapping_section guests role (field @ '' must be a mapping'')) (\<lambda>guest.
     let unknown = sorted_set (filter (\<lambda>k. k \<notin> set SHARED_GUEST_FIELDS) (dkeys guest));
         state = dgetd guest ''runtime_state'' (PStr ''running'') in
     bind (require (unknown = [])
             (field @ '' contains unsupported field(s): '' @ join '', '' unknown)) (\<lambda>_.
     bind (require (str_in state SHARED_GUEST_STATES)
             (field @ ''.runtime_state must be one of: '' @ join '', '' SHARED_GUEST_STATES)) (\<lambda>_.
     bind (as_str state) (\<lambda>s. Inr (role, s))))))"

definition normalize_shared_guests :: "string \<Rightarrow> pydict \<Rightarrow> (string \<times> string) list res" where
  "normalize_shared_guests box config =
    bind (mapping_section config ''shared_guests''
            (''boxes.'' @ box @ ''.shared_guests must be a mapping'')) (\<lambda>guests.
    let unknown = sorted_set (filter (\<lambda>k. k \<notin> set SHARED_GUEST_ROLES) (dkeys guests)) in
    bind (require (unknown = [])
            (''boxes.'' @ box @ ''.shared_guests contains unsupported role(s): ''
             @ join '', '' unknown)) (\<lambda>_.
    traverse (normalize_shared_guest box guests) SHARED_GUEST_ROLES))"


section \<open>Bootstrap resolvers\<close>

definition global_resolver :: "pyval \<Rightarrow> bool" where
  "global_resolver v =
    (case Option.bind (str_of v) parse_ipv4 of Some n \<Rightarrow> is_global4 n | None \<Rightarrow> False)"

definition bootstrap_dns :: "pydict \<Rightarrow> pyval list res" where
  "bootstrap_dns config =
    (case dgetd config ''bootstrap_dns'' (strs [''1.1.1.1'', ''8.8.8.8'']) of
       PList [a, b] \<Rightarrow>
         bind (require (global_resolver a \<and> global_resolver b \<and> \<not> py_eq a b)
           ''bootstrap DNS requires two distinct public IPv4 resolvers'') (\<lambda>_. Inr [a, b])
     | _ \<Rightarrow> die ''bootstrap DNS requires two distinct public IPv4 resolvers'')"


section \<open>Box configurations\<close>

definition optional_field :: "pydict \<Rightarrow> string \<Rightarrow> pydict" where
  "optional_field config key = (if dhas config key then [(key, dget config key)] else [])"

definition normalize_box :: "topology \<Rightarrow> string \<times> pyval \<Rightarrow> (string \<times> pyval) res" where
  "normalize_box t = (\<lambda>(box, v).
    let base = ''boxes.'' @ box in
    bind (validate_box (PStr box) base) (\<lambda>_.
    bind (case v of PNone \<Rightarrow> Inr [] | PDict d \<Rightarrow> Inr d | _ \<Rightarrow> die (base @ '' must be a mapping'')) (\<lambda>config.
    let unknown = sorted_set (filter (\<lambda>k. k \<notin> set BOX_CONFIG_FIELDS) (dkeys config)) in
    bind (require (unknown = [])
            (base @ '' contains unsupported field(s): '' @ join '', '' unknown)) (\<lambda>_.
    bind (normalize_bridges box t config) (\<lambda>ports.
    bind (normalize_reservations box config) (\<lambda>reservations.
    bind (normalize_shared_guests box config) (\<lambda>guests.
    bind (bootstrap_dns config) (\<lambda>dns.
    bind (normalize_box_access (dget config ''access'') (base @ ''.access'')) (\<lambda>access.
    Inr (box, PDict
      ([(''bootstrap_dns'', PList dns)]
       @ optional_field config ''rg_lan''
       @ optional_field config ''routing_profile''
       @ [(''dom0_bridge_ports'', PDict ports),
          (''access'', PDict access),
          (''dhcp_reservations'', PList (map reservation_value reservations)),
          (''shared_guests'', PDict (map (\<lambda>(role, s). (role, PDict [shared_guest_entry s])) guests))]
       @ optional_field config ''vpn_egress''))))))))))) "

definition registry_box_configs :: "pydict \<Rightarrow> topology \<Rightarrow> pydict res" where
  "registry_box_configs registry t =
    bind (mapping_section registry ''boxes'' ''boxes must be a mapping'') (\<lambda>boxes.
    traverse (normalize_box t) boxes)"


section \<open>Running applications and stopped guests\<close>

definition running_podman_workload_zones :: "pydict \<Rightarrow> topology \<Rightarrow> string list res" where
  "running_podman_workload_zones manifest t =
    bind (compute_of_type ''podman_workload'' manifest) (\<lambda>resources.
    Inr (map (\<lambda>r. canonical_zone t (py_str (py_or (dget r ''zone'') (PStr [])))) resources))"

definition guest_runtime_state :: "pyval \<Rightarrow> string \<Rightarrow> pyval res" where
  "guest_runtime_state config role =
    bind (vget config ''shared_guests'') (\<lambda>guests.
    bind (vget (py_or guests (PDict [])) role) (\<lambda>guest.
    vgetd (py_or guest (PDict [])) ''runtime_state'' (PStr ''running'')))"

definition validate_shared_guest_app_compatibility ::
    "string \<Rightarrow> pydict \<Rightarrow> pydict \<Rightarrow> string list \<Rightarrow> pydict \<Rightarrow> topology \<Rightarrow> unit res" where
  "validate_shared_guest_app_compatibility app_name manifest entry app_boxes box_configs t =
    (if \<not> truthy (dget entry ''enabled'') then Inr ()
     else bind (app_runtime_state app_name entry) (\<lambda>state.
       if state \<noteq> ''running'' then Inr ()
       else bind (running_podman_workload_zones manifest t) (\<lambda>workload_zones.
         checks (concat (map (\<lambda>box. map (\<lambda>role.
             bind (guest_runtime_state (box_config_for box_configs box) role) (\<lambda>state.
             require (\<not> py_eq state (PStr ''stopped''))
               (''apps.'' @ app_name @ '' is running on '' @ box @ '' but boxes.'' @ box
                @ ''.shared_guests.'' @ role @ ''.runtime_state is stopped'')))
           (sorted_set (filter (\<lambda>z. z \<in> set SHARED_GUEST_ROLES) workload_zones))) app_boxes)))))"


section \<open>Facts\<close>

definition wf_reservation :: "reservation \<Rightarrow> bool" where
  "wf_reservation r \<longleftrightarrow> fullmatch BOX_RE (res_hostname r) \<and> (\<exists>m. fullmatch MAC_RE m \<and> res_mac r = lower m)"

lemma parse_reservation_wf:
  assumes "parse_reservation f v = Inr r"
  shows "wf_reservation r"
proof -
  from assms obtain d where v: "v = PDict d"
    by (auto simp: parse_reservation_def split: pyval.splits)
  from assms obtain h m ip where "validate_hostname (PStr h) (f @ ''.hostname'') = Inr ()"
    "validate_mac (PStr m) (f @ ''.mac'') = Inr ()"
    and r: "r = \<lparr>res_hostname = h, res_mac = lower m, res_ipv4 = ip\<rparr>"
    unfolding v parse_reservation_def pyval.case bind_eq_Inr as_str_iff
    by (elim exE conjE) (simp, metis)
  then show ?thesis
    unfolding wf_reservation_def r by (auto simp: validate_hostname_iff validate_mac_iff)
qed

definition distinct_reservations :: "reservation list \<Rightarrow> bool" where
  "distinct_reservations rs \<longleftrightarrow>
    distinct (map res_hostname rs) \<and> distinct (map res_mac rs) \<and> distinct (map res_ipv4 rs)"

lemma add_reservation_distinct:
  assumes "add_reservation box acc iv = Inr acc'" "distinct_reservations acc"
  shows "distinct_reservations acc'"
proof -
  from assms(1) obtain f v r where r: "parse_reservation f v = Inr r" "acc' = acc @ [r]"
    and new: "\<And>key. key \<in> set (reservation_keys r) \<Longrightarrow> key \<notin> set (concat (map reservation_keys acc))"
    by (cases iv) (auto simp: add_reservation_def Let_def bind_eq_Inr checks_eq_Inr require_eq_Inr)
  have mem: "(''hostname'', res_hostname x) \<in> set (reservation_keys x)"
    "(''mac'', res_mac x) \<in> set (reservation_keys x)"
    "(''ipv4_address'', res_ipv4 x) \<in> set (reservation_keys x)" for x
    by (simp_all add: reservation_keys_def)
  have "key \<notin> set (reservation_keys x)" if "key \<in> set (reservation_keys r)" "x \<in> set acc" for key x
    using new that by auto
  with mem have "res_hostname r \<noteq> res_hostname x \<and> res_mac r \<noteq> res_mac x \<and> res_ipv4 r \<noteq> res_ipv4 x"
    if "x \<in> set acc" for x
    using that by metis
  then have "res_hostname r \<notin> res_hostname ` set acc" "res_mac r \<notin> res_mac ` set acc"
    "res_ipv4 r \<notin> res_ipv4 ` set acc"
    by auto
  with assms(2) show ?thesis by (auto simp: distinct_reservations_def r)
qed

lemma normalize_reservations_facts:
  assumes "normalize_reservations box config = Inr rs"
  shows "distinct_reservations rs \<and> list_all wf_reservation rs"
proof -
  from assms obtain xs where f: "fold_res (add_reservation box) [] xs = Inr rs"
    by (auto simp: normalize_reservations_def split: pyval.splits)
  show ?thesis
  proof (rule fold_res_invariant [OF f])
    fix acc iv acc'
    assume acc: "distinct_reservations acc \<and> list_all wf_reservation acc"
      and step: "add_reservation box acc iv = Inr acc'"
    from step obtain r f v where "acc' = acc @ [r]" "parse_reservation f v = Inr r"
      by (cases iv) (auto simp: add_reservation_def Let_def bind_eq_Inr)
    with acc step show "distinct_reservations acc' \<and> list_all wf_reservation acc'"
      by (auto intro: add_reservation_distinct parse_reservation_wf)
  qed (simp add: distinct_reservations_def)
qed

lemma normalize_shared_guest_facts:
  "normalize_shared_guest box guests role = Inr g \<Longrightarrow> fst g = role \<and> snd g \<in> set SHARED_GUEST_STATES"
  by (auto simp: normalize_shared_guest_def Let_def bind_eq_Inr require_eq_Inr as_str_iff)

lemma normalize_shared_guests_facts:
  assumes "normalize_shared_guests box config = Inr gs"
  shows "map fst gs = SHARED_GUEST_ROLES \<and> snd ` set gs \<subseteq> set SHARED_GUEST_STATES"
proof -
  from assms obtain guests where t: "traverse (normalize_shared_guest box guests) SHARED_GUEST_ROLES = Inr gs"
    by (auto simp: normalize_shared_guests_def Let_def bind_eq_Inr)
  have "traverse (normalize_shared_guest box guests) rs = Inr gs \<Longrightarrow>
      map fst gs = rs \<and> snd ` set gs \<subseteq> set SHARED_GUEST_STATES" for rs gs
  proof (induction rs arbitrary: gs)
    case (Cons role rs)
    then obtain g gs' where gs: "gs = g # gs'" "normalize_shared_guest box guests role = Inr g"
      "traverse (normalize_shared_guest box guests) rs = Inr gs'"
      by (auto simp: bind_eq_Inr)
    from Cons.IH [OF gs(3)] normalize_shared_guest_facts [OF gs(2)] show ?case
      by (simp add: gs(1))
  qed simp
  with t show ?thesis by blast
qed

lemma bootstrap_dns_iff:
  "bootstrap_dns config = Inr dns \<Longrightarrow>
    \<exists>a b m n. dns = [PStr a, PStr b] \<and> a \<noteq> b \<and> parse_ipv4 a = Some m \<and> parse_ipv4 b = Some n \<and>
      is_global4 m \<and> is_global4 n"
  by (auto simp: bootstrap_dns_def global_resolver_def bind_eq_Inr require_eq_Inr
      split: pyval.splits list.splits option.splits)
    (auto elim!: str_of.elims simp: bind_eq_Some_conv)

definition wf_box_config :: "pyval \<Rightarrow> bool" where
  "wf_box_config v \<longleftrightarrow> (\<exists>d a rs gs. v = PDict d \<and> dget d ''access'' = PDict a \<and> wf_access a \<and>
    dget d ''dhcp_reservations'' = PList (map reservation_value rs) \<and> distinct_reservations rs \<and> list_all wf_reservation rs \<and>
    dget d ''shared_guests'' = PDict (map (\<lambda>(role, s). (role, PDict [shared_guest_entry s])) gs) \<and>
    map fst gs = SHARED_GUEST_ROLES \<and> snd ` set gs \<subseteq> set SHARED_GUEST_STATES)"

lemma dget_append_fields:
  "dget (optional_field c k @ d) k' = (if k' = k \<and> dhas c k then dget c k else dget d k')"
  by (auto simp: optional_field_def)

lemma normalize_box_wf:
  assumes "normalize_box t (box, v) = Inr (k, c)"
  shows "k = box \<and> box_name box \<and> wf_box_config c"
proof -
  from assms obtain config ports rs gs dns a where k: "k = box" and b: "box_name box"
    and parts: "normalize_reservations box config = Inr rs"
      "normalize_shared_guests box config = Inr gs"
      "normalize_box_access (dget config ''access'') (''boxes.'' @ box @ ''.access'') = Inr a"
    and c: "c = PDict ([(''bootstrap_dns'', PList dns)]
       @ optional_field config ''rg_lan'' @ optional_field config ''routing_profile''
       @ [(''dom0_bridge_ports'', PDict ports), (''access'', PDict a),
          (''dhcp_reservations'', PList (map reservation_value rs)),
          (''shared_guests'', PDict (map (\<lambda>(role, s). (role, PDict [shared_guest_entry s])) gs))]
       @ optional_field config ''vpn_egress'')"
    unfolding normalize_box_def Let_def prod.case bind_eq_Inr require_eq_Inr validate_box_iff
    by (elim exE conjE) (simp only: append_assoc sum.inject prod.inject pyval.inject, blast)
  show ?thesis
    using k b normalize_reservations_facts [OF parts(1)] normalize_shared_guests_facts [OF parts(2)]
      normalize_box_access_wf [OF parts(3)]
    unfolding wf_box_config_def c by (simp add: dget_append_fields) blast
qed

lemma registry_box_configs_wf:
  assumes "registry_box_configs registry t = Inr configs" and "(box, c) \<in> set configs"
  shows "box_name box \<and> wf_box_config c"
proof -
  from assms(1) obtain boxes where "traverse (normalize_box t) boxes = Inr configs"
    by (auto simp: registry_box_configs_def bind_eq_Inr)
  from traverse_set [OF this assms(2)] show ?thesis
    by (auto dest: normalize_box_wf)
qed

lemma default_box_config_wf: "wf_box_config (PDict default_box_config)"
  unfolding wf_box_config_def
  by (rule exI [of _ default_box_config], rule exI [of _ default_box_access], rule exI [of _ "[]"],
      rule exI [of _ "map (\<lambda>role. (role, ''running'')) SHARED_GUEST_ROLES"])
    (simp add: default_box_config_def default_box_access_wf distinct_reservations_def
      SHARED_GUEST_ROLES_def SHARED_GUEST_STATES_def)

text \<open>Whatever box is asked for, the configuration used is well formed.\<close>

lemma box_config_for_wf:
  assumes "\<And>b c. (b, c) \<in> set configs \<Longrightarrow> wf_box_config c"
  shows "wf_box_config (box_config_for configs box)"
proof (cases "truthy (dget configs box)")
  case True
  then have "dget configs box \<noteq> PNone" by auto
  with assms True show ?thesis by (auto simp: box_config_for_def py_or_def dest: dget_nonempty)
qed (simp add: box_config_for_def py_or_def default_box_config_wf)

end
