(* ===== verification/Model_Shapes.thy ===== *)
theory Model_Shapes
  imports Model_Registry
begin

text \<open>
  The shape checks of an application manifest: \<open>validate_compute_resource_shape\<close>,
  \<open>validate_network_resource_shape\<close>, \<open>validate_tailnet_resource_shape\<close>,
  \<open>validate_artifact_resource_shape\<close> and \<open>validate_manifest_resources\<close> of
  \<^verbatim>\<open>platform_resource_model.py\<close>. An accepted network resource resolves in the topology and
  names its ports (\<open>network_shape_sound\<close>); an accepted manifest has no implementation or
  control field at any depth, and its devices and feature bindings refer to declared resources.
\<close>

abbreviation void :: "'a res \<Rightarrow> unit res" where
  "void m \<equiv> bind m (\<lambda>_. Inr ())"

text \<open>\<open>f"{app_name}.{resource_id}<rest>"\<close>, and \<open>TABLE.get(resource_type)\<close>: the lookup hashes
  the type, and a missing type reads as an empty field list.\<close>

definition res_field :: "string \<Rightarrow> pydict \<Rightarrow> string \<Rightarrow> string" where
  "res_field app_name resource rest = app_name @ ''.'' @ py_str (dget resource ''id'') @ rest"

definition fields_of_type :: "(string \<times> string list) list \<Rightarrow> pyval \<Rightarrow> string list res" where
  "fields_of_type table v =
    bind (str_member v (map fst table)) (\<lambda>known.
    Inr (if known then alist_get table (py_str v) else []))"

text \<open>The common head of the three shape checks.\<close>

definition resource_fields :: "string \<Rightarrow> string \<Rightarrow> (string \<times> string list) list \<Rightarrow> pydict \<Rightarrow> unit res" where
  "resource_fields app_name kind table resource =
    bind (fields_of_type table (dget resource ''type'')) (\<lambda>allowed.
    bind (require (allowed \<noteq> [])
            (''unsupported '' @ kind @ '' resource type for '' @ res_field app_name resource '': ''
             @ py_str (dget resource ''type''))) (\<lambda>_.
    reject_unknown_fields (PDict resource) allowed (res_field app_name resource [])))"

text \<open>\<open>if resource.get(key): validate(resource.get(key), ...)\<close>.\<close>

definition if_given :: "(pyval \<Rightarrow> string \<Rightarrow> unit res) \<Rightarrow> string \<Rightarrow> pydict \<Rightarrow> string \<Rightarrow> unit res" where
  "if_given validate app_name resource key =
    (if truthy (dget resource key)
     then validate (dget resource key) (res_field app_name resource (''.'' @ key)) else Inr ())"


section \<open>Compute resources\<close>

definition check_managed_device :: "string \<Rightarrow> pydict \<Rightarrow> string \<Rightarrow> unit res" where
  "check_managed_device app_name resource zone_name =
    checks [
      require (truthy (dget resource ''zone''))
        (res_field app_name resource ''.zone is required for managed_iot_device''),
      require (zone_name = ''iot'')
        (res_field app_name resource ''.zone must be iot for managed_iot_device''),
      if_given validate_id app_name resource ''hostname_suffix'',
      if_given validate_hostname app_name resource ''hostname_default'',
      if_given validate_app_tailnet_tag app_name resource ''management_tag_default'']"

definition check_per_user_vm :: "string \<Rightarrow> pydict \<Rightarrow> unit res" where
  "check_per_user_vm app_name resource =
    checks [
      validate_id (dgetd resource ''vm_name_prefix'' (PStr ''usr''))
        (res_field app_name resource ''.vm_name_prefix''),
      validate_id (dgetd resource ''tailnet_tag_prefix'' (PStr app_name))
        (res_field app_name resource ''.tailnet_tag_prefix'')]"

definition check_app_vm :: "string \<Rightarrow> pydict \<Rightarrow> unit res" where
  "check_app_vm app_name resource =
    checks [
      require (truthy (dget resource ''zone''))
        (res_field app_name resource ''.zone is required for app_vm''),
      if_given validate_id app_name resource ''hostname_suffix'',
      if_given validate_app_tailnet_tag app_name resource ''tailnet_tag_default'',
      require (py_str (py_or (dget resource ''guest_os'') (PStr ''alpine'')) = ''alpine'')
        (res_field app_name resource ''.guest_os must be alpine for app_vm''),
      require (py_str (py_or (dget resource ''container_runtime'') (PStr ''none'')) = ''none'')
        (res_field app_name resource ''.container_runtime must be none for app_vm'')]"

definition validate_compute_resource_shape :: "string \<Rightarrow> pydict \<Rightarrow> topology \<Rightarrow> unit res" where
  "validate_compute_resource_shape app_name resource t =
    bind (validate_id (dget resource ''id'') (app_name @ ''.compute.id'')) (\<lambda>_.
    bind (resource_fields app_name ''compute'' COMPUTE_FIELDS_BY_TYPE resource) (\<lambda>_.
    bind (validate_resource_access resource (res_field app_name resource [])) (\<lambda>_.
    bind (if truthy (dget resource ''zone'')
          then resolve_zone (dget resource ''zone'') (res_field app_name resource ''.zone'') t
          else Inr ([], PDict [])) (\<lambda>(zone_name, zone).
    checks [
      if dget resource ''type'' = PStr ''managed_iot_device''
        then check_managed_device app_name resource zone_name else Inr (),
      if dget resource ''type'' = PStr ''per_user_app_vm''
        then check_per_user_vm app_name resource else Inr (),
      if dget resource ''type'' = PStr ''app_vm'' then check_app_vm app_name resource else Inr ()]))))"


section \<open>Network resources\<close>

definition resource_ports :: "pydict \<Rightarrow> pyval" where
  "resource_ports resource = dgetd resource ''ports'' (PList [dget resource ''port''])"

definition check_ports :: "string \<Rightarrow> pydict \<Rightarrow> unit res" where
  "check_ports app_name resource =
    void (validate_ports (resource_ports resource) (res_field app_name resource ''.ports''))"

definition check_zone_field :: "string \<Rightarrow> pydict \<Rightarrow> string \<Rightarrow> topology \<Rightarrow> string res" where
  "check_zone_field app_name resource key t =
    bind (resolve_zone (dget resource key) (res_field app_name resource (''.'' @ key)) t)
      (\<lambda>(name, _). Inr name)"

definition check_device_field :: "string \<Rightarrow> pydict \<Rightarrow> unit res" where
  "check_device_field app_name resource =
    validate_id (dget resource ''device'') (res_field app_name resource ''.device'')"

definition check_interzone :: "string \<Rightarrow> pydict \<Rightarrow> topology \<Rightarrow> unit res" where
  "check_interzone app_name resource t =
    bind (check_zone_field app_name resource ''from_zone'' t) (\<lambda>from_zone.
    bind (check_zone_field app_name resource ''to_zone'' t) (\<lambda>to_zone.
    bind (require (from_zone \<noteq> to_zone)
            (res_field app_name resource '' interzone_tcp requires distinct zones'')) (\<lambda>_.
    if truthy (dget resource ''ports_from_user'')
    then validate_user_field (dget resource ''ports_from_user'')
           (res_field app_name resource ''.ports_from_user'')
    else check_ports app_name resource)))"

definition check_egress_ports :: "string \<Rightarrow> pydict \<Rightarrow> string \<Rightarrow> unit res" where
  "check_egress_ports app_name resource kind =
    checks (map (if_given (\<lambda>v f. void (validate_ports v f)) app_name resource)
              [''tcp_ports'', ''udp_ports'']
      @ [require (truthy (dget resource ''tcp_ports'') \<or> truthy (dget resource ''udp_ports''))
           (res_field app_name resource ('' '' @ kind @ '' requires tcp_ports or udp_ports''))])"

definition check_network_type :: "string \<Rightarrow> pydict \<Rightarrow> topology \<Rightarrow> string \<Rightarrow> unit res" where
  "check_network_type app_name resource t ty =
    (if ty = ''rg_lan_ipp'' then
       require (app_name = ''print-server'' \<and> dget resource ''requires_capability'' = PStr ''rg-lan'')
         ''rg_lan_ipp requires print-server and the rg-lan capability''
     else if ty = ''interzone_tcp'' then check_interzone app_name resource t
     else if ty = ''realm_to_zone_tcp'' then
       checks [
         void (resolve_realm (dget resource ''from_realm'')
                 (res_field app_name resource ''.from_realm'') t True),
         void (check_zone_field app_name resource ''to_zone'' t),
         check_ports app_name resource]
     else if ty = ''wan_egress'' then
       checks [void (check_zone_field app_name resource ''from_zone'' t),
         check_egress_ports app_name resource ''wan_egress'']
     else if ty = ''zone_to_device_tcp'' then
       checks [void (check_zone_field app_name resource ''from_zone'' t),
         check_device_field app_name resource, check_ports app_name resource]
     else if ty = ''device_to_zone_tcp'' then
       checks [check_device_field app_name resource,
         void (check_zone_field app_name resource ''to_zone'' t), check_ports app_name resource]
     else if ty = ''device_wan_egress'' then
       checks [check_device_field app_name resource,
         check_egress_ports app_name resource ''device_wan_egress'']
     else Inr ())"

definition validate_network_resource_shape :: "string \<Rightarrow> pydict \<Rightarrow> topology \<Rightarrow> unit res" where
  "validate_network_resource_shape app_name resource t =
    bind (validate_id (dget resource ''id'') (app_name @ ''.network.id'')) (\<lambda>_.
    bind (reject_raw_network_fields (PDict resource) (res_field app_name resource [])) (\<lambda>_.
    bind (resource_fields app_name ''network'' NETWORK_FIELDS_BY_TYPE resource) (\<lambda>_.
    bind (validate_resource_access resource (res_field app_name resource [])) (\<lambda>_.
    check_network_type app_name resource t (py_str (dget resource ''type''))))))"


section \<open>Tailnet and artifact resources\<close>

text \<open>\<open>"{" not in tag\<close>, for a tag of any type.\<close>

definition brace_in :: "pyval \<Rightarrow> bool res" where
  "brace_in v =
    (case v of
       PStr s \<Rightarrow> Inr (CHR ''{'' \<in> set s)
     | PList xs \<Rightarrow> Inr (py_in (PStr ''{'') xs)
     | PDict d \<Rightarrow> Inr (dhas d ''{'')
     | _ \<Rightarrow> Inl TypeError)"

definition tailnet_tag :: "pydict \<Rightarrow> pyval" where
  "tailnet_tag resource =
    py_or (py_or (dget resource ''tag_default'') (dget resource ''tag'')) (dget resource ''tag_pattern'')"

definition check_tailnet_tag :: "string \<Rightarrow> pydict \<Rightarrow> unit res" where
  "check_tailnet_tag app_name resource =
    (let tag = tailnet_tag resource in
     if \<not> truthy tag then Inr ()
     else bind (brace_in tag) (\<lambda>pattern.
       if pattern then Inr ()
       else validate_app_tailnet_tag tag (res_field app_name resource ''.tag'')))"

definition check_grant :: "string \<Rightarrow> nat \<times> pyval \<Rightarrow> unit res" where
  "check_grant base = (\<lambda>(index, grant).
    let field = index_field base index;
        d = dict_of grant;
        given = (\<lambda>key check. if dhas d key then check (dget d key) (field @ ''.'' @ key) else Inr ())
    in checks [
      reject_unknown_fields grant TAILNET_GRANT_FIELDS field,
      given ''ports'' (\<lambda>v f. void (validate_ports v f)),
      given ''tcp_ports'' (\<lambda>v f. void (validate_ports v f)),
      given ''udp_ports'' (\<lambda>v f. void (validate_tailnet_port_selectors v f))])"

definition validate_tailnet_resource_shape :: "string \<Rightarrow> pydict \<Rightarrow> unit res" where
  "validate_tailnet_resource_shape app_name resource =
    checks [
      validate_id (dget resource ''id'') (app_name @ ''.tailnet.id''),
      reject_unknown_fields (PDict resource) TAILNET_RESOURCE_FIELDS (res_field app_name resource []),
      validate_resource_access resource (res_field app_name resource []),
      check_tailnet_tag app_name resource,
      (case py_or (dget resource ''grants'') (PList []) of
         PList grants \<Rightarrow>
           checks (map (check_grant (res_field app_name resource ''.grants'')) (enumerate 0 grants))
       | _ \<Rightarrow> die (res_field app_name resource ''.grants must be a list''))]"

definition validate_artifact_resource_shape :: "string \<Rightarrow> pydict \<Rightarrow> unit res" where
  "validate_artifact_resource_shape app_name resource =
    checks [
      validate_id (dget resource ''id'') (app_name @ ''.artifacts.id''),
      resource_fields app_name ''artifact'' ARTIFACT_FIELDS_BY_TYPE resource]"


section \<open>Features and datasets\<close>

text \<open>The identifiers of every resource of the manifest, a set of hashable values.\<close>

definition all_resource_ids :: "pydict \<Rightarrow> pyval list res" where
  "all_resource_ids manifest =
    (let ids = concat (map (\<lambda>(_, section). map (\<lambda>r. dget (dict_of r) ''id'')
                 (filter is_dict (list_of section)))
               (dict_of (py_or (dget manifest ''resources'') (PDict []))))
     in if list_all hashable ids then Inr ids else Inl TypeError)"

definition check_binding :: "string \<Rightarrow> pyval list \<Rightarrow> string \<times> pyval \<Rightarrow> unit res" where
  "check_binding field ids = (\<lambda>(value, resource_ids).
    let base = field @ ''.resource_bindings.'' @ value in
    case resource_ids of
      PList (r # rs) \<Rightarrow>
        checks (map (\<lambda>resource_id. bind (set_member resource_id ids) (\<lambda>known.
            require known (base @ '' references unknown resource: '' @ py_str resource_id)))
          (r # rs))
    | _ \<Rightarrow> die (base @ '' must be a non-empty list''))"

definition feature_values :: "string \<Rightarrow> string \<Rightarrow> pydict \<Rightarrow> pyval list res" where
  "feature_values field ty feature =
    (if ty = ''enum'' then
       (case py_or (dget feature ''values'') (PList []) of
          PList (v # vs) \<Rightarrow> Inr (v # vs)
        | _ \<Rightarrow> die (field @ ''.values must be a non-empty list''))
     else Inr [PStr ''true''])"

definition check_feature :: "string \<Rightarrow> pyval list \<Rightarrow> string list \<Rightarrow> nat \<times> pyval \<Rightarrow> string list res" where
  "check_feature app_name ids seen = (\<lambda>(index, v).
    let field = index_field (app_name @ ''.features'') index; feature = dict_of v in
    bind (reject_unknown_fields v FEATURE_FIELDS field) (\<lambda>_.
    bind (validate_id (dget feature ''id'') (field @ ''.id'')) (\<lambda>_.
    bind (as_str (dget feature ''id'')) (\<lambda>feature_id.
    bind (require (feature_id \<notin> set seen)
            (app_name @ ''.features contains duplicate id: '' @ feature_id)) (\<lambda>_.
    bind (str_member (dget feature ''type'') FEATURE_TYPES) (\<lambda>known.
    bind (require known
            (field @ ''.type must be one of: '' @ join '', '' (sorted_set FEATURE_TYPES))) (\<lambda>_.
    bind (feature_values field (py_str (dget feature ''type'')) feature) (\<lambda>values.
    bind (mapping_section feature ''resource_bindings''
            (field @ ''.resource_bindings must be a mapping'')) (\<lambda>bindings.
    bind (if list_all hashable values then Inr () else Inl TypeError) (\<lambda>_.
    let unknown = sorted_set (filter (\<lambda>k. \<not> py_in (PStr k) values) (dkeys bindings)) in
    bind (require (unknown = [])
            (field @ ''.resource_bindings contains unsupported value(s): '' @ join '', '' unknown)) (\<lambda>_.
    bind (checks (map (check_binding field ids) bindings)) (\<lambda>_.
    Inr (seen @ [feature_id])))))))))))))"

definition check_dataset :: "string \<Rightarrow> string list \<Rightarrow> nat \<times> pyval \<Rightarrow> string list res" where
  "check_dataset app_name seen = (\<lambda>(index, v).
    let field = index_field (app_name @ ''.datasets'') index; dataset = dict_of v in
    bind (reject_unknown_fields v DATASET_FIELDS field) (\<lambda>_.
    bind (reject_tcb_control_fields v field) (\<lambda>_.
    bind (validate_id (dget dataset ''id'') (field @ ''.id'')) (\<lambda>_.
    bind (as_str (dget dataset ''id'')) (\<lambda>dataset_id.
    bind (require (dataset_id \<notin> set seen)
            (app_name @ ''.datasets contains duplicate id: '' @ dataset_id)) (\<lambda>_.
    bind (str_member (dget dataset ''type'') DATASET_TYPES) (\<lambda>known.
    bind (require known
            (field @ ''.type must be one of: '' @ join '', '' (sorted_set DATASET_TYPES))) (\<lambda>_.
    bind (require (case dget dataset ''rationale'' of PStr s \<Rightarrow> strip_chars is_space s \<noteq> [] | _ \<Rightarrow> False)
            (field @ ''.rationale must be a non-empty string'')) (\<lambda>_.
    Inr (seen @ [dataset_id]))))))))))"

definition list_section :: "pydict \<Rightarrow> string \<Rightarrow> string \<Rightarrow> pyval list res" where
  "list_section d key msg =
    (case py_or (dget d key) (PList []) of PList xs \<Rightarrow> Inr xs | _ \<Rightarrow> die msg)"


section \<open>Manifests\<close>

text \<open>\<open>for resource in section: check that it is a mapping, then its shape\<close>.\<close>

definition check_section :: "string \<Rightarrow> string \<Rightarrow> (pydict \<Rightarrow> unit res) \<Rightarrow> pydict \<Rightarrow> pydict list res" where
  "check_section path key check resources =
    bind (list_section resources key (path @ '' resources.'' @ key @ '' must be a list'')) (\<lambda>xs.
    traverse (\<lambda>x. case x of
        PDict d \<Rightarrow> bind (check d) (\<lambda>_. Inr d)
      | _ \<Rightarrow> die (path @ '' '' @ (if key = ''artifacts'' then ''artifact'' else key)
               @ '' resources must be mappings'')) xs)"

definition has_usr_vm :: "pydict list \<Rightarrow> bool" where
  "has_usr_vm compute = list_ex (\<lambda>r. str_in (dget r ''type'') [''per_user_app_vm'', ''app_vm''] \<and>
    dget r ''zone'' = PStr ''usr'') compute"

definition check_usr_workload :: "string \<Rightarrow> pydict list \<Rightarrow> pydict \<Rightarrow> unit res" where
  "check_usr_workload app_name compute r =
    require (\<not> (dget r ''zone'' = PStr ''usr''
        \<and> str_in (dget r ''type'') [''podman_workload'', ''host_service'', ''ephemeral_privileged_builder'']
        \<and> \<not> has_usr_vm compute))
      (res_field app_name r '' cannot use the retired shared usr VM; declare a dedicated VM'')"

definition device_types :: "string list" where
  "device_types = [''zone_to_device_tcp'', ''device_to_zone_tcp'', ''device_wan_egress'']"

definition check_device_reference :: "string \<Rightarrow> pydict list \<Rightarrow> pydict \<Rightarrow> unit res" where
  "check_device_reference app_name compute r =
    require (str_in (dget r ''type'') device_types \<longrightarrow>
        dget r ''device'' \<in> (\<lambda>c. dget c ''id'') `
          {c \<in> set compute. dget c ''type'' = PStr ''managed_iot_device''})
      (res_field app_name r ''.device must reference a managed_iot_device compute resource'')"

definition validate_manifest_resources :: "string \<Rightarrow> pydict \<Rightarrow> topology \<Rightarrow> unit res" where
  "validate_manifest_resources app_name manifest t =
    (let path = manifest_path manifest in
    bind (validate_app_id app_name) (\<lambda>_.
    bind (if dhas manifest ''app''
          then (case dget manifest ''app'' of PStr s \<Rightarrow> validate_app_id s
                | v \<Rightarrow> validate_id v ''application name'')
          else Inr ()) (\<lambda>_.
    bind (reject_unknown_fields (PDict manifest) MANIFEST_TOP_LEVEL_FIELDS app_name) (\<lambda>_.
    bind (list_section manifest ''features'' (path @ '' features must be a list'')) (\<lambda>features.
    bind (all_resource_ids manifest) (\<lambda>ids.
    bind (fold_res (check_feature app_name ids) [] (enumerate 0 features)) (\<lambda>_.
    bind (list_section manifest ''datasets'' (path @ '' datasets must be a list'')) (\<lambda>datasets.
    bind (fold_res (check_dataset app_name) [] (enumerate 0 datasets)) (\<lambda>_.
    bind (mapping_section manifest ''resources'' (path @ '' resources must be a mapping'')) (\<lambda>resources.
    bind (reject_tcb_control_fields (PDict resources) (app_name @ ''.resources'')) (\<lambda>_.
    bind (reject_unknown_fields (PDict resources) RESOURCE_SECTION_FIELDS
            (app_name @ ''.resources'')) (\<lambda>_.
    bind (check_section path ''compute'' (\<lambda>r. validate_compute_resource_shape app_name r t)
            resources) (\<lambda>compute.
    bind (checks (map (check_usr_workload app_name compute) compute)) (\<lambda>_.
    bind (check_section path ''network'' (\<lambda>r. validate_network_resource_shape app_name r t)
            resources) (\<lambda>network.
    bind (checks (map (check_device_reference app_name compute) network)) (\<lambda>_.
    bind (check_section path ''tailnet'' (validate_tailnet_resource_shape app_name) resources) (\<lambda>_.
    bind (check_section path ''artifacts'' (validate_artifact_resource_shape app_name) resources) (\<lambda>_.
    Inr ()))))))))))))))))))"

end
