(* ===== verification/Guests.thy ===== *)
theory Guests
  imports Model_Users Py_Hash
begin

text \<open>
  Application guests and managed devices: \<^verbatim>\<open>platform_resource_guests.py\<close>. The records
  \<open>managed_device\<close>, \<open>app_vm_spec\<close> and \<open>router_rule\<close> are the dictionaries the functions append
  to their results; a guest specification stays a document, as nothing computes with its inside
  but its digest.

  \<open>zone_str\<close> and \<open>resource_id_of\<close> read members that \<open>load_topology\<close> and the shape checks have
  shown to be strings.
\<close>

definition zone_str :: "pyval \<Rightarrow> string \<Rightarrow> string res" where
  "zone_str zone key = bind (vitem zone key) as_str"

definition resource_id_of :: "pydict \<Rightarrow> string res" where
  "resource_id_of resource = bind (ditem resource ''id'') as_str"

text \<open>\<open>int(v)\<close>.\<close>

definition int_text :: "string \<Rightarrow> int option" where
  "int_text s =
    (let t = strip_chars is_space s;
         (sign, u) = (case t of [] \<Rightarrow> (1, []) | c # cs \<Rightarrow>
            if c = CHR ''-'' then (- 1, cs) else if c = CHR ''+'' then (1, cs) else (1, t));
         groups = split_on CHR ''_'' u
     in if list_all all_digits groups then Some (sign * int (digits_val (concat groups))) else None)"

definition py_int :: "pyval \<Rightarrow> int res" where
  "py_int v =
    (case v of
       PInt i \<Rightarrow> Inr i
     | PBool b \<Rightarrow> Inr (if b then 1 else 0)
     | PStr s \<Rightarrow> (case int_text s of Some i \<Rightarrow> Inr i | None \<Rightarrow> Inl (ValueError s))
     | _ \<Rightarrow> Inl TypeError)"


section \<open>Managed devices\<close>

record managed_device =
  dev_app :: string
  dev_resource :: string
  dev_node :: string
  dev_zone :: string
  dev_role :: string
  dev_hostname :: string
  dev_mac :: string
  dev_ip :: string
  dev_tag :: string

text \<open>\<open>mapping.get(key) or {}\<close> followed by the mapping check is \<open>mapping_section\<close>.\<close>

definition managed_device_on :: "string \<Rightarrow> pydict \<Rightarrow> string \<Rightarrow> string \<Rightarrow> pyval \<Rightarrow> pydict \<Rightarrow> string \<Rightarrow>
    managed_device res" where
  "managed_device_on app_name resource resource_id zone_name zone by_box box =
    (let base = ''apps.'' @ app_name @ ''.devices.'' @ resource_id @ ''.'' @ box in
    bind (mapping_section by_box box (base @ '' must be a mapping'')) (\<lambda>config.
    bind (require (truthy (dget config ''mac'')) (base @ ''.mac is required'')) (\<lambda>_.
    bind (validate_mac (dget config ''mac'') (base @ ''.mac'')) (\<lambda>_.
    bind (vitem zone ''cidr'') (\<lambda>cidr.
    bind (validate_ip_in_cidr (dget config ''ipv4_address'') cidr (base @ ''.ipv4_address'')) (\<lambda>_.
    let hostname = py_or (py_or (dget config ''hostname'') (dget resource ''hostname_default''))
          (PStr (box @ ''-'' @ py_str (dgetd resource ''hostname_suffix'' (PStr resource_id))));
        tag = py_or (py_or (dget config ''tailnet_tag'') (dget resource ''management_tag_default''))
          (PStr ''tag:iot'') in
    bind (validate_hostname hostname (base @ ''.hostname'')) (\<lambda>_.
    bind (validate_app_tailnet_tag tag (base @ ''.tailnet_tag'')) (\<lambda>_.
    bind (zone_str zone ''role'') (\<lambda>role.
    bind (as_str hostname) (\<lambda>h.
    bind (as_str (dget config ''mac'')) (\<lambda>mac.
    bind (as_str (dget config ''ipv4_address'')) (\<lambda>ip.
    bind (as_str tag) (\<lambda>tg.
    Inr \<lparr>dev_app = app_name, dev_resource = resource_id, dev_node = box, dev_zone = zone_name,
         dev_role = role, dev_hostname = h, dev_mac = lower mac, dev_ip = ip, dev_tag = tg\<rparr>)))))))))))))"

text \<open>A box that does not allow the resource's capability is skipped.\<close>

definition devices_of_resource :: "string \<Rightarrow> pydict \<Rightarrow> string list \<Rightarrow> topology \<Rightarrow> pydict \<Rightarrow>
    managed_device list \<Rightarrow> pydict \<Rightarrow> managed_device list res" where
  "devices_of_resource app_name devices_config boxes t box_configs acc resource =
    bind (resource_id_of resource) (\<lambda>resource_id.
    bind (resolve_zone (dget resource ''zone'') (app_name @ ''.'' @ resource_id @ ''.zone'') t) (\<lambda>(zone_name, zone).
    bind (mapping_section devices_config resource_id
            (''apps.'' @ app_name @ ''.devices.'' @ resource_id @ '' must be a mapping by box'')) (\<lambda>by_box.
    fold_res (\<lambda>acc box.
        bind (resource_access_allowed resource (box_config_for box_configs box)) (\<lambda>allowed.
        if \<not> allowed then Inr acc
        else bind (managed_device_on app_name resource resource_id zone_name zone by_box box) (\<lambda>d.
          Inr (acc @ [d])))) acc boxes)))"

definition selected_managed_iot_devices :: "string \<Rightarrow> pydict \<Rightarrow> pydict \<Rightarrow> string list \<Rightarrow> topology \<Rightarrow>
    pydict \<Rightarrow> managed_device list res" where
  "selected_managed_iot_devices app_name manifest entry boxes t box_configs =
    bind (registry_managed_devices entry) (\<lambda>devices_config.
    bind (managed_iot_device_resources manifest) (\<lambda>resources.
    fold_res (devices_of_resource app_name devices_config boxes t box_configs) [] resources))"


section \<open>Guest specifications\<close>

text \<open>\<open>re.sub(r"[^a-z0-9_]+", "_", value.replace("-", "_")).strip("_")\<close>.\<close>

definition lv_char :: "char \<Rightarrow> bool" where
  "lv_char c \<longleftrightarrow> in_range 97 122 c \<or> in_range 48 57 c \<or> c = CHR ''_''"

fun squeeze :: "bool \<Rightarrow> string \<Rightarrow> string" where
  "squeeze inside [] = []"
| "squeeze inside (c # cs) =
    (if lv_char c then c # squeeze False cs
     else (if inside then [] else ''_'') @ squeeze True cs)"

definition app_vm_lv_fragment :: "string \<Rightarrow> string" where
  "app_vm_lv_fragment value =
    strip_chars (\<lambda>c. c = CHR ''_'') (squeeze False (replace_all ''-'' ''_'' value))"

definition newline :: string where
  "newline = [CHR 0x0A]"

definition mac_of_digest :: "string \<Rightarrow> string" where
  "mac_of_digest d =
    ''00:16:3e:'' @ take 2 d @ '':'' @ take 2 (drop 2 d) @ '':'' @ take 2 (drop 4 d)"

definition interfaces_file :: "string \<Rightarrow> string \<Rightarrow> string \<Rightarrow> string \<Rightarrow> string" where
  "interfaces_file iface address prefix_len gateway = concat (map (\<lambda>l. l @ newline)
    [''auto lo'', ''iface lo inet loopback'', '''', ''auto '' @ iface,
     ''iface '' @ iface @ '' inet static'', ''    address '' @ address @ ''/'' @ prefix_len,
     ''    gateway '' @ gateway])"

definition zone_interfaces :: "pyval \<Rightarrow> string \<Rightarrow> string res" where
  "zone_interfaces zone address =
    bind (zone_str zone ''vm_interface'') (\<lambda>iface.
    bind (vitem zone ''router_ipv4_prefix'') (\<lambda>prefix_len.
    bind (zone_str zone ''router_ipv4_address'') (\<lambda>gateway.
    Inr (interfaces_file iface address (py_str prefix_len) gateway))))"

definition installed_section :: "string \<Rightarrow> string \<Rightarrow> string \<Rightarrow> pyval" where
  "installed_section guest_name lv_name extra =
    (let kernel = DOM0_XEN_IMAGES_PATH @ ''/'' @ guest_name @ ''-kernel'';
         initramfs = DOM0_XEN_IMAGES_PATH @ ''/'' @ guest_name @ ''-initramfs''
     in PDict
      [(''required_lvs'', strs [''/dev/vg0/'' @ lv_name]), (''kernel_path'', PStr kernel),
       (''initramfs_path'', PStr initramfs), (''extra'', PStr extra),
       (''required_paths'', strs [kernel, initramfs]),
       (''disks'', strs [''phy:/dev/vg0/'' @ lv_name @ '',xvda,w''])])"

definition compile_alpine_app_vm_guest_spec ::
    "string \<Rightarrow> string \<Rightarrow> pydict \<Rightarrow> string \<Rightarrow> string \<Rightarrow> pyval \<Rightarrow> string \<Rightarrow> pydict res" where
  "compile_alpine_app_vm_guest_spec app_name box resource hostname vm_ip zone runtime_state =
    bind (resource_id_of resource) (\<lambda>resource_id.
    let name = py_or (dget resource ''hostname_suffix'') (PStr resource_id) in
    bind (validate_id name (app_name @ ''.'' @ resource_id @ ''.guest_name'')) (\<lambda>_.
    bind (as_str name) (\<lambda>guest_name.
    let lv_name = ''lv_'' @ app_vm_lv_fragment app_name @ ''_'' @ app_vm_lv_fragment guest_name;
        mac = mac_of_digest (sha1_hex (box @ '':'' @ app_name @ '':'' @ resource_id)) in
    bind (zone_interfaces zone vm_ip) (\<lambda>network_interfaces.
    bind (py_int (dgetd resource ''memory_mb'' (PInt 1024))) (\<lambda>memory.
    bind (py_int (dgetd resource ''vcpus'' (PInt 1))) (\<lambda>vcpus.
    bind (vitem zone ''bridge'') (\<lambda>bridge.
    bind (vitem zone ''vm_interface'') (\<lambda>vm_interface.
    Inr [(''guest_name'', PStr guest_name), (''guest_os'', PStr ''alpine''),
      (''container_runtime'', PStr ''none''), (''stage'', PStr ''installed''),
      (''config_path'', PStr (DOM0_XEN_CONFIG_DIR @ ''/'' @ guest_name @ ''.cfg'')),
      (''autostart'', PBool (runtime_state = ''running'')), (''runtime_state'', PStr runtime_state),
      (''memory_mb'', PInt memory), (''vcpus'', PInt vcpus),
      (''lv_size'', PStr (py_str (dgetd resource ''lv_size'' (PStr ''20G'')))),
      (''network_interfaces'', PStr network_interfaces),
      (''installed'', installed_section guest_name lv_name
        (if app_name = ''print-server'' then ''console=hvc0 root=/dev/xvda1 ro modules=ext4''
         else ''console=hvc0 root=/dev/xvda3 rw modules=ext4'')),
      (''vifs'', PList [PDict [(''bridge'', bridge), (''mac'', PStr mac)]]),
      (''hostname'', PStr hostname), (''vm_interface'', vm_interface)]))))))))"

record app_vm_spec =
  vs_node :: string
  vs_app :: string
  vs_resource :: string
  vs_user_slug :: string
  vs_tailscale_login :: string
  vs_site_role :: string
  vs_runtime_state :: string
  vs_inventory_hostname :: string
  vs_node_domain_role :: string
  vs_node_hostname :: string
  vs_box_scoped_hostname :: string
  vs_tailnet_hostname :: string
  vs_tailnet_tag :: string
  vs_advertised_tags :: "string list"
  vs_zone :: string
  vs_ip :: string
  vs_vm_interface :: string
  vs_router_ip :: string
  vs_router_prefix :: pyval
  vs_storage_port :: "pyval option"
  vs_guest_spec :: pydict
  vs_user :: app_user

text \<open>A dedicated virtual machine has no storage port; its user record carries the resource's
  name, and the empty login.\<close>

definition zone_reserved_with_dom0 :: "string \<Rightarrow> pydict \<Rightarrow> pyval list res" where
  "zone_reserved_with_dom0 zone_name zone =
    bind (reserved_zone_ips zone) (\<lambda>reserved.
    let dom0_ip = dget zone ''dom0_ipv4_address'' in
    if \<not> truthy dom0_ip then Inr reserved
    else bind (validate_ip dom0_ip (''platform_zones.'' @ zone_name @ ''.dom0_ipv4_address'')) (\<lambda>_.
      bind (py_ip_address dom0_ip) (\<lambda>a. Inr (PStr (ip_str a) # reserved))))"

definition app_vm_on :: "string \<Rightarrow> string \<Rightarrow> pydict \<Rightarrow> string \<Rightarrow> string \<Rightarrow> pydict \<Rightarrow> pyval list \<Rightarrow> pydict \<Rightarrow>
    string list \<Rightarrow> string \<Rightarrow> app_vm_spec res" where
  "app_vm_on app_name runtime_state resource resource_id zone_name zone reserved by_box seen_ips box =
    (let base = ''apps.'' @ app_name @ ''.app_vms.'' @ resource_id @ ''.'' @ box in
    bind (mapping_section by_box box (base @ '' must be a mapping'')) (\<lambda>config.
    bind (ditem zone ''cidr'') (\<lambda>cidr.
    bind (validate_ip_in_cidr (dget config ''vm_ipv4_address'') cidr (base @ ''.vm_ipv4_address'')) (\<lambda>_.
    bind (as_str (dget config ''vm_ipv4_address'')) (\<lambda>vm_ip.
    bind (require (PStr vm_ip \<notin> set reserved) (base @ ''.vm_ipv4_address is reserved: '' @ vm_ip)) (\<lambda>_.
    bind (require (vm_ip \<notin> set seen_ips)
            (''apps.'' @ app_name @ ''.app_vms duplicate vm_ipv4_address: '' @ vm_ip)) (\<lambda>_.
    let sfx = py_or (dget resource ''hostname_suffix'') (PStr resource_id);
        hv = py_or (dget config ''hostname'') (PStr (box @ ''-'' @ py_str sfx)) in
    bind (validate_hostname hv (base @ ''.hostname'')) (\<lambda>_.
    bind (as_str hv) (\<lambda>hostname.
    bind (require (hostname \<noteq> box @ ''-usr'' \<and> sfx \<noteq> PStr ''usr'')
            (app_name @ ''.'' @ resource_id
             @ '' cannot recreate the retired shared usr VM; use a dedicated VM name'')) (\<lambda>_.
    let tv = py_or (py_or (dget config ''tailnet_tag'') (dget resource ''tailnet_tag_default''))
               (PStr (''tag:'' @ app_name)) in
    bind (validate_app_tailnet_tag tv (base @ ''.tailnet_tag'')) (\<lambda>_.
    bind (as_str tv) (\<lambda>tag.
    bind (compile_alpine_app_vm_guest_spec app_name box resource hostname vm_ip (PDict zone)
            runtime_state) (\<lambda>guest_spec.
    bind (zone_str (PDict zone) ''role'') (\<lambda>role.
    bind (zone_str (PDict zone) ''vm_interface'') (\<lambda>vm_interface.
    bind (zone_str (PDict zone) ''router_ipv4_address'') (\<lambda>router_ip.
    bind (ditem zone ''router_ipv4_prefix'') (\<lambda>router_prefix.
    Inr \<lparr>vs_node = box, vs_app = app_name, vs_resource = resource_id, vs_user_slug = resource_id,
         vs_tailscale_login = [], vs_site_role = ''active'', vs_runtime_state = runtime_state,
         vs_inventory_hostname = hostname, vs_node_domain_role = role, vs_node_hostname = hostname,
         vs_box_scoped_hostname = hostname, vs_tailnet_hostname = hostname, vs_tailnet_tag = tag,
         vs_advertised_tags = (if app_name = ''print-server'' then [tag] else [''tag:vm'', tag]),
         vs_zone = zone_name, vs_ip = vm_ip, vs_vm_interface = vm_interface,
         vs_router_ip = router_ip, vs_router_prefix = router_prefix, vs_storage_port = None,
         vs_guest_spec = guest_spec,
         vs_user = \<lparr>slug = resource_id, tailscale_login = [],
           system_user = (if app_name = ''print-server'' then [] else ''neo''),
           vm_ipv4_address = vm_ip, storage_port = None\<rparr>\<rparr>)))))))))))))))))"

text \<open>The addresses already seen are those of the specifications already built.\<close>

definition app_vms_of_resource :: "string \<Rightarrow> string \<Rightarrow> pydict \<Rightarrow> string list \<Rightarrow> topology \<Rightarrow> pydict \<Rightarrow>
    app_vm_spec list \<Rightarrow> pydict \<Rightarrow> app_vm_spec list res" where
  "app_vms_of_resource app_name runtime_state registry boxes t box_configs specs resource =
    bind (resource_id_of resource) (\<lambda>resource_id.
    bind (resolve_zone (dget resource ''zone'') (app_name @ ''.'' @ resource_id @ ''.zone'') t) (\<lambda>(zone_name, zv).
    bind (as_dict zv) (\<lambda>zone.
    bind (zone_reserved_with_dom0 zone_name zone) (\<lambda>reserved.
    bind (mapping_section registry resource_id
            (''apps.'' @ app_name @ ''.app_vms.'' @ resource_id @ '' must be a mapping by box'')) (\<lambda>by_box.
    fold_res (\<lambda>acc box.
        bind (resource_access_allowed resource (box_config_for box_configs box)) (\<lambda>allowed.
        if \<not> allowed then Inr acc
        else bind (app_vm_on app_name runtime_state resource resource_id zone_name zone reserved by_box
                     (map vs_ip acc) box) (\<lambda>spec.
          Inr (acc @ [spec])))) specs boxes)))))"

definition selected_app_vms :: "string \<Rightarrow> pydict \<Rightarrow> pydict \<Rightarrow> string list \<Rightarrow> topology \<Rightarrow> pydict \<Rightarrow>
    app_vm_spec list res" where
  "selected_app_vms app_name manifest entry boxes t box_configs =
    (if \<not> truthy (dget entry ''enabled'') then Inr []
     else bind (app_vm_resources manifest) (\<lambda>resources.
       if resources = [] then Inr []
       else bind (registry_app_vms entry) (\<lambda>registry.
         bind (app_runtime_state app_name entry) (\<lambda>runtime_state.
         fold_res (app_vms_of_resource app_name runtime_state registry boxes t box_configs) [] resources))))"

text \<open>The sources of a box: the name and address of each virtual machine on it.\<close>

definition app_vm_sources_for_box :: "app_vm_spec list \<Rightarrow> string \<Rightarrow> (string \<times> string) list" where
  "app_vm_sources_for_box specs box =
    map (\<lambda>s. (vs_resource s, vs_ip s)) (filter (\<lambda>s. vs_node s = box) specs)"


section \<open>Per-user virtual machines\<close>

definition debian_image_inputs :: "string \<Rightarrow> string \<Rightarrow> string \<Rightarrow> string \<Rightarrow> pydict \<Rightarrow> string \<Rightarrow> string \<Rightarrow>
    string \<Rightarrow> string \<Rightarrow> pyval \<Rightarrow> int \<Rightarrow> pydict" where
  "debian_image_inputs box guest_name release mirror resource network_interfaces iface vm_ip
      node_hostname dom0_source artifact_port =
    [(''schema_version'', PInt 1),
     (''build_profile_version'', PInt DEBIAN_APP_VM_BUILD_PROFILE_VERSION),
     (''guest_name'', PStr guest_name), (''hostname'', PStr node_hostname),
     (''release'', PStr release), (''mirror'', PStr mirror),
     (''security_mirror'', PStr DEBIAN_APP_VM_SECURITY_MIRROR),
     (''architecture'', PStr DEBIAN_APP_VM_ARCHITECTURE), (''variant'', PStr DEBIAN_APP_VM_VARIANT),
     (''image_size'', PStr (py_str (py_or (dget resource ''debian_image_size'')
        (PStr DEBIAN_APP_VM_IMAGE_SIZE)))),
     (''packages'', strs DEBIAN_APP_VM_PACKAGES), (''network_interfaces'', PStr network_interfaces),
     (''bootstrap_interface'', PStr iface), (''bootstrap_host'', PStr vm_ip),
     (''bootstrap_ssh_sources'', PList [dom0_source]), (''artifact_port'', PInt artifact_port),
     (''builder_host'', PStr (box @ ''-bak''))]"

definition with_build_id :: "pydict \<Rightarrow> pydict" where
  "with_build_id d = dset d ''build_id'' (PStr (sha256_hex (json_dumps True (PDict d))))"

definition backend_zone :: "topology \<Rightarrow> string \<Rightarrow> pydict res" where
  "backend_zone t purpose =
    bind (require (truthy (dget (zones t) ''bak'')) (''platform_zones.bak is required for '' @ purpose)) (\<lambda>_.
    as_dict (dget (zones t) ''bak''))"

definition dom0_source_of :: "pydict \<Rightarrow> pyval res" where
  "dom0_source_of zone =
    bind (validate_ip (dget zone ''dom0_ipv4_address'') ''platform_zones.bak.dom0_ipv4_address'') (\<lambda>_.
    Inr (dget zone ''dom0_ipv4_address''))"

definition compile_app_vm_guest_spec :: "string \<Rightarrow> string \<Rightarrow> app_user \<Rightarrow> pydict \<Rightarrow> pyval \<Rightarrow> topology \<Rightarrow>
    string \<Rightarrow> pydict res" where
  "compile_app_vm_guest_spec app_name box user resource zone t runtime_state =
    (let vm_prefix = py_str (dgetd resource ''vm_name_prefix'' (PStr ''usr''));
         guest_name = vm_prefix @ ''-'' @ slug user;
         guest_os = py_str (py_or (dget resource ''guest_os'') (PStr ''debian''));
         lv_name = ''lv_'' @ app_name @ ''_'' @ replace_all ''-'' ''_'' vm_prefix @ ''_''
           @ replace_all ''-'' ''_'' (slug user);
         mac = mac_of_digest (sha1_hex (box @ '':'' @ app_name @ '':'' @ slug user));
         release = py_str (py_or (dget resource ''debian_release'') (PStr ''trixie''));
         mirror = py_str (py_or (dget resource ''debian_mirror'') (PStr ''http://deb.debian.org/debian''));
         node_hostname = box @ ''-'' @ guest_name in
    bind (require (guest_os = ''debian'')
            (res_field app_name resource ''.guest_os must be debian for per-user app VMs'')) (\<lambda>_.
    bind (zone_interfaces zone (vm_ipv4_address user)) (\<lambda>network_interfaces.
    bind (backend_zone t ''Debian app VM image building'') (\<lambda>backend.
    bind (dom0_source_of backend) (\<lambda>dom0_source.
    bind (zone_str zone ''vm_interface'') (\<lambda>iface.
    bind (py_int (py_or (dget resource ''debian_builder_artifact_port'')
            (PInt DEBIAN_APP_VM_BUILDER_ARTIFACT_PORT))) (\<lambda>artifact_port.
    let image = with_build_id (debian_image_inputs box guest_name release mirror resource
          network_interfaces iface (vm_ipv4_address user) node_hostname dom0_source artifact_port) in
    bind (py_int (dgetd resource ''memory_mb'' (PInt 4096))) (\<lambda>memory.
    bind (py_int (dgetd resource ''vcpus'' (PInt 4))) (\<lambda>vcpus.
    bind (vitem zone ''bridge'') (\<lambda>bridge.
    Inr [(''guest_name'', PStr guest_name), (''guest_os'', PStr guest_os),
      (''container_runtime'', PStr (py_str (py_or (dget resource ''container_runtime'') (PStr ''docker'')))),
      (''debian_release'', PStr release), (''debian_mirror'', PStr mirror),
      (''debian_image'', PDict image), (''stage'', PStr ''installed''),
      (''config_path'', PStr (DOM0_XEN_CONFIG_DIR @ ''/'' @ guest_name @ ''.cfg'')),
      (''autostart'', PBool (runtime_state = ''running'')), (''runtime_state'', PStr runtime_state),
      (''memory_mb'', PInt memory), (''vcpus'', PInt vcpus),
      (''lv_size'', PStr (py_str (dgetd resource ''lv_size'' (PStr ''50G'')))),
      (''installed'', installed_section guest_name lv_name
        ''console=hvc0 root=/dev/xvda rw net.ifnames=0 biosdevname=0''),
      (''vifs'', PList [PDict [(''bridge'', bridge), (''mac'', PStr mac)]]),
      (''vm_interface'', PStr iface)]))))))))))"

definition user_vm_spec :: "string \<Rightarrow> string \<Rightarrow> pyval \<Rightarrow> string \<Rightarrow> pydict \<Rightarrow> string \<Rightarrow> pyval \<Rightarrow> topology \<Rightarrow>
    app_user \<Rightarrow> app_vm_spec res" where
  "user_vm_spec app_name box active_master runtime_state resource zone_name zone t user =
    (let vm_prefix = py_str (dgetd resource ''vm_name_prefix'' (PStr ''usr''));
         tag_prefix = py_str (dgetd resource ''tailnet_tag_prefix'' (PStr app_name));
         hostname = box @ ''-'' @ vm_prefix @ ''-'' @ slug user;
         tag = ''tag:'' @ tag_prefix @ ''-'' @ slug user in
    bind (resource_id_of resource) (\<lambda>resource_id.
    bind (zone_str zone ''role'') (\<lambda>role.
    bind (zone_str zone ''vm_interface'') (\<lambda>vm_interface.
    bind (zone_str zone ''router_ipv4_address'') (\<lambda>router_ip.
    bind (vitem zone ''router_ipv4_prefix'') (\<lambda>router_prefix.
    bind (compile_app_vm_guest_spec app_name box user resource zone t runtime_state) (\<lambda>guest_spec.
    Inr \<lparr>vs_node = box, vs_app = app_name, vs_resource = resource_id, vs_user_slug = slug user,
         vs_tailscale_login = tailscale_login user,
         vs_site_role = (if active_master = PStr box then ''active'' else ''passive''),
         vs_runtime_state = runtime_state, vs_inventory_hostname = hostname,
         vs_node_domain_role = role, vs_node_hostname = hostname, vs_box_scoped_hostname = hostname,
         vs_tailnet_hostname = hostname, vs_tailnet_tag = tag,
         vs_advertised_tags = [''tag:vm'', tag], vs_zone = zone_name,
         vs_ip = vm_ipv4_address user, vs_vm_interface = vm_interface, vs_router_ip = router_ip,
         vs_router_prefix = router_prefix, vs_storage_port = storage_port user,
         vs_guest_spec = guest_spec, vs_user = user\<rparr>)))))))"

definition compile_app_vm_specs_for_box :: "string \<Rightarrow> string \<Rightarrow> pydict \<Rightarrow> pydict \<Rightarrow> app_user list \<Rightarrow>
    topology \<Rightarrow> app_vm_spec list res" where
  "compile_app_vm_specs_for_box app_name box entry manifest users t =
    bind (entry_placement entry) (\<lambda>placement.
    bind (app_runtime_state app_name entry) (\<lambda>runtime_state.
    bind (per_user_app_vm_resources manifest) (\<lambda>resources.
    bind (traverse (\<lambda>resource.
        bind (resolve_zone (dget resource ''zone'') (res_field app_name resource ''.zone'') t) (\<lambda>(zone_name, zone).
        traverse (user_vm_spec app_name box (dget placement ''active_master'') runtime_state resource
          zone_name zone t) users)) resources) (\<lambda>specs.
    Inr (concat specs)))))"


section \<open>Rules and the platform map\<close>

text \<open>The dictionaries of the rule lists. An absent \<open>exclusive\<close> reads as false, absent
  \<open>destination_exclusions\<close> as none.\<close>

record router_rule =
  rr_node :: string
  rr_app :: string
  rr_resource :: string
  rr_in_interface :: string
  rr_out_interface :: string
  rr_source :: string
  rr_destination :: string
  rr_protocol :: string
  rr_ports :: "pyval list"
  rr_exclusive :: bool
  rr_comment :: string
  rr_destination_exclusions :: "string list"

definition bootstrap_rule :: "pydict \<Rightarrow> string \<Rightarrow> topology \<Rightarrow> app_vm_spec \<Rightarrow> router_rule list res" where
  "bootstrap_rule backend dom0_source t spec =
    bind (resolve_zone (PStr (vs_zone spec)) (vs_app spec @ ''.'' @ vs_resource spec @ ''.zone'') t) (\<lambda>(zone_name, zone).
    if vs_app spec = ''print-server'' then Inr []
    else bind (zone_str (PDict backend) ''router_interface'') (\<lambda>incoming.
      bind (zone_str zone ''router_interface'') (\<lambda>outgoing.
      Inr [\<lparr>rr_node = vs_node spec, rr_app = vs_app spec, rr_resource = ''app-vm-bootstrap-ssh'',
            rr_in_interface = incoming, rr_out_interface = outgoing, rr_source = dom0_source,
            rr_destination = vs_ip spec, rr_protocol = ''tcp'', rr_ports = [PInt 22],
            rr_exclusive = False,
            rr_comment = resource_comment (vs_app spec) ''app-vm-bootstrap-ssh''
              ((if vs_user_slug spec \<noteq> [] then vs_user_slug spec else vs_resource spec)
               @ ''-'' @ zone_name @ ''-router''),
            rr_destination_exclusions = []\<rparr>])))"

definition compile_app_vm_bootstrap_router_rules :: "app_vm_spec list \<Rightarrow> topology \<Rightarrow> router_rule list res" where
  "compile_app_vm_bootstrap_router_rules specs t =
    bind (backend_zone t ''app VM bootstrap routing'') (\<lambda>backend.
    bind (dom0_source_of backend) (\<lambda>dom0_source.
    bind (as_str dom0_source) (\<lambda>source.
    bind (traverse (bootstrap_rule backend source t) specs) (\<lambda>rules.
    Inr (concat rules)))))"

definition compile_app_vm_tailscale_underlay_router_rules :: "app_vm_spec list \<Rightarrow> topology \<Rightarrow> router_rule list" where
  "compile_app_vm_tailscale_underlay_router_rules specs t = []"

definition platform_map_app_vm :: "app_vm_spec \<Rightarrow> pydict res" where
  "platform_map_app_vm spec =
    (let g = vs_guest_spec spec in
    bind (ditem g ''guest_name'') (\<lambda>guest_name.
    bind (py_int (dgetd g ''memory_mb'' (PInt 0))) (\<lambda>memory.
    bind (py_int (dgetd g ''vcpus'' (PInt 0))) (\<lambda>vcpus.
    Inr [(''node'', PStr (vs_node spec)), (''app'', PStr (vs_app spec)),
      (''resource'', PStr (vs_resource spec)), (''hostname'', PStr (vs_node_hostname spec)),
      (''tailnet_hostname'', PStr (vs_tailnet_hostname spec)),
      (''inventory_hostname'', PStr (vs_inventory_hostname spec)), (''guest_name'', guest_name),
      (''user_slug'', PStr (vs_user_slug spec)), (''tailscale_login'', PStr (vs_tailscale_login spec)),
      (''site_role'', PStr (vs_site_role spec)), (''runtime_state'', PStr (vs_runtime_state spec)),
      (''zone'', PStr (vs_zone spec)), (''vm_ipv4_address'', PStr (vs_ip spec)),
      (''expected_tags'', strs (vs_advertised_tags spec)), (''tailnet_tag'', PStr (vs_tailnet_tag spec)),
      (''memory_mb'', PInt memory), (''vcpus'', PInt vcpus),
      (''autostart'', PBool (truthy (dget g ''autostart'')))]))))"

definition compile_platform_map_app_vms :: "app_vm_spec list \<Rightarrow> pydict list res" where
  "compile_platform_map_app_vms specs = traverse platform_map_app_vm specs"


section \<open>Facts: the type of a machine\<close>

text \<open>A MAC address cut out of a digest is one.\<close>

lemma hex_digit_class: "is_hex_digit c \<Longrightarrow> in_class [d09, (CHR ''A'', CHR ''F''), (CHR ''a'', CHR ''f'')] c"
  by (auto simp: is_hex_digit_def in_class_def)

lemma hex_digit_lower: "is_hex_digit c \<Longrightarrow> lower_char c = c"
  by (auto simp: is_hex_digit_def lower_char_def in_range_def)

lemma hex_pair_word: "is_hex_digit a \<Longrightarrow> is_hex_digit b \<Longrightarrow>
    [a, b] \<in> lang (Rep (Cls [d09, (CHR ''A'', CHR ''F''), (CHR ''a'', CHR ''f'')]) 2 2)"
  unfolding lang_Rep_Cls by (simp add: hex_digit_class)

lemma mac_of_digest_valid:
  assumes "list_all is_hex_digit d" "6 \<le> length d"
  shows "fullmatch MAC_RE (mac_of_digest d)" "lower (mac_of_digest d) = mac_of_digest d"
proof -
  from assms(2) obtain a b c e f g r where d: "d = a # b # c # e # f # g # r"
    by (metis Suc_le_length_iff numeral_eq_Suc pred_numeral_simps(2,3) pred_numeral_simps(1) BitM.simps)
  let ?h = "Rep (Cls [d09, (CHR ''A'', CHR ''F''), (CHR ''a'', CHR ''f'')]) 2 2"
  let ?us = "['':16'', '':3e'', '':'' @ [a, b], '':'' @ [c, e], '':'' @ [f, g]]"
  have pair: "'':'' @ [x, y] \<in> lang (Seq (Lit '':'') ?h)" if "is_hex_digit x" "is_hex_digit y" for x y
    using hex_pair_word [OF that] by simp
  have "list_all (\<lambda>u. u \<in> lang (Seq (Lit '':'') ?h)) ?us"
    using assms(1) pair pair [of "CHR ''1''" "CHR ''6''"] pair [of "CHR ''3''" "CHR ''e''"]
    by (simp add: d is_hex_digit_def del: lang.simps)
  then have "concat ?us \<in> lang (Rep (Seq (Lit '':'') ?h) 5 5)" by (rule concat_Rep) simp
  moreover have "''00'' \<in> lang ?h" by (rule hex_pair_word) (simp_all add: is_hex_digit_def)
  moreover have "mac_of_digest d = ''00'' @ concat ?us" by (simp add: mac_of_digest_def d)
  ultimately show "fullmatch MAC_RE (mac_of_digest d)"
    unfolding fullmatch_iff MAC_RE_def Let_def lang.simps(4) by blast
  show "lower (mac_of_digest d) = mac_of_digest d"
    using assms(1) by (simp add: mac_of_digest_def d lower_def hex_digit_lower) (simp add: lower_char_def in_range_def)
qed

text \<open>What the play that builds a machine relies on: one network interface with a MAC address in canonical form, a
  switch-on flag that agrees with the runtime state, integer sizes, the configuration file named after the
  guest, one host name and one address.\<close>

lemmas sha1_mac = mac_of_digest_valid [OF sha1_hex_chars, unfolded sha1_hex_length, simplified]

definition typed_spec :: "pydict \<Rightarrow> string \<Rightarrow> bool" where
  "typed_spec g state \<longleftrightarrow>
    (\<exists>b mac. dget g ''vifs'' = PList [PDict [(''bridge'', b), (''mac'', PStr mac)]] \<and>
       fullmatch MAC_RE mac \<and> lower mac = mac) \<and>
    dget g ''runtime_state'' = PStr state \<and> dget g ''autostart'' = PBool (state = ''running'') \<and>
    (\<exists>m n. dget g ''memory_mb'' = PInt m \<and> dget g ''vcpus'' = PInt n) \<and>
    (\<exists>name. dget g ''guest_name'' = PStr name \<and>
       dget g ''config_path'' = PStr (DOM0_XEN_CONFIG_DIR @ ''/'' @ name @ ''.cfg''))"

lemma alpine_spec_typed: "compile_alpine_app_vm_guest_spec app box r h ip z st = Inr g \<Longrightarrow> typed_spec g st"
  unfolding compile_alpine_app_vm_guest_spec_def Let_def bind_eq_Inr sum.inject
  by (elim exE conjE, hypsubst, simp add: typed_spec_def sha1_mac)

lemma debian_spec_typed: "compile_app_vm_guest_spec app box u r z t st = Inr g \<Longrightarrow> typed_spec g st"
  unfolding compile_app_vm_guest_spec_def Let_def bind_eq_Inr sum.inject
  by (elim exE conjE, hypsubst, simp add: typed_spec_def sha1_mac)

definition typed_guest :: "app_vm_spec \<Rightarrow> bool" where
  "typed_guest s \<longleftrightarrow> typed_spec (vs_guest_spec s) (vs_runtime_state s) \<and>
    vs_node_hostname s = vs_inventory_hostname s \<and> vs_tailnet_hostname s = vs_inventory_hostname s \<and>
    vm_ipv4_address (vs_user s) = vs_ip s \<and> vs_tailnet_tag s \<in> set (vs_advertised_tags s)"

lemma app_vm_on_typed: "app_vm_on app st r i z zd res bb seen box = Inr s \<Longrightarrow> typed_guest s"
  unfolding app_vm_on_def Let_def bind_eq_Inr sum.inject
  by (elim exE conjE, hypsubst, simp add: typed_guest_def alpine_spec_typed)

lemma user_vm_spec_typed: "user_vm_spec app box a st r z zd t u = Inr s \<Longrightarrow> typed_guest s"
  unfolding user_vm_spec_def Let_def bind_eq_Inr sum.inject
  by (elim exE conjE, hypsubst, simp add: typed_guest_def debian_spec_typed)

end
