(* ===== verification/Compiler_Network.thy ===== *)
theory Compiler_Network
  imports Guests
begin

text \<open>
  Network resources compiled to firewall rules, and per-user tailnet policy:
  \<open>compile_resource_for_box\<close>, \<open>compile_tailnet_policy_resources\<close>
  (\<^verbatim>\<open>platform_resource_compiler.py\<close>) and \<open>user_port_values\<close>
  (\<^verbatim>\<open>platform_resource_guests.py\<close>).

  The two rule lists the source appends to are the two components of the result. A
  \<open>net_source\<close> is one entry of \<open>users\<close>: its slug, its address and the dictionary itself.
\<close>

record vm_rule =
  vr_node :: string
  vr_app :: string
  vr_resource :: string
  vr_target_role :: string
  vr_interface :: string
  vr_source :: string
  vr_destination :: string
  vr_protocol :: "string option"
  vr_ports :: "pyval list"
  vr_exclusive :: bool
  vr_comment :: string

type_synonym rules = "router_rule list \<times> vm_rule list"

record net_source =
  src_slug :: string
  src_ip :: string
  src_doc :: pydict

definition simple_source :: "string \<Rightarrow> string \<Rightarrow> net_source" where
  "simple_source name ip = \<lparr>src_slug = name, src_ip = ip,
     src_doc = [(''slug'', PStr name), (''vm_ipv4_address'', PStr ip)]\<rparr>"

definition user_source :: "app_user \<Rightarrow> net_source" where
  "user_source u = \<lparr>src_slug = slug u, src_ip = vm_ipv4_address u,
     src_doc = [(''slug'', PStr (slug u)), (''tailscale_login'', PStr (tailscale_login u)),
       (''system_user'', PStr (system_user u)), (''vm_ipv4_address'', PStr (vm_ipv4_address u))]
       @ (case storage_port u of None \<Rightarrow> [] | Some p \<Rightarrow> [(''storage_port'', p)])\<rparr>"

text \<open>\<open>app_users or app_vm_sources_for_box(...)\<close>.\<close>

definition network_sources :: "app_user list \<Rightarrow> app_vm_spec list \<Rightarrow> string \<Rightarrow> net_source list" where
  "network_sources users specs box =
    (if users \<noteq> [] then map user_source users
     else map (\<lambda>(name, ip). simple_source name ip) (app_vm_sources_for_box specs box))"

definition user_port_values :: "pydict \<Rightarrow> net_source \<Rightarrow> string \<Rightarrow> pyval list res" where
  "user_port_values resource user field =
    (let source_field = dget resource ''ports_from_user'' in
     if truthy source_field then
       (let value = dget (src_doc user) (py_str source_field) in
        bind (require (int_of value \<noteq> None)
          (field @ '' user field '' @ py_str source_field @ '' must be an integer port'')) (\<lambda>_.
        validate_ports (PList [value]) field))
     else validate_ports (resource_ports resource) field)"


section \<open>Network resources of one box\<close>

definition router_rule_for :: "string \<Rightarrow> string \<Rightarrow> pydict \<Rightarrow> string \<Rightarrow> string \<Rightarrow> string \<Rightarrow> string \<Rightarrow> string \<Rightarrow>
    pyval list \<Rightarrow> string \<Rightarrow> router_rule" where
  "router_rule_for app_name box resource incoming outgoing source destination protocol ports sfx =
    \<lparr>rr_node = box, rr_app = app_name, rr_resource = py_str (dget resource ''id''),
     rr_in_interface = incoming, rr_out_interface = outgoing, rr_source = source,
     rr_destination = destination, rr_protocol = protocol, rr_ports = ports,
     rr_exclusive = truthy (dget resource ''exclusive''),
     rr_comment = resource_comment app_name (py_str (dget resource ''id'')) sfx,
     rr_destination_exclusions = []\<rparr>"

definition vm_rule_for :: "string \<Rightarrow> string \<Rightarrow> pydict \<Rightarrow> pyval \<Rightarrow> string \<Rightarrow> pyval list \<Rightarrow> string \<Rightarrow>
    vm_rule res" where
  "vm_rule_for app_name box resource to_zone source ports sfx =
    bind (zone_str to_zone ''role'') (\<lambda>role.
    bind (zone_str to_zone ''vm_interface'') (\<lambda>iface.
    bind (zone_str to_zone ''vm_ipv4_address'') (\<lambda>destination.
    Inr \<lparr>vr_node = box, vr_app = app_name, vr_resource = py_str (dget resource ''id''),
         vr_target_role = role, vr_interface = iface, vr_source = source,
         vr_destination = destination, vr_protocol = None, vr_ports = ports,
         vr_exclusive = truthy (dget resource ''exclusive''),
         vr_comment = resource_comment app_name (py_str (dget resource ''id'')) sfx\<rparr>)))"

text \<open>The usr zone has no shared host any more: nothing may target it, and a source in it needs
  users or dedicated machines.\<close>

definition check_usr_zone :: "string \<Rightarrow> pydict \<Rightarrow> topology \<Rightarrow> net_source list \<Rightarrow> string \<Rightarrow> unit res" where
  "check_usr_zone app_name resource t users field =
    (if \<not> truthy (dget resource field) then Inr ()
     else bind (check_zone_field app_name resource field t) (\<lambda>zone_name.
       require (\<not> (zone_name = ''usr'' \<and> (field = ''to_zone'' \<or> users = [])))
         (res_field app_name resource (''.'' @ field
           @ '' cannot target the retired shared usr VM; declare a dedicated VM source''))))"

definition zone_of :: "string \<Rightarrow> pydict \<Rightarrow> string \<Rightarrow> topology \<Rightarrow> pyval res" where
  "zone_of app_name resource key t =
    bind (resolve_zone (dget resource key) (res_field app_name resource (''.'' @ key)) t)
      (\<lambda>(_, zone). Inr zone)"

definition sources_or_zone :: "net_source list \<Rightarrow> pyval \<Rightarrow> net_source list res" where
  "sources_or_zone users zone =
    (if users \<noteq> [] then Inr users
     else bind (zone_str zone ''vm_ipv4_address'') (\<lambda>ip. Inr [simple_source [] ip]))"

definition sfx_of :: "net_source \<Rightarrow> string \<Rightarrow> string" where
  "sfx_of user rest = (if src_slug user \<noteq> [] then src_slug user @ ''-'' @ rest else rest)"

definition concat_rules :: "rules list \<Rightarrow> rules" where
  "concat_rules rs = (concat (map fst rs), concat (map snd rs))"

definition compile_interzone :: "string \<Rightarrow> string \<Rightarrow> pydict \<Rightarrow> topology \<Rightarrow> net_source list \<Rightarrow> rules res" where
  "compile_interzone app_name box resource t users =
    bind (zone_of app_name resource ''from_zone'' t) (\<lambda>from_zone.
    bind (zone_of app_name resource ''to_zone'' t) (\<lambda>to_zone.
    bind (sources_or_zone users from_zone) (\<lambda>sources.
    bind (traverse (\<lambda>user.
        bind (user_port_values resource user (res_field app_name resource ''.ports'')) (\<lambda>ports.
        bind (zone_str from_zone ''router_interface'') (\<lambda>incoming.
        bind (zone_str to_zone ''router_interface'') (\<lambda>outgoing.
        bind (zone_str to_zone ''vm_ipv4_address'') (\<lambda>destination.
        bind (vm_rule_for app_name box resource to_zone (src_ip user) ports
                (sfx_of user ''vm-input'')) (\<lambda>vm.
        Inr ([router_rule_for app_name box resource incoming outgoing (src_ip user) destination
                ''tcp'' ports (sfx_of user ''router'')], [vm]))))))) sources) (\<lambda>rs.
    Inr (concat_rules rs)))))"

definition compile_realm_to_zone :: "string \<Rightarrow> string \<Rightarrow> pydict \<Rightarrow> topology \<Rightarrow> rules res" where
  "compile_realm_to_zone app_name box resource t =
    bind (resolve_realm (dget resource ''from_realm'') (res_field app_name resource ''.from_realm'') t True)
      (\<lambda>(_, from_realm).
    bind (zone_of app_name resource ''to_zone'' t) (\<lambda>to_zone.
    bind (validate_ports (resource_ports resource) (res_field app_name resource ''.ports'')) (\<lambda>ports.
    bind (zone_str from_realm ''router_interface'') (\<lambda>incoming.
    bind (zone_str to_zone ''router_interface'') (\<lambda>outgoing.
    bind (zone_str from_realm ''cidr'') (\<lambda>source.
    bind (zone_str to_zone ''vm_ipv4_address'') (\<lambda>destination.
    bind (vm_rule_for app_name box resource to_zone source ports ''vm-input'') (\<lambda>vm.
    Inr ([router_rule_for app_name box resource incoming outgoing source destination ''tcp'' ports
            ''router''], [vm])))))))))"

definition wan_interface :: "topology \<Rightarrow> string res" where
  "wan_interface t = bind (ditem (realms t) ''wan'') (\<lambda>wan. zone_str wan ''router_interface'')"

text \<open>The two protocols of an egress resource; one with no ports is skipped.\<close>

definition egress_rules :: "string \<Rightarrow> string \<Rightarrow> pydict \<Rightarrow> string \<Rightarrow> string \<Rightarrow> net_source list \<Rightarrow>
    router_rule list res" where
  "egress_rules app_name box resource incoming outgoing sources =
    bind (traverse (\<lambda>(protocol, key).
        if \<not> truthy (dget resource key) then Inr []
        else traverse (\<lambda>user.
            bind (validate_ports (dget resource key) (res_field app_name resource (''.'' @ key))) (\<lambda>ports.
            Inr (router_rule_for app_name box resource incoming outgoing (src_ip user) [] protocol ports
                   (sfx_of user protocol)))) sources)
      [(''tcp'', ''tcp_ports''), (''udp'', ''udp_ports'')]) (\<lambda>rs. Inr (concat rs))"

definition compile_wan_egress :: "string \<Rightarrow> string \<Rightarrow> pydict \<Rightarrow> topology \<Rightarrow> net_source list \<Rightarrow> rules res" where
  "compile_wan_egress app_name box resource t users =
    bind (zone_of app_name resource ''from_zone'' t) (\<lambda>from_zone.
    bind (wan_interface t) (\<lambda>outgoing.
    bind (sources_or_zone users from_zone) (\<lambda>sources.
    bind (zone_str from_zone ''router_interface'') (\<lambda>incoming.
    bind (egress_rules app_name box resource incoming outgoing sources) (\<lambda>rules.
    Inr (rules, []))))))"

definition device_of :: "string \<Rightarrow> pydict \<Rightarrow> (string \<times> managed_device) list \<Rightarrow> managed_device res" where
  "device_of app_name resource devices =
    (case Option.bind (str_of (dget resource ''device'')) (map_of devices) of
       Some d \<Rightarrow> Inr d
     | None \<Rightarrow> die (res_field app_name resource
           ('' references unknown device '' @ py_str (dget resource ''device''))))"

definition device_zone :: "string \<Rightarrow> pydict \<Rightarrow> managed_device \<Rightarrow> topology \<Rightarrow> pyval res" where
  "device_zone app_name resource device t =
    bind (resolve_zone (PStr (dev_zone device)) (res_field app_name resource ''.device.zone'') t)
      (\<lambda>(_, zone). Inr zone)"

definition compile_zone_to_device :: "string \<Rightarrow> string \<Rightarrow> pydict \<Rightarrow> topology \<Rightarrow> net_source list \<Rightarrow>
    (string \<times> managed_device) list \<Rightarrow> rules res" where
  "compile_zone_to_device app_name box resource t users devices =
    bind (zone_of app_name resource ''from_zone'' t) (\<lambda>from_zone.
    bind (device_of app_name resource devices) (\<lambda>device.
    bind (device_zone app_name resource device t) (\<lambda>to_zone.
    bind (validate_ports (resource_ports resource) (res_field app_name resource ''.ports'')) (\<lambda>ports.
    bind (sources_or_zone users from_zone) (\<lambda>sources.
    bind (zone_str from_zone ''router_interface'') (\<lambda>incoming.
    bind (zone_str to_zone ''router_interface'') (\<lambda>outgoing.
    Inr (map (\<lambda>user. router_rule_for app_name box resource incoming outgoing (src_ip user)
                (dev_ip device) ''tcp'' ports (sfx_of user ''router'')) sources, []))))))))"

definition compile_device_to_zone :: "string \<Rightarrow> string \<Rightarrow> pydict \<Rightarrow> topology \<Rightarrow>
    (string \<times> managed_device) list \<Rightarrow> rules res" where
  "compile_device_to_zone app_name box resource t devices =
    bind (device_of app_name resource devices) (\<lambda>device.
    bind (device_zone app_name resource device t) (\<lambda>from_zone.
    bind (zone_of app_name resource ''to_zone'' t) (\<lambda>to_zone.
    bind (validate_ports (resource_ports resource) (res_field app_name resource ''.ports'')) (\<lambda>ports.
    bind (zone_str from_zone ''router_interface'') (\<lambda>incoming.
    bind (zone_str to_zone ''router_interface'') (\<lambda>outgoing.
    bind (zone_str to_zone ''vm_ipv4_address'') (\<lambda>destination.
    bind (vm_rule_for app_name box resource to_zone (dev_ip device) ports ''vm-input'') (\<lambda>vm.
    Inr ([router_rule_for app_name box resource incoming outgoing (dev_ip device) destination ''tcp''
            ports ''router''], [vm])))))))))"

definition compile_device_wan_egress :: "string \<Rightarrow> string \<Rightarrow> pydict \<Rightarrow> topology \<Rightarrow>
    (string \<times> managed_device) list \<Rightarrow> rules res" where
  "compile_device_wan_egress app_name box resource t devices =
    bind (device_of app_name resource devices) (\<lambda>device.
    bind (device_zone app_name resource device t) (\<lambda>from_zone.
    bind (wan_interface t) (\<lambda>outgoing.
    bind (zone_str from_zone ''router_interface'') (\<lambda>incoming.
    bind (egress_rules app_name box resource incoming outgoing [simple_source [] (dev_ip device)]) (\<lambda>rules.
    Inr (rules, []))))))"

definition compile_resource_for_box :: "string \<Rightarrow> string \<Rightarrow> pydict \<Rightarrow> topology \<Rightarrow> net_source list \<Rightarrow>
    (string \<times> managed_device) list \<Rightarrow> rules res" where
  "compile_resource_for_box app_name box resource t users devices =
    bind (checks (map (check_usr_zone app_name resource t users) [''from_zone'', ''to_zone''])) (\<lambda>_.
    let ty = dget resource ''type'' in
    if ty = PStr ''interzone_tcp'' then compile_interzone app_name box resource t users
    else if ty = PStr ''realm_to_zone_tcp'' then compile_realm_to_zone app_name box resource t
    else if ty = PStr ''wan_egress'' then compile_wan_egress app_name box resource t users
    else if ty = PStr ''zone_to_device_tcp'' then compile_zone_to_device app_name box resource t users devices
    else if ty = PStr ''device_to_zone_tcp'' then compile_device_to_zone app_name box resource t devices
    else if ty = PStr ''device_wan_egress'' then compile_device_wan_egress app_name box resource t devices
    else if ty = PStr ''tailnet_tcp'' then Inr ([], [])
    else die (''unsupported network resource type for '' @ res_field app_name resource '': ''
      @ py_str ty))"


section \<open>Tailnet policy of the users\<close>

definition grants_of :: "pydict list \<Rightarrow> pydict list res" where
  "grants_of resources =
    bind (traverse (\<lambda>r. viter (py_or (dget r ''grants'') (PList []))) resources) (\<lambda>gs.
    traverse as_dict (concat gs))"

definition exact_login_ports :: "string \<Rightarrow> pydict list \<Rightarrow> (pyval list \<times> string list) res" where
  "exact_login_ports app_name grants =
    (let exact = filter (\<lambda>g. dget g ''src'' = PStr ''exact_user_login'') grants in
     if exact = [] then Inr ([], [])
     else bind (traverse (\<lambda>g. viter (py_or (py_or (dget g ''tcp_ports'') (dget g ''ports'')) (PList []))) exact) (\<lambda>tcp.
       bind (traverse (\<lambda>g. viter (py_or (dget g ''udp_ports'') (PList []))) exact) (\<lambda>udp.
       bind (validate_ports (PList (concat tcp)) (app_name @ ''.tailnet.tcp_ports'')) (\<lambda>tcp_ports.
       bind (if concat udp = [] then Inr []
             else validate_tailnet_port_selectors (PList (concat udp)) (app_name @ ''.tailnet.udp_ports'')) (\<lambda>udp_ports.
       Inr (tcp_ports, udp_ports))))))"

definition user_policy :: "string \<Rightarrow> string \<Rightarrow> string \<Rightarrow> pyval \<Rightarrow> pyval list \<Rightarrow> string list \<Rightarrow> app_user \<Rightarrow> pydict" where
  "user_policy app_name tag_prefix vm_prefix active_master tcp_ports udp_ports user =
    (let tag = ''tag:'' @ tag_prefix @ ''-'' @ slug user in
     [(''app'', PStr app_name), (''id'', PStr (''user-'' @ slug user)),
      (''hostname'', PStr (if truthy active_master
         then py_str active_master @ ''-'' @ vm_prefix @ ''-'' @ slug user else slug user)),
      (''tag'', PStr tag), (''tag_owner'', PStr ''tag:ops''), (''tag_owners'', strs [''tag:ops'']),
      (''grants'', PList [PDict
        [(''src'', PStr (tailscale_login user)), (''dst'', PStr tag), (''ports'', PList tcp_ports),
         (''udp_ports'', strs udp_ports),
         (''ip'', strs (map (\<lambda>p. ''tcp:'' @ py_str p) tcp_ports @ map (\<lambda>p. ''udp:'' @ p) udp_ports))]]),
      (''ssh'', PList [PDict
        [(''src'', PStr (tailscale_login user)), (''dst'', PStr tag),
         (''users'', strs [system_user user]), (''action'', PStr ''accept'')]])])"

definition compile_tailnet_policy_resources :: "string \<Rightarrow> pydict \<Rightarrow> app_user list \<Rightarrow> pydict \<Rightarrow> pydict list \<Rightarrow>
    pydict list res" where
  "compile_tailnet_policy_resources app_name manifest users placement selected_tailnet =
    bind (per_user_app_vm_resources manifest) (\<lambda>per_user.
    let tag_prefix = (case per_user of [] \<Rightarrow> PStr app_name
          | r # _ \<Rightarrow> dgetd r ''tailnet_tag_prefix'' (PStr app_name));
        vm_prefix = (case per_user of [] \<Rightarrow> PStr ''usr'' | r # _ \<Rightarrow> dgetd r ''vm_name_prefix'' (PStr ''usr'')) in
    bind (grants_of selected_tailnet) (\<lambda>grants.
    bind (exact_login_ports app_name grants) (\<lambda>(tcp_ports, udp_ports).
    Inr (map (user_policy app_name (py_str tag_prefix) (py_str vm_prefix)
           (dgetd placement ''active_master'' (PStr [])) tcp_ports udp_ports) users))))"

end
