(* ===== verification/Vpn_Egress.thy ===== *)
theory Vpn_Egress
  imports Routing_Profile Compiler_Network
begin

text \<open>
  The shared egress gateway: \<^verbatim>\<open>ansible/lib/platform_vpn_egress.py\<close>. \<open>compile_network\<close> gives each
  box with a \<open>vpn_egress\<close> section one gateway guest and its firewall rules; \<open>render_config\<close> is
  the configuration of the gateway's proxy.

  An address or an interface name that is no string is carried on by the source until a later
  operation fails on it; here it is a \<open>TypeError\<close> at the point where it is read.
\<close>

section \<open>Constants\<close>

definition RELAY_PORTS :: "int list" where
  "RELAY_PORTS = [443, 16616, 16617, 16618, 16622, 16626, 16632, 16641, 16644, 16645, 16648]"

definition RELAY_UDP_PORTS :: "int list" where
  "RELAY_UDP_PORTS = [1443]"

definition SUBSCRIPTION_PORTS :: "int list" where
  "SUBSCRIPTION_PORTS = [443, 5000]"

definition RELAY_TEST_URL :: string where
  "RELAY_TEST_URL = ''https://www.gstatic.com/generate_204''"

definition PRIVATE4 :: "string list" where
  "PRIVATE4 = [''0.0.0.0/8'', ''10.0.0.0/8'', ''100.64.0.0/10'', ''127.0.0.0/8'', ''169.254.0.0/16'',
     ''172.16.0.0/12'', ''192.168.0.0/16'', ''198.18.0.0/15'', ''224.0.0.0/4'', ''240.0.0.0/4'']"

definition PRIVATE6 :: "string list" where
  "PRIVATE6 = [''::/128'', ''::1/128'', ''::ffff:0:0/96'', ''fc00::/7'', ''fe80::/10'', ''ff00::/8'']"

definition SUBSCRIPTION_REF_RE :: rx where
  "SUBSCRIPTION_REF_RE = Seq (Cls [az]) (Rep (Cls [az, d09, one CHR ''-'']) 0 62)"

definition valid_subscription_ref :: "pyval \<Rightarrow> bool" where
  "valid_subscription_ref v = (case v of PStr s \<Rightarrow> fullmatch SUBSCRIPTION_REF_RE s | _ \<Rightarrow> False)"


section \<open>Clients\<close>

text \<open>\<open>s in v\<close> for a string \<open>s\<close>.\<close>

definition py_in :: "string \<Rightarrow> pyval \<Rightarrow> bool res" where
  "py_in s v =
    (case v of
       PList xs \<Rightarrow> Inr (PStr s \<in> set xs)
     | PDict d \<Rightarrow> Inr (dhas d s)
     | PStr t \<Rightarrow> Inr (contains s t)
     | _ \<Rightarrow> Inl TypeError)"

record vpn_client =
  vc_hostname :: string
  vc_role :: string
  vc_address :: string
  vc_interface :: string

definition client_roles :: "string list" where
  "client_roles = [''ops'', ''air'', ''bak'', ''dmz'', ''iot'']"

definition role_of :: "string \<Rightarrow> string \<Rightarrow> string option" where
  "role_of box name = map_of (map (\<lambda>role. (box @ ''-'' @ role, role)) client_roles) name"

text \<open>The zone and the allocation a client's address comes from.\<close>

definition client_zone :: "topology \<Rightarrow> string \<Rightarrow> (pyval option \<times> pyval) res" where
  "client_zone t role =
    (if role = ''ops'' then bind (ditem (control_zones t) ''ops'') (\<lambda>z. Inr (None, z))
     else if role = ''air'' then
       bind (zone_str (air t) ''zone'') (\<lambda>name. bind (ditem (zones t) name) (\<lambda>z. Inr (Some (air t), z)))
     else bind (ditem (zones t) role) (\<lambda>z. Inr (None, z)))"

definition make_client :: "topology \<Rightarrow> string \<Rightarrow> string \<Rightarrow> vpn_client res" where
  "make_client t name role =
    bind (client_zone t role) (\<lambda>(allocation, zone).
    bind (case allocation of Some a \<Rightarrow> zone_str a ''ipv4_address'' | None \<Rightarrow> zone_str zone ''vm_ipv4_address'') (\<lambda>address.
    bind (zone_str zone ''router_interface'') (\<lambda>interface.
    Inr \<lparr>vc_hostname = name, vc_role = role, vc_address = address, vc_interface = interface\<rparr>)))"

definition add_client :: "string \<Rightarrow> topology \<Rightarrow> vpn_client list \<Rightarrow> pyval \<Rightarrow> vpn_client list res" where
  "add_client box t acc v =
    (case v of
       PStr name \<Rightarrow>
         bind (expect (name \<notin> set (map vc_hostname acc)) ''VPN clients must be unique VM names'') (\<lambda>_.
         case role_of box name of
           None \<Rightarrow> value_error ''VPN client must be a supported same-box VM''
         | Some role \<Rightarrow> bind (make_client t name role) (\<lambda>c. Inr (acc @ [c])))
     | _ \<Rightarrow> value_error ''VPN clients must be unique VM names'')"

definition vpn_enabled :: "pydict \<Rightarrow> bool res" where
  "vpn_enabled config =
    bind (vgetd (dgetd config ''access'' (PDict [])) ''enabled_capabilities'' (PList [])) (py_in ''vpn-egress'')"

definition clients :: "string \<Rightarrow> pydict \<Rightarrow> topology \<Rightarrow> vpn_client list res" where
  "clients box config t =
    (let value = dget config ''vpn_egress'' in
    bind (vpn_enabled config) (\<lambda>enabled.
    bind (expect (value = PNone \<or> enabled) ''vpn-egress capability and clients must be declared together'') (\<lambda>_.
    if value = PNone then Inr []
    else case value of
      PDict d \<Rightarrow>
        (case dget d ''clients'' of
           PList names \<Rightarrow>
             bind (expect (set (dkeys d) \<subseteq> {''clients'', ''subscription_ref''}) ''vpn-egress requires a clients list'') (\<lambda>_.
             bind (expect (valid_subscription_ref (dgetd d ''subscription_ref'' (PStr ''openclaw-vpn'')))
                     ''invalid VPN subscription secret reference'') (\<lambda>_.
             fold_res (add_client box t) [] names))
         | _ \<Rightarrow> value_error ''vpn-egress requires a clients list'')
    | _ \<Rightarrow> value_error ''vpn-egress requires a clients list'')))"


section \<open>Gateways and their rules\<close>

definition gateway_name :: "string \<Rightarrow> string" where
  "gateway_name box = box @ ''-vpn-egress''"

definition gateway_guest :: "string \<Rightarrow> pyval \<Rightarrow> string \<Rightarrow> string \<Rightarrow> pydict res" where
  "gateway_guest box allocation zone_name address =
    bind (vitem allocation ''memory_mb'') (\<lambda>memory.
    bind (vitem allocation ''vcpus'') (\<lambda>vcpus.
    Inr [(''node'', PStr box), (''app'', PStr ''platform''), (''resource'', PStr ''vpn-egress''),
      (''hostname'', PStr (gateway_name box)), (''tailnet_hostname'', PStr (gateway_name box)),
      (''inventory_hostname'', PStr (gateway_name box)), (''guest_name'', PStr ''vpn-egress''),
      (''user_slug'', PStr []), (''tailscale_login'', PStr ''neo''), (''site_role'', PStr ''active''),
      (''runtime_state'', PStr ''running''), (''zone'', PStr zone_name),
      (''vm_ipv4_address'', PStr address), (''memory_mb'', memory), (''vcpus'', vcpus),
      (''autostart'', PBool True), (''expected_tags'', strs [''tag:vm'', ''tag:vpn-egress'']),
      (''tailnet_tag'', PStr ''tag:vpn-egress'')]))"

definition gateway_rule :: "string \<Rightarrow> string \<Rightarrow> string \<Rightarrow> string \<Rightarrow> string \<Rightarrow> string \<Rightarrow> string \<Rightarrow> pyval list \<Rightarrow>
    router_rule" where
  "gateway_rule box resource incoming outgoing source destination protocol ports =
    \<lparr>rr_node = box, rr_app = ''platform'', rr_resource = ''vpn-egress-'' @ resource,
     rr_in_interface = incoming, rr_out_interface = outgoing, rr_source = source,
     rr_destination = destination, rr_protocol = protocol, rr_ports = ports,
     rr_exclusive = True, rr_comment = ''platform-vpn-egress-'' @ resource,
     rr_destination_exclusions = []\<rparr>"

text \<open>The resolvers of a box: those of the routing profile installed on it, if one is known.\<close>

definition box_resolvers :: "pydict \<Rightarrow> string \<Rightarrow> pydict \<Rightarrow> string list res" where
  "box_resolvers installed_profiles box config =
    bind (case map_of installed_profiles box of
        Some p \<Rightarrow> bind (validate_profile p) (\<lambda>profile. viter (dget profile ''bootstrap-dns''))
      | None \<Rightarrow> bootstrap_dns config) (traverse as_str)"

definition client_rules :: "string \<Rightarrow> string \<Rightarrow> string \<Rightarrow> pyval \<Rightarrow> vpn_client \<Rightarrow> router_rule list res" where
  "client_rules box iface address allocation c =
    (if vc_role c = ''ops'' \<or> vc_interface c = iface then Inr []
     else bind (vitem allocation ''port'') (\<lambda>port.
       Inr (gateway_rule box (''client-'' @ vc_role c) (vc_interface c) iface (vc_address c) address ''tcp'' [port]
         # map (\<lambda>protocol. gateway_rule box (''client-dns-'' @ vc_role c) (vc_interface c) iface
                (vc_address c) address protocol [PInt 53]) [''tcp'', ''udp''])))"

definition egress_rules_of :: "string \<Rightarrow> string \<Rightarrow> string \<Rightarrow> string \<Rightarrow> string list \<Rightarrow> router_rule list" where
  "egress_rules_of box iface wan address resolvers =
    (let out = (\<lambda>resource destination protocol ports.
          gateway_rule box resource iface wan address destination protocol (map PInt ports)) in
     [out ''relay'' [] ''tcp'' RELAY_PORTS,
      out ''subscription'' [] ''tcp'' (filter (\<lambda>p. p \<notin> set RELAY_PORTS) SUBSCRIPTION_PORTS),
      out ''http'' [] ''tcp'' [80],
      out ''relay-quic'' [] ''udp'' RELAY_UDP_PORTS]
     @ concat (map (\<lambda>protocol. map (\<lambda>resolver. out ''dns'' resolver protocol [53]) resolvers) [''tcp'', ''udp''])
     @ [out ''tailscale'' [] ''udp'' [3478, 41641]])"

definition bootstrap_ssh_rule :: "string \<Rightarrow> topology \<Rightarrow> string \<Rightarrow> string \<Rightarrow> router_rule res" where
  "bootstrap_ssh_rule box t iface address =
    bind (ditem (zones t) ''bak'') (\<lambda>bak.
    bind (zone_str bak ''router_interface'') (\<lambda>incoming.
    bind (zone_str bak ''dom0_ipv4_address'') (\<lambda>source.
    Inr (gateway_rule box ''bootstrap'' incoming iface source address ''tcp'' [PInt 22]))))"

definition bootstrap_rules :: "string list \<Rightarrow> string \<Rightarrow> topology \<Rightarrow> string \<Rightarrow> string \<Rightarrow> router_rule list res" where
  "bootstrap_rules bootstrap_boxes box t iface address =
    (if box \<in> set bootstrap_boxes
     then bind (bootstrap_ssh_rule box t iface address) (\<lambda>r. Inr [r]) else Inr [])"

text \<open>One box: nothing, or its guest and its rules.\<close>

definition check_air_client :: "pydict \<Rightarrow> vpn_client \<Rightarrow> unit res" where
  "check_air_client registry c =
    (if vc_role c \<noteq> ''air'' then Inr ()
     else bind (py_in (vc_hostname c) (dgetd registry ''airunners'' (PList []))) (\<lambda>declared.
       expect declared ''VPN client air VM must be declared''))"

definition box_gateway :: "pydict \<Rightarrow> topology \<Rightarrow> string list \<Rightarrow> pydict \<Rightarrow> string \<Rightarrow> pyval \<Rightarrow> string \<Rightarrow>
    string \<times> pyval \<Rightarrow> (pydict \<times> router_rule list) option res" where
  "box_gateway registry t bootstrap_boxes installed_profiles zone_name zone address = (\<lambda>(box, cv).
    bind (as_dict cv) (\<lambda>config.
    bind (clients box config t) (\<lambda>selected.
    if \<not> dhas config ''vpn_egress'' then Inr None
    else
      bind (checks (map (check_air_client registry) selected)) (\<lambda>_.
      bind (gateway_guest box (vpn_egress t) zone_name address) (\<lambda>guest.
      bind (wan_interface t) (\<lambda>wan.
      bind (zone_str zone ''router_interface'') (\<lambda>iface.
      bind (box_resolvers installed_profiles box config) (\<lambda>resolvers.
      bind (traverse (client_rules box iface address (vpn_egress t)) selected) (\<lambda>for_clients.
      bind (bootstrap_rules bootstrap_boxes box t iface address) (\<lambda>bootstrap.
      Inr (Some (guest, egress_rules_of box iface wan address resolvers @ concat for_clients @ bootstrap))))))))))))"

definition guest_node :: "pydict \<Rightarrow> string" where
  "guest_node g = py_str (dget g ''node'')"

definition gateways_of :: "'a option list \<Rightarrow> 'a list" where
  "gateways_of found = concat (map (\<lambda>g. case g of None \<Rightarrow> [] | Some x \<Rightarrow> [x]) found)"

definition compile_network :: "pydict \<Rightarrow> pydict \<Rightarrow> topology \<Rightarrow> string list \<Rightarrow> pydict \<Rightarrow>
    (pydict list \<times> router_rule list \<times> vm_rule list) res" where
  "compile_network registry configs t bootstrap_boxes installed_profiles =
    bind (zone_str (vpn_egress t) ''zone'') (\<lambda>zone_name.
    bind (ditem (zones t) zone_name) (\<lambda>zone.
    bind (zone_str (vpn_egress t) ''ipv4_address'') (\<lambda>address.
    bind (vgetd zone ''reserved_ipv4_addresses'' (PList [])) (\<lambda>reserved.
    bind (py_in address reserved) (\<lambda>is_reserved.
    bind (expect is_reserved ''VPN egress address must be reserved'') (\<lambda>_.
    bind (traverse (box_gateway registry t bootstrap_boxes installed_profiles zone_name zone address)
            (sort_key fst configs)) (\<lambda>found.
    let gateways = gateways_of found in
    bind (expect (set bootstrap_boxes \<subseteq> set (map (\<lambda>g. guest_node (fst g)) gateways))
            ''VPN bootstrap requires a declared gateway'') (\<lambda>_.
    Inr (map fst gateways, concat (map snd gateways), [])))))))))"


section \<open>The proxy configuration\<close>

definition routing_rules :: "pyval \<Rightarrow> string list res" where
  "routing_rules profile =
    bind (validate_profile profile) (\<lambda>p.
    Inr (map (\<lambda>domain. ''DOMAIN-SUFFIX,'' @ domain @ '',REJECT'')
           [''localhost'', ''local'', ''lan'', ''ts.net'', ''tailscale.com'']
         @ map (\<lambda>network. ''IP-CIDR,'' @ network @ '',REJECT'') PRIVATE4
         @ map (\<lambda>network. ''IP-CIDR6,'' @ network @ '',REJECT'') PRIVATE6
         @ (if dget p ''domain-list-url'' \<noteq> PNone then [''RULE-SET,selected,VPN''] else [])
         @ [''MATCH,DIRECT'']))"

definition relay_health_check :: pydict where
  "relay_health_check =
    [(''enable'', PBool False), (''interval'', PInt 0), (''url'', PStr RELAY_TEST_URL),
     (''timeout'', PInt 5000), (''expected-status'', PStr ''204'')]"

definition relay_group :: pydict where
  "relay_group =
    [(''name'', PStr ''VPN''), (''type'', PStr ''url-test''), (''use'', strs [''relays'']),
     (''interval'', PInt 0), (''url'', PStr RELAY_TEST_URL), (''expected-status'', PStr ''204''),
     (''max-failed-times'', PInt 2), (''timeout'', PInt 60000), (''tolerance'', PInt 0),
     (''disable-udp'', PBool True)]"

definition RELAY_EXCLUDED_TYPES :: string where
  "RELAY_EXCLUDED_TYPES =
    ''ssr|socks5|http|snell|hysteria|wireguard|tuic|gost-relay|''
    @ ''direct|dns|reject|ssh|mieru|anytls|sudoku|masque|trusttunnel|openvpn|tailscale''"

text \<open>The source's pattern for the region's own script and flag is written in its UTF-8 bytes: it is the only
  text of the program with characters above 255, and nothing but the proxy reads it.\<close>

definition RELAY_EXCLUDED_NAMES :: string where
  "RELAY_EXCLUDED_NAMES =
    ''(?i)^(DIRECT|REJECT|VPN|COMPATIBLE|GLOBAL)$|hong['' @ [CHR 0x5C] @ ''s_-]*kong|''
    @ [CHR 0xE9, CHR 0xA6, CHR 0x99, CHR 0xE6, CHR 0xB8, CHR 0xAF] @ ''|''
    @ [CHR 0xF0, CHR 0x9F, CHR 0x87, CHR 0xAD, CHR 0xF0, CHR 0x9F, CHR 0x87, CHR 0xB0]
    @ ''|(^|[^a-z])hk([^a-z]|$)''"

text \<open>Without its port and user information, the URL must be a public HTTPS URL.\<close>

definition valid_subscription_url :: "pyval \<Rightarrow> bool" where
  "valid_subscription_url v =
    (case v of
       PStr s \<Rightarrow>
         (case urlsplit s of
            None \<Rightarrow> False
          | Some u \<Rightarrow>
              (case url_port u of
                 None \<Rightarrow> False
               | Some p \<Rightarrow> p = None \<or> p \<in> Some ` nat ` set SUBSCRIPTION_PORTS) \<and>
              username u = None \<and> password u = None \<and>
              public_https (PStr (geturl (u\<lparr>u_netloc := (case hostname u of Some h \<Rightarrow> h | None \<Rightarrow> [])\<rparr>))))
     | _ \<Rightarrow> False)"

definition relay_provider :: "pyval \<Rightarrow> pydict res" where
  "relay_provider url =
    bind (expect (valid_subscription_url url)
      ''VPN subscription requires a public HTTPS URL on a Platform subscription port'') (\<lambda>_.
    Inr [(''type'', PStr ''http''), (''url'', url),
      (''path'', PStr (''./proxies/'' @ sha256_hex (py_str url) @ ''.yaml'')),
      (''interval'', PInt 86400), (''proxy'', PStr ''DIRECT''), (''size-limit'', PInt size_limit),
      (''header'', PDict [(''User-Agent'', strs [''clash.meta''])]),
      (''exclude-type'', PStr RELAY_EXCLUDED_TYPES), (''exclude-filter'', PStr RELAY_EXCLUDED_NAMES),
      (''override'', PDict [(''udp'', PBool False), (''dialer-proxy'', PStr []),
         (''interface-name'', PStr []), (''routing-mark'', PInt 0)]),
      (''payload'', PList [PDict [(''name'', PStr ''SUBSCRIPTION-UNAVAILABLE''), (''type'', PStr ''ss''),
         (''server'', PStr ''127.0.0.1''), (''port'', PInt 1), (''cipher'', PStr ''aes-128-gcm''),
         (''password'', PStr ''unavailable''), (''udp'', PBool False)]]),
      (''health-check'', PDict relay_health_check)])"

definition with_vpn :: "pyval \<Rightarrow> pyval" where
  "with_vpn v = PStr (py_str v @ vpn_suffix)"

definition allowed_clients :: "string \<Rightarrow> string list \<Rightarrow> bool \<Rightarrow> string list" where
  "allowed_clients address client_addresses controller_tunnel =
    (let listed = map (\<lambda>a. a @ ''/32'') client_addresses
           @ (if controller_tunnel then [address @ ''/32''] else [])
     in if listed \<noteq> [] then listed else [''192.0.2.1/32''])"

definition subscription_host :: "pyval \<Rightarrow> string" where
  "subscription_host url = (case Option.bind (str_of url) urlsplit of
     Some u \<Rightarrow> (case hostname u of Some h \<Rightarrow> h | None \<Rightarrow> []) | None \<Rightarrow> [])"

definition render_config :: "pyval \<Rightarrow> string \<Rightarrow> string list \<Rightarrow> pyval \<Rightarrow> pyval \<Rightarrow> bool \<Rightarrow> pydict res" where
  "render_config subscription_url address client_addresses secret profile controller_tunnel =
    bind (relay_provider subscription_url) (\<lambda>provider.
    bind (expect (case secret of PStr s \<Rightarrow> 24 \<le> length s | _ \<Rightarrow> False) ''controller secret is too short'') (\<lambda>_.
    bind (validate_profile profile) (\<lambda>p.
    let resolvers = dget p ''bootstrap-dns'' in
    bind (viter (dget p ''vpn-dns'')) (\<lambda>endpoints.
    bind (providers (PDict p)) (\<lambda>rule_providers.
    bind (routing_rules (PDict p)) (\<lambda>rules.
    Inr [(''mixed-port'', PInt 7890), (''allow-lan'', PBool True), (''bind-address'', PStr address),
      (''lan-allowed-ips'', strs (allowed_clients address client_addresses controller_tunnel)),
      (''mode'', PStr ''rule''), (''ipv6'', PBool False), (''log-level'', PStr ''warning''),
      (''find-process-mode'', PStr ''off''), (''external-controller'', PStr ''127.0.0.1:19090''),
      (''secret'', secret), (''tun'', PDict [(''enable'', PBool False)]),
      (''profile'', PDict [(''store-selected'', PBool False)]),
      (''dns'', PDict [(''enable'', PBool True), (''ipv6'', PBool False),
         (''enhanced-mode'', PStr ''redir-host''), (''listen'', PStr (address @ '':1053'')),
         (''use-system-hosts'', PBool False), (''default-nameserver'', resolvers),
         (''nameserver'', PList (map with_vpn endpoints)),
         (''proxy-server-nameserver'', resolvers),
         (''nameserver-policy'', PDict [(subscription_host subscription_url, resolvers)])]),
      (''proxy-providers'', PDict [(''relays'', PDict provider)]),
      (''proxy-groups'', PList [PDict relay_group]),
      (''rule-providers'', PDict rule_providers), (''rules'', strs rules)]))))))"

end
