(* ===== verification/Lan_Print.thy ===== *)
theory Lan_Print
  imports Vpn_Egress
begin

text \<open>
  Printing from the residential LAN: \<^verbatim>\<open>ansible/lib/platform_lan_print.py\<close>. \<open>compile_service\<close>
  gives the dedicated print machine of a box one router rule and one guest rule; \<open>router_files\<close>
  writes the router's files for a box, which say that printing is disabled where it has no service.
\<close>

record lan_service =
  ls_node :: string
  ls_app :: string
  ls_hostname :: string
  ls_queue :: string
  ls_subnet :: string
  ls_interface :: string
  ls_backend :: string
  ls_port :: int

text \<open>\<open>ipaddress.ip_network(v)\<close>, which refuses host bits, and \<open>str(network)\<close>.\<close>

definition strict_network :: "pyval \<Rightarrow> ipnet res" where
  "strict_network v =
    (case Option.bind (str_of v) (ip_network True) of
       Some n \<Rightarrow> Inr n | None \<Rightarrow> value_error (py_str v))"

definition net_str :: "ipnet \<Rightarrow> string" where
  "net_str n = ipv4_str (net_address n) @ ''/'' @ nat_str (net_prefix n)"

definition declared_subnet :: "pydict \<Rightarrow> ipnet res" where
  "declared_subnet config =
    bind (vgetd (dgetd config ''rg_lan'' (PDict [])) ''ipv4_cidr'' (PStr [])) (\<lambda>cidr.
    bind (strict_network cidr) (\<lambda>subnet.
    bind (expect (net_version subnet = 4 \<and> is_private_net4 subnet \<and> 16 \<le> net_prefix subnet \<and> net_prefix subnet \<le> 30)
            ''LAN printing requires a declared private RG LAN IPv4 subnet'') (\<lambda>_.
    Inr subnet)))"

definition check_overlap :: "ipnet \<Rightarrow> pyval \<Rightarrow> unit res" where
  "check_overlap subnet zone =
    bind (vitem zone ''cidr'') (\<lambda>cidr.
    bind (strict_network cidr) (\<lambda>n.
    expect (\<not> overlaps subnet n) ''RG LAN subnet overlaps a Platform workload zone''))"

definition lan_router_rule :: "string \<Rightarrow> string \<Rightarrow> string \<Rightarrow> string \<Rightarrow> string \<Rightarrow> router_rule" where
  "lan_router_rule box subnet address incoming outgoing =
    \<lparr>rr_node = box, rr_app = ''print-server'', rr_resource = ''lan-printing'',
     rr_in_interface = incoming, rr_out_interface = outgoing, rr_source = subnet,
     rr_destination = address, rr_protocol = [], rr_ports = [PInt 631], rr_exclusive = False,
     rr_comment = ''print-server-lan-printing'', rr_destination_exclusions = []\<rparr>"

definition lan_vm_rule :: "string \<Rightarrow> string \<Rightarrow> string \<Rightarrow> string \<Rightarrow> string \<Rightarrow> vm_rule" where
  "lan_vm_rule box subnet address role iface =
    \<lparr>vr_node = box, vr_app = ''print-server'', vr_resource = ''lan-printing'', vr_target_role = role,
     vr_interface = iface, vr_source = subnet, vr_destination = address, vr_protocol = None,
     vr_ports = [PInt 631], vr_exclusive = False, vr_comment = ''print-server-lan-printing''\<rparr>"

definition compile_service :: "string \<Rightarrow> pydict \<Rightarrow> topology \<Rightarrow> app_vm_spec \<Rightarrow>
    (lan_service \<times> router_rule \<times> vm_rule) res" where
  "compile_service box config t appliance =
    bind (declared_subnet config) (\<lambda>subnet.
    bind (checks (map (\<lambda>(_, zone). check_overlap subnet zone) (zones t @ control_zones t))) (\<lambda>_.
    bind (ditem (zones t) ''bak'') (\<lambda>backend.
    bind (expect (vs_zone appliance = ''bak'' \<and> vs_app appliance = ''print-server'')
            ''LAN printing requires the dedicated backend print appliance'') (\<lambda>_.
    bind (wan_interface t) (\<lambda>interface.
    bind (zone_str backend ''router_interface'') (\<lambda>outgoing.
    bind (zone_str backend ''role'') (\<lambda>role.
    bind (zone_str backend ''vm_interface'') (\<lambda>vm_interface.
    Inr (\<lparr>ls_node = box, ls_app = ''print-server'', ls_hostname = vs_node_hostname appliance,
          ls_queue = ''epson'', ls_subnet = net_str subnet, ls_interface = interface,
          ls_backend = vs_ip appliance, ls_port = 631\<rparr>,
        lan_router_rule box (net_str subnet) (vs_ip appliance) interface outgoing,
        lan_vm_rule box (net_str subnet) (vs_ip appliance) role vm_interface)))))))))"


section \<open>Router files\<close>

definition INPUT_PATH :: string where
  "INPUT_PATH = ''etc/klokast/app-resources/lan-print-input.nft''"

definition NAT_PATH :: string where
  "NAT_PATH = ''etc/klokast/app-resources/lan-print-nat.nft''"

definition CONFIG_PATH :: string where
  "CONFIG_PATH = ''etc/avahi/avahi-daemon.conf''"

definition SERVICE_PATH :: string where
  "SERVICE_PATH = ''etc/avahi/services/klokast-printer.service''"

definition text_lines :: "string list \<Rightarrow> string" where
  "text_lines ls = concat (map (\<lambda>l. l @ newline) ls)"

definition dq :: "string \<Rightarrow> string" where
  "dq s = [CHR 0x22] @ s @ [CHR 0x22]"

definition input_file :: "lan_service \<Rightarrow> string" where
  "input_file s = text_lines [''iifname '' @ dq (ls_interface s) @ '' ip saddr '' @ ls_subnet s
     @ '' udp dport 5353 ip ttl 255 accept comment '' @ dq ''klokast-lan-print-mdns'']"

definition nat_file :: "lan_service \<Rightarrow> string" where
  "nat_file s = text_lines [''chain lan_print_prerouting {'',
     '' type nat hook prerouting priority dstnat; policy accept;'',
     '' iifname '' @ dq (ls_interface s) @ '' ip saddr '' @ ls_subnet s @ '' fib daddr type local tcp dport 631 dnat to ''
       @ ls_backend s @ '':'' @ int_str (ls_port s) @ '' comment '' @ dq ''klokast-lan-print-ipp'',
     ''}'']"

definition avahi_config :: "lan_service \<Rightarrow> string" where
  "avahi_config s = text_lines [''[server]'', ''host-name='' @ ls_hostname s, ''use-ipv4=yes'', ''use-ipv6=no'',
     ''allow-interfaces='' @ ls_interface s, ''enable-dbus=no'', ''allow-point-to-point=no'', ''[publish]'',
     ''publish-addresses=yes'', ''publish-hinfo=no'', ''publish-workstation=no'', ''publish-domain=no'',
     ''[wide-area]'', ''enable-wide-area=no'', ''[reflector]'', ''enable-reflector=no'']"

definition txt_record :: "string \<Rightarrow> string" where
  "txt_record v = ''<txt-record>'' @ v @ ''</txt-record>''"

definition avahi_service :: "string \<Rightarrow> lan_service \<Rightarrow> string" where
  "avahi_service box s = text_lines [
     ''<?xml version='' @ dq ''1.0'' @ '' standalone='' @ dq ''no'' @ ''?>'',
     ''<!DOCTYPE service-group SYSTEM '' @ dq ''avahi-service.dtd'' @ ''>'',
     ''<service-group>'',
     '' <name>Epson XP-55 ('' @ box @ '')</name>'',
     '' <service protocol='' @ dq ''ipv4'' @ ''>'',
     ''  <type>_ipp._tcp</type><subtype>_universal._sub._ipp._tcp</subtype><port>631</port>'',
     ''  '' @ txt_record ''txtvers=1'' @ txt_record ''qtotal=1'',
     ''  '' @ txt_record (''rp=printers/'' @ ls_queue s) @ txt_record ''ty=Epson XP-55 Series'',
     ''  '' @ txt_record ''pdl=application/pdf,image/urf'',
     ''  '' @ txt_record ''URF=V1.4,CP1,W8,PQ3-4-5,SRGB24,RS360,DM1,FN3'',
     '' </service>'',
     ''</service-group>'']"

definition router_files :: "lan_service list \<Rightarrow> string \<Rightarrow> (string \<times> string) list res" where
  "router_files lan_print_services box =
    (case filter (\<lambda>s. ls_node s = box) lan_print_services of
       [] \<Rightarrow> Inr [(INPUT_PATH, text_lines [''# LAN print discovery disabled.'']),
                  (NAT_PATH, text_lines [''# LAN print forwarding disabled.''])]
     | [s] \<Rightarrow> Inr [(INPUT_PATH, input_file s), (NAT_PATH, nat_file s),
                    (CONFIG_PATH, avahi_config s), (SERVICE_PATH, avahi_service box s)]
     | _ \<Rightarrow> value_error ''only one LAN print service per box is supported'')"


section \<open>Facts\<close>

subsection \<open>IPv4 networks as ranges\<close>

definition wf_net4 :: "ipnet \<Rightarrow> bool" where
  "wf_net4 n \<longleftrightarrow> net_version n = 4 \<and> net_prefix n \<le> 32 \<and> 0 \<le> net_address n \<and> net_address n < 2 ^ 32 \<and>
    net_address n AND netmask 32 (net_prefix n) = net_address n"

lemma find_SomeD: "find P xs = Some x \<Longrightarrow> x \<in> set xs \<and> P x"
  by (auto simp: find_Some_iff)

lemma parse_mask4_bound: "parse_mask4 m = Some p \<Longrightarrow> p \<le> 32"
  by (auto simp: parse_mask4_def parse_prefix_def split: option.splits if_splits dest!: find_SomeD)

lemma make_net4_wf:
  assumes "make_net True 4 a p = Some n" "parse_ipv4 s = Some a" "p \<le> 32"
  shows "wf_net4 n"
  using assms parse_ipv4_bounds [OF assms(2)]
  by (auto simp: make_net_def Let_def wf_net4_def ip_width_def split: if_splits)

lemma ip_network4_wf:
  assumes "ip_network True s = Some n" "net_version n = 4"
  shows "wf_net4 n"
proof -
  have "ipv6_network True s \<noteq> Some n"
    using assms(2) by (auto simp: ipv6_network_def make_net_def Let_def bind_eq_Some_conv split: list.splits if_splits)
  with assms(1) have "ipv4_network True s = Some n" by (auto simp: ip_network_def split: option.splits)
  then show ?thesis
    by (auto simp: ipv4_network_def bind_eq_Some_conv split: list.splits intro: make_net4_wf dest: parse_mask4_bound)
qed

text \<open>An address lies in a network when it agrees with it on the bits of the prefix.\<close>

lemma masked_iff:
  assumes "wf_net4 n" "0 \<le> x" "x < 2 ^ 32"
  shows "x AND netmask 32 (net_prefix n) = net_address n \<longleftrightarrow>
    x div 2 ^ (32 - net_prefix n) = net_address n div 2 ^ (32 - net_prefix n)"
proof -
  from assms(1) have n: "net_prefix n \<le> 32" "0 \<le> net_address n" "net_address n < 2 ^ 32"
    "net_address n AND netmask 32 (net_prefix n) = net_address n" by (simp_all add: wf_net4_def)
  have "net_address n = net_address n div 2 ^ (32 - net_prefix n) * 2 ^ (32 - net_prefix n)"
    using masked_eq [OF n(2,3,1)] n(4) by simp
  moreover have "(2::int) ^ (32 - net_prefix n) \<noteq> 0" by simp
  ultimately show ?thesis
    unfolding masked_eq [OF assms(2,3) n(1)] by (metis nonzero_mult_div_cancel_right)
qed

lemma div_agree:
  assumes "(x::int) div 2 ^ k = y div 2 ^ k" "k \<le> l"
  shows "x div 2 ^ l = y div 2 ^ l"
proof -
  have "z div 2 ^ l = z div 2 ^ k div 2 ^ (l - k)" for z :: int
    using assms(2) by (simp flip: zdiv_zmult2_eq power_add)
  with assms(1) show ?thesis by simp
qed

text \<open>Two networks that share an address overlap: the one with the longer prefix starts inside the other.\<close>

lemma shared_address_overlaps:
  assumes "wf_net4 a" "wf_net4 b" "in_net (V4 x) a" "in_net (V4 x) b" "0 \<le> x" "x < 2 ^ 32"
  shows "overlaps a b"
proof -
  let ?k = "\<lambda>n. 32 - net_prefix n"
  from assms have x: "x div 2 ^ ?k a = net_address a div 2 ^ ?k a" "x div 2 ^ ?k b = net_address b div 2 ^ ?k b"
    using masked_iff [OF assms(1,5,6)] masked_iff [OF assms(2,5,6)]
    by (simp_all add: in_net_def wf_net4_def ip_width_def)
  have starts: "net_contains n (net_address m) (net_version m)"
    if "wf_net4 m" "wf_net4 n" "?k m \<le> ?k n" "x div 2 ^ ?k m = net_address m div 2 ^ ?k m"
      "x div 2 ^ ?k n = net_address n div 2 ^ ?k n" for m n
  proof -
    from div_agree [OF that(4,3)] that(5) have "net_address m div 2 ^ ?k n = net_address n div 2 ^ ?k n" by simp
    with that(1,2) masked_iff [OF that(2), of "net_address m"] show ?thesis
      by (simp add: net_contains_def wf_net4_def ip_width_def)
  qed
  consider "?k a \<le> ?k b" | "?k b \<le> ?k a" by linarith
  then show ?thesis
    by cases (use starts [of a b] starts [of b a] assms(1,2) x in \<open>auto simp: overlaps_def\<close>)
qed

lemma disjoint_networks:
  assumes "strict_network v = Inr a" "strict_network w = Inr b" "net_version a = 4" "\<not> overlaps a b"
    and "in_net (V4 x) a" "0 \<le> x" "x < 2 ^ 32"
  shows "\<not> in_net (V4 x) b"
proof
  assume b: "in_net (V4 x) b"
  then have "net_version b = 4" by (simp add: in_net_def)
  with assms(1-3) have "wf_net4 a" "wf_net4 b"
    by (auto simp: strict_network_def value_error_def split: option.splits
        simp: bind_eq_Some_conv intro: ip_network4_wf)
  with shared_address_overlaps [OF _ _ assms(5) b assms(6,7)] assms(4) show False by blast
qed


subsection \<open>Services\<close>

lemma checks_map: "checks (map f xs) = Inr u \<longleftrightarrow> (\<forall>x\<in>set xs. f x = Inr ())"
  by (simp add: checks_eq_Inr)

lemma compile_service_subnet:
  assumes "compile_service box config t spec = Inr (s, r, v)"
  obtains subnet where "declared_subnet config = Inr subnet" "ls_subnet s = net_str subnet"
    "rr_source r = net_str subnet" "rr_destination r = vs_ip spec" "vs_app spec = ''print-server''"
    "\<forall>z\<in>set (zones t @ control_zones t). check_overlap subnet (snd z) = Inr ()"
  using assms
  unfolding compile_service_def bind_eq_Inr checks_map expect_eq_Inr split_beta
  by (elim exE conjE) (rule that, auto simp: lan_router_rule_def split_beta simp del: split_paired_All)

lemma declared_subnet_facts:
  assumes "declared_subnet config = Inr subnet"
  shows "\<exists>v. strict_network v = Inr subnet" "net_version subnet = 4" "is_private_net4 subnet"
    "16 \<le> net_prefix subnet" "net_prefix subnet \<le> 30"
  using assms by (auto simp: declared_subnet_def bind_eq_Inr expect_eq_Inr)

end
