(* ===== verification/Compiler_Runners.thy ===== *)
theory Compiler_Runners
  imports Lan_Print
begin

text \<open>
  The platform's own runners, \<open>compile_airunners\<close>, and the map's view of the shared guests,
  \<open>_shared_guest_projection\<close>, of \<^verbatim>\<open>platform_resource_compiler.py\<close>.
\<close>

section \<open>Runners\<close>

definition air_suffix :: string where
  "air_suffix = ''-air''"

definition runner_box :: "string \<Rightarrow> string" where
  "runner_box runner = take (length runner - 4) runner"

definition runner_names :: "pydict \<Rightarrow> string list res" where
  "runner_names registry =
    (let bad = die ''airunners must be a list of unique runtime names'' in
     case dgetd registry ''airunners'' (PList []) of
       PList xs \<Rightarrow>
         if list_all is_str xs \<and> distinct xs then traverse as_str xs else bad
     | _ \<Rightarrow> bad)"

definition runner_guest :: "string \<Rightarrow> string \<Rightarrow> string \<Rightarrow> string \<Rightarrow> pyval \<Rightarrow> pydict res" where
  "runner_guest runner box zone_name address allocation =
    bind (vitem allocation ''memory_mb'') (\<lambda>memory.
    bind (vitem allocation ''vcpus'') (\<lambda>vcpus.
    Inr [(''node'', PStr box), (''hostname'', PStr runner), (''guest_name'', PStr ''air''),
      (''zone'', PStr zone_name), (''vm_ipv4_address'', PStr address), (''memory_mb'', memory),
      (''vcpus'', vcpus), (''expected_tags'', strs [''tag:airunner''])]))"

definition air_rule :: "string \<Rightarrow> string \<Rightarrow> string \<Rightarrow> string \<Rightarrow> string \<Rightarrow> string \<Rightarrow> string \<Rightarrow> int list \<Rightarrow>
    router_rule" where
  "air_rule box incoming outgoing source resource destination protocol ports =
    \<lparr>rr_node = box, rr_app = ''platform'', rr_resource = resource, rr_in_interface = incoming,
     rr_out_interface = outgoing, rr_source = source, rr_destination = destination,
     rr_protocol = protocol, rr_ports = map PInt ports, rr_exclusive = True,
     rr_comment = ''platform-air-'' @ resource, rr_destination_exclusions = []\<rparr>"

text \<open>\<open>(installed_bootstrap or {}).get(box) or bootstrap_dns(registry["boxes"][box])\<close>.\<close>

definition runner_resolvers :: "pydict \<Rightarrow> pydict \<Rightarrow> string \<Rightarrow> string list res" where
  "runner_resolvers installed_bootstrap registry box =
    (let installed = dget installed_bootstrap box in
     bind (if truthy installed then viter installed
           else bind (ditem registry ''boxes'') (\<lambda>boxes.
             bind (vitem boxes box) (\<lambda>config.
             bind (as_dict config) bootstrap_dns))) (traverse as_str))"

definition compile_runner :: "pydict \<Rightarrow> topology \<Rightarrow> pydict \<Rightarrow> string \<Rightarrow> pyval \<Rightarrow> string \<Rightarrow> string \<Rightarrow>
    (pydict \<times> router_rule list) res" where
  "compile_runner registry t installed_bootstrap zone_name zone address runner =
    (let box = runner_box runner in
    bind (py_in box (dgetd registry ''boxes'' (PDict []))) (\<lambda>known.
    bind (require known (''airunner references an unknown box: '' @ box)) (\<lambda>_.
    bind (runner_guest runner box zone_name address (air t)) (\<lambda>guest.
    bind (wan_interface t) (\<lambda>wan.
    bind (zone_str zone ''router_interface'') (\<lambda>incoming.
    bind (runner_resolvers installed_bootstrap registry box) (\<lambda>resolvers.
    let rule = air_rule box incoming wan address in
    Inr (guest,
      [rule ''web'' [] ''tcp'' [80, 443]]
      @ concat (map (\<lambda>protocol. map (\<lambda>resolver. rule ''dns'' resolver protocol [53]) resolvers) [''tcp'', ''udp''])
      @ [rule ''tailscale'' [] ''udp'' [3478, 41641]]))))))))"

definition compile_airunners :: "pydict \<Rightarrow> topology \<Rightarrow> pydict \<Rightarrow> (pydict list \<times> router_rule list) res" where
  "compile_airunners registry t installed_bootstrap =
    bind (runner_names registry) (\<lambda>runners.
    let air_runners = filter (\<lambda>r. ends_with r air_suffix) runners in
    if air_runners = [] then Inr ([], [])
    else
      bind (zone_str (air t) ''zone'') (\<lambda>zone_name.
      bind (ditem (zones t) zone_name) (\<lambda>zone.
      bind (zone_str (air t) ''ipv4_address'') (\<lambda>address.
      bind (vgetd zone ''reserved_ipv4_addresses'' (PList [])) (\<lambda>reserved.
      bind (py_in address reserved) (\<lambda>is_reserved.
      bind (require is_reserved ''Platform runner address must be reserved in its zone'') (\<lambda>_.
      bind (traverse (compile_runner registry t installed_bootstrap zone_name zone address) air_runners) (\<lambda>found.
      Inr (map fst found, concat (map snd found))))))))))"


section \<open>Shared guests of the map\<close>

definition shared_guest_row :: "string \<Rightarrow> string \<times> pyval \<Rightarrow> pydict res" where
  "shared_guest_row box = (\<lambda>(role, guest).
    bind (vgetd guest ''runtime_state'' (PStr ''running'')) (\<lambda>state.
    Inr [(''node'', PStr box), (''role'', PStr role), (''hostname'', PStr (box @ ''-'' @ role)),
      (''guest_name'', PStr role), (''runtime_state'', state),
      (''autostart'', PBool (py_eq state (PStr ''running'')))]))"

definition shared_guest_projection :: "pydict \<Rightarrow> pydict list res" where
  "shared_guest_projection box_configs =
    bind (traverse (\<lambda>(box, config).
        bind (vget config ''shared_guests'') (\<lambda>guests.
        bind (as_dict (py_or guests (PDict []))) (\<lambda>d.
        traverse (shared_guest_row box) (sort_key fst d)))) (sort_key fst box_configs)) (\<lambda>rows.
    Inr (concat rows))"

end
