(* ===== verification/Compiler_Ledger.thy ===== *)
theory Compiler_Ledger
  imports Compiler_Network Interfaces
begin

text \<open>
  Rules to claims to effective files: \<open>nft_port_expr\<close> to \<open>build_app_resource_cleanup_scope\<close> of
  \<^verbatim>\<open>platform_resource_compiler.py\<close>. Every rule becomes one claim; claims that agree on node,
  role, kind and key are one file, owned by all their applications.

  The ledger keeps every claim and invents none, has exactly one file per group, gives a file all
  owners and only its owners, and refuses a shared group in which somebody asked for exclusive
  use.
\<close>

section \<open>Normalised rules\<close>

definition nft_port_expr :: "pyval list \<Rightarrow> string res" where
  "nft_port_expr ports =
    bind (validate_ports (PList ports) ''nft ports'') (\<lambda>values.
    Inr (case values of
        [v] \<Rightarrow> py_str v
      | _ \<Rightarrow> ''{ '' @ join '', '' (map py_str values) @ '' }''))"

record router_norm =
  nr_node :: string
  nr_in_interface :: string
  nr_out_interface :: string
  nr_source :: string
  nr_destination :: string
  nr_protocol :: string
  nr_ports :: "pyval list"
  nr_destination_exclusions :: "string list"

record vm_norm =
  nv_node :: string
  nv_target_role :: string
  nv_interface :: string
  nv_source :: string
  nv_destination :: string
  nv_protocol :: string
  nv_ports :: "pyval list"

datatype norm = RouterNorm router_norm | VmNorm vm_norm

definition str_or :: "string \<Rightarrow> string \<Rightarrow> string" where
  "str_or s d = (if s \<noteq> [] then s else d)"

definition normalized_router_rule :: "router_rule \<Rightarrow> router_norm res" where
  "normalized_router_rule r =
    bind (validate_ports (PList (rr_ports r)) (rr_comment r @ ''.ports'')) (\<lambda>ports.
    Inr \<lparr>nr_node = rr_node r, nr_in_interface = rr_in_interface r, nr_out_interface = rr_out_interface r,
         nr_source = rr_source r, nr_destination = rr_destination r,
         nr_protocol = str_or (rr_protocol r) ''tcp'', nr_ports = ports,
         nr_destination_exclusions = rr_destination_exclusions r\<rparr>)"

definition normalized_vm_rule :: "vm_rule \<Rightarrow> vm_norm res" where
  "normalized_vm_rule r =
    (let protocol = (case vr_protocol r of None \<Rightarrow> ''tcp'' | Some p \<Rightarrow> str_or p ''tcp'') in
     bind (require (protocol \<in> set [''tcp'', ''udp'']) ''VM input rule protocol must be tcp or udp'') (\<lambda>_.
     bind (validate_ports (PList (vr_ports r)) (vr_comment r @ ''.ports'')) (\<lambda>ports.
     Inr \<lparr>nv_node = vr_node r, nv_target_role = vr_target_role r,
          nv_interface = str_or (vr_interface r) ''eth0'', nv_source = vr_source r,
          nv_destination = vr_destination r, nv_protocol = protocol, nv_ports = ports\<rparr>)))"

definition router_norm_value :: "router_norm \<Rightarrow> pydict" where
  "router_norm_value n =
    [(''kind'', PStr ''router-forward''), (''node'', PStr (nr_node n)),
     (''in_interface'', PStr (nr_in_interface n)), (''out_interface'', PStr (nr_out_interface n)),
     (''source'', PStr (nr_source n)), (''destination'', PStr (nr_destination n)),
     (''protocol'', PStr (nr_protocol n)), (''ports'', PList (nr_ports n))]
    @ (if nr_destination_exclusions n \<noteq> []
       then [(''destination_exclusions'', strs (nr_destination_exclusions n))] else [])"

definition vm_norm_value :: "vm_norm \<Rightarrow> pydict" where
  "vm_norm_value n =
    [(''kind'', PStr ''vm-input''), (''node'', PStr (nv_node n)),
     (''target_role'', PStr (nv_target_role n)), (''interface'', PStr (nv_interface n)),
     (''source'', PStr (nv_source n)), (''destination'', PStr (nv_destination n)),
     (''protocol'', PStr (nv_protocol n)), (''ports'', PList (nv_ports n))]"

primrec norm_kind :: "norm \<Rightarrow> string" where
  "norm_kind (RouterNorm n) = ''router-forward''"
| "norm_kind (VmNorm n) = ''vm-input''"

primrec norm_value :: "norm \<Rightarrow> pydict" where
  "norm_value (RouterNorm n) = router_norm_value n"
| "norm_value (VmNorm n) = vm_norm_value n"

definition resource_key :: "norm \<Rightarrow> string" where
  "resource_key n = norm_kind n @ ''-'' @ take 24 (sha256_hex (json_dumps True (PDict (norm_value n))))"

definition rendered_rule_identity :: "string \<Rightarrow> string" where
  "rendered_rule_identity key = ''klokast-'' @ take 32 key"

definition quoted :: "string \<Rightarrow> string" where
  "quoted s = [CHR 0x22] @ s @ [CHR 0x22]"

definition render_router_resource_rule :: "router_norm \<Rightarrow> string \<Rightarrow> string res" where
  "render_router_resource_rule n identity =
    (let destination =
          (if nr_destination_exclusions n \<noteq> []
           then '' ip daddr != { '' @ join '', '' (nr_destination_exclusions n) @ '' }''
           else if nr_destination n \<noteq> [] then '' ip daddr '' @ nr_destination n else [])
     in bind (nft_port_expr (nr_ports n)) (\<lambda>ports.
       Inr (''iifname '' @ quoted (nr_in_interface n) @ '' oifname '' @ quoted (nr_out_interface n)
            @ '' ip saddr '' @ nr_source n @ destination @ '' '' @ nr_protocol n @ '' dport '' @ ports
            @ '' accept comment '' @ quoted identity)))"

definition render_vm_resource_rule :: "vm_norm \<Rightarrow> string \<Rightarrow> string res" where
  "render_vm_resource_rule n identity =
    bind (nft_port_expr (nv_ports n)) (\<lambda>ports.
    Inr (''iifname '' @ quoted (nv_interface n) @ '' ip saddr '' @ nv_source n
         @ '' ip daddr '' @ nv_destination n @ '' '' @ nv_protocol n @ '' dport '' @ ports
         @ '' accept comment '' @ quoted identity))"

primrec render_norm :: "norm \<Rightarrow> string \<Rightarrow> string res" where
  "render_norm (RouterNorm n) = render_router_resource_rule n"
| "render_norm (VmNorm n) = render_vm_resource_rule n"


section \<open>Claims\<close>

datatype any_rule = RouterForward router_rule | VmInput vm_rule

primrec rule_app :: "any_rule \<Rightarrow> string" where
  "rule_app (RouterForward r) = rr_app r" | "rule_app (VmInput r) = vr_app r"

primrec rule_resource :: "any_rule \<Rightarrow> string" where
  "rule_resource (RouterForward r) = rr_resource r" | "rule_resource (VmInput r) = vr_resource r"

primrec rule_node :: "any_rule \<Rightarrow> string" where
  "rule_node (RouterForward r) = rr_node r" | "rule_node (VmInput r) = vr_node r"

primrec rule_exclusive :: "any_rule \<Rightarrow> bool" where
  "rule_exclusive (RouterForward r) = rr_exclusive r" | "rule_exclusive (VmInput r) = vr_exclusive r"

primrec rule_comment :: "any_rule \<Rightarrow> string" where
  "rule_comment (RouterForward r) = rr_comment r" | "rule_comment (VmInput r) = vr_comment r"

primrec rule_host_role :: "any_rule \<Rightarrow> string" where
  "rule_host_role (RouterForward r) = ''router''" | "rule_host_role (VmInput r) = vr_target_role r"

primrec normalized :: "any_rule \<Rightarrow> norm res" where
  "normalized (RouterForward r) = bind (normalized_router_rule r) (\<lambda>n. Inr (RouterNorm n))"
| "normalized (VmInput r) = bind (normalized_vm_rule r) (\<lambda>n. Inr (VmNorm n))"

record claim =
  cl_kind :: string
  cl_key :: string
  cl_app :: string
  cl_resource :: string
  cl_node :: string
  cl_host_role :: string
  cl_exclusive :: bool
  cl_comment :: string
  cl_identity :: string
  cl_normalized :: norm
  cl_content :: string
  cl_content_sha256 :: string
  cl_approved_commit :: string

definition build_resource_claim :: "any_rule \<Rightarrow> claim res" where
  "build_resource_claim rule =
    bind (normalized rule) (\<lambda>n.
    let key = resource_key n; identity = rendered_rule_identity key in
    bind (render_norm n identity) (\<lambda>line.
    let content = line @ newline in
    Inr \<lparr>cl_kind = norm_kind n, cl_key = key, cl_app = rule_app rule,
         cl_resource = rule_resource rule, cl_node = rule_node rule,
         cl_host_role = rule_host_role rule, cl_exclusive = rule_exclusive rule,
         cl_comment = rule_comment rule, cl_identity = identity, cl_normalized = n,
         cl_content = content, cl_content_sha256 = sha256_hex content, cl_approved_commit = []\<rparr>))"


section \<open>Effective files\<close>

record effective_file =
  ef_kind :: string
  ef_key :: string
  ef_filename :: string
  ef_node :: string
  ef_host_role :: string
  ef_owners :: "string list"
  ef_resources :: "string list"
  ef_exclusive :: bool
  ef_identity :: string
  ef_content :: string
  ef_content_sha256 :: string
  ef_claim_keys :: "string list"
  ef_approved_commit :: string

definition file_header :: "claim \<Rightarrow> string list \<Rightarrow> bool \<Rightarrow> string" where
  "file_header c owners exclusive = concat (map (\<lambda>l. l @ newline)
    [''# Managed by Klokast platform-resources. Do not edit.'',
     ''# klokast-resource-kind: '' @ cl_kind c,
     ''# klokast-resource-key: '' @ cl_key c,
     ''# klokast-resource-owners: '' @ join '','' owners,
     ''# klokast-resource-rendered-identity: '' @ cl_identity c,
     ''# klokast-resource-exclusive: '' @ (if exclusive then ''true'' else ''false'')])"

definition build_effective_resource_file :: "claim list \<Rightarrow> effective_file res" where
  "build_effective_resource_file claims =
    (let c = hd claims; owners = sorted_set (map cl_app claims);
         exclusive_owners = sorted_set (map cl_app (filter cl_exclusive claims));
         exclusive = (exclusive_owners \<noteq> []);
         content = file_header c owners exclusive @ cl_content c in
     bind (require (\<not> (exclusive \<and> 1 < length owners))
       (''exclusive platform-resource conflict for '' @ cl_key c @ '': '' @ join '', '' owners)) (\<lambda>_.
     bind (require (length (remdups (map cl_content_sha256 claims)) = 1)
       (''platform-resource claims normalized to the same key but render different snippets: ''
        @ cl_key c)) (\<lambda>_.
     Inr \<lparr>ef_kind = cl_kind c, ef_key = cl_key c, ef_filename = cl_key c @ ''.nft'',
          ef_node = cl_node c, ef_host_role = cl_host_role c, ef_owners = owners,
          ef_resources = sorted_set (map (\<lambda>c. cl_app c @ '':'' @ cl_resource c) claims),
          ef_exclusive = exclusive, ef_identity = cl_identity c, ef_content = content,
          ef_content_sha256 = sha256_hex content,
          ef_claim_keys = sorted_set (filter (\<lambda>k. k \<noteq> []) (map cl_comment claims)),
          ef_approved_commit = []\<rparr>)))"


section \<open>The ledger\<close>

type_synonym group = "string \<times> string \<times> string \<times> string"

definition claim_group :: "claim \<Rightarrow> group" where
  "claim_group c = (cl_node c, cl_host_role c, cl_kind c, cl_key c)"

definition claim_order :: "claim \<Rightarrow> string \<times> string \<times> string \<times> string \<times> string \<times> string" where
  "claim_order c = (cl_node c, cl_host_role c, cl_kind c, cl_key c, cl_app c, cl_resource c)"

text \<open>\<open>grouped.setdefault(group, []).append(claim)\<close>.\<close>

definition add_claim :: "(group \<times> claim list) list \<Rightarrow> claim \<Rightarrow> (group \<times> claim list) list" where
  "add_claim grouped c = AList.map_default (claim_group c) [c] (\<lambda>cs. cs @ [c]) grouped"

definition group_claims :: "claim list \<Rightarrow> (group \<times> claim list) list" where
  "group_claims claims = foldl add_claim [] claims"

record ledger =
  claims :: "claim list"
  effective_files :: "effective_file list"

definition build_app_resource_ledger :: "router_rule list \<Rightarrow> vm_rule list \<Rightarrow> ledger res" where
  "build_app_resource_ledger router_rules vm_rules =
    bind (traverse build_resource_claim (map RouterForward router_rules @ map VmInput vm_rules)) (\<lambda>cs.
    bind (traverse (\<lambda>(_, items). build_effective_resource_file items)
            (sort_key fst (group_claims cs))) (\<lambda>effective.
    Inr \<lparr>claims = sort_key claim_order cs, effective_files = effective\<rparr>))"

record cleanup_scope =
  cs_app :: string
  cs_node :: string
  cs_host_roles :: "string list"
  cs_reason :: string

definition build_app_resource_cleanup_scope :: "string \<Rightarrow> string \<Rightarrow> string \<Rightarrow> cleanup_scope" where
  "build_app_resource_cleanup_scope app_name node reason =
    \<lparr>cs_app = app_name, cs_node = node, cs_host_roles = CLEANUP_HOST_ROLES, cs_reason = reason\<rparr>"


section \<open>Facts\<close>

subsection \<open>Claims\<close>

lemma build_resource_claim_fields:
  assumes "build_resource_claim rule = Inr c"
  shows "cl_app c = rule_app rule" "cl_resource c = rule_resource rule" "cl_node c = rule_node rule"
    "cl_host_role c = rule_host_role rule" "cl_exclusive c = rule_exclusive rule"
    "cl_comment c = rule_comment rule" "normalized rule = Inr (cl_normalized c)"
    "cl_kind c = norm_kind (cl_normalized c)" "cl_key c = resource_key (cl_normalized c)"
    "cl_identity c = rendered_rule_identity (cl_key c)"
    "cl_content_sha256 c = sha256_hex (cl_content c)"
    "\<exists>line. render_norm (cl_normalized c) (cl_identity c) = Inr line \<and> cl_content c = line @ newline"
  using assms by (auto simp: build_resource_claim_def Let_def bind_eq_Inr)

lemma normalized_node_role:
  assumes "normalized rule = Inr n"
  shows "(case n of RouterNorm m \<Rightarrow> nr_node m = rule_node rule \<and> rule_host_role rule = ''router'' |
    VmNorm m \<Rightarrow> nv_node m = rule_node rule \<and> nv_target_role m = rule_host_role rule)"
  using assms
  by (cases rule)
    (auto simp: bind_eq_Inr normalized_router_rule_def normalized_vm_rule_def Let_def)

text \<open>A claim's group is a function of its normalised rule: rules that normalise alike are one
  file.\<close>

lemma same_norm_same_group:
  assumes "build_resource_claim r = Inr c" "build_resource_claim r' = Inr c'"
    and "normalized r = normalized r'"
  shows "claim_group c = claim_group c' \<and> cl_content c = cl_content c'"
proof -
  note f = build_resource_claim_fields [OF assms(1)] and f' = build_resource_claim_fields [OF assms(2)]
  from f(7) f'(7) assms(3) have n: "cl_normalized c = cl_normalized c'" by simp
  have "cl_node c = cl_node c' \<and> cl_host_role c = cl_host_role c'"
    using normalized_node_role [OF f(7)] normalized_node_role [OF f'(7)]
    by (cases "cl_normalized c'") (auto simp: n f f')
  moreover have "cl_key c = cl_key c'" using f(9) f'(9) n by simp
  moreover have "cl_kind c = cl_kind c'" using f(8) f'(8) n by simp
  moreover have "cl_content c = cl_content c'"
    using f(10, 12) f'(10, 12) n \<open>cl_key c = cl_key c'\<close> by auto
  ultimately show ?thesis by (simp add: claim_group_def)
qed


subsection \<open>Grouping\<close>

interpretation gc: grouping claim_group add_claim
  by unfold_locales (auto simp: add_claim_def map_of_map_default distinct_map_default split: option.splits)

lemma group_claims_eq: "group_claims = gc.group_all"
  by (simp add: fun_eq_iff group_claims_def gc.group_all_def)

lemmas group_claims_facts = gc.item [folded group_claims_eq] gc.distinct_keys [folded group_claims_eq]
  gc.keys [folded group_claims_eq]


subsection \<open>Effective files\<close>

definition file_group :: "effective_file \<Rightarrow> group" where
  "file_group f = (ef_node f, ef_host_role f, ef_kind f, ef_key f)"

lemma build_effective_file_fields:
  assumes "build_effective_resource_file cs = Inr f" "cs \<noteq> []" "\<And>c. c \<in> set cs \<Longrightarrow> claim_group c = k"
  shows "file_group f = k" "ef_owners f = sorted_set (map cl_app cs)"
    "ef_exclusive f \<longleftrightarrow> (\<exists>c\<in>set cs. cl_exclusive c)"
    "ef_exclusive f \<Longrightarrow> length (ef_owners f) \<le> 1"
    "\<exists>c\<in>set cs. \<exists>h. ef_content f = h @ cl_content c"
    "\<And>c c'. c \<in> set cs \<Longrightarrow> c' \<in> set cs \<Longrightarrow> cl_content_sha256 c = cl_content_sha256 c'"
    "ef_content_sha256 f = sha256_hex (ef_content f)"
proof -
  from assms(2) have hd: "hd cs \<in> set cs" by simp
  note parts = assms(1) [unfolded build_effective_resource_file_def Let_def bind_eq_Inr require_eq_Inr]
  from parts have f: "ef_node f = cl_node (hd cs)" "ef_host_role f = cl_host_role (hd cs)"
    "ef_kind f = cl_kind (hd cs)" "ef_key f = cl_key (hd cs)"
    by auto
  show "file_group f = k" using assms(3) [OF hd] by (simp add: file_group_def f claim_group_def)
  show "ef_owners f = sorted_set (map cl_app cs)" using parts by auto
  show ex: "ef_exclusive f \<longleftrightarrow> (\<exists>c\<in>set cs. cl_exclusive c)"
    using parts by (auto simp: filter_empty_conv)
  show "ef_exclusive f \<Longrightarrow> length (ef_owners f) \<le> 1" using parts by auto
  show "\<exists>c\<in>set cs. \<exists>h. ef_content f = h @ cl_content c"
    by (rule bexI [OF _ hd]) (use parts in auto)
  show "ef_content_sha256 f = sha256_hex (ef_content f)" using parts by auto
  fix c c' assume c: "c \<in> set cs" "c' \<in> set cs"
  from parts have "card (cl_content_sha256 ` set cs) = 1" by (auto simp: length_remdups_card_conv)
  then obtain x where "cl_content_sha256 ` set cs = {x}" by (auto simp: card_1_singleton_iff)
  with c show "cl_content_sha256 c = cl_content_sha256 c'" by (metis imageI singletonD)
qed


subsection \<open>The ledger\<close>

lemma sort_key_map_fst: "map f (sort_key f xs) = sort (map f xs)"
  by (rule sym, rule properties_for_sort) simp_all

lemma list_all2_map_fst:
  "list_all2 (\<lambda>x y. f x = g y) xs ys \<Longrightarrow> map f xs = map g ys"
  by (induction rule: list_all2_induct) auto

lemma ledger_parts:
  assumes "build_app_resource_ledger rr vr = Inr l"
  obtains cs where
    "traverse build_resource_claim (map RouterForward rr @ map VmInput vr) = Inr cs"
    "claims l = sort_key claim_order cs"
    "traverse (\<lambda>(_, items). build_effective_resource_file items) (sort_key fst (group_claims cs))
      = Inr (effective_files l)"
  using assms by (auto simp: build_app_resource_ledger_def bind_eq_Inr)

text \<open>The files, one per group, each built from the claims of its group.\<close>

lemma ledger_files:
  assumes l: "build_app_resource_ledger rr vr = Inr l"
  shows "map file_group (effective_files l) = sorted_set (map claim_group (claims l))"
    and "f \<in> set (effective_files l) \<Longrightarrow>
      \<exists>cs. build_effective_resource_file cs = Inr f \<and> cs \<noteq> [] \<and> set cs = {c \<in> set (claims l). claim_group c = file_group f}"
proof -
  from l obtain cs where cl: "claims l = sort_key claim_order cs"
    and t: "traverse (\<lambda>(_, items). build_effective_resource_file items) (sort_key fst (group_claims cs))
      = Inr (effective_files l)"
    by (rule ledger_parts)
  have item: "file_group f = k \<and> cs' \<noteq> [] \<and> set cs' = {c \<in> set cs. claim_group c = k}"
    if "(k, cs') \<in> set (group_claims cs)" "build_effective_resource_file cs' = Inr f" for k cs' f
  proof -
    have cs': "cs' = filter (\<lambda>c. claim_group c = k) cs \<and> cs' \<noteq> []"
      by (rule group_claims_facts(1) [THEN iffD1, OF that(1)])
    then have set: "set cs' = {c \<in> set cs. claim_group c = k}" by (metis set_filter)
    then have "file_group f = k"
      using cs' by (intro build_effective_file_fields(1) [OF that(2)]) blast+
    with cs' set show ?thesis by blast
  qed
  have "list_all2 (\<lambda>p f. fst p = file_group f) (sort_key fst (group_claims cs)) (effective_files l)"
    using t [unfolded traverse_eq_Inr]
    by (rule list.rel_mono_strong) (auto dest: item)
  then have "map file_group (effective_files l) = map fst (sort_key fst (group_claims cs))"
    by (rule list_all2_map_fst [symmetric])
  also have "\<dots> = sort (map fst (group_claims cs))" by (simp add: sort_key_map_fst)
  also have "\<dots> = sorted_set (map claim_group (claims l))"
    by (rule sorted_set_unique [symmetric]) (use group_claims_facts(2,3) [of cs] in \<open>simp_all add: cl\<close>)
  finally show "map file_group (effective_files l) = sorted_set (map claim_group (claims l))" .
  show "\<exists>cs. build_effective_resource_file cs = Inr f \<and> cs \<noteq> [] \<and> set cs = {c \<in> set (claims l). claim_group c = file_group f}"
    if "f \<in> set (effective_files l)"
    using traverse_set [OF t that] item by (fastforce simp: cl)
qed

end
