(* ===== verification/Compiler_Scope.thy ===== *)
theory Compiler_Scope
  imports Compiler_Ledger
begin

text \<open>
  What is read out of a compiled plan: the grant of one application, the hosts and boxes a scope
  touches, the DHCP hosts of a router and the approved commit (\<open>build_app_grant\<close> to
  \<open>attach_approved_commit\<close> of \<^verbatim>\<open>platform_resource_compiler.py\<close>).

  A \<open>plan\<close> holds the members of the dictionary \<open>compile_registry\<close> returns that these functions
  read.
\<close>

section \<open>Plans\<close>

record app_plan =
  ap_enabled :: bool
  ap_runtime_state :: string
  ap_boxes :: "string list"
  ap_placement :: pydict
  ap_resources :: "string list"
  ap_tailnet_resources :: "string list"
  ap_isolation :: pyval
  ap_resource_flags :: pyval
  ap_controls :: pyval
  ap_users :: "app_user list"
  ap_app_vms :: "string list"
  ap_managed_devices :: "string list"

record tailnet_item =
  tr_app :: string
  tr_id :: string
  tr_node :: string
  tr_hostname :: pyval
  tr_tag :: pyval
  tr_grants :: pyval

record plan =
  pl_compiler_version :: int
  pl_registry_sha256 :: string
  pl_apps :: "(string \<times> app_plan) list"
  pl_box_configs :: pydict
  pl_boxes :: "string list"
  pl_tailnet_resources :: "tailnet_item list"
  pl_app_vm_specs :: "app_vm_spec list"
  pl_managed_devices :: "managed_device list"
  pl_claims :: "claim list"
  pl_effective_files :: "effective_file list"
  pl_cleanup_scopes :: "cleanup_scope list"
  pl_approved_commit :: string

definition app_of :: "plan \<Rightarrow> string \<Rightarrow> app_plan res" where
  "app_of compiled app_name =
    (case map_of (pl_apps compiled) app_name of
       Some a \<Rightarrow> Inr a
     | None \<Rightarrow> die (''compiled resources do not include app: '' @ app_name))"


section \<open>Grants\<close>

text \<open>A granted file is a file without its content, its resources and its owners.\<close>

record granted_file =
  gf_kind :: string
  gf_key :: string
  gf_filename :: string
  gf_node :: string
  gf_host_role :: string
  gf_exclusive :: bool
  gf_identity :: string
  gf_content_sha256 :: string
  gf_approved_commit :: string
  gf_owned_by_app :: bool

definition sanitize_file :: "string \<Rightarrow> effective_file \<Rightarrow> granted_file" where
  "sanitize_file approved_commit f =
    \<lparr>gf_kind = ef_kind f, gf_key = ef_key f, gf_filename = ef_filename f, gf_node = ef_node f,
     gf_host_role = ef_host_role f, gf_exclusive = ef_exclusive f, gf_identity = ef_identity f,
     gf_content_sha256 = ef_content_sha256 f, gf_approved_commit = approved_commit,
     gf_owned_by_app = True\<rparr>"

definition granted_vm :: "string \<Rightarrow> app_vm_spec \<Rightarrow> pydict" where
  "granted_vm app_name s =
    [(''schema_version'', PInt 1), (''app'', PStr app_name), (''resource'', PStr (vs_resource s)),
     (''node'', PStr (vs_node s)), (''site_role'', PStr (vs_site_role s)),
     (''runtime_state'', PStr (vs_runtime_state s)),
     (''inventory_hostname'', PStr (vs_inventory_hostname s)),
     (''node_domain_role'', PStr (vs_node_domain_role s)), (''node_hostname'', PStr (vs_node_hostname s)),
     (''tailnet_hostname'', PStr (vs_tailnet_hostname s)), (''tailnet_tag'', PStr (vs_tailnet_tag s)),
     (''advertised_tags'', strs (vs_advertised_tags s)), (''zone'', PStr (vs_zone s)),
     (''vm_ipv4_address'', PStr (vs_ip s)), (''user_slug'', PStr (vs_user_slug s)),
     (''system_user'', PStr (system_user (vs_user s))),
     (''guest_name'', dgetd (vs_guest_spec s) ''guest_name'' (PStr [])),
     (''guest_os'', dgetd (vs_guest_spec s) ''guest_os'' (PStr [])),
     (''container_runtime'', dgetd (vs_guest_spec s) ''container_runtime'' (PStr []))]"

record grant =
  gr_app :: string
  gr_enabled :: bool
  gr_runtime_state :: string
  gr_approved_commit :: string
  gr_compiler_version :: int
  gr_registry_sha256 :: string
  gr_boxes :: "string list"
  gr_placement :: pydict
  gr_resources :: "string list"
  gr_tailnet_resources :: "tailnet_item list"
  gr_managed_devices :: "managed_device list"
  gr_app_vms :: "pydict list"
  gr_effective_files :: "granted_file list"

definition build_app_grant :: "plan \<Rightarrow> string \<Rightarrow> string \<Rightarrow> grant res" where
  "build_app_grant compiled app_name approved_commit =
    bind (app_of compiled app_name) (\<lambda>app.
    Inr \<lparr>gr_app = app_name, gr_enabled = ap_enabled app, gr_runtime_state = ap_runtime_state app,
         gr_approved_commit = approved_commit, gr_compiler_version = pl_compiler_version compiled,
         gr_registry_sha256 = pl_registry_sha256 compiled, gr_boxes = ap_boxes app,
         gr_placement = ap_placement app, gr_resources = ap_resources app,
         gr_tailnet_resources = filter (\<lambda>i. tr_app i = app_name) (pl_tailnet_resources compiled),
         gr_managed_devices = filter (\<lambda>d. dev_app d = app_name) (pl_managed_devices compiled),
         gr_app_vms = map (granted_vm app_name)
           (filter (\<lambda>s. vs_app s = app_name) (pl_app_vm_specs compiled)),
         gr_effective_files = map (sanitize_file approved_commit)
           (filter (\<lambda>f. app_name \<in> set (ef_owners f)) (pl_effective_files compiled))\<rparr>)"


section \<open>Hosts of a scope\<close>

definition resource_host_for_node_role :: "string \<Rightarrow> string \<Rightarrow> string res" where
  "resource_host_for_node_role node host_role =
    (case map_of ROLE_HOST_SUFFIXES host_role of
       Some sfx \<Rightarrow> Inr (node @ ''-'' @ sfx)
     | None \<Rightarrow> die (''unknown app-resource host_role: '' @ host_role))"

definition resource_host_for_effective_file :: "effective_file \<Rightarrow> string res" where
  "resource_host_for_effective_file f =
    (if ef_kind f = ''router-forward'' then resource_host_for_node_role (ef_node f) ''router''
     else if ef_kind f = ''vm-input'' then resource_host_for_node_role (ef_node f) (ef_host_role f)
     else die (''unsupported app-resource kind: '' @ ef_kind f))"

text \<open>\<open>add_host\<close> is \<open>add_new\<close>: the set of hosts seen is the set of hosts listed. An empty scope
  means every application.\<close>

definition in_scope :: "string list \<Rightarrow> string list \<Rightarrow> bool" where
  "in_scope scope apps \<longleftrightarrow> scope = [] \<or> list_ex (\<lambda>a. a \<in> set scope) apps"

definition file_hosts :: "plan \<Rightarrow> string list \<Rightarrow> string list res" where
  "file_hosts compiled scope =
    (let files = pl_effective_files compiled;
         ordered = filter (\<lambda>f. ef_kind f = ''router-forward'') files
           @ filter (\<lambda>f. ef_kind f \<noteq> ''router-forward'') files
     in traverse resource_host_for_effective_file (filter (\<lambda>f. in_scope scope (ef_owners f)) ordered))"

definition cleanup_hosts :: "plan \<Rightarrow> string list \<Rightarrow> string list res" where
  "cleanup_hosts compiled scope =
    bind (traverse (\<lambda>c. traverse (resource_host_for_node_role (cs_node c)) (cs_host_roles c))
      (filter (\<lambda>c. in_scope scope [cs_app c]) (pl_cleanup_scopes compiled))) (\<lambda>hs. Inr (concat hs))"

definition box_hosts :: "plan \<Rightarrow> string list \<Rightarrow> string list res" where
  "box_hosts compiled scope =
    bind (traverse (app_of compiled) (sorted_set scope)) (\<lambda>apps.
    Inr (concat (map (\<lambda>app. concat (map (\<lambda>box. map (\<lambda>sfx. box @ ''-'' @ sfx) ROLE_SUFFIXES)
      (ap_boxes app))) apps)))"

definition vm_hosts :: "plan \<Rightarrow> string list \<Rightarrow> string list" where
  "vm_hosts compiled scope = map vs_inventory_hostname
    (filter (\<lambda>s. in_scope scope [vs_app s]) (pl_app_vm_specs compiled))"

definition resource_hosts_for_scope :: "plan \<Rightarrow> string list \<Rightarrow> string list res" where
  "resource_hosts_for_scope compiled scope =
    bind (file_hosts compiled scope) (\<lambda>a.
    bind (cleanup_hosts compiled scope) (\<lambda>b.
    bind (box_hosts compiled scope) (\<lambda>c.
    Inr (foldl add_new [] (a @ b @ c @ vm_hosts compiled scope)))))"

definition is_podman_resource_host :: "string \<Rightarrow> bool" where
  "is_podman_resource_host host =
    (case rsplit1 CHR ''-'' host of
       None \<Rightarrow> False | Some (node, sfx) \<Rightarrow> sfx \<in> set PODMAN_ROLE_SUFFIXES)"

definition podman_host_node_role :: "string \<Rightarrow> (string \<times> string) res" where
  "podman_host_node_role host =
    (case rsplit1 CHR ''-'' host of
       None \<Rightarrow> die (''invalid Podman resource host: '' @ host)
     | Some (node, sfx) \<Rightarrow>
        (case map_of PODMAN_NODE_ROLES sfx of
           Some role \<Rightarrow> Inr (node, role)
         | None \<Rightarrow> die (''unsupported Podman resource host role: '' @ host)))"

definition shared_guest_host_is_running :: "plan \<Rightarrow> string \<Rightarrow> bool res" where
  "shared_guest_host_is_running compiled host =
    (case rsplit1 CHR ''-'' host of
       None \<Rightarrow> Inr True
     | Some (node, sfx) \<Rightarrow>
        if sfx \<notin> set SHARED_GUEST_ROLES then Inr True
        else bind (guest_runtime_state (box_config_for (pl_box_configs compiled) node) sfx) (\<lambda>state.
          Inr (py_eq state (PStr ''running''))))"

definition router_resource_hosts :: "plan \<Rightarrow> string list \<Rightarrow> string list res" where
  "router_resource_hosts compiled scope =
    bind (resource_hosts_for_scope compiled scope) (\<lambda>hosts.
    Inr (filter (\<lambda>h. ends_with h ''-router'') hosts))"

definition ansible_resource_hosts :: "plan \<Rightarrow> string list \<Rightarrow> string list res" where
  "ansible_resource_hosts compiled scope =
    bind (resource_hosts_for_scope compiled scope) (\<lambda>hosts.
    Inr (filter (\<lambda>h. \<not> is_podman_resource_host h) hosts))"

definition podman_resource_hosts :: "plan \<Rightarrow> string list \<Rightarrow> string list res" where
  "podman_resource_hosts compiled scope =
    bind (resource_hosts_for_scope compiled scope) (\<lambda>hosts.
    filter_res (\<lambda>h. if is_podman_resource_host h then shared_guest_host_is_running compiled h
                    else Inr False) hosts)"

definition limit_for_app_vms :: "string list \<Rightarrow> app_vm_spec list \<Rightarrow> string" where
  "limit_for_app_vms boxes specs = join '',''
    (map (\<lambda>b. b @ ''-bak'') boxes @ map (\<lambda>b. b @ ''-dom0'') boxes @ map vs_inventory_hostname specs)"

definition app_vm_specs_for_scope :: "plan \<Rightarrow> string list \<Rightarrow> app_vm_spec list" where
  "app_vm_specs_for_scope compiled scope =
    (if scope = [] then pl_app_vm_specs compiled
     else filter (\<lambda>s. vs_app s \<in> set scope) (pl_app_vm_specs compiled))"

definition boxes_for_scope :: "plan \<Rightarrow> string list \<Rightarrow> string list res" where
  "boxes_for_scope compiled scope =
    (if scope = [] then Inr (sorted_set (pl_boxes compiled @ dkeys (pl_box_configs compiled)))
     else bind (traverse (app_of compiled) (sorted_set scope)) (\<lambda>apps.
       Inr (sorted_set (concat (map ap_boxes apps)))))"

definition selected_shared_guest_boxes :: "plan \<Rightarrow> string list \<Rightarrow> string list res" where
  "selected_shared_guest_boxes compiled requested =
    (let available = sort (dkeys (pl_box_configs compiled)) in
     if requested = [] then Inr available
     else bind (checks (map (\<lambda>box. checks [validate_box (PStr box) ''--box'',
         require (box \<in> set available) (''registry has no boxes.'' @ box @ '' configuration'')])
         requested)) (\<lambda>_.
       Inr (foldl add_new [] requested)))"

definition selected_box_access_box :: "plan \<Rightarrow> string list \<Rightarrow> string res" where
  "selected_box_access_box compiled requested =
    (case requested of
       [box] \<Rightarrow>
         bind (validate_box (PStr box) ''--box'') (\<lambda>_.
         bind (require (dhas (pl_box_configs compiled) box)
                 (''registry has no boxes.'' @ box @ '' configuration'')) (\<lambda>_.
         Inr box))
     | _ \<Rightarrow> die ''box access operations require exactly one --box'')"


section \<open>Router variables and the approved commit\<close>

record dhcp_host =
  dh_node :: string
  dh_name :: string
  dh_mac :: string
  dh_address :: string
  dh_app :: string
  dh_resource :: string

definition reservation_host :: "string \<Rightarrow> pyval \<Rightarrow> dhcp_host res" where
  "reservation_host node v =
    bind (bind (vitem v ''hostname'') as_str) (\<lambda>name.
    bind (bind (vitem v ''mac'') as_str) (\<lambda>mac.
    bind (bind (vitem v ''ipv4_address'') as_str) (\<lambda>address.
    Inr \<lparr>dh_node = node, dh_name = name, dh_mac = mac, dh_address = address, dh_app = [],
         dh_resource = ''box-dhcp-reservation''\<rparr>)))"

definition device_host :: "managed_device \<Rightarrow> dhcp_host" where
  "device_host d = \<lparr>dh_node = dev_node d, dh_name = dev_hostname d, dh_mac = dev_mac d,
     dh_address = dev_ip d, dh_app = dev_app d, dh_resource = dev_resource d\<rparr>"

definition router_managed_dhcp_hosts :: "plan \<Rightarrow> dhcp_host list res" where
  "router_managed_dhcp_hosts compiled =
    bind (traverse (\<lambda>(node, config).
        bind (vget config ''dhcp_reservations'') (\<lambda>v.
        bind (viter (py_or v (PList []))) (\<lambda>rs. traverse (reservation_host node) rs)))
      (sort_key fst (pl_box_configs compiled))) (\<lambda>reserved.
    Inr (map device_host (pl_managed_devices compiled) @ concat reserved))"

definition box_access_router_vars :: "plan \<Rightarrow> string \<Rightarrow> ((string \<times> pyval) \<times> dhcp_host list) res" where
  "box_access_router_vars compiled box =
    bind (selected_box_access_box compiled [box]) (\<lambda>selected.
    bind (ditem (pl_box_configs compiled) selected) (\<lambda>config.
    bind (vget config ''access'') (\<lambda>access.
    bind (router_managed_dhcp_hosts compiled) (\<lambda>hosts.
    Inr ((selected, py_or access (PDict default_box_access)),
         filter (\<lambda>h. dh_node h = selected) hosts)))))"

definition attach_approved_commit :: "plan \<Rightarrow> string \<Rightarrow> plan" where
  "attach_approved_commit compiled approved_commit =
    (if approved_commit = [] then compiled
     else compiled
       \<lparr>pl_approved_commit := approved_commit,
        pl_claims := map (\<lambda>c. c\<lparr>cl_approved_commit := approved_commit\<rparr>) (pl_claims compiled),
        pl_effective_files :=
          map (\<lambda>f. f\<lparr>ef_approved_commit := approved_commit\<rparr>) (pl_effective_files compiled)\<rparr>)"

end
