(* ===== verification/Py_Datetime.thy ===== *)
theory Py_Datetime
  imports Py_Text
begin

text \<open>
  \<open>datetime.fromisoformat\<close> as CPython 3.11 parses it. A date and time is its distance in
  microseconds from day 0, the day before 1 January of year 1, and the offset of its time zone
  if it has one; \<open>None\<close> is the \<open>ValueError\<close> of a text that is no ISO 8601 date.
\<close>

section \<open>The calendar\<close>

definition is_leap :: "int \<Rightarrow> bool" where
  "is_leap y \<longleftrightarrow> 4 dvd y \<and> (\<not> 100 dvd y \<or> 400 dvd y)"

definition days_before_year :: "int \<Rightarrow> int" where
  "days_before_year y = (let n = y - 1 in n * 365 + n div 4 - n div 100 + n div 400)"

definition days_in_month :: "int \<Rightarrow> nat \<Rightarrow> nat" where
  "days_in_month y m = (if m = 2 \<and> is_leap y then 29 else [31, 28, 31, 30, 31, 30, 31, 31, 30, 31, 30, 31] ! (m - 1))"

definition ymd_ordinal :: "int \<Rightarrow> nat \<Rightarrow> nat \<Rightarrow> int" where
  "ymd_ordinal y m d = days_before_year y + int (sum_list (map (days_in_month y) [1..<m]) + d)"

definition max_ordinal :: int where
  "max_ordinal = 3652059"

definition calendar_date :: "int \<Rightarrow> nat \<Rightarrow> nat \<Rightarrow> int option" where
  "calendar_date y m d =
    (if 1 \<le> y \<and> 1 \<le> m \<and> m \<le> 12 \<and> 1 \<le> d \<and> d \<le> days_in_month y m then Some (ymd_ordinal y m d) else None)"

text \<open>An ISO year has a week 53 when it starts on a Thursday, or in a leap year on a Wednesday.\<close>

definition week_date :: "int \<Rightarrow> nat \<Rightarrow> nat \<Rightarrow> int option" where
  "week_date y week day =
    (let first_day = ymd_ordinal y 1 1; weekday = (first_day + 6) mod 7;
         monday = first_day - weekday + (if 3 < weekday then 7 else 0);
         ordinal = monday + (int week - 1) * 7 + (int day - 1) in
     if 1 \<le> y \<and> (0 < week \<and> week < 53 \<or> week = 53 \<and> (weekday = 3 \<or> weekday = 2 \<and> is_leap y)) \<and>
        0 < day \<and> day < 8 \<and> ordinal \<le> max_ordinal
     then Some ordinal else None)"


section \<open>Dates\<close>

definition digits_at :: "nat \<Rightarrow> string \<Rightarrow> (nat \<times> string) option" where
  "digits_at n s =
    (if n \<le> length s \<and> list_all is_digit (take n s) then Some (digits_val (take n s), drop n s) else None)"

text \<open>The separator, when the date uses one.\<close>

definition dash :: "bool \<Rightarrow> string \<Rightarrow> string option" where
  "dash sep s = (if \<not> sep then Some s else case s of c # r \<Rightarrow> if c = CHR ''-'' then Some r else None | [] \<Rightarrow> None)"

definition digit_in :: "string \<Rightarrow> nat \<Rightarrow> bool" where
  "digit_in s i \<longleftrightarrow> i < length s \<and> is_digit (s ! i)"

text \<open>Where the date ends: at 7, 8 or 10 characters; the week forms need a look at what follows.\<close>

definition date_end :: "string \<Rightarrow> nat option" where
  "date_end s =
    (let n = length s; run = 7 + length (takeWhile is_digit (drop 7 s)) in
     if n = 7 then Some 7
     else if s ! 4 = CHR ''-'' then
       (if s ! 5 = CHR ''W'' then
          (if 8 < n \<and> s ! 8 = CHR ''-''
           then (if n = 9 then None else if digit_in s 10 then Some 8 else Some 10) else Some 8)
        else Some 10)
     else if s ! 4 = CHR ''W'' then (if run < 9 then Some run else if even run then Some 7 else Some 8)
     else Some 8)"

definition parse_week :: "int \<Rightarrow> bool \<Rightarrow> nat \<Rightarrow> string \<Rightarrow> int option" where
  "parse_week y sep left s =
    Option.bind (digits_at 2 s) (\<lambda>(week, r).
    if left \<le> 2 then week_date y week 1
    else Option.bind (dash sep r) (\<lambda>r.
      Option.bind (digits_at 1 r) (\<lambda>(day, _). week_date y week day)))"

definition parse_month_day :: "int \<Rightarrow> bool \<Rightarrow> nat \<Rightarrow> string \<Rightarrow> int option" where
  "parse_month_day y sep left s =
    Option.bind (digits_at 2 s) (\<lambda>(month, r).
    Option.bind (dash sep r) (\<lambda>r.
    Option.bind (digits_at 2 r) (\<lambda>(day, r).
    if length s - length r = left then calendar_date y month day else None)))"

text \<open>\<open>left\<close> counts the characters of the date that are not read yet.\<close>

definition parse_date :: "nat \<Rightarrow> string \<Rightarrow> int option" where
  "parse_date len s =
    Option.bind (digits_at 4 s) (\<lambda>(y, r).
    let sep = starts_with r ''-''; r = (if sep then tl r else r); left = len - (length s - length r) in
    if starts_with r ''W'' then parse_week (int y) sep (left - 1) (tl r) else parse_month_day (int y) sep left r)"


section \<open>Times\<close>

text \<open>\<open>n\<close> is the length of the time; what follows it may be a time zone. The result holds the components,
  the microseconds, and whether anything follows what was read.\<close>

definition clock_fraction :: "nat list \<Rightarrow> string \<Rightarrow> nat \<Rightarrow> (nat list \<times> nat \<times> bool) option" where
  "clock_fraction vals r n =
    (let k = min n 6 in
     Option.bind (digits_at k r) (\<lambda>(v, rest).
     Some (vals, v * 10 ^ (6 - k), dropWhile is_digit rest \<noteq> [])))"

fun clock_parts :: "nat \<Rightarrow> bool \<Rightarrow> nat list \<Rightarrow> string \<Rightarrow> nat \<Rightarrow> (nat list \<times> nat \<times> bool) option" where
  "clock_parts 0 sep vals r n = clock_fraction vals r n"
| "clock_parts (Suc k) sep vals r n =
    Option.bind (digits_at 2 r) (\<lambda>(v, r1).
    let vals = vals @ [v];
        sep = (if length vals = 1 then starts_with r1 '':'' else sep) in
    if n \<le> 3 then Some (vals, 0, r1 \<noteq> [])
    else case r1 of
        [] \<Rightarrow> None
      | c # r2 \<Rightarrow>
          if sep \<and> c = CHR '':'' then clock_parts k sep vals r2 (n - 3)
          else if c \<in> set ''.,'' then clock_fraction vals r2 (n - 3)
          else if \<not> sep then clock_parts k sep vals r1 (n - 2)
          else None)"

definition part :: "nat list \<Rightarrow> nat \<Rightarrow> nat" where
  "part vals i = (if i < length vals then vals ! i else 0)"

definition clock_seconds :: "nat list \<Rightarrow> int" where
  "clock_seconds vals = int ((part vals 0 * 60 + part vals 1) * 60 + part vals 2)"

definition zone_char :: "char \<Rightarrow> bool" where
  "zone_char c \<longleftrightarrow> c \<in> set ''+-Z''"

definition day_us :: int where
  "day_us = 86400 * 1000000"

definition parse_offset :: "string \<Rightarrow> int option" where
  "parse_offset z =
    (let rest = tl z in
     if hd z = CHR ''Z'' then (if rest = [] then Some 0 else None)
     else Option.bind (clock_parts 3 True [] rest (length rest)) (\<lambda>(vals, us, more).
       let seconds = clock_seconds vals;
           offset = (if seconds = 0 then 0
             else (if hd z = CHR ''-'' then -1 else 1) * (seconds * 1000000 + int us)) in
       if \<not> more \<and> \<bar>offset\<bar> < day_us then Some offset else None))"

definition parse_time :: "string \<Rightarrow> (int \<times> int option) option" where
  "parse_time s =
    (let clock = takeWhile (\<lambda>c. \<not> zone_char c) s; z = dropWhile (\<lambda>c. \<not> zone_char c) s in
     Option.bind (clock_parts 3 True [] s (length clock)) (\<lambda>(vals, us, more).
     if part vals 0 < 24 \<and> part vals 1 < 60 \<and> part vals 2 < 60 then
       (let t = clock_seconds vals * 1000000 + int us in
        if z = [] then (if more then None else Some (t, None))
        else Option.bind (parse_offset z) (\<lambda>offset. Some (t, Some offset)))
     else None))"

definition fromisoformat :: "string \<Rightarrow> (int \<times> int option) option" where
  "fromisoformat s =
    (if length s < 7 then None
     else Option.bind (date_end s) (\<lambda>len.
       Option.bind (parse_date len s) (\<lambda>ordinal.
       if length s \<le> len then Some (ordinal * day_us, None)
       else Option.bind (parse_time (drop (Suc len) s)) (\<lambda>(t, offset).
         Some (ordinal * day_us + t, offset)))))"

text \<open>\<open>d.astimezone(timezone.utc)\<close> of a date with an offset: it must stay within the years 1 to 9999.\<close>

definition astimezone_utc :: "int \<Rightarrow> int \<Rightarrow> int res" where
  "astimezone_utc local offset =
    (let utc = local - offset in
     if day_us \<le> utc \<and> utc < (max_ordinal + 1) * day_us then Inr utc else Inl OverflowError)"

end
