(* ===== verification/Model_Privileged.thy ===== *)
theory Model_Privileged
  imports Model_Selection Py_Datetime
begin

text \<open>
  \<open>validate_privileged_runtime\<close> of \<^verbatim>\<open>platform_resource_model.py\<close>: an enabled application may declare
  privileged compute resources only under an approval that names a time in the future. The clock
  \<open>datetime.now(timezone.utc)\<close> is the argument \<open>now\<close>, in microseconds.
\<close>

definition privileged_resource :: "pydict \<Rightarrow> bool" where
  "privileged_resource r \<longleftrightarrow>
    py_str (py_or (dget r ''privilege'') (PStr [])) \<in> set [''privileged'', ''privileged_rootful_podman''] \<or>
    py_str (py_or (dget r ''type'') (PStr [])) = ''ephemeral_privileged_builder''"

definition check_compute :: "string \<Rightarrow> string \<Rightarrow> pyval \<Rightarrow> pydict res" where
  "check_compute app_name path v =
    (case v of
       PDict r \<Rightarrow> bind (validate_id (dget r ''id'') (app_name @ ''.compute.id'')) (\<lambda>_. Inr r)
     | _ \<Rightarrow> die (path @ '' compute resources must be mappings''))"

definition privileged_resources :: "string \<Rightarrow> pydict \<Rightarrow> pydict list res" where
  "privileged_resources app_name manifest =
    bind (manifest_section manifest ''compute'') (\<lambda>compute.
    case compute of
      PList xs \<Rightarrow> bind (traverse (check_compute app_name (manifest_path manifest)) xs) (\<lambda>rs.
        Inr (filter privileged_resource rs))
    | _ \<Rightarrow> die (manifest_path manifest @ '' resources.compute must be a list''))"

definition check_expiry :: "string \<Rightarrow> int \<Rightarrow> pyval \<Rightarrow> unit res" where
  "check_expiry app_name now v =
    (case v of
       PStr expires_at \<Rightarrow>
         bind (require (expires_at \<noteq> []) (''apps.'' @ app_name @ '' privileged resources require expires_at'')) (\<lambda>_.
         case fromisoformat (replace_all ''Z'' ''+00:00'' expires_at) of
           None \<Rightarrow> die (''apps.'' @ app_name @ ''.expires_at must be ISO-8601 UTC'')
         | Some (local, None) \<Rightarrow> die (''apps.'' @ app_name @ ''.expires_at must include timezone'')
         | Some (local, Some offset) \<Rightarrow>
             bind (astimezone_utc local offset) (\<lambda>expires.
             require (now < expires)
               (''apps.'' @ app_name @ '' privileged resource approval expired at '' @ expires_at)))
     | _ \<Rightarrow> die (''apps.'' @ app_name @ '' privileged resources require expires_at''))"

definition validate_privileged_runtime :: "string \<Rightarrow> pydict \<Rightarrow> pydict \<Rightarrow> int \<Rightarrow> unit res" where
  "validate_privileged_runtime app_name manifest entry now =
    (if \<not> truthy (dget entry ''enabled'') then Inr ()
     else bind (privileged_resources app_name manifest) (\<lambda>privileged.
       if privileged = [] then Inr ()
       else case py_or (py_or (dget entry ''ephemeral'') (dget entry ''controls'')) (PDict []) of
           PDict controls \<Rightarrow>
             bind (require (truthy (dget controls ''privileged_approval''))
                     (''apps.'' @ app_name @ '' enables privileged resources without privileged_approval'')) (\<lambda>_.
             check_expiry app_name now (dget controls ''expires_at''))
         | _ \<Rightarrow> die (''apps.'' @ app_name @ ''.ephemeral/controls must be a mapping'')))"


section \<open>Facts\<close>

text \<open>An approval is live when its time, read as UTC, is later than the clock.\<close>

definition live_until :: "int \<Rightarrow> string \<Rightarrow> bool" where
  "live_until now s \<longleftrightarrow>
    (\<exists>local offset. fromisoformat (replace_all ''Z'' ''+00:00'' s) = Some (local, Some offset) \<and> now < local - offset)"

lemma check_expiry_live: "check_expiry app now v = Inr u \<Longrightarrow> \<exists>s. v = PStr s \<and> live_until now s"
  by (auto simp: check_expiry_def live_until_def astimezone_utc_def res_simps Let_def
      split: pyval.splits option.splits if_splits)

lemma privileged_runtime_live:
  assumes "validate_privileged_runtime app m e now = Inr u" "truthy (dget e ''enabled'')"
    and "manifest_section m ''compute'' = Inr (PList xs)" "PDict r \<in> set xs" "privileged_resource r"
  shows "\<exists>controls s. py_or (py_or (dget e ''ephemeral'') (dget e ''controls'')) (PDict []) = PDict controls \<and>
    truthy (dget controls ''privileged_approval'') \<and> dget controls ''expires_at'' = PStr s \<and> live_until now s"
proof -
  from assms(1-3) obtain rs where t: "traverse (check_compute app (manifest_path m)) xs = Inr rs"
    and v: "filter privileged_resource rs = [] \<or>
      (\<exists>controls. py_or (py_or (dget e ''ephemeral'') (dget e ''controls'')) (PDict []) = PDict controls \<and>
        truthy (dget controls ''privileged_approval'') \<and> check_expiry app now (dget controls ''expires_at'') = Inr u)"
    by (auto simp: validate_privileged_runtime_def privileged_resources_def res_simps split: if_splits pyval.splits)
  have "r \<in> set rs" using t assms(4)
    by (induction xs arbitrary: rs) (auto simp: check_compute_def res_simps)
  with v assms(5) check_expiry_live show ?thesis by (auto simp: filter_empty_conv) 
qed

end
