(* ===== verification/Compiler_App.thy ===== *)
theory Compiler_App
  imports Compiler_Runners Compiler_Scope Model_Privileged
begin

text \<open>
  One application of \<open>compile_registry\<close> (\<^verbatim>\<open>platform_resource_compiler.py\<close>): the body of its loop over
  the registry's applications, in the order of the source. The lists the loop appends to are the
  record \<open>compiled\<close>; \<open>compile_context\<close> holds what every iteration reads.

  \<open>manifest_file\<close> is what reading the manifest at a path yields, \<open>clock\<close> the time of the run.
\<close>

record compile_context =
  topology_of :: topology
  configs_of :: pydict
  repo_root :: string
  manifest_file :: "string \<Rightarrow> yaml_file"
  clock :: int

record compiled =
  co_router :: "router_rule list"
  co_vm :: "vm_rule list"
  co_tailnet :: "tailnet_item list"
  co_policy :: "pydict list"
  co_specs :: "app_vm_spec list"
  co_devices :: "managed_device list"
  co_lan :: "lan_service list"
  co_cleanup :: "cleanup_scope list"
  co_boxes :: "string list"
  co_apps :: "(string \<times> app_plan) list"
  co_paths :: "(string \<times> string) list"


section \<open>The manifest\<close>

definition app_manifest_path :: "compile_context \<Rightarrow> string \<Rightarrow> string" where
  "app_manifest_path ctx app_name = repo_root ctx @ ''/apps/'' @ app_name @ ''/platform-resources.yml''"

definition compatibility_manifest :: "string \<Rightarrow> pydict" where
  "compatibility_manifest app_name =
    [(''schema_version'', PInt 1), (''app'', PStr app_name), (''resources'', PDict []),
     (''_manifest_path'', PStr (''compatibility-only://apps/'' @ app_name))]"

text \<open>A switched-off application may have lost its manifest; then no path is recorded for it.\<close>

definition find_manifest :: "compile_context \<Rightarrow> string \<Rightarrow> bool \<Rightarrow> (pydict \<times> (string \<times> string) list) res" where
  "find_manifest ctx app_name enabled =
    (let path = app_manifest_path ctx app_name; file = manifest_file ctx path in
     if \<not> enabled \<and> file = Missing then Inr (compatibility_manifest app_name, [])
     else bind (app_manifest app_name path file) (\<lambda>manifest. Inr (manifest, [(app_name, path)])))"


section \<open>One box\<close>

record box_compile =
  bc_router :: "router_rule list"
  bc_vm :: "vm_rule list"
  bc_lan :: "lan_service list"
  bc_ids :: "string list"

definition box_devices :: "managed_device list \<Rightarrow> string \<Rightarrow> (string \<times> managed_device) list" where
  "box_devices devices box = map (\<lambda>d. (dev_resource d, d)) (rev (filter (\<lambda>d. dev_node d = box) devices))"

definition compile_network_resource :: "compile_context \<Rightarrow> string \<Rightarrow> string \<Rightarrow> pyval \<Rightarrow> app_vm_spec list \<Rightarrow>
    net_source list \<Rightarrow> managed_device list \<Rightarrow> box_compile \<Rightarrow> pydict \<Rightarrow> box_compile res" where
  "compile_network_resource ctx app_name box box_config specs sources devices acc resource =
    bind (resource_id_of resource) (\<lambda>resource_id.
    let acc = acc\<lparr>bc_ids := add_new (bc_ids acc) resource_id\<rparr> in
    if dget resource ''type'' = PStr ''rg_lan_ipp'' then
      (case specs of
         [spec] \<Rightarrow>
           bind (as_dict box_config) (\<lambda>config.
           bind (compile_service box config (topology_of ctx) spec) (\<lambda>(service, router, _).
           Inr (acc\<lparr>bc_lan := bc_lan acc @ [service], bc_router := bc_router acc @ [router]\<rparr>)))
       | _ \<Rightarrow> die ''LAN printing requires exactly one dedicated print VM'')
    else
      bind (compile_resource_for_box app_name box resource (topology_of ctx) sources (box_devices devices box))
        (\<lambda>(router, vm).
      Inr (acc\<lparr>bc_router := bc_router acc @ router, bc_vm := bc_vm acc @ vm\<rparr>)))"

definition compile_app_box :: "compile_context \<Rightarrow> string \<Rightarrow> pydict \<Rightarrow> pydict \<Rightarrow> app_user list \<Rightarrow>
    app_vm_spec list \<Rightarrow> managed_device list \<Rightarrow> compiled \<times> string list \<Rightarrow> string \<Rightarrow> (compiled \<times> string list) res" where
  "compile_app_box ctx app_name entry manifest users app_vms devices = (\<lambda>(acc, ids) box.
    let box_config = box_config_for (configs_of ctx) box;
        specs = filter (\<lambda>s. vs_node s = box) app_vms in
    bind (compile_app_vm_specs_for_box app_name box entry manifest users (topology_of ctx)) (\<lambda>user_specs.
    bind (if truthy (dget entry ''enabled'') then selected_network_resources manifest entry box_config
          else Inr []) (\<lambda>resources.
    bind (fold_res (compile_network_resource ctx app_name box box_config specs
              (network_sources users specs box) devices)
            \<lparr>bc_router = [], bc_vm = [], bc_lan = [], bc_ids = ids\<rparr> resources) (\<lambda>b.
    Inr (acc\<lparr>co_boxes := co_boxes acc @ [box], co_specs := co_specs acc @ specs @ user_specs,
             co_router := co_router acc @ bc_router b, co_vm := co_vm acc @ bc_vm b,
             co_lan := co_lan acc @ bc_lan b\<rparr>, bc_ids b)))))"


section \<open>Tailnet resources\<close>

definition without_brace :: "pyval \<Rightarrow> bool res" where
  "without_brace v =
    (if \<not> truthy v then Inr False else bind (py_in ''{'' v) (\<lambda>b. Inr (\<not> b)))"

definition check_rendered :: "string \<Rightarrow> string \<Rightarrow> pyval \<Rightarrow> pyval \<Rightarrow> unit res" where
  "check_rendered app_name resource_id host tag =
    bind (without_brace host) (\<lambda>h.
    bind (if h then validate_hostname host (app_name @ ''.'' @ resource_id @ ''.hostname'') else Inr ()) (\<lambda>_.
    bind (without_brace tag) (\<lambda>g.
    if g then validate_app_tailnet_tag tag (app_name @ ''.'' @ resource_id @ ''.tag'') else Inr ())))"

definition tailnet_allowed :: "compile_context \<Rightarrow> string list \<Rightarrow> pydict \<Rightarrow> string \<Rightarrow> bool res" where
  "tailnet_allowed ctx app_boxes resource box =
    (if box \<noteq> [] then resource_access_allowed resource (box_config_for (configs_of ctx) box)
     else resource_access_allowed_for_any_box resource (configs_of ctx) app_boxes)"

definition tailnet_on_box :: "compile_context \<Rightarrow> string \<Rightarrow> string list \<Rightarrow> pydict \<Rightarrow> pyval \<Rightarrow> pyval \<Rightarrow>
    tailnet_item list \<Rightarrow> string \<Rightarrow> tailnet_item list res" where
  "tailnet_on_box ctx app_name app_boxes resource hostname_value tag_value acc box =
    bind (tailnet_allowed ctx app_boxes resource box) (\<lambda>allowed.
    if \<not> allowed then Inr acc
    else
      (let host = render_tailnet_resource_value hostname_value box;
           tag = render_tailnet_resource_value tag_value box in
       bind (resource_id_of resource) (\<lambda>resource_id.
       bind (check_rendered app_name resource_id host tag) (\<lambda>_.
       Inr (acc @ [\<lparr>tr_app = app_name, tr_id = resource_id, tr_node = box, tr_hostname = host,
                    tr_tag = tag, tr_grants = py_or (dget resource ''grants'') (PList [])\<rparr>])))))"

text \<open>A value that names the box is rendered once per box, any other once, for the empty name.\<close>

definition scope_boxes :: "string list \<Rightarrow> pyval \<Rightarrow> pyval \<Rightarrow> string list res" where
  "scope_boxes app_boxes hostname_value tag_value =
    bind (py_in ''{box}'' hostname_value) (\<lambda>h.
    if h then Inr app_boxes
    else bind (py_in ''{box}'' tag_value) (\<lambda>g. Inr (if g then app_boxes else [[]])))"

text \<open>The items of the resources, and the resources that have any: the ones whose policy is compiled.\<close>

definition tailnet_of_resource :: "compile_context \<Rightarrow> string \<Rightarrow> string list \<Rightarrow>
    tailnet_item list \<times> pydict list \<Rightarrow> pydict \<Rightarrow> (tailnet_item list \<times> pydict list) res" where
  "tailnet_of_resource ctx app_name app_boxes = (\<lambda>(items, selected) resource.
    let hostname_value = tailnet_resource_value resource [''hostname_default'', ''hostname'', ''hostname_pattern''];
        tag_value = tailnet_resource_value resource [''tag_default'', ''tag'', ''tag_pattern''] in
    bind (scope_boxes app_boxes hostname_value tag_value) (\<lambda>boxes.
    bind (fold_res (tailnet_on_box ctx app_name app_boxes resource hostname_value tag_value) [] boxes) (\<lambda>new.
    Inr (items @ new,
      if new \<noteq> [] \<and> \<not> list_ex (\<lambda>r. py_eq (PDict r) (PDict resource)) selected
      then selected @ [resource] else selected))))"

definition compile_app_tailnet :: "compile_context \<Rightarrow> string \<Rightarrow> string list \<Rightarrow> pydict list \<Rightarrow>
    (tailnet_item list \<times> pydict list) res" where
  "compile_app_tailnet ctx app_name app_boxes candidates =
    fold_res (tailnet_of_resource ctx app_name app_boxes) ([], []) candidates"


section \<open>One application\<close>

record app_parts =
  pt_boxes :: "string list"
  pt_users :: "app_user list"
  pt_vms :: "app_vm_spec list"
  pt_devices :: "managed_device list"
  pt_tailnet :: "pydict list"

text \<open>The checks of an application and what it selects.\<close>

definition select_app :: "compile_context \<Rightarrow> string \<Rightarrow> pydict \<Rightarrow> pydict \<Rightarrow> app_parts res" where
  "select_app ctx app_name entry manifest =
    (let t = topology_of ctx; configs = configs_of ctx; enabled = truthy (dget entry ''enabled'') in
    bind (validate_manifest_resources app_name manifest t) (\<lambda>_.
    bind (validate_privileged_runtime app_name manifest entry (clock ctx)) (\<lambda>_.
    bind (selected_boxes app_name manifest entry) (\<lambda>boxes.
    bind (validate_selected_resource_capabilities app_name manifest entry boxes configs) (\<lambda>_.
    bind (validate_shared_guest_app_compatibility app_name manifest entry boxes configs t) (\<lambda>_.
    bind (selected_users app_name manifest entry t) (\<lambda>users.
    bind (if enabled then selected_app_vms app_name manifest entry boxes t configs else Inr []) (\<lambda>vms.
    bind (if enabled then selected_managed_iot_devices app_name manifest entry boxes t configs else Inr []) (\<lambda>devices.
    bind (if enabled then selected_tailnet_resources manifest entry else Inr []) (\<lambda>tailnet.
    Inr \<lparr>pt_boxes = boxes, pt_users = users, pt_vms = vms, pt_devices = devices, pt_tailnet = tailnet\<rparr>))))))))))"

definition app_summary :: "string \<Rightarrow> pydict \<Rightarrow> pydict \<Rightarrow> app_parts \<Rightarrow> string list \<Rightarrow> string list \<Rightarrow> app_plan res" where
  "app_summary app_name entry manifest p network_ids tailnet_ids =
    (let enabled = truthy (dget entry ''enabled'') in
    bind (entry_placement entry) (\<lambda>placement.
    bind (if enabled then app_runtime_state app_name entry else Inr ''stopped'') (\<lambda>state.
    Inr \<lparr>ap_enabled = enabled, ap_runtime_state = state, ap_boxes = pt_boxes p, ap_placement = placement,
      ap_resources = network_ids, ap_tailnet_resources = tailnet_ids,
      ap_isolation = dgetd entry ''isolation'' (dgetd manifest ''default_isolation'' (PStr [])),
      ap_resource_flags = py_or (dget entry ''resources'') (PDict []),
      ap_controls = py_or (py_or (dget entry ''controls'') (dget entry ''ephemeral'')) (PDict []),
      ap_users = pt_users p, ap_app_vms = sorted_set (map vs_resource (pt_vms p)),
      ap_managed_devices = sorted_set (map dev_resource (pt_devices p))\<rparr>)))"

definition compile_selected_app :: "compile_context \<Rightarrow> compiled \<Rightarrow> string \<Rightarrow> pydict \<Rightarrow> compiled res" where
  "compile_selected_app ctx acc app_name entry =
    bind (find_manifest ctx app_name (truthy (dget entry ''enabled''))) (\<lambda>(manifest, path).
    bind (select_app ctx app_name entry manifest) (\<lambda>p.
    let acc = acc\<lparr>co_paths := co_paths acc @ path, co_devices := co_devices acc @ pt_devices p,
          co_cleanup := co_cleanup acc @ (if truthy (dget entry ''enabled'') then []
            else map (\<lambda>box. build_app_resource_cleanup_scope app_name box ''disabled-app'') (pt_boxes p))\<rparr> in
    bind (fold_res (compile_app_box ctx app_name entry manifest (pt_users p) (pt_vms p) (pt_devices p))
            (acc, []) (pt_boxes p)) (\<lambda>(acc, network_ids).
    bind (compile_app_tailnet ctx app_name (pt_boxes p) (pt_tailnet p)) (\<lambda>(items, selected).
    bind (entry_placement entry) (\<lambda>placement.
    bind (compile_tailnet_policy_resources app_name manifest (pt_users p) placement selected) (\<lambda>policy.
    bind (app_summary app_name entry manifest p network_ids (foldl add_new [] (map tr_id items))) (\<lambda>summary.
    Inr (acc\<lparr>co_tailnet := co_tailnet acc @ items, co_policy := co_policy acc @ policy,
             co_apps := co_apps acc @ [(app_name, summary)]\<rparr>))))))))"

definition compile_app :: "compile_context \<Rightarrow> string list \<Rightarrow> compiled \<Rightarrow> string \<times> pyval \<Rightarrow> compiled res" where
  "compile_app ctx requested acc = (\<lambda>(app_name, v).
    bind (validate_app_id app_name) (\<lambda>_.
    if requested \<noteq> [] \<and> app_name \<notin> set requested then Inr acc
    else case v of
      PDict entry \<Rightarrow> compile_selected_app ctx acc app_name entry
    | _ \<Rightarrow> die (''apps.'' @ app_name @ '' must be a mapping'')))"

end
