(* ===== verification/Compiler_Plan.thy ===== *)
theory Compiler_Plan
  imports Compiler_App
begin

text \<open>
  \<open>compile_registry\<close> and \<open>compile_box_registry_plan\<close> of \<^verbatim>\<open>platform_resource_compiler.py\<close>: from the
  registry and the inventory to the plan. The plan's members that the scope functions read are the
  record \<open>plan\<close>; \<open>registry_plan\<close> extends it with the others, so \<open>plan.truncate\<close> is the compiled
  dictionary as the scope functions see it.
\<close>

section \<open>Where the registry comes from\<close>

text \<open>A file with its content and digest, or a path and the dictionary \<open>registry_input\<close>.\<close>

datatype registry_source =
    RegistryFile string yaml_file string
  | RegistryInput string pydict

primrec source_path :: "registry_source \<Rightarrow> string" where
  "source_path (RegistryFile path f digest) = path"
| "source_path (RegistryInput path d) = path"

primrec source_registry :: "registry_source \<Rightarrow> pydict res" where
  "source_registry (RegistryFile path f digest) = load_yaml path f"
| "source_registry (RegistryInput path d) = bind (ditem d ''registry'') as_dict"

primrec source_input :: "registry_source \<Rightarrow> pydict" where
  "source_input (RegistryFile path f digest) = []"
| "source_input (RegistryInput path d) = d"

text \<open>The installed profiles and resolvers of the input are mappings by box; null means none.\<close>

definition installed_map :: "registry_source \<Rightarrow> string \<Rightarrow> pydict res" where
  "installed_map src key = as_dict (py_or (dget (source_input src) key) (PDict []))"

record plan_metadata =
  pm_air_bootstrap :: pyval
  pm_routing_profiles :: pyval
  pm_registry_path :: pyval
  pm_registry_sha256 :: pyval

definition plan_metadata_of :: "registry_source \<Rightarrow> plan_metadata res" where
  "plan_metadata_of src =
    (let d = source_input src in
    bind (case src of RegistryFile path _ _ \<Rightarrow> Inr (PStr path) | RegistryInput _ d \<Rightarrow> ditem d ''registry_path'') (\<lambda>path.
    bind (case src of RegistryFile _ _ digest \<Rightarrow> Inr (PStr digest) | RegistryInput _ d \<Rightarrow> ditem d ''registry_sha256'') (\<lambda>digest.
    Inr \<lparr>pm_air_bootstrap = dgetd d ''installed_air_bootstrap'' (PDict []),
      pm_routing_profiles = dgetd d ''installed_routing_profiles'' (PDict []),
      pm_registry_path = path, pm_registry_sha256 = digest\<rparr>)))"

record registry_plan = plan +
  rp_metadata :: plan_metadata
  rp_manifest_paths :: "(string \<times> string) list"
  rp_lan_services :: "lan_service list"
  rp_lan_files :: "(string \<times> (string \<times> string) list) list"
  rp_tailnet_policy :: "pydict list"
  rp_map_airunners :: "pydict list"
  rp_map_app_vms :: "pydict list"
  rp_map_shared_guests :: "pydict list"

definition registry_apps :: "registry_source \<Rightarrow> pydict \<Rightarrow> pydict res" where
  "registry_apps src registry =
    bind (require (py_eq (dget registry ''schema_version'') (PInt 1))
            (source_path src @ '' must use schema_version: 1'')) (\<lambda>_.
    mapping_section registry ''apps'' (source_path src @ '' apps must be a mapping''))"


section \<open>The full plan\<close>

text \<open>\<open>except ValueError as error: die(str(error))\<close>.\<close>

definition value_error_dies :: "'a res \<Rightarrow> 'a res" where
  "value_error_dies m = (case m of Inl (ValueError msg) \<Rightarrow> die msg | _ \<Rightarrow> m)"

text \<open>The print transport must not reach private addresses through its grant to the WAN.\<close>

definition print_exclusions :: "string list" where
  "print_exclusions = [''0.0.0.0/8'', ''10.0.0.0/8'', ''100.64.0.0/10'', ''127.0.0.0/8'', ''169.254.0.0/16'',
     ''172.16.0.0/12'', ''192.168.0.0/16'', ''224.0.0.0/4'', ''240.0.0.0/4'']"

definition exclude_private :: "router_rule \<Rightarrow> router_rule" where
  "exclude_private r =
    (if rr_app r = ''print-server'' \<and> rr_resource r = ''print-transport''
     then r\<lparr>rr_destination_exclusions := print_exclusions\<rparr> else r)"

definition device_order :: "managed_device \<Rightarrow> string \<times> string \<times> string" where
  "device_order d = (dev_node d, dev_app d, dev_resource d)"

definition empty_compiled :: "pydict list \<Rightarrow> router_rule list \<Rightarrow> vm_rule list \<Rightarrow> pydict list \<Rightarrow> router_rule list \<Rightarrow>
    compiled" where
  "empty_compiled vpn_guests vpn_rules vpn_vm_rules air_guests air_rules =
    \<lparr>co_router = vpn_rules @ air_rules, co_vm = vpn_vm_rules, co_tailnet = [], co_policy = [], co_specs = [],
     co_devices = [], co_lan = [], co_cleanup = [],
     co_boxes = map guest_node vpn_guests @ map guest_node air_guests, co_apps = [], co_paths = []\<rparr>"

text \<open>All router rules of a run: those of the applications, and the SSH access of the dom0 that builds
  their machines.\<close>

definition all_router_rules :: "compiled \<Rightarrow> topology \<Rightarrow> router_rule list res" where
  "all_router_rules c t =
    bind (compile_app_vm_bootstrap_router_rules (co_specs c) t) (\<lambda>bootstrap.
    Inr (map exclude_private (co_router c) @ bootstrap
         @ compile_app_vm_tailscale_underlay_router_rules (co_specs c) t))"

definition effective_configs :: "string list \<Rightarrow> pydict \<Rightarrow> pydict" where
  "effective_configs boxes configs =
    map (\<lambda>box. (box, box_config_for configs box)) (sorted_set (boxes @ dkeys configs))"

definition finish_plan :: "registry_source \<Rightarrow> topology \<Rightarrow> pydict \<Rightarrow> pydict list \<Rightarrow> pydict list \<Rightarrow> compiled \<Rightarrow>
    registry_plan res" where
  "finish_plan src t configs vpn_guests air_guests c =
    bind (all_router_rules c t) (\<lambda>router_rules.
    bind (build_app_resource_ledger router_rules (co_vm c)) (\<lambda>ledger.
    let effective = effective_configs (co_boxes c) configs in
    bind (shared_guest_projection effective) (\<lambda>shared_guests.
    bind (traverse (\<lambda>box. bind (router_files (co_lan c) box) (\<lambda>fs. Inr (box, fs))) (sorted_set (dkeys effective))) (\<lambda>files.
    bind (plan_metadata_of src) (\<lambda>metadata.
    bind (compile_platform_map_app_vms (co_specs c)) (\<lambda>map_vms.
    Inr \<lparr>pl_compiler_version = COMPILER_VERSION,
      pl_registry_sha256 = py_str (pm_registry_sha256 metadata),
      pl_apps = co_apps c, pl_box_configs = effective, pl_boxes = sorted_set (co_boxes c),
      pl_tailnet_resources = co_tailnet c, pl_app_vm_specs = co_specs c,
      pl_managed_devices = sort_key device_order (co_devices c),
      pl_claims = claims ledger, pl_effective_files = effective_files ledger,
      pl_cleanup_scopes = co_cleanup c, pl_approved_commit = [],
      rp_metadata = metadata, rp_manifest_paths = co_paths c, rp_lan_services = co_lan c,
      rp_lan_files = files, rp_tailnet_policy = co_policy c, rp_map_airunners = air_guests,
      rp_map_app_vms = map_vms @ vpn_guests, rp_map_shared_guests = shared_guests\<rparr>))))))"

text \<open>The applications of the registry, in the order of their names.\<close>

definition compile_apps :: "compile_context \<Rightarrow> string list \<Rightarrow> pydict \<Rightarrow> compiled \<Rightarrow> compiled res" where
  "compile_apps ctx requested apps start =
    bind (fold_res (compile_app ctx requested) start (sort_key fst apps)) (\<lambda>c.
    let missing = sorted_set (filter (\<lambda>a. a \<notin> set (map fst (co_apps c))) requested) in
    bind (require (missing = []) (''registry has no app entry for: '' @ join '', '' missing)) (\<lambda>_.
    Inr c))"

record environment =
  env_root :: string
  env_inventory_path :: string
  env_inventory :: yaml_file
  env_manifest :: "string \<Rightarrow> yaml_file"
  env_clock :: int

definition compile_registry :: "environment \<Rightarrow> registry_source \<Rightarrow> string list \<Rightarrow> string list \<Rightarrow> registry_plan res" where
  "compile_registry env src requested vpn_bootstrap_boxes =
    bind (load_topology (env_inventory_path env) (env_inventory env)) (\<lambda>t.
    bind (source_registry src) (\<lambda>registry.
    bind (registry_apps src registry) (\<lambda>apps.
    bind (registry_box_configs registry t) (\<lambda>configs.
    bind (installed_map src ''installed_routing_profiles'') (\<lambda>profiles.
    bind (value_error_dies (compile_network registry configs t vpn_bootstrap_boxes profiles))
      (\<lambda>(vpn_guests, vpn_rules, vpn_vm_rules).
    bind (installed_map src ''installed_air_bootstrap'') (\<lambda>air_bootstrap.
    bind (compile_airunners registry t air_bootstrap) (\<lambda>(air_guests, air_rules).
    bind (compile_apps \<lparr>topology_of = t, configs_of = configs, repo_root = env_root env,
              manifest_file = env_manifest env, clock = env_clock env\<rparr> requested apps
            (empty_compiled vpn_guests vpn_rules vpn_vm_rules air_guests air_rules)) (\<lambda>c.
    finish_plan src t configs vpn_guests air_guests c)))))))))"


section \<open>The plan of the boxes alone\<close>

definition check_box_app :: "environment \<Rightarrow> topology \<Rightarrow> pydict \<Rightarrow> string \<times> pyval \<Rightarrow> unit res" where
  "check_box_app env t configs = (\<lambda>(app_name, v).
    bind (validate_app_id app_name) (\<lambda>_.
    case v of
      PDict entry \<Rightarrow>
        if \<not> truthy (dget entry ''enabled'') \<or>
           py_eq (dgetd entry ''runtime_state'' (PStr ''running'')) (PStr ''stopped'')
        then Inr ()
        else
          (let path = env_root env @ ''/apps/'' @ app_name @ ''/platform-resources.yml'' in
          bind (app_manifest app_name path (env_manifest env path)) (\<lambda>manifest.
          bind (validate_manifest_resources app_name manifest t) (\<lambda>_.
          bind (selected_boxes app_name manifest entry) (\<lambda>boxes.
          validate_shared_guest_app_compatibility app_name manifest entry boxes configs t))))
    | _ \<Rightarrow> die (''apps.'' @ app_name @ '' must be a mapping'')))"

definition compile_box_registry_plan :: "environment \<Rightarrow> registry_source \<Rightarrow> registry_plan res" where
  "compile_box_registry_plan env src =
    bind (load_topology (env_inventory_path env) (env_inventory env)) (\<lambda>t.
    bind (source_registry src) (\<lambda>registry.
    bind (registry_apps src registry) (\<lambda>apps.
    bind (registry_box_configs registry t) (\<lambda>configs.
    bind (checks (map (check_box_app env t configs) (sort_key fst apps))) (\<lambda>_.
    bind (shared_guest_projection configs) (\<lambda>shared_guests.
    bind (plan_metadata_of src) (\<lambda>metadata.
    Inr \<lparr>pl_compiler_version = COMPILER_VERSION,
      pl_registry_sha256 = py_str (pm_registry_sha256 metadata),
      pl_apps = [], pl_box_configs = configs, pl_boxes = sorted_set (dkeys configs),
      pl_tailnet_resources = [], pl_app_vm_specs = [], pl_managed_devices = [],
      pl_claims = [], pl_effective_files = [], pl_cleanup_scopes = [], pl_approved_commit = [],
      rp_metadata = metadata, rp_manifest_paths = [], rp_lan_services = [], rp_lan_files = [],
      rp_tailnet_policy = [], rp_map_airunners = [], rp_map_app_vms = [],
      rp_map_shared_guests = shared_guests\<rparr>)))))))"

end
