(* ===== verification/Compiler_Facts.thy ===== *)
theory Compiler_Facts
  imports Compiler_Plan
begin

text \<open>
  What every rule and every machine of a compiled registry is known to be: the rules of an
  application carry its name and its box, the platform's own rules are exclusive, and the loop over
  the applications keeps \<open>wf_compiled\<close>.
\<close>

section \<open>Rules of one resource\<close>

definition rules_for :: "string \<Rightarrow> string \<Rightarrow> rules \<Rightarrow> bool" where
  "rules_for app box rs \<longleftrightarrow>
    (\<forall>r\<in>set (fst rs). rr_app r = app \<and> rr_node r = box \<and> normal_ports (rr_ports r)) \<and>
    (\<forall>r\<in>set (snd rs). vr_app r = app \<and> vr_node r = box \<and> vr_protocol r = None \<and> normal_ports (vr_ports r))"

lemma router_rule_for_facts [simp]:
  "rr_app (router_rule_for app box r i out s d p ports sfx) = app"
  "rr_node (router_rule_for app box r i out s d p ports sfx) = box"
  "rr_ports (router_rule_for app box r i out s d p ports sfx) = ports"
  "rr_exclusive (router_rule_for app box r i out s d p ports sfx) = truthy (dget r ''exclusive'')"
  by (simp_all add: router_rule_for_def)

lemma vm_rule_for_facts:
  "vm_rule_for app box r z s ports sfx = Inr v \<Longrightarrow>
    vr_app v = app \<and> vr_node v = box \<and> vr_protocol v = None \<and> vr_ports v = ports"
  by (auto simp: vm_rule_for_def bind_eq_Inr)

lemma user_port_values_normal: "user_port_values r u f = Inr ps \<Longrightarrow> normal_ports ps"
  by (auto simp: user_port_values_def Let_def bind_eq_Inr dest: ports.sound split: if_splits)

lemmas rule_facts = vm_rule_for_facts ports.sound user_port_values_normal

lemma traverse_all:
  assumes "traverse f xs = Inr ys" "\<And>x y. f x = Inr y \<Longrightarrow> P y"
  shows "\<forall>y\<in>set ys. P y"
  using assms by (blast dest: traverse_set)

lemma rules_for_concat: "\<forall>rs\<in>set rss. rules_for app box rs \<Longrightarrow> rules_for app box (concat_rules rss)"
  by (fastforce simp: rules_for_def concat_rules_def)

lemma rules_for_routers: "\<forall>rs\<in>set rss. rules_for app box (rs, []) \<Longrightarrow> rules_for app box (concat rss, [])"
  by (auto simp: rules_for_def)

lemma rules_for_interzone: "compile_interzone app box r t us = Inr rs \<Longrightarrow> rules_for app box rs"
  unfolding compile_interzone_def bind_eq_Inr sum.inject
  by (elim exE conjE, drule traverse_all [where P = "rules_for app box"],
      (auto simp: bind_eq_Inr rules_for_def dest!: rule_facts)[1], blast dest: rules_for_concat)

lemma rules_for_realm: "compile_realm_to_zone app box r t = Inr rs \<Longrightarrow> rules_for app box rs"
  by (auto simp: compile_realm_to_zone_def bind_eq_Inr rules_for_def dest!: rule_facts)

lemma rules_for_egress:
  assumes "egress_rules app box r i out us = Inr rs"
  shows "rules_for app box (rs, [])"
proof -
  have user: "rules_for app box ([y], [])"
    if "bind (validate_ports v f) (\<lambda>ports. Inr (router_rule_for app box r i out s d p ports sfx)) = Inr y"
    for v f s d p sfx y
    using that by (auto simp: bind_eq_Inr rules_for_def dest!: rule_facts)
  from assms obtain rss where t: "traverse (\<lambda>(protocol, key).
        if \<not> truthy (dget r key) then Inr []
        else traverse (\<lambda>user.
            bind (validate_ports (dget r key) (res_field app r (''.'' @ key))) (\<lambda>ports.
            Inr (router_rule_for app box r i out (src_ip user) [] protocol ports (sfx_of user protocol)))) us)
      [(''tcp'', ''tcp_ports''), (''udp'', ''udp_ports'')] = Inr rss" and rs: "rs = concat rss"
    by (auto simp only: egress_rules_def bind_eq_Inr sum.inject)
  have "\<forall>y\<in>set rss. rules_for app box (y, [])"
  proof (rule traverse_all [OF t])
    fix x y assume "(case x of (protocol, key) \<Rightarrow> if \<not> truthy (dget r key) then Inr []
        else traverse (\<lambda>user.
            bind (validate_ports (dget r key) (res_field app r (''.'' @ key))) (\<lambda>ports.
            Inr (router_rule_for app box r i out (src_ip user) [] protocol ports (sfx_of user protocol)))) us) = Inr y"
    then have "\<forall>z\<in>set y. rules_for app box ([z], [])"
      by (cases x) (auto split: if_splits dest!: traverse_all [where P = "\<lambda>z. rules_for app box ([z], [])"] intro: user)
    then show "rules_for app box (y, [])" by (auto simp: rules_for_def)
  qed
  then show ?thesis unfolding rs by (rule rules_for_routers)
qed

lemma rules_for_box:
  assumes "compile_resource_for_box app box r t us ds = Inr rs"
  shows "rules_for app box rs"
proof -
  have wan: "compile_wan_egress app box r t us = Inr rs \<Longrightarrow> rules_for app box rs"
    "compile_device_wan_egress app box r t ds = Inr rs \<Longrightarrow> rules_for app box rs"
    by (auto simp: compile_wan_egress_def compile_device_wan_egress_def bind_eq_Inr dest: rules_for_egress)
  have device: "compile_zone_to_device app box r t us ds = Inr rs \<Longrightarrow> rules_for app box rs"
    "compile_device_to_zone app box r t ds = Inr rs \<Longrightarrow> rules_for app box rs"
    by (auto simp: compile_zone_to_device_def compile_device_to_zone_def bind_eq_Inr rules_for_def
        dest!: rule_facts)
  have none: "rules_for app box ([], [])" by (simp add: rules_for_def)
  from assms show ?thesis
    unfolding compile_resource_for_box_def bind_eq_Inr Let_def
    by (elim exE conjE) (auto split: if_split_asm intro: wan device none rules_for_interzone rules_for_realm)
qed


section \<open>Machines and devices of an application\<close>

definition spec_of :: "string \<Rightarrow> string list \<Rightarrow> app_vm_spec \<Rightarrow> bool" where
  "spec_of app boxes s \<longleftrightarrow> vs_app s = app \<and> vs_node s \<in> set boxes \<and> typed_guest s"

definition device_of_app :: "string \<Rightarrow> string list \<Rightarrow> managed_device \<Rightarrow> bool" where
  "device_of_app app boxes d \<longleftrightarrow> dev_app d = app \<and> dev_node d \<in> set boxes"

text \<open>A loop that appends only items with a property keeps it.\<close>

lemma fold_res_all:
  assumes "fold_res f acc xs = Inr r" "\<forall>y\<in>set acc. P y"
    and "\<And>x a b. x \<in> set xs \<Longrightarrow> \<forall>y\<in>set a. P y \<Longrightarrow> f a x = Inr b \<Longrightarrow> \<forall>y\<in>set b. P y"
  shows "\<forall>y\<in>set r. P y"
  by (rule fold_res_invariant [where P = "\<lambda>a. \<forall>y\<in>set a. P y", OF assms(1,2)]) (use assms(3) in blast)

lemma app_vm_on_spec: "app_vm_on app st r i z zd res bb seen box = Inr s \<Longrightarrow> vs_app s = app \<and> vs_node s = box"
  by (auto simp: app_vm_on_def Let_def bind_eq_Inr)

lemma app_vms_of_resource_specs:
  assumes "app_vms_of_resource app st reg boxes t configs specs r = Inr specs'" "\<forall>s\<in>set specs. spec_of app boxes s"
  shows "\<forall>s\<in>set specs'. spec_of app boxes s"
proof -
  from assms(1) obtain f where "fold_res f specs boxes = Inr specs'"
    and f: "\<And>acc box acc'. f acc box = Inr acc' \<Longrightarrow> acc' = acc \<or> (\<exists>s. acc' = acc @ [s] \<and> vs_app s = app \<and> vs_node s = box \<and> typed_guest s)"
    unfolding app_vms_of_resource_def bind_eq_Inr
    by (elim exE conjE, simp only: split_beta bind_eq_Inr, elim exE conjE)
      (rule that, assumption, auto simp: bind_eq_Inr split: if_splits dest: app_vm_on_spec app_vm_on_typed)
  then show ?thesis
    by (elim fold_res_all) (use assms(2) f in \<open>fastforce simp: spec_of_def\<close>)+
qed

lemma selected_app_vms_specs:
  assumes "selected_app_vms app m e boxes t configs = Inr specs"
  shows "\<forall>s\<in>set specs. spec_of app boxes s"
  using assms
  by (auto simp: selected_app_vms_def bind_eq_Inr split: if_splits
      dest!: fold_res_all [where P = "spec_of app boxes"] dest: app_vms_of_resource_specs)

lemma user_vm_spec_of: "user_vm_spec app box a st r z zd t u = Inr s \<Longrightarrow> vs_app s = app \<and> vs_node s = box"
  by (auto simp: user_vm_spec_def Let_def bind_eq_Inr)

lemma compile_app_vm_specs_of:
  assumes "compile_app_vm_specs_for_box app box e m us t = Inr specs" "box \<in> set boxes"
  shows "\<forall>s\<in>set specs. spec_of app boxes s" "us = [] \<Longrightarrow> specs = []"
proof -
  from assms(1) obtain f rs sss where t: "traverse f rs = Inr sss" and s: "specs = concat sss"
    and f: "\<And>r ss. f r = Inr ss \<Longrightarrow> \<exists>z zd a st. traverse (user_vm_spec app box a st r z zd t) us = Inr ss"
    unfolding compile_app_vm_specs_for_box_def bind_eq_Inr
    by (elim exE conjE) (rule that, assumption, simp, auto simp: bind_eq_Inr split_beta)
  have one: "(\<forall>s\<in>set ss. spec_of app boxes s) \<and> (us = [] \<longrightarrow> ss = [])" if "f r = Inr ss" for r ss
  proof -
    from f [OF that] obtain z zd a st where u: "traverse (user_vm_spec app box a st r z zd t) us = Inr ss" by blast
    have "\<forall>s\<in>set ss. vs_app s = app \<and> vs_node s = box \<and> typed_guest s"
      by (rule traverse_all [OF u]) (use user_vm_spec_of user_vm_spec_typed in blast)
    with u assms(2) show ?thesis by (auto simp: spec_of_def)
  qed
  show "\<forall>s\<in>set specs. spec_of app boxes s" "us = [] \<Longrightarrow> specs = []"
    using traverse_all [OF t, where P = "\<lambda>ss. (\<forall>s\<in>set ss. spec_of app boxes s) \<and> (us = [] \<longrightarrow> ss = [])"] one
    by (auto simp: s)
qed

lemma managed_device_on_of: "managed_device_on app r i z zd bb box = Inr d \<Longrightarrow> dev_app d = app \<and> dev_node d = box"
  by (auto simp: managed_device_on_def Let_def bind_eq_Inr)

lemma devices_of_resource_of:
  assumes "devices_of_resource app cfg boxes t configs acc r = Inr acc'" "\<forall>d\<in>set acc. device_of_app app boxes d"
  shows "\<forall>d\<in>set acc'. device_of_app app boxes d"
proof -
  from assms(1) obtain f where "fold_res f acc boxes = Inr acc'"
    and f: "\<And>acc box acc'. f acc box = Inr acc' \<Longrightarrow> acc' = acc \<or> (\<exists>d. acc' = acc @ [d] \<and> dev_app d = app \<and> dev_node d = box)"
    unfolding devices_of_resource_def bind_eq_Inr
    by (elim exE conjE, simp only: split_beta bind_eq_Inr, elim exE conjE)
      (rule that, assumption, auto simp: bind_eq_Inr split: if_splits dest: managed_device_on_of)
  then show ?thesis
    by (elim fold_res_all) (use assms(2) f in \<open>fastforce simp: device_of_app_def\<close>)+
qed

lemma selected_devices_of:
  assumes "selected_managed_iot_devices app m e boxes t configs = Inr ds"
  shows "\<forall>d\<in>set ds. device_of_app app boxes d"
  using assms
  by (auto simp: selected_managed_iot_devices_def bind_eq_Inr split: if_splits
      dest!: fold_res_all [where P = "device_of_app app boxes"] dest: devices_of_resource_of)


section \<open>One application\<close>

definition app_rule :: "string \<Rightarrow> string list \<Rightarrow> router_rule \<Rightarrow> bool" where
  "app_rule app boxes r \<longleftrightarrow> rr_app r = app \<and> rr_node r \<in> set boxes \<and> normal_ports (rr_ports r)"

definition app_vm_rule :: "string \<Rightarrow> string list \<Rightarrow> vm_rule \<Rightarrow> bool" where
  "app_vm_rule app boxes r \<longleftrightarrow> vr_app r = app \<and> vr_node r \<in> set boxes \<and> normal_ports (vr_ports r)"

text \<open>What an application may add to the lists of the loop.\<close>

definition adds :: "string \<Rightarrow> string list \<Rightarrow> compiled \<Rightarrow> compiled \<Rightarrow> bool" where
  "adds app boxes c c' \<longleftrightarrow>
    (\<exists>rr vr specs lan.
      co_router c' = co_router c @ rr \<and> list_all (app_rule app boxes) rr \<and>
      co_vm c' = co_vm c @ vr \<and> list_all (app_vm_rule app boxes) vr \<and>
      co_specs c' = co_specs c @ specs \<and> list_all (spec_of app boxes) specs \<and>
      co_lan c' = co_lan c @ lan) \<and>
    set (co_boxes c) \<subseteq> set (co_boxes c') \<and> set (co_boxes c') \<subseteq> set (co_boxes c) \<union> set boxes \<and>
    co_tailnet c' = co_tailnet c \<and> co_policy c' = co_policy c \<and> co_devices c' = co_devices c \<and>
    co_cleanup c' = co_cleanup c \<and> co_apps c' = co_apps c \<and> co_paths c' = co_paths c"

lemma adds_refl [simp]: "adds app boxes c c"
  by (auto simp: adds_def)

lemma adds_trans: "adds app boxes a b \<Longrightarrow> adds app boxes b c \<Longrightarrow> adds app boxes a c"
  unfolding adds_def by (elim conjE exE) (simp, blast)

lemma lan_service_rule:
  assumes "compile_service box config t spec = Inr (s, r, v)"
  shows "rr_app r = vs_app spec \<and> rr_node r = box \<and> normal_ports (rr_ports r) \<and> ls_node s = box"
  using assms by (auto simp: compile_service_def bind_eq_Inr res_simps lan_router_rule_def normal_ports_def valid_port_def)

lemma network_resource_rules:
  assumes "compile_network_resource ctx app box cfg specs src ds b r = Inr b'" "\<forall>s\<in>set specs. spec_of app boxes s"
    and "box \<in> set boxes" "list_all (app_rule app boxes) (bc_router b)" "list_all (app_vm_rule app boxes) (bc_vm b)"
  shows "list_all (app_rule app boxes) (bc_router b') \<and> list_all (app_vm_rule app boxes) (bc_vm b')"
  using assms
  by (auto simp: compile_network_resource_def bind_eq_Inr Let_def list_all_iff app_rule_def app_vm_rule_def
      rules_for_def spec_of_def split: if_splits list.splits dest!: lan_service_rule rules_for_box)

lemma compile_app_box_adds:
  assumes "compile_app_box ctx app e m us vms ds (c, ids) box = Inr (c', ids')"
    and "\<forall>s\<in>set vms. spec_of app boxes s" "box \<in> set boxes"
  shows "adds app boxes c c' \<and> box \<in> set (co_boxes c')"
proof -
  let ?specs = "filter (\<lambda>s. vs_node s = box) vms"
  from assms(1) obtain user_specs resources b where
    u: "compile_app_vm_specs_for_box app box e m us (topology_of ctx) = Inr user_specs"
    and f: "fold_res (compile_network_resource ctx app box (box_config_for (configs_of ctx) box) ?specs
        (network_sources us ?specs box) ds) \<lparr>bc_router = [], bc_vm = [], bc_lan = [], bc_ids = ids\<rparr> resources = Inr b"
    and c': "c' = c\<lparr>co_boxes := co_boxes c @ [box], co_specs := co_specs c @ ?specs @ user_specs,
       co_router := co_router c @ bc_router b, co_vm := co_vm c @ bc_vm b, co_lan := co_lan c @ bc_lan b\<rparr>"
    by (auto simp: compile_app_box_def Let_def bind_eq_Inr)
  have "list_all (app_rule app boxes) (bc_router b) \<and> list_all (app_vm_rule app boxes) (bc_vm b)"
  proof (rule fold_res_invariant [OF f])
    fix b r b'
    assume b: "list_all (app_rule app boxes) (bc_router b) \<and> list_all (app_vm_rule app boxes) (bc_vm b)"
      and step: "compile_network_resource ctx app box (box_config_for (configs_of ctx) box) ?specs
        (network_sources us ?specs box) ds b r = Inr b'"
    show "list_all (app_rule app boxes) (bc_router b') \<and> list_all (app_vm_rule app boxes) (bc_vm b')"
      by (rule network_resource_rules [OF step _ assms(3)]) (use assms(2) b in simp_all)
  qed simp
  with compile_app_vm_specs_of(1) [OF u assms(3)] assms(2,3) show ?thesis
    by (auto simp: adds_def c' list_all_iff)
qed


lemma compile_app_boxes_adds:
  assumes "fold_res (compile_app_box ctx app e m us vms ds) (c, []) boxes = Inr (c', ids)"
    and "\<forall>s\<in>set vms. spec_of app boxes s"
  shows "adds app boxes c c' \<and> set boxes \<subseteq> set (co_boxes c')"
proof -
  have "adds app boxes c (fst (c', ids)) \<and> set boxes \<subseteq> set (co_boxes (fst (c', ids)))"
  proof (rule fold_res_invariant_prefix [OF assms(1), where P = "\<lambda>pre s. adds app boxes c (fst s) \<and> set pre \<subseteq> set (co_boxes (fst s))"])
    fix pre box s s'
    assume p: "prefix (pre @ [box]) boxes" and inv: "adds app boxes c (fst s) \<and> set pre \<subseteq> set (co_boxes (fst s))"
      and step: "compile_app_box ctx app e m us vms ds s box = Inr s'"
    from p have "box \<in> set boxes" using set_mono_prefix by fastforce
    with step have "adds app boxes (fst s) (fst s') \<and> box \<in> set (co_boxes (fst s'))"
      by (cases s; cases s') (metis assms(2) compile_app_box_adds fst_conv)
    with inv show "adds app boxes c (fst s') \<and> set (pre @ [box]) \<subseteq> set (co_boxes (fst s'))"
      by (auto intro: adds_trans) (auto simp: adds_def)
  qed simp
  then show ?thesis by simp
qed

definition tailnet_of :: "string \<Rightarrow> string list \<Rightarrow> tailnet_item \<Rightarrow> bool" where
  "tailnet_of app boxes i \<longleftrightarrow> tr_app i = app \<and> (tr_node i = [] \<or> tr_node i \<in> set boxes)"

lemma tailnet_on_box_adds:
  "tailnet_on_box ctx app boxes r h t acc box = Inr acc' \<Longrightarrow>
    acc' = acc \<or> (\<exists>i. acc' = acc @ [i] \<and> tr_app i = app \<and> tr_node i = box)"
  by (auto simp: tailnet_on_box_def Let_def bind_eq_Inr split: if_splits)

lemma tailnet_of_resource_items:
  assumes "tailnet_of_resource ctx app boxes (items, sel) r = Inr (items', sel')" "\<forall>i\<in>set items. tailnet_of app boxes i"
  shows "\<forall>i\<in>set items'. tailnet_of app boxes i"
proof -
  let ?h = "tailnet_resource_value r [''hostname_default'', ''hostname'', ''hostname_pattern'']"
  let ?t = "tailnet_resource_value r [''tag_default'', ''tag'', ''tag_pattern'']"
  from assms(1) obtain bs new where bs: "scope_boxes boxes ?h ?t = Inr bs"
    and f: "fold_res (tailnet_on_box ctx app boxes r ?h ?t) [] bs = Inr new" and items: "items' = items @ new"
    by (auto simp: tailnet_of_resource_def Let_def bind_eq_Inr)
  have bs: "x = [] \<or> x \<in> set boxes" if "x \<in> set bs" for x
    using bs that by (auto simp: scope_boxes_def bind_eq_Inr split: if_splits)
  have "\<forall>i\<in>set new. tailnet_of app boxes i"
  proof (rule fold_res_all [OF f])
    fix x acc acc' assume x: "x \<in> set bs" and acc: "\<forall>i\<in>set acc. tailnet_of app boxes i"
      and step: "tailnet_on_box ctx app boxes r ?h ?t acc x = Inr acc'"
    from step have "acc' = acc \<or> (\<exists>i. acc' = acc @ [i] \<and> tr_app i = app \<and> tr_node i = x)"
      by (rule tailnet_on_box_adds)
    with acc bs [OF x] show "\<forall>i\<in>set acc'. tailnet_of app boxes i" by (auto simp: tailnet_of_def)
  qed simp
  with assms(2) items show ?thesis by auto
qed

lemma compile_app_tailnet_items:
  assumes "compile_app_tailnet ctx app boxes rs = Inr (items, sel)"
  shows "\<forall>i\<in>set items. tailnet_of app boxes i"
proof -
  have "\<forall>i\<in>set (fst (items, sel)). tailnet_of app boxes i"
    by (rule fold_res_invariant [OF assms [unfolded compile_app_tailnet_def], where P = "\<lambda>s. \<forall>i\<in>set (fst s). tailnet_of app boxes i"])
      (auto dest: tailnet_of_resource_items)
  then show ?thesis by simp
qed

text \<open>The effect of one application: everything it adds is its own, on its own boxes.\<close>

definition contributes :: "string \<Rightarrow> string list \<Rightarrow> compiled \<Rightarrow> compiled \<Rightarrow> bool" where
  "contributes app boxes c c' \<longleftrightarrow>
    (\<exists>rr vr specs ds items cleanup p.
      co_router c' = co_router c @ rr \<and> list_all (app_rule app boxes) rr \<and>
      co_vm c' = co_vm c @ vr \<and> list_all (app_vm_rule app boxes) vr \<and>
      co_specs c' = co_specs c @ specs \<and> list_all (spec_of app boxes) specs \<and>
      co_devices c' = co_devices c @ ds \<and> list_all (device_of_app app boxes) ds \<and>
      co_tailnet c' = co_tailnet c @ items \<and> list_all (tailnet_of app boxes) items \<and>
      co_cleanup c' = co_cleanup c @ cleanup \<and> list_all (\<lambda>s. cs_app s = app \<and> cs_node s \<in> set boxes) cleanup \<and>
      co_apps c' = co_apps c @ [(app, p)] \<and> ap_boxes p = boxes) \<and>
    set (co_boxes c') = set (co_boxes c) \<union> set boxes"

lemma select_app_facts:
  assumes "select_app ctx app e m = Inr p"
  shows "selected_boxes app m e = Inr (pt_boxes p)" "\<forall>s\<in>set (pt_vms p). spec_of app (pt_boxes p) s"
    "\<forall>d\<in>set (pt_devices p). device_of_app app (pt_boxes p) d"
    "validate_manifest_resources app m (topology_of ctx) = Inr ()"
    "validate_privileged_runtime app m e (clock ctx) = Inr ()"
    "\<not> truthy (dget e ''enabled'') \<Longrightarrow> pt_users p = [] \<and> pt_vms p = [] \<and> pt_devices p = [] \<and> pt_tailnet p = []"
  using assms
  by (auto simp: select_app_def Let_def bind_eq_Inr selected_users_def split: if_splits
      dest: selected_app_vms_specs selected_devices_of)

lemma compile_selected_app_contributes:
  assumes "compile_selected_app ctx c app e = Inr c'"
  shows "\<exists>boxes. contributes app boxes c c'"
proof -
  from assms obtain m path p c1 ids items sel policy summary where
    p: "select_app ctx app e m = Inr p"
    and f: "fold_res (compile_app_box ctx app e m (pt_users p) (pt_vms p) (pt_devices p))
      (c\<lparr>co_paths := co_paths c @ path, co_devices := co_devices c @ pt_devices p,
         co_cleanup := co_cleanup c @ (if truthy (dget e ''enabled'') then []
            else map (\<lambda>box. build_app_resource_cleanup_scope app box ''disabled-app'') (pt_boxes p))\<rparr>, [])
      (pt_boxes p) = Inr (c1, ids)"
    and t: "compile_app_tailnet ctx app (pt_boxes p) (pt_tailnet p) = Inr (items, sel)"
    and s: "app_summary app e m p ids (foldl add_new [] (map tr_id items)) = Inr summary"
    and c': "c' = c1\<lparr>co_tailnet := co_tailnet c1 @ items, co_policy := co_policy c1 @ policy,
             co_apps := co_apps c1 @ [(app, summary)]\<rparr>"
    unfolding compile_selected_app_def Let_def bind_eq_Inr split_beta by (metis prod.collapse sum.inject(2))
  note a = compile_app_boxes_adds [OF f select_app_facts(2) [OF p]]
  have "ap_boxes summary = pt_boxes p" using s by (auto simp: app_summary_def Let_def bind_eq_Inr)
  with a select_app_facts(3) [OF p] compile_app_tailnet_items [OF t] have "contributes app (pt_boxes p) c c'"
    by (auto simp: contributes_def adds_def c' list_all_iff build_app_resource_cleanup_scope_def)
  then show ?thesis ..
qed


section \<open>The platform's own rules\<close>

definition platform_rule :: "string set \<Rightarrow> router_rule \<Rightarrow> bool" where
  "platform_rule boxes r \<longleftrightarrow> rr_app r = ''platform'' \<and> rr_exclusive r \<and> rr_node r \<in> boxes"

lemma platform_rule_mono: "platform_rule A r \<Longrightarrow> A \<subseteq> B \<Longrightarrow> platform_rule B r"
  by (auto simp: platform_rule_def)

lemma gateway_rule_platform [simp]: "platform_rule B (gateway_rule box n i out s d p ports) \<longleftrightarrow> box \<in> B"
  by (simp add: platform_rule_def gateway_rule_def)

lemma air_rule_platform [simp]: "platform_rule B (air_rule box i out s n d p ports) \<longleftrightarrow> box \<in> B"
  by (simp add: platform_rule_def air_rule_def)

lemma box_gateway_rules:
  assumes "box_gateway registry t bb prof zn z a (box, cv) = Inr (Some (g, rs))"
  shows "guest_node g = box \<and> (\<forall>r\<in>set rs. platform_rule {box} r)"
proof -
  from assms obtain wan iface resolvers selected for_clients bootstrap where
    g: "gateway_guest box (vpn_egress t) zn a = Inr g"
    and c: "traverse (client_rules box iface a (vpn_egress t)) selected = Inr for_clients"
    and b: "bootstrap_rules bb box t iface a = Inr bootstrap"
    and rs: "rs = egress_rules_of box iface wan a resolvers @ concat for_clients @ bootstrap"
    by (auto simp: box_gateway_def bind_eq_Inr split: if_splits)
  have "\<forall>rs\<in>set for_clients. \<forall>r\<in>set rs. platform_rule {box} r"
    by (rule traverse_all [OF c]) (auto simp: client_rules_def bind_eq_Inr split: if_splits)
  moreover have "\<forall>r\<in>set bootstrap. platform_rule {box} r"
    using b by (auto simp: bootstrap_rules_def bootstrap_ssh_rule_def bind_eq_Inr split: if_splits)
  moreover have "\<forall>r\<in>set (egress_rules_of box iface wan a resolvers). platform_rule {box} r"
    by (auto simp: egress_rules_of_def Let_def)
  moreover have "guest_node g = box" using g by (auto simp: gateway_guest_def bind_eq_Inr guest_node_def)
  ultimately show ?thesis by (auto simp: rs)
qed

lemma gateways_of_set: "x \<in> set (gateways_of found) \<longleftrightarrow> Some x \<in> set found"
  by (auto simp: gateways_of_def split: option.splits) 

lemma compile_network_rules:
  assumes "compile_network registry configs t bb prof = Inr (guests, rules, vms)"
  shows "\<forall>r\<in>set rules. platform_rule (set (map guest_node guests)) r" "vms = []"
    "set (map guest_node guests) \<subseteq> set (dkeys configs)"
proof -
  from assms obtain zn z a found where
    t: "traverse (box_gateway registry t bb prof zn z a) (sort_key fst configs) = Inr found"
    and g: "guests = map fst (gateways_of found)" and r: "rules = concat (map snd (gateways_of found))"
    and v: "vms = []"
    by (auto simp: compile_network_def Let_def bind_eq_Inr)
  have one: "(\<exists>cv. (guest_node g, cv) \<in> set configs) \<and> (\<forall>r\<in>set rs. platform_rule {guest_node g} r)"
    if "(g, rs) \<in> set (gateways_of found)" for g rs
  proof -
    from that traverse_set [OF t, of "Some (g, rs)"] obtain x where "x \<in> set configs"
      "box_gateway registry t bb prof zn z a x = Inr (Some (g, rs))"
      by (auto simp: gateways_of_set)
    moreover obtain box cv where "x = (box, cv)" by (cases x)
    ultimately have "(box, cv) \<in> set configs"
      "box_gateway registry t bb prof zn z a (box, cv) = Inr (Some (g, rs))"
      by simp_all
    with box_gateway_rules [of registry t bb prof zn z a box cv g rs] show ?thesis by auto
  qed
  show "\<forall>r\<in>set rules. platform_rule (set (map guest_node guests)) r"
  proof
    fix q assume "q \<in> set rules"
    then obtain gd rs where gr: "(gd, rs) \<in> set (gateways_of found)" "q \<in> set rs" by (auto simp: r)
    moreover from gr(1) have "guest_node gd \<in> set (map guest_node guests)" by (force simp: g)
    ultimately show "platform_rule (set (map guest_node guests)) q"
      using one [OF gr(1)] platform_rule_mono [of "{guest_node gd}"] by blast
  qed
  show "set (map guest_node guests) \<subseteq> set (dkeys configs)"
    using one by (force simp: g)
  show "vms = []" by (rule v)
qed

lemma compile_airunners_rules:
  assumes "compile_airunners registry t ib = Inr (guests, rules)"
  shows "\<forall>r\<in>set rules. platform_rule (set (map guest_node guests)) r"
proof -
  have one: "\<forall>r\<in>set (snd g). platform_rule {guest_node (fst g)} r"
    if "compile_runner registry t ib zn z a runner = Inr g" for zn z a runner g
    using that by (auto simp: compile_runner_def Let_def bind_eq_Inr runner_guest_def guest_node_def)
  from assms consider "rules = []" | zn z a found runners where
    "traverse (compile_runner registry t ib zn z a) runners = Inr found"
    "guests = map fst found" "rules = concat (map snd found)"
    by (auto simp: compile_airunners_def Let_def bind_eq_Inr split: if_splits)
  then show ?thesis
  proof cases
    case 2
    have "\<forall>g\<in>set found. \<forall>r\<in>set (snd g). platform_rule {guest_node (fst g)} r"
      by (rule traverse_all [OF 2(1)]) (rule one)
    then show ?thesis by (auto simp: 2 platform_rule_def)
  qed simp
qed


section \<open>All applications\<close>

text \<open>Every item names a compiled application and a box of the plan; only the platform's rules are not
  of an application, and they are exclusive.\<close>

definition wf_compiled :: "compiled \<Rightarrow> bool" where
  "wf_compiled c \<longleftrightarrow> (let names = fst ` set (co_apps c); boxes = set (co_boxes c) in
    ''platform'' \<notin> names \<and>
    (\<forall>r\<in>set (co_router c). platform_rule boxes r \<or> rr_app r \<in> names \<and> rr_node r \<in> boxes) \<and>
    (\<forall>r\<in>set (co_vm c). vr_app r \<in> names \<and> vr_node r \<in> boxes) \<and>
    (\<forall>s\<in>set (co_specs c). vs_app s \<in> names \<and> vs_node s \<in> boxes \<and> typed_guest s) \<and>
    (\<forall>d\<in>set (co_devices c). dev_app d \<in> names \<and> dev_node d \<in> boxes) \<and>
    (\<forall>i\<in>set (co_tailnet c). tr_app i \<in> names \<and> (tr_node i = [] \<or> tr_node i \<in> boxes)) \<and>
    (\<forall>s\<in>set (co_cleanup c). cs_app s \<in> names \<and> cs_node s \<in> boxes) \<and>
    (\<forall>(a, p)\<in>set (co_apps c). set (ap_boxes p) \<subseteq> boxes))"

lemma contributes_wf:
  assumes "contributes app boxes c c'" "wf_compiled c" "app \<noteq> ''platform''"
  shows "wf_compiled c'"
proof -
  from assms(1) obtain rr vr specs ds items cleanup p where
    e: "co_router c' = co_router c @ rr" "co_vm c' = co_vm c @ vr" "co_specs c' = co_specs c @ specs"
      "co_devices c' = co_devices c @ ds" "co_tailnet c' = co_tailnet c @ items"
      "co_cleanup c' = co_cleanup c @ cleanup" "co_apps c' = co_apps c @ [(app, p)]"
      "set (co_boxes c') = set (co_boxes c) \<union> set boxes"
    and n: "ap_boxes p = boxes" "list_all (app_rule app boxes) rr" "list_all (app_vm_rule app boxes) vr"
      "list_all (spec_of app boxes) specs" "list_all (device_of_app app boxes) ds"
      "list_all (tailnet_of app boxes) items" "list_all (\<lambda>s. cs_app s = app \<and> cs_node s \<in> set boxes) cleanup"
    unfolding contributes_def by blast
  have old: "platform_rule (set (co_boxes c)) r \<Longrightarrow> platform_rule (set (co_boxes c) \<union> set boxes) r" for r
    by (rule platform_rule_mono) auto
  have "\<forall>r\<in>set (co_router c) \<union> set rr. platform_rule (set (co_boxes c) \<union> set boxes) r \<or>
      rr_app r \<in> insert app (fst ` set (co_apps c)) \<and> rr_node r \<in> set (co_boxes c) \<union> set boxes"
    using assms(2) n(2) old by (fastforce simp: wf_compiled_def Let_def list_all_iff app_rule_def)
  then show ?thesis
    using assms(2,3) n
    unfolding wf_compiled_def Let_def e set_append ball_Un list_all_iff app_rule_def app_vm_rule_def spec_of_def
      device_of_app_def tailnet_of_def
    by (intro conjI) auto
qed

lemma compile_app_wf:
  assumes "compile_app ctx req c x = Inr c'" "wf_compiled c"
  shows "wf_compiled c'"
proof -
  obtain app v where x: "x = (app, v)" by (cases x)
  from assms(1) have ok: "validate_app_id app = Inr ()"
    and "c' = c \<or> (\<exists>e. compile_selected_app ctx c app e = Inr c')"
    by (auto simp: x compile_app_def bind_eq_Inr split: if_splits pyval.splits)
  then consider "c' = c" | boxes where "contributes app boxes c c'"
    using compile_selected_app_contributes by blast
  then show ?thesis
  proof cases
    case 2
    then show ?thesis by (rule contributes_wf [OF _ assms(2)]) (use ok in \<open>auto simp: validate_app_id_iff\<close>)
  qed (use assms(2) in simp)
qed

lemma compile_apps_wf:
  assumes "compile_apps ctx req apps start = Inr c" "wf_compiled start"
  shows "wf_compiled c" "set req \<subseteq> fst ` set (co_apps c)"
proof -
  from assms(1) have f: "fold_res (compile_app ctx req) start (sort_key fst apps) = Inr c"
    and m: "sorted_set (filter (\<lambda>a. a \<notin> set (map fst (co_apps c))) req) = []"
    by (auto simp: compile_apps_def Let_def res_simps)
  show "wf_compiled c" by (rule fold_res_invariant [OF f, where P = wf_compiled]) (use assms(2) compile_app_wf in blast)+
  have "set (filter (\<lambda>a. a \<notin> set (map fst (co_apps c))) req) = {}"
    using m by (metis set_empty sorted_set_props(1))
  then show "set req \<subseteq> fst ` set (co_apps c)" by auto
qed


lemma empty_compiled_wf:
  assumes "compile_network registry configs t bb prof = Inr (vg, vr, vv)" "compile_airunners registry t ib = Inr (ag, ar)"
  shows "wf_compiled (empty_compiled vg vr vv ag ar)"
proof -
  note v = compile_network_rules [OF assms(1)] and a = compile_airunners_rules [OF assms(2)]
  have "platform_rule (guest_node ` set vg \<union> guest_node ` set ag) r" if "r \<in> set vr \<union> set ar" for r
    using that v(1) a by (auto intro: platform_rule_mono)
  with v(2) show ?thesis by (auto simp: wf_compiled_def empty_compiled_def)
qed


section \<open>A switched-off application\<close>

lemma disabled_box:
  assumes "compile_app_box ctx app e m [] [] ds (c, ids) box = Inr (c', ids')" "\<not> truthy (dget e ''enabled'')"
  shows "c' = c\<lparr>co_boxes := co_boxes c @ [box]\<rparr> \<and> ids' = ids"
  using assms by (auto simp: compile_app_box_def Let_def bind_eq_Inr dest: compile_app_vm_specs_of(2) [where boxes = "[box]"])

lemma disabled_boxes:
  assumes "fold_res (compile_app_box ctx app e m [] [] ds) (c, []) boxes = Inr (c', ids)" "\<not> truthy (dget e ''enabled'')"
  shows "c' = c\<lparr>co_boxes := co_boxes c @ boxes\<rparr> \<and> ids = []"
proof -
  have "fst (c', ids) = c\<lparr>co_boxes := co_boxes c @ boxes\<rparr> \<and> snd (c', ids) = []"
  proof (rule fold_res_invariant_prefix [OF assms(1), where P = "\<lambda>pre s. fst s = c\<lparr>co_boxes := co_boxes c @ pre\<rparr> \<and> snd s = []"])
    fix pre box s s'
    assume "fst s = c\<lparr>co_boxes := co_boxes c @ pre\<rparr> \<and> snd s = []" "compile_app_box ctx app e m [] [] ds s box = Inr s'"
    then show "fst s' = c\<lparr>co_boxes := co_boxes c @ (pre @ [box])\<rparr> \<and> snd s' = []"
      using assms(2) by (cases s; cases s') (auto dest: disabled_box)
  qed simp
  then show ?thesis by simp
qed

lemma disabled_app_effect:
  assumes "compile_selected_app ctx c app e = Inr c'" "\<not> truthy (dget e ''enabled'')"
  shows "\<exists>boxes path p. selected_boxes app (fst (case find_manifest ctx app False of Inr m \<Rightarrow> m)) e = Inr boxes \<and>
    c' = c\<lparr>co_paths := co_paths c @ path,
      co_cleanup := co_cleanup c @ map (\<lambda>box. build_app_resource_cleanup_scope app box ''disabled-app'') boxes,
      co_boxes := co_boxes c @ boxes, co_apps := co_apps c @ [(app, p)]\<rparr> \<and>
    \<not> ap_enabled p \<and> ap_runtime_state p = ''stopped'' \<and> ap_boxes p = boxes \<and> ap_users p = [] \<and> ap_resources p = []"
proof -
  from assms obtain m path p c1 ids items sel placement policy summary where
    m: "find_manifest ctx app False = Inr (m, path)" and p: "select_app ctx app e m = Inr p"
    and f: "fold_res (compile_app_box ctx app e m (pt_users p) (pt_vms p) (pt_devices p))
      (c\<lparr>co_paths := co_paths c @ path, co_devices := co_devices c @ pt_devices p,
         co_cleanup := co_cleanup c @ map (\<lambda>box. build_app_resource_cleanup_scope app box ''disabled-app'') (pt_boxes p)\<rparr>, [])
      (pt_boxes p) = Inr (c1, ids)"
    and t: "compile_app_tailnet ctx app (pt_boxes p) (pt_tailnet p) = Inr (items, sel)"
    and y: "compile_tailnet_policy_resources app m (pt_users p) placement sel = Inr policy"
    and s: "app_summary app e m p ids (foldl add_new [] (map tr_id items)) = Inr summary"
    and c': "c' = c1\<lparr>co_tailnet := co_tailnet c1 @ items, co_policy := co_policy c1 @ policy,
             co_apps := co_apps c1 @ [(app, summary)]\<rparr>"
    by (auto simp: compile_selected_app_def Let_def bind_eq_Inr)
  from select_app_facts(6) [OF p assms(2)] have e: "pt_users p = []" "pt_vms p = []" "pt_devices p = []" "pt_tailnet p = []"
    by auto
  have "items = []" "sel = []" using t by (auto simp: e compile_app_tailnet_def)
  moreover have "policy = []" using y by (auto simp: e compile_tailnet_policy_resources_def bind_eq_Inr Let_def)
  moreover note disabled_boxes [OF f [unfolded e] assms(2)]
  moreover have "\<not> ap_enabled summary \<and> ap_runtime_state summary = ''stopped'' \<and> ap_boxes summary = pt_boxes p \<and>
      ap_users summary = [] \<and> ap_resources summary = ids"
    using s assms(2) by (auto simp: app_summary_def Let_def bind_eq_Inr e)
  ultimately show ?thesis
    using select_app_facts(1) [OF p] m by (auto simp: c' e)
qed


section \<open>The plan\<close>

lemma all_router_rules_wf:
  assumes "all_router_rules c t = Inr rules" "wf_compiled c"
  shows "\<forall>r\<in>set rules. platform_rule (set (co_boxes c)) r \<or>
    rr_app r \<in> fst ` set (co_apps c) \<and> rr_node r \<in> set (co_boxes c)"
proof -
  from assms(1) obtain bootstrap where b: "compile_app_vm_bootstrap_router_rules (co_specs c) t = Inr bootstrap"
    and rules: "rules = map exclude_private (co_router c) @ bootstrap"
    by (auto simp: all_router_rules_def bind_eq_Inr compile_app_vm_tailscale_underlay_router_rules_def)
  have "\<exists>s\<in>set (co_specs c). rr_app r = vs_app s \<and> rr_node r = vs_node s" if "r \<in> set bootstrap" for r
  proof -
    from b that obtain backend source rss x where t: "traverse (bootstrap_rule backend source t) (co_specs c) = Inr rss"
      and x: "x \<in> set rss" "r \<in> set x"
      by (auto simp: compile_app_vm_bootstrap_router_rules_def bind_eq_Inr)
    from traverse_set [OF t x(1)] x(2) show ?thesis
      by (auto simp: bootstrap_rule_def bind_eq_Inr split: if_splits)
  qed
  then have "rr_app r \<in> fst ` set (co_apps c) \<and> rr_node r \<in> set (co_boxes c)" if "r \<in> set bootstrap" for r
    using that assms(2) unfolding wf_compiled_def Let_def by metis
  moreover have "platform_rule B (exclude_private r) = platform_rule B r" "rr_app (exclude_private r) = rr_app r"
    "rr_node (exclude_private r) = rr_node r" for B r
    by (simp_all add: exclude_private_def platform_rule_def)
  moreover have "\<forall>r\<in>set (co_router c). platform_rule (set (co_boxes c)) r \<or>
      rr_app r \<in> fst ` set (co_apps c) \<and> rr_node r \<in> set (co_boxes c)"
    using assms(2) unfolding wf_compiled_def Let_def by blast
  ultimately show ?thesis unfolding rules set_append set_map by (metis (no_types, lifting) UnE imageE)
qed

definition claim_owned :: "string set \<Rightarrow> string set \<Rightarrow> claim \<Rightarrow> bool" where
  "claim_owned names boxes c \<longleftrightarrow> cl_node c \<in> boxes \<and> (cl_app c = ''platform'' \<and> cl_exclusive c \<or> cl_app c \<in> names)"

lemma ledger_claims_owned:
  assumes "build_app_resource_ledger rules vms = Inr l"
    and "\<forall>r\<in>set rules. platform_rule boxes r \<or> rr_app r \<in> names \<and> rr_node r \<in> boxes"
    and "\<forall>r\<in>set vms. vr_app r \<in> names \<and> vr_node r \<in> boxes"
  shows "\<forall>c\<in>set (claims l). claim_owned names boxes c"
proof -
  from assms(1) obtain cs where t: "traverse build_resource_claim (map RouterForward rules @ map VmInput vms) = Inr cs"
    and l: "claims l = sort_key claim_order cs"
    by (rule ledger_parts)
  have "claim_owned names boxes c" if "c \<in> set cs" for c
  proof -
    from traverse_set [OF t that] obtain r where r: "r \<in> set (map RouterForward rules @ map VmInput vms)"
      and "build_resource_claim r = Inr c" by blast
    from build_resource_claim_fields(1,3,5) [OF this(2)] r assms(2,3) show ?thesis
      by (auto simp: claim_owned_def platform_rule_def)
  qed
  then show ?thesis by (simp add: l)
qed

lemma ledger_files_owned:
  assumes l: "build_app_resource_ledger rules vms = Inr l" and "\<forall>c\<in>set (claims l). claim_owned names boxes c"
    and "''platform'' \<notin> names" "f \<in> set (effective_files l)"
  shows "ef_node f \<in> boxes \<and> ef_owners f \<noteq> [] \<and> set (ef_owners f) \<subseteq> insert ''platform'' names \<and>
    (''platform'' \<in> set (ef_owners f) \<longrightarrow> ef_exclusive f \<and> ef_owners f = [''platform''])"
proof -
  from ledger_files(2) [OF l assms(4)] obtain cs where b: "build_effective_resource_file cs = Inr f" "cs \<noteq> []"
    and cs: "set cs = {c \<in> set (claims l). claim_group c = file_group f}" by blast
  note f = build_effective_file_fields [OF b, of "file_group f"]
  have o: "ef_owners f = sorted_set (map cl_app cs)" by (rule f(2)) (simp add: cs)
  have owned: "claim_owned names boxes c" if "c \<in> set cs" for c using that cs assms(2) by blast
  obtain c where c: "c \<in> set cs" using b(2) by (cases cs) auto
  have node: "cl_node c = ef_node f" using c cs by (auto simp: claim_group_def file_group_def)
  have single: "ef_exclusive f \<and> ef_owners f = [''platform'']" if "''platform'' \<in> set (ef_owners f)"
  proof -
    from that obtain c where "c \<in> set cs" "cl_app c = ''platform''" by (auto simp: o)
    with owned [of c] assms(3) have "cl_exclusive c" by (auto simp: claim_owned_def)
    with \<open>c \<in> set cs\<close> have e: "ef_exclusive f" using f(3) cs by blast
    then have "length (ef_owners f) \<le> 1" by (intro f(4)) (simp_all add: cs)
    with that e show ?thesis by (cases "ef_owners f") auto
  qed
  moreover have "ef_owners f \<noteq> []" using c by (metis o empty_iff empty_set image_eqI list.set_map sorted_set_props(1))
  moreover have "set (ef_owners f) \<subseteq> insert ''platform'' names"
    using owned by (auto simp: o claim_owned_def)
  ultimately show ?thesis using owned [OF c] node by (auto simp: claim_owned_def)
qed

lemma value_error_dies_iff: "value_error_dies m = Inr x \<longleftrightarrow> m = Inr x"
  by (auto simp: value_error_dies_def die_def split: sum.splits exn.splits)

lemma compile_registry_parts:
  assumes "compile_registry env src req boot = Inr p"
  obtains t registry apps configs prof ib vg vr vv ag ar c where
    "load_topology (env_inventory_path env) (env_inventory env) = Inr t"
    "source_registry src = Inr registry" "registry_apps src registry = Inr apps"
    "registry_box_configs registry t = Inr configs"
    "compile_network registry configs t boot prof = Inr (vg, vr, vv)"
    "compile_airunners registry t ib = Inr (ag, ar)"
    "compile_apps \<lparr>topology_of = t, configs_of = configs, repo_root = env_root env,
       manifest_file = env_manifest env, clock = env_clock env\<rparr> req apps (empty_compiled vg vr vv ag ar) = Inr c"
    "finish_plan src t configs vg ag c = Inr p"
  using assms
  unfolding compile_registry_def bind_eq_Inr split_beta value_error_dies_iff
  by (elim exE conjE) (rule that; (assumption | simp))

lemma finish_plan_parts:
  assumes "finish_plan src t configs vg ag c = Inr p"
  obtains rules l where "all_router_rules c t = Inr rules" "build_app_resource_ledger rules (co_vm c) = Inr l"
    "pl_claims p = claims l" "pl_effective_files p = effective_files l" "pl_apps p = co_apps c"
    "pl_boxes p = sorted_set (co_boxes c)" "pl_box_configs p = effective_configs (co_boxes c) configs"
    "pl_app_vm_specs p = co_specs c" "pl_managed_devices p = sort_key device_order (co_devices c)"
    "pl_tailnet_resources p = co_tailnet c" "pl_cleanup_scopes p = co_cleanup c" "rp_lan_services p = co_lan c"
    "traverse (\<lambda>box. bind (router_files (co_lan c) box) (\<lambda>fs. Inr (box, fs))) (sorted_set (dkeys (pl_box_configs p)))
      = Inr (rp_lan_files p)"
  using assms by (auto simp: finish_plan_def Let_def bind_eq_Inr intro!: that)


text \<open>What a compiled plan rests on: the lists of the loop, well formed, and the ledger of all rules.\<close>

lemma compiled_plan:
  assumes "compile_registry env src requested boot = Inr p"
  obtains c rules l where "wf_compiled c" "set requested \<subseteq> fst ` set (co_apps c)"
    "build_app_resource_ledger rules (co_vm c) = Inr l"
    "\<forall>x\<in>set (claims l). claim_owned (fst ` set (co_apps c)) (set (co_boxes c)) x"
    "pl_claims p = claims l" "pl_effective_files p = effective_files l" "pl_apps p = co_apps c"
    "pl_boxes p = sorted_set (co_boxes c)" "pl_app_vm_specs p = co_specs c" "pl_tailnet_resources p = co_tailnet c"
    "pl_managed_devices p = sort_key device_order (co_devices c)" "pl_cleanup_scopes p = co_cleanup c"
  using assms
proof (rule compile_registry_parts)
  fix t registry apps configs prof ib vg vr vv ag ar c
  assume n: "compile_network registry configs t boot prof = Inr (vg, vr, vv)" "compile_airunners registry t ib = Inr (ag, ar)"
    and a: "compile_apps \<lparr>topology_of = t, configs_of = configs, repo_root = env_root env,
       manifest_file = env_manifest env, clock = env_clock env\<rparr> requested apps (empty_compiled vg vr vv ag ar) = Inr c"
    and f: "finish_plan src t configs vg ag c = Inr p"
  note wf = compile_apps_wf [OF a empty_compiled_wf [OF n]]
  from f obtain rules l where r: "all_router_rules c t = Inr rules" and l: "build_app_resource_ledger rules (co_vm c) = Inr l"
    and p: "pl_claims p = claims l" "pl_effective_files p = effective_files l" "pl_apps p = co_apps c"
      "pl_boxes p = sorted_set (co_boxes c)" "pl_app_vm_specs p = co_specs c" "pl_tailnet_resources p = co_tailnet c"
      "pl_managed_devices p = sort_key device_order (co_devices c)" "pl_cleanup_scopes p = co_cleanup c"
    by (rule finish_plan_parts)
  have v: "\<forall>r\<in>set (co_vm c). vr_app r \<in> fst ` set (co_apps c) \<and> vr_node r \<in> set (co_boxes c)"
    using wf(1) by (simp add: wf_compiled_def Let_def)
  show thesis by (rule that [OF wf l ledger_claims_owned [OF l all_router_rules_wf [OF r wf(1)] v] p])
qed

end
