(* ===== verification/Model_Properties.thy ===== *)
theory Model_Properties
  imports Model_Users
begin

text \<open>
  The properties of the resource model, over the facts of its component theories, and the sample
  documents on which their witnesses evaluate.
\<close>

section \<open>Sample documents\<close>

definition sample_zone :: "string \<Rightarrow> string \<Rightarrow> string \<Rightarrow> pyval" where
  "sample_zone name role net = PDict [(''role'', PStr role), (''hostname_suffix'', PStr name), (''bridge'', PStr (''br'' @ name)),
     (''router_interface'', PStr name), (''vm_interface'', PStr ''eth0''),
     (''router_ipv4_address'', PStr (net @ ''.1'')), (''vm_ipv4_address'', PStr (net @ ''.2'')),
     (''cidr'', PStr (net @ ''.0/24''))]"

definition sample_vars :: pydict where
  "sample_vars = [
     (''platform_zones'', PDict [(''usr'', sample_zone ''usr'' ''usr'' ''10.0.3''),
        (''dmz'', sample_zone ''dmz'' ''dmz'' ''10.0.4''), (''iot'', sample_zone ''iot'' ''iot'' ''10.0.5'')]),
     (''platform_zone_aliases'', PDict [(''public'', PStr ''dmz'')]),
     (''platform_control_zones'', PDict [(''ops'', PDict [(''router_interface'', PStr ''ops''), (''vm_interface'', PStr ''eth0''),
        (''router_ipv4_address'', PStr ''10.0.9.1''), (''vm_ipv4_address'', PStr ''10.0.9.2''), (''cidr'', PStr ''10.0.9.0/24'')])]),
     (''platform_network_realms'', PDict [(''wan'', PDict [(''router_interface'', PStr ''wan'')]),
        (''lan'', PDict [(''router_interface'', PStr ''lan''), (''cidr'', PStr ''192.168.0.0/24'')])])]"

definition sample_topology :: topology where
  "sample_topology = \<lparr>zones = dict_of (dget sample_vars ''platform_zones''), air = PDict [], vpn_egress = PDict [],
     control_zones = dict_of (dget sample_vars ''platform_control_zones''),
     aliases = dict_of (dget sample_vars ''platform_zone_aliases''),
     realms = dict_of (dget sample_vars ''platform_network_realms'')\<rparr>"

lemma sample_loaded: "load_topology ''vars'' (Parsed (PDict sample_vars)) = Inr sample_topology"
  by code_simp


section \<open>Validators\<close>

text \<open>C35. An accepted port list is the canonical form of its input: the same port numbers, in ascending
  order, each once, all between 1 and 65535; and validating the result again gives it back.\<close>

theorem validate_ports_canonical:
  assumes "validate_ports v f = Inr ps"
  shows "sorted (map port_num ps) \<and> distinct (map port_num ps) \<and> port_num ` set ps = port_num ` set (list_of v) \<and>
    (\<forall>p\<in>set ps. 1 \<le> port_num p \<and> port_num p \<le> 65535) \<and> ps \<noteq> [] \<and> validate_ports (PList ps) g = Inr ps"
  using validate_ports_normal [OF assms] validate_ports_idem
  by (auto simp: normal_ports_def list_all_iff valid_port_def port_num_def split: option.splits)

lemma validate_ports_canonical_witness:
  "validate_ports (PList [PInt 443, PInt 80, PInt 443]) ''p'' = Inr [PInt 80, PInt 443] \<and> sorted [80, 443 :: int]"
proof -
  have e: "validate_ports (PList [PInt 443, PInt 80, PInt 443]) ''p'' = Inr [PInt 80, PInt 443]" by code_simp
  from validate_ports_canonical [OF e, of "''q''"] show ?thesis using e by (simp add: port_num_def)
qed

text \<open>\<open>true\<close> is an accepted port: \<open>isinstance(True, int)\<close> holds and \<open>True\<close> is 1. It stays the Boolean it was,
  so that a rendered rule names the port \<open>True\<close>.\<close>

theorem validate_ports_accepts_bool:
  "validate_ports (PList [PBool True]) f = Inr [PBool True] \<and> py_str (PBool True) = ''True''"
  by (simp add: validate_ports_idem normal_ports_def valid_port_def py_str_def)

text \<open>C36. The two recursive scans accept exactly the documents in which none of their field names is a key at any depth.\<close>

theorem field_scans_exact:
  "(reject_raw_network_fields v f = Inr u \<longleftrightarrow> (\<forall>k\<in>set RAW_NETWORK_FIELDS. \<not> occurs_key k v)) \<and>
   (reject_tcb_control_fields v f = Inr u \<longleftrightarrow> (\<forall>k\<in>set TCB_CONTROL_FIELDS. \<not> occurs_key k v))"
  by (simp only: field_scan_iff)

lemma field_scans_exact_witness:
  "reject_raw_network_fields (PList [PDict [(''a'', PDict [(hd RAW_NETWORK_FIELDS, PNone)])]]) ''f'' \<noteq> Inr ()"
  using field_scans_exact [of "PList [PDict [(''a'', PDict [(hd RAW_NETWORK_FIELDS, PNone)])]]" "''f''" "()"]
  by (auto simp: RAW_NETWORK_FIELDS_def)

text \<open>In a loaded topology every declared zone and every alias resolves, to a declared zone with valid interface
  names and a workload role.\<close>

theorem declared_zones_resolve:
  assumes "load_topology path f = Inr t" "dhas (zones t) s \<or> dhas (aliases t) s" "s \<noteq> []"
  shows "\<exists>c z. resolve_zone (PStr s) field t = Inr (c, z) \<and> map_of (zones t) c = Some z \<and> wf_zone z"
  using resolve_zone_complete [OF load_topology_wf [OF assms(1)] assms(2,3), of field] by (auto simp: res_simps)

lemma declared_zones_resolve_witness:
  "\<exists>c z. resolve_zone (PStr ''public'') ''f'' sample_topology = Inr (c, z) \<and> wf_zone z"
  using declared_zones_resolve [OF sample_loaded, of "''public''" "''f''"]
  by (auto simp: sample_topology_def sample_vars_def dhas_def)

text \<open>A normalised access block offers and enables only known capabilities, enables only what it offers,
  enables and offers nothing it prohibits, repeats nothing, and is its own normal form.\<close>

theorem box_access_canonical:
  assumes "normalize_box_access v f = Inr a"
  shows "\<exists>available enabled prohibited. a = access_block available enabled prohibited \<and>
    distinct available \<and> distinct enabled \<and> distinct prohibited \<and> set available \<subseteq> set ACCESS_CAPABILITIES \<and>
    set enabled \<subseteq> set available \<and> set available \<inter> set prohibited = {} \<and> normalize_box_access (PDict a) g = Inr a"
  using access.sound [OF assms] access.idem [OF assms, of g] by (auto simp: wf_access_def)

lemma box_access_canonical_witness:
  "\<exists>a. normalize_box_access PNone ''f'' = Inr a \<and> normalize_box_access (PDict a) ''g'' = Inr a"
proof -
  have e: "normalize_box_access PNone ''f'' = Inr default_box_access" by code_simp
  from box_access_canonical [OF e, of "''g''"] e show ?thesis by auto
qed


section \<open>Selection and registry\<close>

definition sample_network :: pydict where
  "sample_network = [(''id'', PStr ''web''), (''type'', PStr ''interzone_tcp''), (''required'', PBool True),
     (''from_zone'', PStr ''usr''), (''to_zone'', PStr ''public''), (''ports'', PList [PInt 443, PInt 80])]"

definition sample_manifest :: pydict where
  "sample_manifest = [(''schema_version'', PInt 1), (''app'', PStr ''notes''), (''resources'', PDict [
     (''compute'', PList [PDict [(''id'', PStr ''vm''), (''type'', PStr ''per_user_app_vm'')],
        PDict [(''id'', PStr ''srv''), (''type'', PStr ''podman_workload''), (''zone'', PStr ''dmz'')]]),
     (''network'', PList [PDict sample_network])])]"

definition sample_entry :: pydict where
  "sample_entry = [(''enabled'', PBool True), (''placement'', PDict [(''active_master'', PStr ''b1''), (''passive_backup'', PStr ''b2'')]),
     (''users'', PList [
        PDict [(''slug'', PStr ''ann''), (''tailscale_login'', PStr ''ann@x''), (''vm_ipv4_address'', PStr ''10.0.3.10'')],
        PDict [(''slug'', PStr ''bob''), (''tailscale_login'', PStr ''bob@x''), (''vm_ipv4_address'', PStr ''10.0.3.11''),
          (''storage_port'', PInt 8001)]])]"

text \<open>The boxes of an enabled application are sorted, distinct, well-formed names; there is at least one; and in the
  active/passive mode the two boxes differ, a single-box application has no passive box, and a multi-box
  application has neither.\<close>

theorem selected_boxes_placement:
  assumes "selected_boxes app m e = Inr bs" "truthy (dget e ''enabled'')" "app \<noteq> ''bootstrap-iso-debian''"
  shows "sorted bs \<and> distinct bs \<and> list_all box_name bs \<and> bs \<noteq> [] \<and>
    (\<exists>p mode per_user. entry_placement e = Inr p \<and> manifest_placement_mode m = Inr mode \<and>
       per_user_app_vm_resources m = Inr per_user \<and>
       (if mode = ''multi_box'' then \<not> truthy (dget p ''active_master'') \<and> \<not> truthy (dget p ''passive_backup'')
        else (\<exists>a\<in>set bs. dget p ''active_master'' = PStr a) \<and>
          (mode = ''single_box'' \<longrightarrow> \<not> truthy (dget p ''passive_backup'')) \<and>
          (mode = ''active_passive'' \<and> per_user = [] \<longrightarrow>
             (\<exists>b\<in>set bs. dget p ''passive_backup'' = PStr b \<and> dget p ''active_master'' \<noteq> PStr b))))"
proof -
  from assms(1) obtain p mode per_user listed named where
    parts: "entry_placement e = Inr p" "manifest_placement_mode m = Inr mode"
    "per_user_app_vm_resources m = Inr per_user"
    "listed_boxes app (dget p ''boxes'') = Inr listed" "named_boxes app p = Inr named"
    and ok: "check_enabled_placement app mode (per_user \<noteq> []) p = Inr ()"
    and d: "distinct (listed @ named)" and bs: "sorted_set (listed @ named) = bs"
    using assms(2,3) by (metis selected_boxes_parts)
  have set: "set bs = set listed \<union> set named" using bs by auto
  note named = named_boxes_facts(2) [OF parts(5)]
  have pair: "truthy (dget p ''active_master'') \<Longrightarrow> truthy (dget p ''passive_backup'') \<Longrightarrow>
      dget p ''active_master'' \<noteq> dget p ''passive_backup''"
    using named_boxes_pair [OF parts(5)] d by simp
  have "bs \<noteq> []"
  proof (cases "mode = ''multi_box''")
    case True
    with ok parts(4) have "listed \<noteq> []" by (auto simp: check_enabled_placement_iff res_simps)
    with set show ?thesis by auto
  next
    case False
    with ok named [of "''active_master''"] set show ?thesis by (auto simp: check_enabled_placement_iff)
  qed
  moreover have "if mode = ''multi_box'' then \<not> truthy (dget p ''active_master'') \<and> \<not> truthy (dget p ''passive_backup'')
        else (\<exists>a\<in>set bs. dget p ''active_master'' = PStr a) \<and>
          (mode = ''single_box'' \<longrightarrow> \<not> truthy (dget p ''passive_backup'')) \<and>
          (mode = ''active_passive'' \<and> per_user = [] \<longrightarrow>
             (\<exists>b\<in>set bs. dget p ''passive_backup'' = PStr b \<and> dget p ''active_master'' \<noteq> PStr b))"
    using ok named [of "''active_master''"] named [of "''passive_backup''"] pair set
    by (auto simp: check_enabled_placement_iff)
  ultimately show ?thesis
    using selected_boxes_names [OF assms(1)] parts(1-3) by blast
qed

lemma selected_boxes_placement_witness:
  "selected_boxes ''notes'' sample_manifest sample_entry = Inr [''b1'', ''b2''] \<and> sorted [''b1'', ''b2'']"
proof -
  have e: "selected_boxes ''notes'' sample_manifest sample_entry = Inr [''b1'', ''b2'']" by code_simp
  from selected_boxes_placement [OF e] e show ?thesis by (simp add: sample_entry_def)
qed

text \<open>Whatever box is asked for, the configuration the compiler works with is well formed: known shared guests
  with a state, a canonical access block, and DHCP reservations no two of which share a host name, a MAC
  address or an IPv4 address.\<close>

theorem box_configurations_well_formed:
  assumes "registry_box_configs registry t = Inr configs"
  shows "wf_box_config (box_config_for configs box)"
  by (rule box_config_for_wf) (use registry_box_configs_wf [OF assms] in blast)

definition sample_registry :: pydict where
  "sample_registry = [(''boxes'', PDict [(''b1'', PDict [
     (''dhcp_reservations'', PList [PDict [(''hostname'', PStr ''cam''), (''mac'', PStr ''AA:bb:cc:00:11:22''), (''ipv4_address'', PStr ''10.0.5.9'')]]),
     (''shared_guests'', PDict [(''iot'', PDict [(''runtime_state'', PStr ''stopped'')])])]), (''b2'', PNone)])]"

definition sample_configs :: pydict where
  "sample_configs = (case registry_box_configs sample_registry sample_topology of Inr c \<Rightarrow> c | Inl _ \<Rightarrow> [])"

lemma sample_configs: "registry_box_configs sample_registry sample_topology = Inr sample_configs"
  by code_simp

lemma box_configurations_well_formed_witness: "wf_box_config (box_config_for sample_configs ''b1'')"
  by (rule box_configurations_well_formed [OF sample_configs])

text \<open>Accepted bootstrap resolvers are two different IPv4 addresses, both globally routable.\<close>

theorem bootstrap_dns_public:
  assumes "bootstrap_dns config = Inr dns"
  shows "\<exists>a b m n. dns = [PStr a, PStr b] \<and> a \<noteq> b \<and> parse_ipv4 a = Some m \<and> parse_ipv4 b = Some n \<and>
    is_global4 m \<and> is_global4 n"
  by (rule bootstrap_dns_iff [OF assms])

lemma bootstrap_dns_public_witness: "\<exists>m. parse_ipv4 ''1.1.1.1'' = Some m \<and> is_global4 m"
proof -
  have e: "bootstrap_dns [] = Inr [PStr ''1.1.1.1'', PStr ''8.8.8.8'']" by code_simp
  from bootstrap_dns_public [OF e] show ?thesis by auto
qed

text \<open>A multicast address passes as a public resolver: no check excludes it.\<close>

theorem bootstrap_dns_accepts_multicast:
  "bootstrap_dns [(''bootstrap_dns'', strs [''224.0.0.1'', ''1.1.1.1''])] = Inr [PStr ''224.0.0.1'', PStr ''1.1.1.1'']"
  by code_simp

lemma traverse_in: "traverse f xs = Inr ys \<Longrightarrow> x \<in> set xs \<Longrightarrow> \<exists>y\<in>set ys. f x = Inr y"
  by (induction xs arbitrary: ys) (auto simp: bind_eq_Inr)

section \<open>Users and capabilities\<close>

text \<open>C38. The users of per-user virtual machines: distinct slugs, logins, accounts, addresses and storage ports, valid
  names that are no reserved account, and addresses inside the zone's network that are not reserved.\<close>

theorem selected_users_invariant:
  assumes "selected_users app m e t = Inr us" and "us \<noteq> []"
  shows "\<exists>zone reserved cidr. usr_zone_of t = Inr zone \<and> reserved_zone_ips zone = Inr reserved \<and>
    map_of zone ''cidr'' = Some cidr \<and> list_all (wf_user cidr reserved) us \<and>
    distinct (map slug us) \<and> distinct (map tailscale_login us) \<and> distinct (map system_user us) \<and>
    distinct (map vm_ipv4_address us) \<and> distinct (filter (\<lambda>k. k \<noteq> None) (map port_key us))"
  using selected_users_wf [OF assms] by (simp add: wf_users_def)

definition sample_users :: "app_user list" where
  "sample_users = [
     \<lparr>slug = ''ann'', tailscale_login = ''ann@x'', system_user = ''ann'', vm_ipv4_address = ''10.0.3.10'', storage_port = None\<rparr>,
     \<lparr>slug = ''bob'', tailscale_login = ''bob@x'', system_user = ''bob'', vm_ipv4_address = ''10.0.3.11'',
       storage_port = Some (PInt 8001)\<rparr>]"

lemma sample_users: "selected_users ''notes'' sample_manifest sample_entry sample_topology = Inr sample_users"
  by code_simp

lemma selected_users_invariant_witness: "distinct (map vm_ipv4_address sample_users)"
  using selected_users_invariant [OF sample_users] by (auto simp: sample_users_def)

text \<open>C40. In a registry whose boxes were normalised, an enabled application that passes the capability check has, on every
  box it is placed on, each capability enabled that a switched-on resource of its manifest names, in whichever of the four
  sections the resource stands, in \<open>requires_capability\<close> or else in its access block.\<close>

theorem selected_capabilities_sound:
  assumes "validate_selected_resource_capabilities app m e boxes configs = Inr ()" "truthy (dget e ''enabled'')"
    and "registry_box_configs registry t = Inr configs" "b \<in> set boxes"
    and "dget m ''resources'' = PDict rs" "section \<in> set [''compute'', ''network'', ''tailnet'', ''artifacts'']"
    and "dget rs section = PList xs" "PDict r \<in> set xs"
    and "truthy (dget r ''required'') \<or> truthy (dget r ''enabled_by_default'') \<or>
      (\<exists>flags s. dget e ''resources'' = PDict flags \<and> dget r ''id'' = PStr s \<and> truthy (dget flags s))"
    and "dget r ''requires_capability'' = PStr c \<or> \<not> truthy (dget r ''requires_capability'') \<and>
      (\<exists>access. dget r ''access'' = PDict access \<and> dget access ''capability'' = PStr c)" "c \<noteq> ''''"
  shows "\<exists>cfg access names. box_config_for configs b = PDict cfg \<and> dget cfg ''access'' = PDict access \<and>
    dget access ''enabled_capabilities'' = strs names \<and> c \<in> set names"
proof -
  from assms(1,2) obtain flags ress where flags: "mapping_section e ''resources'' (''apps.'' @ app @ ''.resources must be a mapping'') = Inr flags"
    and ress: "manifest_resources m = Inr ress" and check: "\<forall>r\<in>set ress. check_capabilities app e boxes configs r = Inr ()"
    by (auto simp: validate_selected_resource_capabilities_def Let_def res_simps split: if_splits)
  have "r \<in> set ress"
  proof -
    have "rs \<noteq> []" "xs \<noteq> []" using assms(7,8) by auto
    with assms(5,7) have dict: "py_or (dget m ''resources'') (PDict []) = PDict rs" "py_or (dget rs section) (PList []) = PList xs"
      by (simp_all add: py_or_def)
    from ress dict(1) obtain sections where
      "traverse (\<lambda>section. viter (py_or (dget rs section) (PList []))) [''compute'', ''network'', ''tailnet'', ''artifacts''] = Inr sections"
      "ress = map dict_of (filter is_dict (concat sections))"
      unfolding manifest_resources_def by (auto simp: bind_eq_Inr)
    from traverse_in [OF this(1) assms(6)] this(2) assms(8) dict(2) show ?thesis
      by (force simp: image_iff intro!: bexI [of _ "PDict r"])
  qed
  with check have "check_capabilities app e boxes configs r = Inr ()" by blast
  moreover have on: "resource_enabled r e \<noteq> Inr False"
    using flags assms(9) by (auto simp: resource_enabled_def mapping_section_def bind_eq_Inr split: if_splits pyval.splits)
  moreover have cap: "resource_capability r = Inr (PStr c)"
    using assms(10,11) by (auto simp: resource_capability_def py_or_def)
  ultimately have allowed: "resource_access_allowed r (box_config_for configs b) = Inr True"
    using assms(4,11) by (auto simp: check_capabilities_iff)
  have "wf_box_config (box_config_for configs b)"
    by (rule box_config_for_wf) (use registry_box_configs_wf [OF assms(3)] in blast)
  then obtain cfg access where wf: "box_config_for configs b = PDict cfg" "dget cfg ''access'' = PDict access" "wf_access access"
    unfolding wf_box_config_def by (elim exE conjE) (rule that)
  from wf(3) obtain available enabled prohibited where "access = access_block available enabled prohibited"
    unfolding wf_access_def by (elim exE conjE) (rule that)
  note cfg = wf(1,2) this
  have full: "cfg \<noteq> []" "access \<noteq> []" using cfg(2,3) by (auto simp: access_block_def)
  have "truthy (PStr c)" using assms(11) by (cases c) simp_all
  moreover have "py_or (PDict cfg) (PDict default_box_config) = PDict cfg" "py_or (PDict access) (PDict default_box_access) = PDict access"
    "viter (py_or (strs enabled) (PList [])) = Inr (map PStr enabled)"
    using full by (simp_all add: py_or_def)
  ultimately have "c \<in> set enabled"
    using allowed unfolding resource_access_allowed_def cap cfg(1) by (simp add: cfg(2)) (simp add: cfg(3))
  with cfg show ?thesis by auto
qed

definition capable_resource :: pydict where
  "capable_resource = [(''id'', PStr ''vm''), (''type'', PStr ''app_vm''), (''requires_capability'', PStr ''overlay''), (''required'', PBool True)]"

lemma selected_capabilities_sound_witness:
  "\<exists>cfg access names. box_config_for sample_configs ''b1'' = PDict cfg \<and> dget cfg ''access'' = PDict access \<and>
    dget access ''enabled_capabilities'' = strs names \<and> ''overlay'' \<in> set names"
proof -
  let ?rs = "[(''compute'', PList [PDict capable_resource])]"
  let ?m = "[(''resources'', PDict ?rs)]"
  have "validate_selected_resource_capabilities ''notes'' ?m sample_entry [''b1''] sample_configs = Inr ()" by code_simp
  from selected_capabilities_sound [OF this _ sample_configs, of "''b1''" ?rs "''compute''" "[PDict capable_resource]"
      capable_resource "''overlay''"]
  show ?thesis by (simp add: sample_entry_def capable_resource_def)
qed


section \<open>Shapes\<close>

lemma fields_of_type_str: "fields_of_type table v = Inr fs \<Longrightarrow> fs \<noteq> [] \<Longrightarrow> \<exists>s. v = PStr s \<and> s \<in> set (map fst table)"
  by (auto simp: fields_of_type_def res_simps split: if_splits)

lemma check_ports_normal: "check_ports app r = Inr u \<Longrightarrow>
    \<exists>ps f. validate_ports (resource_ports r) f = Inr ps \<and> normal_ports ps"
  by (auto simp: check_ports_def res_simps dest: ports.sound)

lemma check_zone_field_resolves:
  "check_zone_field app r k t = Inr n \<Longrightarrow> \<exists>z f. resolve_zone (dget r k) f t = Inr (n, z)"
  by (auto simp: check_zone_field_def bind_eq_Inr)

lemma check_interzone_sound:
  assumes "check_interzone app r t = Inr u"
  shows "(\<exists>a b za zb f g. resolve_zone (dget r ''from_zone'') f t = Inr (a, za) \<and>
      resolve_zone (dget r ''to_zone'') g t = Inr (b, zb) \<and> a \<noteq> b) \<and>
    (truthy (dget r ''ports_from_user'') \<or>
      (\<exists>ps f. validate_ports (resource_ports r) f = Inr ps \<and> normal_ports ps))"
proof -
  from assms obtain a b where ab: "check_zone_field app r ''from_zone'' t = Inr a"
      "check_zone_field app r ''to_zone'' t = Inr b" "a \<noteq> b"
    and p: "\<not> truthy (dget r ''ports_from_user'') \<Longrightarrow> check_ports app r = Inr u"
    unfolding check_interzone_def bind_eq_Inr require_eq_Inr by (auto split: if_splits)
  from check_zone_field_resolves [OF ab(1)] obtain za f where a: "resolve_zone (dget r ''from_zone'') f t = Inr (a, za)" by blast
  from check_zone_field_resolves [OF ab(2)] obtain zb g where b: "resolve_zone (dget r ''to_zone'') g t = Inr (b, zb)" by blast
  have "\<exists>ps f. validate_ports (resource_ports r) f = Inr ps \<and> normal_ports ps" if "\<not> truthy (dget r ''ports_from_user'')"
    by (rule check_ports_normal [OF p [OF that]])
  with a b ab(3) show ?thesis by blast
qed

text \<open>An accepted network resource names no raw network field at any depth. The types that open ports carry a
  valid port list (or, between zones, the name of a user field); the egress types carry TCP or UDP ports; and
  a rule between zones joins two different declared zones.\<close>

theorem network_shape_sound:
  assumes "validate_network_resource_shape app r t = Inr u" "dget r ''type'' = PStr ty"
  shows "(\<forall>k\<in>set RAW_NETWORK_FIELDS. \<not> occurs_key k (PDict r)) \<and>
    (ty \<in> {''realm_to_zone_tcp'', ''zone_to_device_tcp'', ''device_to_zone_tcp''} \<longrightarrow>
       (\<exists>ps f. validate_ports (resource_ports r) f = Inr ps \<and> normal_ports ps)) \<and>
    (ty \<in> {''wan_egress'', ''device_wan_egress''} \<longrightarrow> truthy (dget r ''tcp_ports'') \<or> truthy (dget r ''udp_ports'')) \<and>
    (ty = ''interzone_tcp'' \<longrightarrow>
       (\<exists>a b za zb f g. resolve_zone (dget r ''from_zone'') f t = Inr (a, za) \<and>
          resolve_zone (dget r ''to_zone'') g t = Inr (b, zb) \<and> a \<noteq> b) \<and>
       (truthy (dget r ''ports_from_user'') \<or>
         (\<exists>ps f. validate_ports (resource_ports r) f = Inr ps \<and> normal_ports ps)))"
proof -
  from assms have raw: "\<forall>k\<in>set RAW_NETWORK_FIELDS. \<not> occurs_key k (PDict r)"
    and ty: "check_network_type app r t ty = Inr ()"
    by (auto simp: validate_network_resource_shape_def bind_eq_Inr field_scan_iff simp del: occurs_key_simps)
  have c: "ty \<in> {''realm_to_zone_tcp'', ''zone_to_device_tcp'', ''device_to_zone_tcp''} \<longrightarrow> check_ports app r = Inr ()"
    "ty \<in> {''wan_egress'', ''device_wan_egress''} \<longrightarrow> truthy (dget r ''tcp_ports'') \<or> truthy (dget r ''udp_ports'')"
    "ty = ''interzone_tcp'' \<longrightarrow> check_interzone app r t = Inr ()"
    using ty by (auto simp: check_network_type_def check_egress_ports_def checks_append bind_eq_Inr require_eq_Inr)
  show ?thesis
    by (intro conjI raw impI c(2) [rule_format] check_interzone_sound [OF c(3) [rule_format]]
        check_ports_normal [OF c(1) [rule_format]])
qed

lemma network_shape_sound_witness:
  "\<exists>ps f. validate_ports (resource_ports sample_network) f = Inr ps \<and> normal_ports ps"
proof -
  have e: "validate_network_resource_shape ''notes'' sample_network sample_topology = Inr ()" by code_simp
  from network_shape_sound [OF e, of "''interzone_tcp''"] show ?thesis by (simp add: sample_network_def)
qed

lemma check_section_accepts:
  assumes "check_section path key check rs = Inr ds" "py_or (dget rs key) (PList []) = PList xs" "x \<in> set xs"
  shows "\<exists>d\<in>set ds. x = PDict d \<and> check d = Inr ()"
proof -
  from assms(1,2) have "traverse (\<lambda>x. case x of PDict d \<Rightarrow> bind (check d) (\<lambda>_. Inr d)
      | _ \<Rightarrow> die (path @ '' '' @ (if key = ''artifacts'' then ''artifact'' else key) @ '' resources must be mappings'')) xs = Inr ds"
    by (simp add: check_section_def list_section_def)
  from traverse_in [OF this assms(3)] show ?thesis by (cases x) (auto simp: bind_eq_Inr)
qed

text \<open>C39. In an accepted manifest no control field occurs at any depth of the \<open>resources\<close> section; and each network
  resource is a mapping that the shape check accepts, in which no raw network field occurs at any depth, and the device
  it names, if it is one for a device, is a managed device that the manifest declares.\<close>

theorem manifest_sound:
  assumes "validate_manifest_resources app m t = Inr u" "dget m ''resources'' = PDict rs"
  shows "(\<forall>k\<in>set TCB_CONTROL_FIELDS. \<not> occurs_key k (PDict rs)) \<and>
    (\<forall>xs v. dget rs ''network'' = PList xs \<longrightarrow> v \<in> set xs \<longrightarrow>
      (\<exists>r. v = PDict r \<and> validate_network_resource_shape app r t = Inr () \<and>
        (\<forall>k\<in>set RAW_NETWORK_FIELDS. \<not> occurs_key k (PDict r)) \<and>
        (dget r ''type'' \<in> PStr ` set device_types \<longrightarrow>
           (\<exists>c. PDict c \<in> set (list_of (dget rs ''compute'')) \<and> dget c ''type'' = PStr ''managed_iot_device'' \<and>
              dget c ''id'' = dget r ''device''))))"
proof -
  from assms(1) obtain rs' compute network path and w1 w2 :: unit where rs': "\<exists>g. mapping_section m ''resources'' g = Inr rs'"
    and tcb: "reject_tcb_control_fields (PDict rs') (app @ ''.resources'') = Inr w1"
    and c: "check_section path ''compute'' (\<lambda>r. validate_compute_resource_shape app r t) rs' = Inr compute"
    and n: "check_section path ''network'' (\<lambda>r. validate_network_resource_shape app r t) rs' = Inr network"
    and dev: "checks (map (check_device_reference app compute) network) = Inr w2"
    unfolding validate_manifest_resources_def Let_def bind_eq_Inr by blast
  have [simp]: "rs' = rs" using rs' assms(2) by (auto simp: mapping_section_eq split: if_splits)
  have comp: "PDict x \<in> set (list_of (dget rs ''compute''))" if "x \<in> set compute" for x
    using c that
    by (cases "dget rs ''compute''")
      (auto simp: check_section_def list_section_def py_or_def bind_eq_Inr split: if_splits
        dest!: traverse_set split: pyval.splits)
  have "\<exists>r. v = PDict r \<and> validate_network_resource_shape app r t = Inr () \<and>
      (\<forall>k\<in>set RAW_NETWORK_FIELDS. \<not> occurs_key k (PDict r)) \<and>
      (dget r ''type'' \<in> PStr ` set device_types \<longrightarrow>
         (\<exists>c. PDict c \<in> set (list_of (dget rs ''compute'')) \<and> dget c ''type'' = PStr ''managed_iot_device'' \<and>
            dget c ''id'' = dget r ''device''))"
    if xs: "dget rs ''network'' = PList xs" "v \<in> set xs" for xs v
  proof -
    have "xs \<noteq> []" using xs(2) by auto
    with check_section_accepts [OF n _ xs(2)] xs(1) obtain r where
      r: "r \<in> set network" "v = PDict r" "validate_network_resource_shape app r t = Inr ()" by (auto simp: py_or_def)
    from r(1) have "check_device_reference app compute r = Inr ()" using dev by (simp add: checks_eq_Inr)
    then have "dget r ''type'' \<in> PStr ` set device_types \<longrightarrow>
        (\<exists>c\<in>set compute. dget c ''type'' = PStr ''managed_iot_device'' \<and> dget c ''id'' = dget r ''device'')"
      by (auto simp: check_device_reference_def require_eq_Inr str_in_iff)
    moreover have "\<forall>k\<in>set RAW_NETWORK_FIELDS. \<not> occurs_key k (PDict r)"
      using r(3) by (auto simp: validate_network_resource_shape_def bind_eq_Inr field_scan_iff simp del: occurs_key_simps)
    ultimately show ?thesis using r comp by blast
  qed
  moreover have "\<forall>k\<in>set TCB_CONTROL_FIELDS. \<not> occurs_key k (PDict rs)"
    using tcb by (auto simp: field_scan_iff simp del: occurs_key_simps)
  ultimately show ?thesis by blast
qed

lemma manifest_sound_witness: "\<exists>r. PDict sample_network = PDict r \<and> validate_network_resource_shape ''notes'' r sample_topology = Inr ()"
proof -
  have e: "validate_manifest_resources ''notes'' sample_manifest sample_topology = Inr ()" by code_simp
  have rs: "dget sample_manifest ''resources'' = PDict (dict_of (dget sample_manifest ''resources''))" by code_simp
  from manifest_sound [OF e rs] have "\<forall>xs v. dget (dict_of (dget sample_manifest ''resources'')) ''network'' = PList xs \<longrightarrow> v \<in> set xs \<longrightarrow>
      (\<exists>r. v = PDict r \<and> validate_network_resource_shape ''notes'' r sample_topology = Inr ())" by blast
  then show ?thesis by (auto simp: sample_manifest_def)
qed

end
