(* ===== verification/Compiler_Properties.thy ===== *)
theory Compiler_Properties
  imports Compiler_Facts Model_Properties
begin

text \<open>
  The properties of the compiler: what a compiled plan holds, what an application can add to it, and
  what the ledger makes of the rules.
\<close>

section \<open>Sample registry\<close>

text \<open>The witnesses evaluate a whole compilation; digests stay symbolic.\<close>

declare sum.inject [code abort: sha1_hex sha256_hex resource_key]

definition plan_vars :: pydict where
  "plan_vars = [
     (''platform_zones'', PDict [(''usr'', sample_zone ''usr'' ''usr'' ''10.0.3''), (''dmz'', sample_zone ''dmz'' ''dmz'' ''10.0.4''),
        (''bak'', PDict [(''role'', PStr ''backend''), (''hostname_suffix'', PStr ''bak''), (''bridge'', PStr ''brbak''),
           (''router_interface'', PStr ''bak''), (''vm_interface'', PStr ''eth0''), (''router_ipv4_address'', PStr ''10.0.2.1''),
           (''router_ipv4_prefix'', PInt 24), (''vm_ipv4_address'', PStr ''10.0.2.2''), (''dom0_ipv4_address'', PStr ''10.0.2.3''),
           (''reserved_ipv4_addresses'', strs [''10.0.2.8'', ''10.0.2.9'']), (''cidr'', PStr ''10.0.2.0/24'')])]),
     (''platform_control_zones'', dget sample_vars ''platform_control_zones''),
     (''platform_network_realms'', dget sample_vars ''platform_network_realms''),
     (''platform_air'', PDict [(''zone'', PStr ''bak''), (''ipv4_address'', PStr ''10.0.2.8''),
        (''memory_mb'', PInt 512), (''vcpus'', PInt 1)]),
     (''platform_vpn_egress'', PDict [(''zone'', PStr ''bak''), (''ipv4_address'', PStr ''10.0.2.9''), (''port'', PInt 7890),
        (''memory_mb'', PInt 512), (''vcpus'', PInt 1)])]"

definition plan_topology :: topology where
  "plan_topology = (case load_topology ''vars'' (Parsed (PDict plan_vars)) of Inr t \<Rightarrow> t | Inl _ \<Rightarrow> sample_topology)"

definition plan_manifest :: pydict where
  "plan_manifest = [(''schema_version'', PInt 1), (''app'', PStr ''web''), (''placement_mode'', PStr ''single_box''),
     (''resources'', PDict [(''compute'', PList [PDict [(''id'', PStr ''srv''), (''type'', PStr ''app_vm''), (''zone'', PStr ''bak'')]])])]"

definition plan_entry :: pydict where
  "plan_entry = [(''enabled'', PBool True), (''placement'', PDict [(''active_master'', PStr ''b1'')]),
     (''app_vms'', PDict [(''srv'', PDict [(''b1'', PDict [(''vm_ipv4_address'', PStr ''10.0.2.20'')])])])]"

definition plan_registry :: pydict where
  "plan_registry = [(''schema_version'', PInt 1), (''apps'', PDict [(''web'', PDict plan_entry)]),
     (''boxes'', PDict [(''b1'', PDict [])])]"

definition plan_env :: environment where
  "plan_env = \<lparr>env_root = ''/r'', env_inventory_path = ''vars'', env_inventory = Parsed (PDict plan_vars),
     env_manifest = (\<lambda>path. Parsed (PDict plan_manifest)), env_clock = 0\<rparr>"

definition plan_source :: registry_source where
  "plan_source = RegistryInput ''in'' [(''registry'', PDict plan_registry), (''registry_path'', PStr ''in''),
     (''registry_sha256'', PStr ''00'')]"

definition sample_plan :: registry_plan where
  "sample_plan = (case compile_registry plan_env plan_source [''web''] [] of Inr p \<Rightarrow> p | Inl _ \<Rightarrow> undefined)"

definition sample_projection :: "registry_plan \<Rightarrow> (string \<times> string list) list \<times> string list \<times> string list" where
  "sample_projection p = (map (\<lambda>f. (ef_node f, ef_owners f)) (pl_effective_files p),
     map vs_inventory_hostname (pl_app_vm_specs p), map fst (pl_apps p))"

lemma sample_compiled: "compile_registry plan_env plan_source [''web''] [] = Inr sample_plan"
    "sample_projection sample_plan = ([(''b1'', [''web''])], [''b1-srv''], [''web''])"
proof -
  have "(case compile_registry plan_env plan_source [''web''] [] of Inl e \<Rightarrow> False
    | Inr p \<Rightarrow> sample_projection p = ([(''b1'', [''web''])], [''b1-srv''], [''web'']))" by code_simp
  then show "compile_registry plan_env plan_source [''web''] [] = Inr sample_plan"
    "sample_projection sample_plan = ([(''b1'', [''web''])], [''b1-srv''], [''web''])"
    by (simp_all add: sample_plan_def split: sum.splits)
qed

section \<open>Plans\<close>

text \<open>C6. In every compiled plan no rule file of the platform is shared: each file lies on a box of the plan and has at
  least one owner, its owners are applications of the plan, or the platform alone, and a file of the platform is
  exclusive; no two files are the same resource of the same host; and every application asked for is in the plan.\<close>

theorem platform_files_not_shared:
  assumes "compile_registry env src requested boot = Inr p"
  shows "(\<forall>f\<in>set (pl_effective_files p). ef_node f \<in> set (pl_boxes p) \<and> ef_owners f \<noteq> [] \<and>
      (ef_owners f = [''platform''] \<and> ef_exclusive f \<or> set (ef_owners f) \<subseteq> fst ` set (pl_apps p))) \<and>
    ''platform'' \<notin> fst ` set (pl_apps p) \<and> distinct (map file_group (pl_effective_files p)) \<and>
    sorted (pl_boxes p) \<and> distinct (pl_boxes p) \<and> set requested \<subseteq> fst ` set (pl_apps p)"
  using assms
proof (rule compiled_plan)
  fix c rules l
  assume wf: "wf_compiled c" "set requested \<subseteq> fst ` set (co_apps c)" and l: "build_app_resource_ledger rules (co_vm c) = Inr l"
    and owned: "\<forall>x\<in>set (claims l). claim_owned (fst ` set (co_apps c)) (set (co_boxes c)) x"
    and p: "pl_effective_files p = effective_files l" "pl_apps p = co_apps c" "pl_boxes p = sorted_set (co_boxes c)"
  let ?names = "fst ` set (co_apps c)" and ?boxes = "set (co_boxes c)"
  have np: "''platform'' \<notin> ?names" using wf(1) by (simp add: wf_compiled_def Let_def)
  have "ef_node f \<in> ?boxes \<and> ef_owners f \<noteq> [] \<and>
      (ef_owners f = [''platform''] \<and> ef_exclusive f \<or> set (ef_owners f) \<subseteq> ?names)"
    if "f \<in> set (effective_files l)" for f
    using ledger_files_owned [OF l owned np that] by auto
  moreover have "distinct (map file_group (effective_files l))"
    by (simp only: ledger_files(1) [OF l] sorted_set_props)
  ultimately show ?thesis using wf(2) np by (simp add: p)
qed

lemma platform_files_not_shared_witness:
  "\<exists>f. pl_effective_files sample_plan = [f] \<and> ef_owners f = [''web''] \<and> set (ef_owners f) \<subseteq> fst ` set (pl_apps sample_plan)"
  using platform_files_not_shared [OF sample_compiled(1)] sample_compiled(2) by (auto simp: sample_projection_def)

text \<open>C28. Every machine of a compiled plan is well typed for the play that builds it: one network interface with a MAC
  address in canonical form, a switch-on flag that agrees with its runtime state, integer sizes, one host name, one
  address and a tag it advertises. Machines, devices and tailnet items belong to an application and a box of the plan.\<close>

theorem plan_machines_typed:
  assumes "compile_registry env src requested boot = Inr p"
  shows "(\<forall>s\<in>set (pl_app_vm_specs p). vs_app s \<in> fst ` set (pl_apps p) \<and> vs_node s \<in> set (pl_boxes p) \<and> typed_guest s) \<and>
    (\<forall>d\<in>set (pl_managed_devices p). dev_app d \<in> fst ` set (pl_apps p) \<and> dev_node d \<in> set (pl_boxes p)) \<and>
    (\<forall>i\<in>set (pl_tailnet_resources p). tr_app i \<in> fst ` set (pl_apps p) \<and> (tr_node i = [] \<or> tr_node i \<in> set (pl_boxes p)))"
  using assms
proof (rule compiled_plan)
  fix c
  assume wf: "wf_compiled c" and p: "pl_apps p = co_apps c" "pl_boxes p = sorted_set (co_boxes c)"
    "pl_app_vm_specs p = co_specs c" "pl_managed_devices p = sort_key device_order (co_devices c)"
    "pl_tailnet_resources p = co_tailnet c"
  from wf show ?thesis unfolding p set_sort sorted_set_props(1) wf_compiled_def Let_def by blast
qed

lemma plan_machines_typed_witness:
  "\<exists>s mac. pl_app_vm_specs sample_plan = [s] \<and> vs_inventory_hostname s = ''b1-srv'' \<and> fullmatch MAC_RE mac \<and>
     (\<exists>b. dget (vs_guest_spec s) ''vifs'' = PList [PDict [(''bridge'', b), (''mac'', PStr mac)]])"
  using plan_machines_typed [OF sample_compiled(1)] sample_compiled(2) by (auto simp: sample_projection_def typed_guest_def typed_spec_def)

text \<open>C8. Compiling one application only appends: whatever was compiled before stays, in place and unchanged, and every
  rule, machine, device, tailnet item and cleanup added is the application's own and lies on one of its boxes, with a
  canonical port list in every rule.\<close>

theorem application_adds_its_own:
  assumes "compile_selected_app ctx c app e = Inr c'"
  shows "\<exists>boxes rr vr specs ds items cleanup p.
    co_router c' = co_router c @ rr \<and> (\<forall>r\<in>set rr. rr_app r = app \<and> rr_node r \<in> set boxes \<and> normal_ports (rr_ports r)) \<and>
    co_vm c' = co_vm c @ vr \<and> (\<forall>r\<in>set vr. vr_app r = app \<and> vr_node r \<in> set boxes \<and> normal_ports (vr_ports r)) \<and>
    co_specs c' = co_specs c @ specs \<and> (\<forall>s\<in>set specs. vs_app s = app \<and> vs_node s \<in> set boxes) \<and>
    co_devices c' = co_devices c @ ds \<and> (\<forall>d\<in>set ds. dev_app d = app \<and> dev_node d \<in> set boxes) \<and>
    co_tailnet c' = co_tailnet c @ items \<and> (\<forall>i\<in>set items. tr_app i = app \<and> (tr_node i = [] \<or> tr_node i \<in> set boxes)) \<and>
    co_cleanup c' = co_cleanup c @ cleanup \<and> (\<forall>s\<in>set cleanup. cs_app s = app \<and> cs_node s \<in> set boxes) \<and>
    co_apps c' = co_apps c @ [(app, p)] \<and> ap_boxes p = boxes \<and> set (co_boxes c') = set (co_boxes c) \<union> set boxes"
proof -
  from compile_selected_app_contributes [OF assms] obtain boxes where "contributes app boxes c c'" ..
  then show ?thesis
    unfolding contributes_def list_all_iff app_rule_def app_vm_rule_def spec_of_def device_of_app_def tailnet_of_def
    by blast
qed

definition web_context :: compile_context where
  "web_context = \<lparr>topology_of = plan_topology, configs_of = [(''b1'', PDict [])], repo_root = ''/r'',
     manifest_file = env_manifest plan_env, clock = 0\<rparr>"

definition start_compiled :: compiled where
  "start_compiled = empty_compiled [] [] [] [] []"

definition web_compiled :: compiled where
  "web_compiled = (case compile_selected_app web_context start_compiled ''web'' plan_entry of Inr c \<Rightarrow> c | Inl _ \<Rightarrow> start_compiled)"

lemma web_compiled: "compile_selected_app web_context start_compiled ''web'' plan_entry = Inr web_compiled"
  "map vs_inventory_hostname (co_specs web_compiled) = [''b1-srv'']"
proof -
  have "(case compile_selected_app web_context start_compiled ''web'' plan_entry of Inl _ \<Rightarrow> False
    | Inr c \<Rightarrow> map vs_inventory_hostname (co_specs c) = [''b1-srv''])" by code_simp
  then show "compile_selected_app web_context start_compiled ''web'' plan_entry = Inr web_compiled"
    "map vs_inventory_hostname (co_specs web_compiled) = [''b1-srv'']"
    by (simp_all add: web_compiled_def split: sum.splits)
qed

lemma application_adds_its_own_witness:
  "\<exists>s. co_specs web_compiled = [s] \<and> vs_app s = ''web'' \<and> vs_inventory_hostname s = ''b1-srv''"
  using application_adds_its_own [OF web_compiled(1)] web_compiled(2) 
  by (fastforce simp: start_compiled_def empty_compiled_def)

text \<open>C31. A switched-off application adds no rule, no machine, no device and no tailnet item; it is listed as stopped,
  without users or resources, and leaves one cleanup scope on each of its boxes, for every host role.\<close>

theorem disabled_app_adds_nothing:
  assumes "compile_selected_app ctx c app e = Inr c'" "\<not> truthy (dget e ''enabled'')"
  shows "co_router c' = co_router c \<and> co_vm c' = co_vm c \<and> co_specs c' = co_specs c \<and> co_devices c' = co_devices c \<and>
    co_tailnet c' = co_tailnet c \<and> co_policy c' = co_policy c \<and> co_lan c' = co_lan c \<and>
    (\<exists>boxes p. co_apps c' = co_apps c @ [(app, p)] \<and> ap_boxes p = boxes \<and> \<not> ap_enabled p \<and>
       ap_runtime_state p = ''stopped'' \<and> ap_users p = [] \<and> ap_resources p = [] \<and>
       co_cleanup c' = co_cleanup c @ map (\<lambda>box. \<lparr>cs_app = app, cs_node = box, cs_host_roles = CLEANUP_HOST_ROLES,
          cs_reason = ''disabled-app''\<rparr>) boxes)"
proof -
  from disabled_app_effect [OF assms] obtain boxes path p where
    "c' = c\<lparr>co_paths := co_paths c @ path,
      co_cleanup := co_cleanup c @ map (\<lambda>box. build_app_resource_cleanup_scope app box ''disabled-app'') boxes,
      co_boxes := co_boxes c @ boxes, co_apps := co_apps c @ [(app, p)]\<rparr>"
    "\<not> ap_enabled p" "ap_runtime_state p = ''stopped''" "ap_boxes p = boxes" "ap_users p = []" "ap_resources p = []"
    by blast
  then show ?thesis by (simp add: build_app_resource_cleanup_scope_def)
qed

definition off_entry :: pydict where
  "off_entry = [(''enabled'', PBool False), (''placement'', PDict [(''active_master'', PStr ''b1'')])]"

lemma disabled_app_adds_nothing_witness:
  "\<exists>c'. compile_selected_app web_context start_compiled ''web'' off_entry = Inr c' \<and> co_specs c' = [] \<and>
     map cs_node (co_cleanup c') = [''b1'']"
proof -
  have "case compile_selected_app web_context start_compiled ''web'' off_entry of Inl _ \<Rightarrow> False
    | Inr c \<Rightarrow> map cs_node (co_cleanup c) = [''b1'']" by code_simp
  then obtain c' where c': "compile_selected_app web_context start_compiled ''web'' off_entry = Inr c'"
    "map cs_node (co_cleanup c') = [''b1'']" by (auto split: sum.splits)
  with disabled_app_adds_nothing [OF c'(1)] show ?thesis
    by (auto simp: off_entry_def start_compiled_def empty_compiled_def)
qed


section \<open>The ledger\<close>

lemma traverse_covers: "traverse f xs = Inr ys \<Longrightarrow> x \<in> set xs \<Longrightarrow> \<exists>y\<in>set ys. f x = Inr y"
  by (induction xs arbitrary: ys) (auto simp: bind_eq_Inr)

text \<open>C29. The ledger is exact: its claims are one per rule, in order; it has one file per claimed resource of a host;
  a file's owners are exactly the applications that claim it, it is exclusive exactly if one of them asks for it, and
  then has one owner; its content ends in the line of a claim and its digest is that of its content.\<close>

theorem ledger_exact:
  assumes "build_app_resource_ledger rr vr = Inr l"
  shows "(\<exists>cs. list_all2 (\<lambda>r c. build_resource_claim r = Inr c) (map RouterForward rr @ map VmInput vr) cs \<and>
      mset (claims l) = mset cs) \<and>
    sorted (map claim_order (claims l)) \<and> map file_group (effective_files l) = sorted_set (map claim_group (claims l)) \<and>
    (\<forall>f\<in>set (effective_files l). let mine = filter (\<lambda>c. claim_group c = file_group f) (claims l) in
      mine \<noteq> [] \<and> ef_owners f = sorted_set (map cl_app mine) \<and> (ef_exclusive f \<longleftrightarrow> list_ex cl_exclusive mine) \<and>
      (ef_exclusive f \<longrightarrow> length (ef_owners f) = 1) \<and> ef_content_sha256 f = sha256_hex (ef_content f) \<and>
      list_ex (\<lambda>c. suffix (cl_content c) (ef_content f)) mine)"
proof -
  from assms obtain cs where cs: "traverse build_resource_claim (map RouterForward rr @ map VmInput vr) = Inr cs"
    "claims l = sort_key claim_order cs" by (rule ledger_parts)
  have "let mine = filter (\<lambda>c. claim_group c = file_group f) (claims l) in
      mine \<noteq> [] \<and> ef_owners f = sorted_set (map cl_app mine) \<and> (ef_exclusive f \<longleftrightarrow> list_ex cl_exclusive mine) \<and>
      (ef_exclusive f \<longrightarrow> length (ef_owners f) = 1) \<and> ef_content_sha256 f = sha256_hex (ef_content f) \<and>
      list_ex (\<lambda>c. suffix (cl_content c) (ef_content f)) mine" if "f \<in> set (effective_files l)" for f
  proof -
    define mine where "mine = filter (\<lambda>c. claim_group c = file_group f) (claims l)"
    from ledger_files(2) [OF assms that] obtain xs where b: "build_effective_resource_file xs = Inr f" "xs \<noteq> []"
      and xs: "set xs = set mine" by (auto simp: mine_def)
    have g: "claim_group c = file_group f" if "c \<in> set xs" for c using that by (simp add: xs mine_def)
    note e = build_effective_file_fields(2-5,7) [OF b g]
    have o: "ef_owners f = sorted_set (map cl_app mine)"
      using e(1) sorted_set_eq_iff [of "map cl_app xs" "map cl_app mine"] by (simp add: xs)
    have ne: "mine \<noteq> []" using b(2) xs by auto
    then have "ef_owners f \<noteq> []" unfolding o sorted_set_Nil_iff by simp
    then have "ef_exclusive f \<longrightarrow> length (ef_owners f) = 1" using e(3) by (cases "ef_owners f") auto
    with o ne e(2,4,5) show ?thesis unfolding mine_def [symmetric] Let_def list_ex_iff suffix_def xs by blast
  qed
  with cs ledger_files(1) [OF assms] show ?thesis by (auto simp: traverse_eq_Inr)
qed

definition ssh_rule :: "string \<Rightarrow> bool \<Rightarrow> router_rule" where
  "ssh_rule app exclusive = \<lparr>rr_node = ''b1'', rr_app = app, rr_resource = ''ssh'', rr_in_interface = ''lan'', rr_out_interface = ''dmz'',
     rr_source = ''10.0.0.1'', rr_destination = ''10.0.4.2'', rr_protocol = ''tcp'', rr_ports = [PInt 22], rr_exclusive = exclusive,
     rr_comment = app, rr_destination_exclusions = []\<rparr>"

lemma ledger_exact_witness:
  "\<exists>l f. build_app_resource_ledger [ssh_rule ''web'' True] [] = Inr l \<and> effective_files l = [f] \<and> ef_owners f = [''web''] \<and> ef_exclusive f"
proof -
  have "case build_app_resource_ledger [ssh_rule ''web'' True] [] of Inl _ \<Rightarrow> False
    | Inr l \<Rightarrow> map (\<lambda>f. (ef_owners f, ef_exclusive f)) (effective_files l) = [([''web''], True)]" by code_simp
  then obtain l f where l: "build_app_resource_ledger [ssh_rule ''web'' True] [] = Inr l" "effective_files l = [f]"
    and f: "ef_owners f = [''web'']" "ef_exclusive f" by (auto split: sum.splits)
  from ledger_exact [OF l(1)] l f show ?thesis by blast
qed

text \<open>C7. Two applications never share a resource that one of them claims for itself: if their rules are the same after
  normalisation and one of them is exclusive, the compilation is refused.\<close>

theorem exclusive_conflict_refused:
  assumes "r \<in> RouterForward ` set rr \<union> VmInput ` set vr" "r' \<in> RouterForward ` set rr \<union> VmInput ` set vr"
    and "normalized r = normalized r'" "rule_exclusive r" "rule_app r \<noteq> rule_app r'"
  shows "\<exists>e. build_app_resource_ledger rr vr = Inl e"
proof (rule ccontr)
  assume "\<nexists>e. build_app_resource_ledger rr vr = Inl e"
  then obtain l where l: "build_app_resource_ledger rr vr = Inr l" by (cases "build_app_resource_ledger rr vr") auto
  then obtain cs where cs: "traverse build_resource_claim (map RouterForward rr @ map VmInput vr) = Inr cs"
    and s: "claims l = sort_key claim_order cs" by (rule ledger_parts)
  have claim: "\<exists>c\<in>set (claims l). build_resource_claim r = Inr c" if "r \<in> RouterForward ` set rr \<union> VmInput ` set vr" for r
    using traverse_covers [OF cs, of r] that by (auto simp: s)
  from claim [OF assms(1)] claim [OF assms(2)] obtain c c' where
    c: "c \<in> set (claims l)" "build_resource_claim r = Inr c" and c': "c' \<in> set (claims l)" "build_resource_claim r' = Inr c'" by blast
  have g: "claim_group c' = claim_group c" using same_norm_same_group [OF c(2) c'(2) assms(3)] by simp
  have "claim_group c \<in> set (map file_group (effective_files l))"
    unfolding ledger_files(1) [OF l] using c(1) by simp
  then obtain f where f: "f \<in> set (effective_files l)" "file_group f = claim_group c" by auto
  obtain xs where b: "build_effective_resource_file xs = Inr f" "xs \<noteq> []"
    and xs: "set xs = {c \<in> set (claims l). claim_group c = file_group f}" using ledger_files(2) [OF l f(1)] by blast
  note e = build_effective_file_fields(2-4) [OF b, of "file_group f"]
  have "ef_exclusive f" using c build_resource_claim_fields(5) [OF c(2)] assms(4) f(2) by (subst e(2)) (auto simp: xs)
  then have "length (ef_owners f) \<le> 1" by (intro e(3)) (simp_all add: xs)
  moreover have "c \<in> set xs" "c' \<in> set xs" using c(1) c'(1) g f(2) by (simp_all add: xs)
  then have "set (ef_owners f) \<supseteq> {rule_app r, rule_app r'}"
    using build_resource_claim_fields(1) [OF c(2)] build_resource_claim_fields(1) [OF c'(2)] e(1) xs by force
  moreover have "card (set (ef_owners f)) \<le> length (ef_owners f)" by (rule card_length)
  ultimately show False using assms(5) card_mono [of "set (ef_owners f)" "{rule_app r, rule_app r'}"] by auto
qed

lemma exclusive_conflict_refused_witness:
  "\<exists>e. build_app_resource_ledger [ssh_rule ''web'' True, ssh_rule ''notes'' False] [] = Inl e"
proof -
  have "normalized (RouterForward (ssh_rule ''web'' True)) = normalized (RouterForward (ssh_rule ''notes'' False))" by code_simp
  from exclusive_conflict_refused [OF _ _ this, of "[ssh_rule ''web'' True, ssh_rule ''notes'' False]" "[]"] show ?thesis
    by (simp add: ssh_rule_def)
qed


section \<open>Approvals and grants\<close>

text \<open>C30. No enabled application with privileged compute resources is compiled without a live approval: its entry names an
  approval and a time, in ISO form with an offset, that lies after the clock of the run.\<close>

theorem privileged_approval_is_live:
  assumes "compile_selected_app ctx c app e = Inr c'" "truthy (dget e ''enabled'')"
    and "app_manifest app (app_manifest_path ctx app) (manifest_file ctx (app_manifest_path ctx app)) = Inr m"
    and "manifest_section m ''compute'' = Inr (PList xs)" "PDict r \<in> set xs" "privileged_resource r"
  shows "\<exists>controls s local offset. py_or (py_or (dget e ''ephemeral'') (dget e ''controls'')) (PDict []) = PDict controls \<and>
    truthy (dget controls ''privileged_approval'') \<and> dget controls ''expires_at'' = PStr s \<and>
    fromisoformat (replace_all ''Z'' ''+00:00'' s) = Some (local, Some offset) \<and> clock ctx < local - offset"
proof -
  from assms(1) obtain m' path p where f: "find_manifest ctx app (truthy (dget e ''enabled'')) = Inr (m', path)"
    and p: "select_app ctx app e m' = Inr p"
    by (auto simp: compile_selected_app_def Let_def bind_eq_Inr)
  from f assms(2,3) have "m' = m" by (auto simp: find_manifest_def Let_def bind_eq_Inr)
  with privileged_runtime_live [OF _ assms(2,4-6)] select_app_facts(5) [OF p] show ?thesis
    unfolding live_until_def by blast
qed

definition builder_manifest :: pydict where
  "builder_manifest = [(''schema_version'', PInt 1), (''app'', PStr ''web''), (''placement_mode'', PStr ''single_box''),
     (''resources'', PDict [(''compute'', PList [PDict [(''id'', PStr ''b''), (''type'', PStr ''ephemeral_privileged_builder'')]])])]"

definition builder_entry :: pydict where
  "builder_entry = [(''enabled'', PBool True), (''placement'', PDict [(''active_master'', PStr ''b1'')]),
     (''ephemeral'', PDict [(''privileged_approval'', PStr ''ok''), (''expires_at'', PStr ''2026-01-01T00:00:00Z'')])]"

definition builder_context :: compile_context where
  "builder_context = web_context\<lparr>manifest_file := \<lambda>path. Parsed (PDict builder_manifest), clock := 0\<rparr>"

lemma privileged_approval_is_live_witness:
  "\<exists>c' local offset. compile_selected_app builder_context start_compiled ''web'' builder_entry = Inr c' \<and>
     fromisoformat ''2026-01-01T00:00:00+00:00'' = Some (local, Some offset) \<and> 0 < local - offset"
proof -
  let ?path = "app_manifest_path builder_context ''web''"
  have "case compile_selected_app builder_context start_compiled ''web'' builder_entry of Inl _ \<Rightarrow> False | Inr c \<Rightarrow> True"
    by code_simp
  then obtain c' where c': "compile_selected_app builder_context start_compiled ''web'' builder_entry = Inr c'"
    by (auto split: sum.splits)
  have m: "case app_manifest ''web'' ?path (manifest_file builder_context ?path) of Inl _ \<Rightarrow> False
    | Inr m \<Rightarrow> manifest_section m ''compute'' = Inr (PList [PDict [(''id'', PStr ''b''), (''type'', PStr ''ephemeral_privileged_builder'')]])"
    by code_simp
  then obtain m where m: "app_manifest ''web'' ?path (manifest_file builder_context ?path) = Inr m"
    "manifest_section m ''compute'' = Inr (PList [PDict [(''id'', PStr ''b''), (''type'', PStr ''ephemeral_privileged_builder'')]])"
    by (auto split: sum.splits)
  have z: "replace_all ''Z'' ''+00:00'' ''2026-01-01T00:00:00Z'' = ''2026-01-01T00:00:00+00:00''"
    "privileged_resource [(''id'', PStr ''b''), (''type'', PStr ''ephemeral_privileged_builder'')]" by code_simp+
  from privileged_approval_is_live [OF c' _ m _ z(2)] c' show ?thesis
    by (auto simp: builder_entry_def builder_context_def py_or_def z(1))
qed

lemma sanitize_file_facts [simp]:
  "gf_filename (sanitize_file commit f) = ef_filename f" "gf_node (sanitize_file commit f) = ef_node f"
  "gf_approved_commit (sanitize_file commit f) = commit"
  by (simp_all add: sanitize_file_def)

text \<open>C9. The grant of a compiled application exists and holds its own part of the plan, all of it and nothing else: exactly
  the files it owns, none of them one of the platform's, and exactly its tailnet items and devices.\<close>

theorem grants_are_own:
  assumes "compile_registry env src requested boot = Inr p" "app \<in> fst ` set (pl_apps p)"
  shows "\<exists>g. build_app_grant (plan.truncate p) app commit = Inr g \<and> gr_app g = app \<and> gr_approved_commit g = commit \<and>
    gf_filename ` set (gr_effective_files g) = ef_filename ` {f \<in> set (pl_effective_files p). app \<in> set (ef_owners f)} \<and>
    length (gr_effective_files g) = length (filter (\<lambda>f. app \<in> set (ef_owners f)) (pl_effective_files p)) \<and>
    (\<forall>f\<in>set (pl_effective_files p). app \<in> set (ef_owners f) \<longrightarrow> ''platform'' \<notin> set (ef_owners f)) \<and>
    (\<forall>f\<in>set (gr_effective_files g). gf_approved_commit f = commit \<and> gf_node f \<in> set (pl_boxes p)) \<and>
    set (gr_tailnet_resources g) = {i \<in> set (pl_tailnet_resources p). tr_app i = app} \<and>
    set (gr_managed_devices g) = {d \<in> set (pl_managed_devices p). dev_app d = app}"
  using assms(1)
proof (rule compiled_plan)
  fix c rules l
  assume wf: "wf_compiled c" and l: "build_app_resource_ledger rules (co_vm c) = Inr l"
    and owned: "\<forall>x\<in>set (claims l). claim_owned (fst ` set (co_apps c)) (set (co_boxes c)) x"
    and p: "pl_effective_files p = effective_files l" "pl_apps p = co_apps c" "pl_boxes p = sorted_set (co_boxes c)"
  have np: "''platform'' \<notin> fst ` set (co_apps c)" using wf by (simp add: wf_compiled_def Let_def)
  from assms(2) obtain a where a: "map_of (pl_apps p) app = Some a" by (metis map_of_eq_None_iff not_None_eq)
  note f = ledger_files_owned [OF l owned np]
  have "app \<noteq> ''platform''" using np assms(2) by (metis p(2))
  then  have "''platform'' \<notin> set (ef_owners f)" if "f \<in> set (effective_files l)" "app \<in> set (ef_owners f)" for f
    using f [OF that(1)] that(2) by auto
  moreover have "ef_node f \<in> set (pl_boxes p)" if "f \<in> set (effective_files l)" for f
    using f [OF that] by (simp add: p)
  moreover obtain g where g: "build_app_grant (plan.truncate p) app commit = Inr g"
    using a by (auto simp: build_app_grant_def app_of_def plan.truncate_def)
  moreover have "gr_app g = app" "gr_approved_commit g = commit"
    "gr_effective_files g = map (sanitize_file commit) (filter (\<lambda>f. app \<in> set (ef_owners f)) (pl_effective_files p))"
    "gr_tailnet_resources g = filter (\<lambda>i. tr_app i = app) (pl_tailnet_resources p)"
    "gr_managed_devices g = filter (\<lambda>d. dev_app d = app) (pl_managed_devices p)"
    using g by (auto simp: build_app_grant_def bind_eq_Inr plan.truncate_def)
  ultimately show ?thesis
    by (intro exI [of _ g]) (simp add: p(1) image_image)
qed

lemma grants_are_own_witness:
  "\<exists>g. build_app_grant (plan.truncate sample_plan) ''web'' ''c1'' = Inr g \<and> gr_app g = ''web'' \<and> length (gr_effective_files g) = 1"
proof -
  have "''web'' \<in> fst ` set (pl_apps sample_plan)" "map ef_owners (pl_effective_files sample_plan) = [[''web'']]"
    using sample_compiled(2) by (auto simp: sample_projection_def)
  from grants_are_own [OF sample_compiled(1) this(1), of "''c1''"] this(2) show ?thesis by auto
qed

end
