(* ===== verification/Platform_Properties.thy ===== *)
theory Platform_Properties
  imports Compiler_Properties
begin

text \<open>
  The properties of the platform's own network services: routing profiles, printing from the LAN and
  the shared egress gateways.
\<close>

section \<open>Routing profiles\<close>

lemma strip_with_vpn: "public_https v \<Longrightarrow> strip_vpn (with_vpn v) = v \<and> uses_vpn (with_vpn v)"
  by (auto dest!: public_https_str simp: strip_vpn_def with_vpn_def uses_vpn_def vpn_suffix_def py_str_def ends_with_def)

text \<open>C33. The profile can be read back out of the rendered gateway configuration: \<open>from_config\<close> accepts every
  configuration \<open>render_config\<close> writes and returns the profile it was written from.\<close>

theorem profile_round_trip:
  assumes "render_config url address addresses secret profile tunnel = Inr c"
  shows "\<exists>p q. validate_profile profile = Inr p \<and> from_config (PDict c) = Inr q \<and> (\<forall>k. dget q k = dget p k)"
proof -
  from assms obtain provider p endpoints rp rules where
    p: "validate_profile profile = Inr p" and e: "viter (dget p ''vpn-dns'') = Inr endpoints"
    and rp: "providers (PDict p) = Inr rp"
    and c: "map_of c ''rule-providers'' = Some (PDict rp)" "\<exists>dns. map_of c ''dns'' = Some (PDict dns) \<and>
      map_of dns ''nameserver'' = Some (PList (map with_vpn endpoints)) \<and>
      map_of dns ''proxy-server-nameserver'' = Some (dget p ''bootstrap-dns'')"
    by (auto simp: render_config_def Let_def bind_eq_Inr)
  note pf = p [unfolded validate_profile_iff]
  from pf obtain a b where ab: "dget p ''vpn-dns'' = PList [a, b]" "public_https a" "public_https b" "\<not> py_eq a b"
    by (auto simp: resolver_pair_def)
  with e have [simp]: "endpoints = [a, b]" by simp
  let ?q = "[(''domain-list-url'', dget p ''domain-list-url''), (''bootstrap-dns'', dget p ''bootstrap-dns''),
    (''vpn-dns'', PList [a, b])]"
  have url: "length rp \<le> 1 \<and> (if truthy (PDict rp) then bind (as_dict (PDict rp)) (\<lambda>d. vitem (snd (hd d)) ''url'') else Inr PNone)
      = Inr (dget p ''domain-list-url'')"
    using rp pf by (auto simp: providers_def validate_profile_iff bind_eq_Inr split: pyval.splits)
  have q: "validate_profile (PDict ?q) = Inr ?q"
    using pf ab by (auto simp: validate_profile_iff resolver_pair_def PROFILE_FIELDS_def)
  from c obtain dns where "map_of c ''dns'' = Some (PDict dns)" "map_of dns ''nameserver'' = Some (PList (map with_vpn endpoints))"
    "map_of dns ''proxy-server-nameserver'' = Some (dget p ''bootstrap-dns'')" by blast
  then have "from_config (PDict c) = Inr ?q"
    using c(1) url q ab(2,3) strip_with_vpn by (simp add: from_config_def ditem_def py_len_def expect_def)
  moreover have "dget ?q k = dget p k" for k
  proof (cases "k \<in> set PROFILE_FIELDS")
    case True then show ?thesis using ab by (auto simp: PROFILE_FIELDS_def)
  next
    case False
    then have "k \<notin> fst ` set p" using pf by simp
    then have "map_of p k = None" by (simp add: map_of_eq_None_iff)
    with False show ?thesis by (simp add: PROFILE_FIELDS_def dget_def dgetd_def)
  qed
  ultimately show ?thesis using p by blast
qed

definition sample_profile :: pydict where
  "sample_profile = [(''domain-list-url'', PNone), (''bootstrap-dns'', strs [''1.1.1.1'', ''8.8.8.8'']),
     (''vpn-dns'', strs [''https://a.b/q'', ''https://c.d/q''])]"


lemma profile_round_trip_witness:
  "\<exists>c q. render_config (PStr ''https://s.t'') ''10.0.4.9'' [] (PStr ''0123456789abcdef01234567'') (PDict sample_profile) True = Inr c \<and>
     from_config (PDict c) = Inr q \<and> dget q ''domain-list-url'' = PNone"
proof -
  have p: "validate_profile (PDict sample_profile) = Inr sample_profile" "valid_subscription_url (PStr ''https://s.t'')"
    by code_simp+
  have d: "dget sample_profile ''domain-list-url'' = PNone" "viter (dget sample_profile ''vpn-dns'') = Inr [PStr ''https://a.b/q'', PStr ''https://c.d/q'']"
    by (simp_all add: sample_profile_def)
  obtain c where c: "render_config (PStr ''https://s.t'') ''10.0.4.9'' [] (PStr ''0123456789abcdef01234567'') (PDict sample_profile) True = Inr c"
    using p d by (simp add: render_config_def relay_provider_def providers_def routing_rules_def expect_def Let_def)
  from profile_round_trip [OF c] c p(1) d(1) show ?thesis by auto
qed


section \<open>LAN printing\<close>

text \<open>C34. A print service is only compiled for a LAN that shares no address with a zone: the declared subnet is a private
  IPv4 network of 4 to 65536 addresses, and no address lies both in it and in a workload or control zone. Its
  router rule leads from that subnet to the dedicated print machine.\<close>

theorem lan_subnet_disjoint:
  assumes "compile_service box config t spec = Inr (s, r, v)"
  shows "\<exists>subnet. ls_subnet s = net_str subnet \<and> rr_source r = net_str subnet \<and> rr_destination r = vs_ip spec \<and>
    vs_app spec = ''print-server'' \<and> net_version subnet = 4 \<and> is_private_net4 subnet \<and>
    16 \<le> net_prefix subnet \<and> net_prefix subnet \<le> 30 \<and>
    (\<forall>z\<in>snd ` set (zones t) \<union> snd ` set (control_zones t). \<exists>cidr n. vitem z ''cidr'' = Inr cidr \<and>
       strict_network cidr = Inr n \<and> (\<forall>x. 0 \<le> x \<and> x < 2 ^ 32 \<longrightarrow> \<not> (in_net (V4 x) subnet \<and> in_net (V4 x) n)))"
proof -
  from compile_service_subnet [OF assms] obtain subnet where d: "declared_subnet config = Inr subnet"
    and s: "ls_subnet s = net_str subnet" "rr_source r = net_str subnet" "rr_destination r = vs_ip spec" "vs_app spec = ''print-server''"
    and z: "\<forall>z\<in>set (zones t @ control_zones t). check_overlap subnet (snd z) = Inr ()" .
  note f = declared_subnet_facts [OF d]
  from f(1) obtain w where w: "strict_network w = Inr subnet" ..
  have "\<exists>cidr n. vitem z ''cidr'' = Inr cidr \<and> strict_network cidr = Inr n \<and>
      (\<forall>x. 0 \<le> x \<and> x < 2 ^ 32 \<longrightarrow> \<not> (in_net (V4 x) subnet \<and> in_net (V4 x) n))"
    if "check_overlap subnet z = Inr ()" for z
    using that disjoint_networks [OF w _ f(2)] by (auto simp: check_overlap_def bind_eq_Inr expect_eq_Inr)
  with z s f(2-) show ?thesis by (intro exI [of _ subnet]) auto
qed

definition print_spec :: app_vm_spec where
  "print_spec = (hd (co_specs web_compiled))\<lparr>vs_app := ''print-server'', vs_zone := ''bak''\<rparr>"

definition lan_config :: pydict where
  "lan_config = [(''rg_lan'', PDict [(''ipv4_cidr'', PStr ''192.168.1.0/24'')])]"

lemma lan_subnet_disjoint_witness:
  "\<exists>s r v subnet. compile_service ''b1'' lan_config plan_topology print_spec = Inr (s, r, v) \<and>
     rr_source r = net_str subnet \<and> is_private_net4 subnet"
proof -
  have "case compile_service ''b1'' lan_config plan_topology print_spec of Inl _ \<Rightarrow> False | Inr _ \<Rightarrow> True" by code_simp
  then obtain s r v where "compile_service ''b1'' lan_config plan_topology print_spec = Inr (s, r, v)"
    by (auto split: sum.splits)
  with lan_subnet_disjoint [OF this] show ?thesis by blast
qed


section \<open>Egress gateways\<close>

lemma role_of_SomeD: "role_of box name = Some role \<Longrightarrow> role \<in> set client_roles \<and> name = box @ ''-'' @ role"
  by (auto simp: role_of_def dest!: map_of_SomeD)

lemma clients_facts:
  assumes "clients box config t = Inr cs"
  shows "distinct (map vc_hostname cs)" "c \<in> set cs \<Longrightarrow> vc_role c \<in> set client_roles \<and> vc_hostname c = box @ ''-'' @ vc_role c"
proof -
  have step: "distinct (map vc_hostname b) \<and> (\<forall>c\<in>set b. vc_role c \<in> set client_roles \<and> vc_hostname c = box @ ''-'' @ vc_role c)"
    if "add_client box t a v = Inr b"
      "distinct (map vc_hostname a) \<and> (\<forall>c\<in>set a. vc_role c \<in> set client_roles \<and> vc_hostname c = box @ ''-'' @ vc_role c)" for a b v
    using that
    by (auto simp: add_client_def bind_eq_Inr expect_eq_Inr make_client_def split: pyval.splits option.splits dest!: role_of_SomeD)
  from assms consider "cs = []" | names where "fold_res (add_client box t) [] names = Inr cs"
    by (auto simp: clients_def Let_def bind_eq_Inr split: pyval.splits if_splits)
  then have "distinct (map vc_hostname cs) \<and> (\<forall>c\<in>set cs. vc_role c \<in> set client_roles \<and> vc_hostname c = box @ ''-'' @ vc_role c)"
  proof cases
    case 2
    then show ?thesis by (rule fold_res_invariant) (simp, rule step)
  qed simp
  then show "distinct (map vc_hostname cs)" "c \<in> set cs \<Longrightarrow> vc_role c \<in> set client_roles \<and> vc_hostname c = box @ ''-'' @ vc_role c"
    by auto
qed

text \<open>What the rules of a gateway say: from which interface to which, from whom to whom, and which ports.\<close>

type_synonym rule_entry = "string \<times> string \<times> string \<times> string \<times> string \<times> pyval list"

definition entry :: "router_rule \<Rightarrow> rule_entry" where
  "entry r = (rr_in_interface r, rr_out_interface r, rr_source r, rr_destination r, rr_protocol r, rr_ports r)"

text \<open>The gateway to the outside.\<close>

definition entries_out :: "string \<Rightarrow> string \<Rightarrow> string \<Rightarrow> string list \<Rightarrow> rule_entry set" where
  "entries_out iface wan address resolvers =
    {(iface, wan, address, [], ''tcp'', map PInt RELAY_PORTS), (iface, wan, address, [], ''tcp'', [PInt 5000]),
     (iface, wan, address, [], ''tcp'', [PInt 80]), (iface, wan, address, [], ''udp'', [PInt 1443]),
     (iface, wan, address, [], ''udp'', [PInt 3478, PInt 41641])} \<union>
    {(iface, wan, address, resolver, protocol, [PInt 53]) | resolver protocol.
      resolver \<in> set resolvers \<and> protocol \<in> set [''tcp'', ''udp'']}"

text \<open>A client to the gateway: the controller does not use it, and a machine of the gateway's own network needs no rule.\<close>

definition proxy_port :: "topology \<Rightarrow> pyval" where
  "proxy_port t = (case vitem (vpn_egress t) ''port'' of Inr port \<Rightarrow> port | Inl _ \<Rightarrow> PNone)"

definition client_services :: "topology \<Rightarrow> (string \<times> pyval list) list" where
  "client_services t = [(''tcp'', [proxy_port t]), (''tcp'', [PInt 53]), (''udp'', [PInt 53])]"

definition entries_in :: "topology \<Rightarrow> string \<Rightarrow> string \<Rightarrow> vpn_client list \<Rightarrow> rule_entry set" where
  "entries_in t iface address cs =
    {(vc_interface c, iface, vc_address c, address, protocol, ports) | c protocol ports.
      c \<in> set cs \<and> vc_role c \<noteq> ''ops'' \<and> vc_interface c \<noteq> iface \<and>
      (protocol, ports) \<in> set (client_services t)}"

text \<open>The dom0 to a gateway that is being bootstrapped.\<close>

definition dom0_side :: "topology \<Rightarrow> string \<times> string" where
  "dom0_side t = (case bind (ditem (zones t) ''bak'') (\<lambda>bak. bind (zone_str bak ''router_interface'') (\<lambda>i.
     bind (zone_str bak ''dom0_ipv4_address'') (\<lambda>a. Inr (i, a)))) of Inr p \<Rightarrow> p | Inl _ \<Rightarrow> ([], []))"

definition entries_boot :: "topology \<Rightarrow> string \<Rightarrow> string \<Rightarrow> bool \<Rightarrow> rule_entry set" where
  "entries_boot t iface address building =
    (if building then {(fst (dom0_side t), iface, snd (dom0_side t), address, ''tcp'', [PInt 22])} else {})"

lemma gateway_rule_fields [simp]:
  "rr_node (gateway_rule box n i out s d p ports) = box" "entry (gateway_rule box n i out s d p ports) = (i, out, s, d, p, ports)"
  by (simp_all add: gateway_rule_def entry_def)

lemma dns_entries:
  "entry ` set (concat (map (\<lambda>p. map (\<lambda>d. gateway_rule box n i out s d p ports) ds) ps)) =
    {(i, out, s, d, p, ports) | d p. d \<in> set ds \<and> p \<in> set ps}"
  by (auto simp: image_iff)

lemma egress_entries: "entry ` set (egress_rules_of box iface wan address resolvers) = entries_out iface wan address resolvers"
proof -
  have "filter (\<lambda>p. p \<notin> set RELAY_PORTS) SUBSCRIPTION_PORTS = [5000]"
    by (simp add: RELAY_PORTS_def SUBSCRIPTION_PORTS_def)
  then show ?thesis
    unfolding egress_rules_of_def entries_out_def Let_def set_append image_Un dns_entries
    by (simp add: RELAY_UDP_PORTS_def insert_commute Un_commute)
qed

lemma client_entries:
  assumes "traverse (client_rules box iface address (vpn_egress t)) cs = Inr rss"
  shows "entry ` set (concat rss) = entries_in t iface address cs" "\<forall>r\<in>set (concat rss). rr_node r = box"
proof -
  have one: "entry ` set rs = entries_in t iface address [c] \<and> (\<forall>r\<in>set rs. rr_node r = box)"
    if "client_rules box iface address (vpn_egress t) c = Inr rs" for c rs
  proof (cases "vc_role c = ''ops'' \<or> vc_interface c = iface")
    case True
    with that show ?thesis by (auto simp: client_rules_def entries_in_def)
  next
    case False
    with that obtain port where "vitem (vpn_egress t) ''port'' = Inr port"
      "rs = gateway_rule box (''client-'' @ vc_role c) (vc_interface c) iface (vc_address c) address ''tcp'' [port]
         # map (\<lambda>protocol. gateway_rule box (''client-dns-'' @ vc_role c) (vc_interface c) iface
                (vc_address c) address protocol [PInt 53]) [''tcp'', ''udp'']"
      unfolding client_rules_def by (simp only: if_False bind_eq_Inr sum.inject) blast
    then have "entry ` set rs = (\<lambda>(p, ports). (vc_interface c, iface, vc_address c, address, p, ports)) ` set (client_services t)"
      "\<forall>r\<in>set rs. rr_node r = box"
      by (simp_all add: client_services_def proxy_port_def)
    moreover have "entries_in t iface address [c] =
        (\<lambda>(p, ports). (vc_interface c, iface, vc_address c, address, p, ports)) ` set (client_services t)"
      using False by (auto simp: entries_in_def)
    ultimately show ?thesis by simp
  qed
  have split: "entries_in t iface address (c # cs) = entries_in t iface address [c] \<union> entries_in t iface address cs" for c cs
    by (auto simp: entries_in_def)
  from assms have "entry ` set (concat rss) = entries_in t iface address cs \<and> (\<forall>r\<in>set (concat rss). rr_node r = box)"
  proof (induction cs arbitrary: rss)
    case (Cons c cs)
    then obtain rs rss' where "client_rules box iface address (vpn_egress t) c = Inr rs"
      "traverse (client_rules box iface address (vpn_egress t)) cs = Inr rss'" "rss = rs # rss'"
      by (auto simp: bind_eq_Inr)
    with one Cons.IH show ?case by (simp add: split [of c cs] image_Un ball_Un)
  qed (simp add: entries_in_def)
  then show "entry ` set (concat rss) = entries_in t iface address cs" "\<forall>r\<in>set (concat rss). rr_node r = box" by auto
qed

lemma bootstrap_entries:
  "bootstrap_rules boot box t iface address = Inr rs \<Longrightarrow>
    entry ` set rs = entries_boot t iface address (box \<in> set boot) \<and> (\<forall>r\<in>set rs. rr_node r = box)"
  by (auto simp: bootstrap_rules_def bootstrap_ssh_rule_def entries_boot_def dom0_side_def bind_eq_Inr split: if_splits)

text \<open>One box, its settings and the rules it gets.\<close>

definition gateway_ok :: "pydict \<Rightarrow> topology \<Rightarrow> string list \<Rightarrow> pyval \<Rightarrow> string \<Rightarrow> string \<Rightarrow> pydict \<Rightarrow> rule_entry set \<Rightarrow> bool" where
  "gateway_ok prof t boot zone address box config found \<longleftrightarrow> (\<exists>iface wan resolvers cs.
     zone_str zone ''router_interface'' = Inr iface \<and> wan_interface t = Inr wan \<and>
     box_resolvers prof box config = Inr resolvers \<and> clients box config t = Inr cs \<and> distinct (map vc_hostname cs) \<and>
     (\<forall>c\<in>set cs. vc_role c \<in> set client_roles \<and> vc_hostname c = box @ ''-'' @ vc_role c) \<and>
     found = entries_out iface wan address resolvers \<union> entries_in t iface address cs \<union>
       entries_boot t iface address (box \<in> set boot))"

lemma box_gateway_entries:
  assumes "box_gateway registry t boot prof zn z address (box, cv) = Inr g"
  obtains config where "cv = PDict config" "(g \<noteq> None) = dhas config ''vpn_egress''"
    "\<And>guest rs. g = Some (guest, rs) \<Longrightarrow> guest_node guest = box \<and> (\<forall>r\<in>set rs. rr_node r = box) \<and>
      gateway_ok prof t boot z address box config (entry ` set rs)"
proof -
  from assms obtain config cs where c: "cv = PDict config" "clients box config t = Inr cs"
    by (auto simp: box_gateway_def bind_eq_Inr as_dict_iff)
  show thesis
  proof (cases "dhas config ''vpn_egress''")
    case False
    with assms c show ?thesis by (intro that [OF c(1)]) (auto simp: box_gateway_def)
  next
    case True
    with assms c obtain guest wan iface resolvers for_clients bootstrap where
      g: "g = Some (guest, egress_rules_of box iface wan address resolvers @ concat for_clients @ bootstrap)"
      and guest: "gateway_guest box (vpn_egress t) zn address = Inr guest"
      and parts: "wan_interface t = Inr wan" "zone_str z ''router_interface'' = Inr iface"
        "box_resolvers prof box config = Inr resolvers"
      and f: "traverse (client_rules box iface address (vpn_egress t)) cs = Inr for_clients"
      and b: "bootstrap_rules boot box t iface address = Inr bootstrap"
      by (auto simp: box_gateway_def bind_eq_Inr)
    have "gateway_ok prof t boot z address box config
        (entry ` set (egress_rules_of box iface wan address resolvers @ concat for_clients @ bootstrap))"
      unfolding gateway_ok_def set_append image_Un egress_entries client_entries(1) [OF f]
        conjunct1 [OF bootstrap_entries [OF b]]
      using parts c(2) clients_facts [OF c(2)] by (auto simp: Un_assoc)
    moreover have "\<forall>r\<in>set (egress_rules_of box iface wan address resolvers @ concat for_clients @ bootstrap). rr_node r = box"
      using client_entries(2) [OF f] bootstrap_entries [OF b] by (auto simp: egress_rules_of_def Let_def)
    moreover have "guest_node guest = box" using guest by (auto simp: gateway_guest_def bind_eq_Inr guest_node_def)
    ultimately show ?thesis using True by (intro that [OF c(1)]) (auto simp: g)
  qed
qed

lemma gateway_names:
  assumes "traverse (box_gateway registry t boot profiles zn z a) xs = Inr found"
  shows "map (\<lambda>g. guest_node (fst g)) (gateways_of found) = map fst (filter (\<lambda>(box, cv). dhas (dict_of cv) ''vpn_egress'') xs)"
  using assms
proof (induction xs arbitrary: found)
  case (Cons x xs)
  obtain box cv where x: "x = (box, cv)" by (cases x)
  from Cons.prems obtain g gs where gs: "box_gateway registry t boot profiles zn z a (box, cv) = Inr g"
    "traverse (box_gateway registry t boot profiles zn z a) xs = Inr gs" "found = g # gs" by (auto simp: x bind_eq_Inr)
  from box_gateway_entries [OF gs(1)] obtain config where c: "cv = PDict config" "(g \<noteq> None) = dhas config ''vpn_egress''"
    "\<forall>guest rs. g = Some (guest, rs) \<longrightarrow> guest_node guest = box" by metis
  show ?case
  proof (cases g)
    case None
    with c(2) Cons.IH [OF gs(2)] show ?thesis by (simp add: x c(1) gs(3) gateways_of_def)
  next
    case (Some p)
    obtain guest rs where "p = (guest, rs)" by (cases p)
    with Some c(2,3) Cons.IH [OF gs(2)] show ?thesis by (simp add: x c(1) gs(3) gateways_of_def)
  qed
qed (simp add: gateways_of_def)

lemma gateway_rules_of_box:
  assumes "traverse (box_gateway registry t boot profiles zn z a) xs = Inr found" "distinct (map fst xs)"
    and "(box, PDict config) \<in> set xs" "dhas config ''vpn_egress''"
  shows "gateway_ok profiles t boot z a box config
    (entry ` {r \<in> set (concat (map snd (gateways_of found))). rr_node r = box})"
proof -
  from traverse_covers [OF assms(1,3)] obtain g where g: "g \<in> set found"
    "box_gateway registry t boot profiles zn z a (box, PDict config) = Inr g" by blast
  from box_gateway_entries [OF g(2)] assms(4) obtain guest rs where rs: "g = Some (guest, rs)" "\<forall>r\<in>set rs. rr_node r = box"
    "gateway_ok profiles t boot z a box config (entry ` set rs)" by (metis option.exhaust pyval.inject(5) surj_pair)
  have "r \<in> set rs" if r: "r \<in> set (concat (map snd (gateways_of found)))" "rr_node r = box" for r
  proof -
    from r(1) obtain guest' rs' where found: "Some (guest', rs') \<in> set found" "r \<in> set rs'"
      by (force simp: gateways_of_set [symmetric])
    from traverse_set [OF assms(1) found(1)] obtain box' cv where x: "(box', cv) \<in> set xs"
      "box_gateway registry t boot profiles zn z a (box', cv) = Inr (Some (guest', rs'))" by auto
    from box_gateway_entries [OF x(2)] found(2) have "rr_node r = box'" by metis
    with x(1) assms(2,3) r(2) have "cv = PDict config" by (auto dest: eq_key_imp_eq_value)
    with x(2) g(2) rs(1) \<open>rr_node r = box'\<close> r(2) found(2) show ?thesis by auto
  qed
  moreover have "r \<in> set (concat (map snd (gateways_of found)))" if "r \<in> set rs" for r
    using that g(1) rs(1) by (auto simp: gateways_of_set intro!: bexI [of _ "(guest, rs)"])
  ultimately have "{r \<in> set (concat (map snd (gateways_of found))). rr_node r = box} = set rs" using rs(2) by blast
  with rs(3) show ?thesis by simp
qed

text \<open>C32. The compiled gateways are those the boxes declare, in the order of the boxes' names, and a gateway may only be
  bootstrapped on such a box. The rules of a box are exactly these: its gateway out to the relays, the subscription, HTTP,
  the resolvers and the Tailnet; each declared client that lives in another network and is not the controller in to the
  proxy and to the DNS of the gateway; and, if the box is being bootstrapped, the dom0 in by SSH. Clients are different
  machines of the same box. (The settings of the boxes are a dict: its keys are distinct.)\<close>

theorem gateways_are_declared:
  assumes "compile_network registry configs t boot profiles = Inr (guests, rules, vms)" "distinct (dkeys configs)"
  shows "map guest_node guests = map fst (filter (\<lambda>(box, cv). dhas (dict_of cv) ''vpn_egress'') (sort_key fst configs)) \<and>
    set boot \<subseteq> set (map guest_node guests) \<and> vms = [] \<and> (\<forall>r\<in>set rules. rr_node r \<in> set (map guest_node guests)) \<and>
    (\<exists>zone_name zone address. zone_str (vpn_egress t) ''zone'' = Inr zone_name \<and> ditem (zones t) zone_name = Inr zone \<and>
      zone_str (vpn_egress t) ''ipv4_address'' = Inr address \<and>
      (\<forall>box config. (box, PDict config) \<in> set configs \<longrightarrow> dhas config ''vpn_egress'' \<longrightarrow>
        (\<exists>iface wan resolvers cs. zone_str zone ''router_interface'' = Inr iface \<and> wan_interface t = Inr wan \<and>
          box_resolvers profiles box config = Inr resolvers \<and> clients box config t = Inr cs \<and> distinct (map vc_hostname cs) \<and>
          (\<forall>c\<in>set cs. vc_role c \<in> set client_roles \<and> vc_hostname c = box @ ''-'' @ vc_role c) \<and>
          entry ` {r \<in> set rules. rr_node r = box} = entries_out iface wan address resolvers \<union>
            entries_in t iface address cs \<union> entries_boot t iface address (box \<in> set boot))))"
proof -
  from assms(1) obtain zn z a found where a: "zone_str (vpn_egress t) ''zone'' = Inr zn" "ditem (zones t) zn = Inr z"
      "zone_str (vpn_egress t) ''ipv4_address'' = Inr a"
    and t: "traverse (box_gateway registry t boot profiles zn z a) (sort_key fst configs) = Inr found"
    and g: "guests = map fst (gateways_of found)" "rules = concat (map snd (gateways_of found))" "vms = []"
    and b: "set boot \<subseteq> set (map (\<lambda>g. guest_node (fst g)) (gateways_of found))"
    by (auto simp: compile_network_def Let_def bind_eq_Inr expect_eq_Inr)
  have owned: "rr_node r \<in> set (map guest_node guests)" if "r \<in> set rules" for r
  proof -
    from that obtain guest rs where found: "(guest, rs) \<in> set (gateways_of found)" "r \<in> set rs"
      unfolding g(2) by auto
    from found(1) have some: "Some (guest, rs) \<in> set found" by (simp add: gateways_of_set)
    from traverse_set [OF t some] obtain box cv where
      "box_gateway registry t boot profiles zn z a (box, cv) = Inr (Some (guest, rs))" by auto
    from box_gateway_entries [OF this] found(2) have "rr_node r = guest_node guest" by metis
    with found(1) show ?thesis by (force simp: g(1))
  qed
  have distinct: "distinct (map fst (sort_key fst configs))"
    using assms(2) by (simp add: distinct_map inj_on_def)
  show ?thesis
    using gateway_names [OF t] b owned a g gateway_rules_of_box [OF t distinct]
    unfolding gateway_ok_def by (intro conjI exI [of _ zn] exI [of _ z] exI [of _ a]) (simp_all add: comp_def)
qed

definition gateway_configs :: pydict where
  "gateway_configs = [(''b2'', PDict []), (''b1'', PDict [(''access'', PDict [(''enabled_capabilities'', strs [''vpn-egress''])]),
     (''vpn_egress'', PDict [(''clients'', strs [''b1-ops'', ''b1-dmz''])])])]"

lemma gateways_are_declared_witness:
  "\<exists>guests rules. compile_network [] gateway_configs plan_topology [''b1''] [] = Inr (guests, rules, []) \<and>
     map guest_node guests = [''b1''] \<and> length rules = 13"
proof -
  have "case compile_network [] gateway_configs plan_topology [''b1''] [] of Inl _ \<Rightarrow> False
    | Inr (guests, rules, vms) \<Rightarrow> length rules = 13" by code_simp
  then obtain guests rules vms where c: "compile_network [] gateway_configs plan_topology [''b1''] [] = Inr (guests, rules, vms)"
    "length rules = 13" by (auto split: sum.splits)
  have "map fst (filter (\<lambda>(box, cv). dhas (dict_of cv) ''vpn_egress'') (sort_key fst gateway_configs)) = [''b1'']" by code_simp
  moreover have "distinct (dkeys gateway_configs)" by (simp add: gateway_configs_def)
  ultimately show ?thesis using gateways_are_declared [OF c(1)] c by auto
qed

end
