(* ===== verification/Router_Transaction.thy ===== *)
theory Router_Transaction
  imports Effects Interfaces Py_Regex
begin

text \<open>
  The durable cutover of a router generation: \<^verbatim>\<open>router_transaction.py\<close>.

  A command (\<open>cutover\<close>, \<open>recover\<close>) runs against an adapter outside the model. Every
  interaction with the adapter consumes one \<open>reply\<close>; when the replies run out the host has
  crashed at that point, so a run over every list of replies is a run with every possible crash,
  failure and missed deadline. \<open>Exhausted\<close>: the deadline had passed before the call, which is
  not made. \<open>Failed\<close>: the call raised and had no lasting effect. \<open>Late\<close>: it took effect, and then
  the deadline had passed (or it raised after all). \<open>Done v\<close>: it returned \<open>v\<close> in time. An attempted
  start counts as a start whatever its reply.

  The events are logged; \<open>world_of\<close> reads off the log which generation may be running, which
  holds the latest router state, and whether the accepted pointer was switched. A \<open>session\<close> is
  the first cutover or a boot recovery that starts from the durable record; between two sessions
  the host may have crashed anywhere. \<open>start_is_exclusive_and_latest\<close> (Router_Runs): in every such history a generation is started only when
  the other one is confirmed stopped, and only when it holds the latest state.
\<close>

section \<open>Requests and records\<close>

record request =
  rq_kind :: string
  rq_role :: string
  rq_box :: string
  rq_operation_id :: string
  rq_engine_commit :: string
  rq_policy_sha256 :: string
  rq_accepted_sha256 :: string
  rq_old_sha256 :: string
  rq_candidate_sha256 :: string
  rq_cutover_seconds :: int
  rq_recovery_seconds :: int

abbreviation "lower_hex \<equiv> Cls [(CHR ''0'', CHR ''9''), (CHR ''a'', CHR ''f'')]"

definition ROUTER_BOX_RE :: rx where
  "ROUTER_BOX_RE = Seq (Cls [(CHR ''a'', CHR ''z''), (CHR ''0'', CHR ''9'')])
    (Rep (Cls [(CHR ''a'', CHR ''z''), (CHR ''0'', CHR ''9''), (CHR ''-'', CHR ''-'')]) 0 30)"

definition valid_request :: "request \<Rightarrow> bool" where
  "valid_request r \<longleftrightarrow>
    rq_kind r = ''klokast.router-transaction-request.v1'' \<and> rq_role r = ''router'' \<and>
    fullmatch ROUTER_BOX_RE (rq_box r) \<and>
    fullmatch (Rep lower_hex 24 24) (rq_operation_id r) \<and>
    fullmatch (Rep lower_hex 40 40) (rq_engine_commit r) \<and>
    list_all (fullmatch (Rep lower_hex 64 64))
      [rq_policy_sha256 r, rq_accepted_sha256 r, rq_old_sha256 r, rq_candidate_sha256 r] \<and>
    rq_old_sha256 r \<noteq> rq_candidate_sha256 r \<and>
    60 \<le> rq_cutover_seconds r \<and> rq_cutover_seconds r \<le> 1800 \<and>
    60 \<le> rq_recovery_seconds r \<and> rq_recovery_seconds r \<le> 1800"

datatype phase =
    Armed | StoppingOld | CopyingForward | CandidateReady | StartingCandidate | CheckingCandidate
  | AwaitingEnrollment | StoppingCandidateForFinalization | FinalizingCandidate
  | RestartingCandidate | CheckingFinalCandidate | AwaitingAcceptance | Committing | Accepted
  | FencingCandidate | FencingOld | CopyingReverse | OldReady | StartingOld | CheckingOld
  | RolledBack | RecoveryFailed

datatype reason = Cutover | DeadlineOrCheck | BootRecovery | RecoveryActionFailed | FencingUnconfirmed

record pending_record =
  pn_request :: request
  pn_phase :: phase
  pn_candidate_started :: bool
  pn_old_started :: bool
  pn_reason :: reason

definition valid_pending :: "request \<Rightarrow> pending_record \<Rightarrow> bool" where
  "valid_pending rq p \<longleftrightarrow>
    valid_request rq \<and> pn_request p = rq \<and>
    \<not> (pn_phase p \<in> {Armed, StoppingOld, CopyingForward, CandidateReady} \<and> pn_candidate_started p) \<and>
    \<not> (pn_phase p \<in> {StartingCandidate, CheckingCandidate, AwaitingEnrollment,
        StoppingCandidateForFinalization, FinalizingCandidate, RestartingCandidate,
        CheckingFinalCandidate, AwaitingAcceptance, Committing, Accepted, CopyingReverse} \<and>
       \<not> pn_candidate_started p) \<and>
    \<not> (pn_old_started p \<and> pn_phase p \<notin> {FencingCandidate, OldReady, StartingOld, CheckingOld,
        RolledBack, RecoveryFailed})"


section \<open>The adapter\<close>

datatype side = Old | Candidate

datatype act =
    VerifyPrepared | Arm | Stop side | Copy side side | VerifyCopy side side | Start side
  | CheckLocal side | WaitEnrollment | FinalizeCandidate | WaitAcceptance | Commit | Disarm side
  | VerifyRecovery | Committed | FenceAll

datatype outcome = WasAccepted | WasRolledBack

datatype reply = Exhausted | Failed | Late | Done bool

datatype event = Persist pending_record reply | Act act reply | Finish outcome reply

record world =
  running :: "side set"
  latest :: "side set"
  committed :: bool
  marked :: "side set"

text \<open>The call was made; its effect took place.\<close>

definition called :: "reply \<Rightarrow> bool" where "called r \<longleftrightarrow> r \<noteq> Exhausted"

definition effective :: "reply \<Rightarrow> bool" where "effective r \<longleftrightarrow> r = Late \<or> (\<exists>b. r = Done b)"

definition confirmed :: "reply \<Rightarrow> bool" where "confirmed r \<longleftrightarrow> (\<exists>b. r = Done b)"

fun act_effect :: "act \<Rightarrow> reply \<Rightarrow> world \<Rightarrow> world" where
  "act_effect (Start s) r w =
    (if called r then w\<lparr>running := insert s (running w), latest := {s}\<rparr> else w)"
| "act_effect (Stop s) r w = (if confirmed r then w\<lparr>running := running w - {s}\<rparr> else w)"
| "act_effect FenceAll r w = (if confirmed r then w\<lparr>running := {}\<rparr> else w)"
| "act_effect (Copy a b) r w =
    (if \<not> called r then w
     else if effective r \<and> a \<in> latest w then w\<lparr>latest := insert b (latest w)\<rparr>
     else w\<lparr>latest := latest w - {b}\<rparr>)"
| "act_effect Commit r w = (if effective r then w\<lparr>committed := True\<rparr> else w)"
| "act_effect _ r w = w"

definition start_markers :: "pending_record \<Rightarrow> side set" where
  "start_markers p = (if pn_candidate_started p then {Candidate} else {})
    \<union> (if pn_old_started p then {Old} else {})"

primrec world_step :: "world \<Rightarrow> event \<Rightarrow> world" where
  "world_step w (Persist p r) = (if effective r then w\<lparr>marked := start_markers p\<rparr> else w)"
| "world_step w (Act a r) = act_effect a r w"
| "world_step w (Finish out r) = w"

definition initial_world :: world where
  "initial_world = \<lparr>running = {Old}, latest = {Old}, committed = False, marked = {}\<rparr>"

definition world_of :: "event list \<Rightarrow> world" where
  "world_of log = foldl world_step initial_world log"

text \<open>What must hold when an event happens: a start needs the other side stopped, the started side
  up to date, and its start marker on disk; a copy needs both sides stopped and an up-to-date
  source.\<close>

definition other :: "side \<Rightarrow> side" where
  "other s = (case s of Old \<Rightarrow> Candidate | Candidate \<Rightarrow> Old)"

fun allowed :: "world \<Rightarrow> event \<Rightarrow> bool" where
  "allowed w (Act (Start s) r) = (called r \<longrightarrow> other s \<notin> running w \<and> s \<in> latest w \<and> s \<in> marked w)"
| "allowed w (Act (Copy a b) r) = (called r \<longrightarrow> a \<noteq> b \<and> a \<in> latest w \<and> running w = {})"
| "allowed w e = True"

fun safe_from :: "world \<Rightarrow> event list \<Rightarrow> bool" where
  "safe_from w [] = True"
| "safe_from w (e # es) = (allowed w e \<and> safe_from (world_step w e) es)"

definition safe_log :: "event list \<Rightarrow> bool" where
  "safe_log log = safe_from initial_world log"


section \<open>Commands\<close>

record st =
  pending :: "pending_record option"
  durable :: "pending_record option"
  finished :: "outcome option"
  log :: "event list"
  replies :: "reply list"

text \<open>One interaction: \<open>ev\<close> is the event it logs, given the reply.\<close>

definition interact :: "(reply \<Rightarrow> event) \<Rightarrow> (st, reply) run" where
  "interact ev s = (case replies s of
       [] \<Rightarrow> (Inl Crash, s)
     | r # rs \<Rightarrow> (Inr r, s\<lparr>replies := rs, log := log s @ [ev r]\<rparr>))"

definition answered :: "string \<Rightarrow> reply \<Rightarrow> (st, bool) run" where
  "answered msg r = (case r of Done b \<Rightarrow> rreturn b | _ \<Rightarrow> raise msg)"

text \<open>\<open>committed\<close> reads the accepted pointer, which is atomic and durable.\<close>

definition action :: "act \<Rightarrow> (st, bool) run" where
  "action a = rbind (interact (Act a)) (\<lambda>r. rbind (answered ''router transaction action'' r) (\<lambda>b.
    \<lambda>s. (Inr (if a = Committed then committed (world_of (log s)) else b), s)))"

definition perform :: "act \<Rightarrow> (st, unit) run" where
  "perform a = rbind (action a) (\<lambda>_. rreturn ())"

definition previous :: "st \<Rightarrow> bool \<times> bool \<times> reason" where
  "previous s = (case pending s of
     None \<Rightarrow> (False, False, Cutover)
   | Some p \<Rightarrow> (pn_candidate_started p, pn_old_started p, pn_reason p))"

definition set_pending :: "pending_record \<Rightarrow> (st, unit) run" where
  "set_pending p s = (Inr (), s\<lparr>pending := Some p\<rparr>)"

definition persist :: "pending_record \<Rightarrow> (st, unit) run" where
  "persist p = rbind (interact (Persist p)) (\<lambda>r.
    rbind (\<lambda>s. (Inr (), if effective r then s\<lparr>durable := Some p, finished := None\<rparr> else s)) (\<lambda>_.
    rbind (answered ''persist'' r) (\<lambda>_. rreturn ())))"

definition or_else :: "'a option \<Rightarrow> 'a \<Rightarrow> 'a" where
  "or_else x d = (case x of None \<Rightarrow> d | Some v \<Rightarrow> v)"

definition checkpoint_with :: "request \<Rightarrow> phase \<Rightarrow> bool option \<Rightarrow> bool option \<Rightarrow> reason option \<Rightarrow> (st, unit) run" where
  "checkpoint_with rq ph started old_started why s =
    (case previous s of (c, o1, y) \<Rightarrow>
      (let p = \<lparr>pn_request = rq, pn_phase = ph, pn_candidate_started = or_else started c,
                pn_old_started = or_else old_started o1, pn_reason = or_else why y\<rparr>
       in rbind (set_pending p) (\<lambda>_.
          if valid_pending rq p then persist p
          else raise ''router pending record is incomplete or contradicts its production-start marker'') s))"

definition checkpoint :: "request \<Rightarrow> phase \<Rightarrow> (st, unit) run" where
  "checkpoint rq ph = checkpoint_with rq ph None None None"

definition finish :: "outcome \<Rightarrow> (st, outcome) run" where
  "finish out = rbind (interact (Finish out)) (\<lambda>r.
    rbind (\<lambda>s. (Inr (), if effective r then s\<lparr>finished := Some out, durable := None\<rparr> else s)) (\<lambda>_.
    rbind (answered ''finish'' r) (\<lambda>_. rreturn out)))"

definition confirmed_wait :: "act \<Rightarrow> string \<Rightarrow> (st, unit) run" where
  "confirmed_wait a msg = rbind (action a) (\<lambda>ok. if ok then rreturn () else raise msg)"

section \<open>Recovery and cutover\<close>

definition reverse_copy :: "request \<Rightarrow> (st, unit) run" where
  "reverse_copy rq s =
    (case previous s of (candidate_started, old_started, _) \<Rightarrow>
      if candidate_started \<and> \<not> old_started then
        in_order [checkpoint rq FencingOld, perform (Stop Old), checkpoint rq CopyingReverse,
          perform (Copy Candidate Old), perform (VerifyCopy Candidate Old)] s
      else (Inr (), s))"

definition finish_committed :: "request \<Rightarrow> reason \<Rightarrow> (st, outcome) run" where
  "finish_committed rq why = rbind (in_order
    [checkpoint_with rq Accepted (Some True) None (Some why), perform (Stop Old), perform (Start Candidate),
     perform (CheckLocal Candidate), perform (Disarm Candidate)]) (\<lambda>_. finish WasAccepted)"

definition roll_back :: "request \<Rightarrow> reason \<Rightarrow> (st, outcome) run" where
  "roll_back rq why = rbind (in_order
    [checkpoint_with rq FencingCandidate None None (Some why), perform (Stop Candidate), reverse_copy rq,
     checkpoint rq OldReady, checkpoint_with rq StartingOld None (Some True) None, perform (Start Old),
     checkpoint rq CheckingOld, perform (CheckLocal Old), checkpoint rq RolledBack,
     perform (Disarm Old)]) (\<lambda>_. finish WasRolledBack)"

definition recover_body :: "request \<Rightarrow> reason \<Rightarrow> (st, outcome) run" where
  "recover_body rq why = rbind (perform VerifyRecovery) (\<lambda>_. rbind (action Committed) (\<lambda>c.
    if c then finish_committed rq why else roll_back rq why))"

definition fence :: "(st, bool) run" where
  "fence s = (case perform FenceAll s of
     (Inr _, s') \<Rightarrow> (Inr True, s')
   | (Inl (Raised _), s') \<Rightarrow> (Inr False, s')
   | (Inl Crash, s') \<Rightarrow> (Inl Crash, s'))"

definition recovery_failed :: "request \<Rightarrow> (st, outcome) run" where
  "recovery_failed rq = rbind fence (\<lambda>fenced.
    rbind (checkpoint_with rq RecoveryFailed None None
      (Some (if fenced then RecoveryActionFailed else FencingUnconfirmed))) (\<lambda>_.
    raise (''router recovery failed; '' @ (if fenced then ''both generations are fenced''
      else ''fencing is unconfirmed; use console recovery'') @ ''; inspect private evidence'')))"

definition recover :: "request \<Rightarrow> reason \<Rightarrow> (st, outcome) run" where
  "recover rq why s =
    (case pending s of
       None \<Rightarrow> raise ''router recovery requires a protected pending operation'' s
     | Some p \<Rightarrow>
        if \<not> valid_pending rq p then
          raise ''router pending record is incomplete or contradicts its production-start marker'' s
        else if why \<notin> {BootRecovery, DeadlineOrCheck} then
          raise ''router recovery has an unsupported reason'' s
        else if pn_phase p = RecoveryFailed then
          raise ''router recovery previously failed; reconcile its fenced generations first'' s
        else catch (recover_body rq why) (\<lambda>_. recovery_failed rq) s)"

definition cutover_body :: "request \<Rightarrow> (st, outcome) run" where
  "cutover_body rq = rbind (in_order
    [checkpoint rq Armed, perform Arm,
     checkpoint rq StoppingOld, perform (Stop Old),
     checkpoint rq CopyingForward, perform (Copy Old Candidate),
     checkpoint rq CandidateReady, perform (VerifyCopy Old Candidate),
     checkpoint_with rq StartingCandidate (Some True) None None, perform (Start Candidate),
     checkpoint rq CheckingCandidate, perform (CheckLocal Candidate),
     checkpoint rq AwaitingEnrollment,
     confirmed_wait WaitEnrollment ''controller did not enroll the exact candidate before its deadline'',
     checkpoint rq StoppingCandidateForFinalization, perform (Stop Candidate),
     checkpoint rq FinalizingCandidate, perform FinalizeCandidate,
     checkpoint rq RestartingCandidate, perform (Start Candidate),
     checkpoint rq CheckingFinalCandidate, perform (CheckLocal Candidate),
     checkpoint rq AwaitingAcceptance,
     confirmed_wait WaitAcceptance ''controller did not accept the exact candidate before its deadline'',
     checkpoint rq Committing, perform Commit,
     checkpoint rq Accepted, perform (Disarm Candidate)]) (\<lambda>_. finish WasAccepted)"

definition cutover :: "request \<Rightarrow> (st, outcome) run" where
  "cutover rq s =
    (if pending s \<noteq> None then
       raise ''an existing router operation must use recovery, never restart cutover'' s
     else rbind (perform VerifyPrepared) (\<lambda>_. catch (cutover_body rq) (\<lambda>_. recover rq DeadlineOrCheck)) s)"


section \<open>Histories\<close>

text \<open>A new process starts from the durable record; \<open>rs\<close> is what the adapter will answer.\<close>

definition boot :: "reply list \<Rightarrow> st \<Rightarrow> st" where
  "boot rs s = s\<lparr>pending := durable s, replies := rs\<rparr>"

definition initial :: st where
  "initial = \<lparr>pending = None, durable = None, finished = None, log = [], replies = []\<rparr>"

definition session :: "request \<Rightarrow> reply list \<Rightarrow> st \<Rightarrow> (stop + outcome) \<times> st" where
  "session rq rs s =
    (if durable s = None then cutover rq (boot rs s) else recover rq BootRecovery (boot rs s))"

inductive history :: "request \<Rightarrow> st \<Rightarrow> bool" for rq where
  fresh: "valid_request rq \<Longrightarrow> history rq initial"
| session: "history rq s \<Longrightarrow> finished s = None \<Longrightarrow> session rq rs s = (r, s') \<Longrightarrow> history rq s'"


section \<open>Reasoning about commands\<close>

text \<open>What the reasoning is about: everything but the log and the replies to come.\<close>

record core =
  c_pending :: "pending_record option"
  c_durable :: "pending_record option"
  c_finished :: "outcome option"
  c_world :: world

definition core_of :: "st \<Rightarrow> core" where
  "core_of s = \<lparr>c_pending = pending s, c_durable = durable s, c_finished = finished s,
     c_world = world_of (log s)\<rparr>"

text \<open>How a record, in memory or on disk, agrees with the world.\<close>

definition flags_of :: "pending_record option \<Rightarrow> bool \<times> bool" where
  "flags_of po = (case po of None \<Rightarrow> (False, False)
    | Some p \<Rightarrow> (pn_candidate_started p, pn_old_started p))"

definition agrees :: "pending_record option \<Rightarrow> world \<Rightarrow> bool" where
  "agrees po w \<longleftrightarrow> (case flags_of po of (candidate_started, old_started) \<Rightarrow>
      (\<not> candidate_started \<longrightarrow> Old \<in> latest w \<and> Candidate \<notin> running w \<and> \<not> committed w) \<and>
      (candidate_started \<and> \<not> old_started \<longrightarrow> Candidate \<in> latest w) \<and>
      (old_started \<longrightarrow> Old \<in> latest w \<and> \<not> committed w))"

definition core_ok :: "request \<Rightarrow> core \<Rightarrow> bool" where
  "core_ok rq c \<longleftrightarrow> agrees (c_pending c) (c_world c) \<and>
    (c_finished c = None \<longrightarrow> agrees (c_durable c) (c_world c) \<and>
       marked (c_world c) = (case c_durable c of None \<Rightarrow> {} | Some p \<Rightarrow> start_markers p)) \<and>
    (\<forall>p. c_durable c = Some p \<longrightarrow> valid_pending rq p)"

definition st_ok :: "request \<Rightarrow> st \<Rightarrow> bool" where
  "st_ok rq s \<longleftrightarrow> core_ok rq (core_of s) \<and> safe_log (log s)"

abbreviation tri :: "request \<Rightarrow> (core \<Rightarrow> bool) \<Rightarrow> (st, 'a) run \<Rightarrow> ('a \<Rightarrow> core \<Rightarrow> bool) \<Rightarrow> bool" where
  "tri rq \<equiv> triple (st_ok rq) core_of"

lemma safe_from_append: "safe_from w (es @ fs) \<longleftrightarrow> safe_from w es \<and> safe_from (foldl world_step w es) fs"
  by (induction es arbitrary: w) auto

lemma safe_log_snoc: "safe_log (es @ [e]) \<longleftrightarrow> safe_log es \<and> allowed (world_of es) e"
  by (simp add: safe_log_def safe_from_append world_of_def)

lemma world_of_snoc: "world_of (es @ [e]) = world_step (world_of es) e"
  by (simp add: world_of_def)

text \<open>The rules for the interactions.\<close>

lemma tri_action:
  assumes allow: "\<And>c rep. core_ok rq c \<Longrightarrow> P c \<Longrightarrow> allowed (c_world c) (Act a rep)"
    and keep: "\<And>c rep. core_ok rq c \<Longrightarrow> P c \<Longrightarrow> core_ok rq (c\<lparr>c_world := act_effect a rep (c_world c)\<rparr>)"
    and post: "\<And>c b. core_ok rq c \<Longrightarrow> P c \<Longrightarrow>
      Q (if a = Committed then committed (c_world c) else b) (c\<lparr>c_world := act_effect a (Done b) (c_world c)\<rparr>)"
  shows "tri rq P (action a) Q"
  unfolding triple_def
proof (intro allI impI)
  fix s r s' assume ok: "st_ok rq s" and p: "P (core_of s)" and run: "action a s = (r, s')"
  let ?c = "core_of s"
  have c: "core_ok rq ?c" and safe: "safe_log (log s)" using ok by (auto simp: st_ok_def)
  show "st_ok rq s' \<and> (\<forall>x. r = Inr x \<longrightarrow> Q x (core_of s'))"
  proof (cases "replies s")
    case Nil
    with run ok show ?thesis by (auto simp: action_def rbind_def interact_def)
  next
    case (Cons rep rs)
    let ?s = "s\<lparr>replies := rs, log := log s @ [Act a rep]\<rparr>"
    have core: "core_of ?s = ?c\<lparr>c_world := act_effect a rep (c_world ?c)\<rparr>"
      by (simp add: core_of_def world_of_snoc)
    have 1: "st_ok rq ?s"
      using keep [OF c p] allow [OF c p] safe
      by (simp add: st_ok_def core safe_log_snoc) (simp add: core_of_def)
    from run Cons have s': "s' = ?s"
      and r: "\<And>x. r = Inr x \<Longrightarrow> \<exists>b. rep = Done b \<and> x = (if a = Committed then committed (world_of (log ?s)) else b)"
      by (auto simp: action_def rbind_def interact_def answered_def rreturn_def raise_def split: reply.splits if_splits)
    have w: "a = Committed \<Longrightarrow> committed (world_of (log ?s)) = committed (c_world ?c)"
      by (simp add: world_of_snoc core_of_def)
    show ?thesis
    proof (intro conjI allI impI)
      show "st_ok rq s'" using 1 s' by simp
      fix x assume "r = Inr x"
      then obtain b where b: "rep = Done b" "x = (if a = Committed then committed (world_of (log ?s)) else b)"
        using r by blast
      with post [OF c p, of b] w show "Q x (core_of s')"
        unfolding s' core by (auto split: if_splits)
    qed
  qed
qed

lemma tri_perform:
  assumes "\<And>c rep. core_ok rq c \<Longrightarrow> P c \<Longrightarrow> allowed (c_world c) (Act a rep)"
    and "\<And>c rep. core_ok rq c \<Longrightarrow> P c \<Longrightarrow> core_ok rq (c\<lparr>c_world := act_effect a rep (c_world c)\<rparr>)"
    and "\<And>c b. core_ok rq c \<Longrightarrow> P c \<Longrightarrow> Q (c\<lparr>c_world := act_effect a (Done b) (c_world c)\<rparr>)"
  shows "tri rq P (perform a) (\<lambda>_. Q)"
  unfolding perform_def by (rule triple_bind [OF tri_action, where R = "\<lambda>_. Q"]) (use assms in auto)

definition neutral :: "act \<Rightarrow> bool" where
  "neutral a \<longleftrightarrow> (\<forall>r w. act_effect a r w = w \<and> allowed w (Act a r))"

lemma neutral_acts [simp]:
  "neutral VerifyPrepared" "neutral Arm" "neutral (VerifyCopy a b)" "neutral (CheckLocal x)"
  "neutral WaitEnrollment" "neutral FinalizeCandidate" "neutral WaitAcceptance"
  "neutral (Disarm x)" "neutral VerifyRecovery" "neutral Committed"
  by (simp_all add: neutral_def)

lemma tri_neutral: "neutral a \<Longrightarrow> tri rq P (perform a) (\<lambda>_. P)"
  by (rule tri_perform) (simp_all add: neutral_def)

lemma tri_wait: "neutral a \<Longrightarrow> a \<noteq> Committed \<Longrightarrow> tri rq P (confirmed_wait a msg) (\<lambda>_. P)"
  unfolding confirmed_wait_def
  by (rule triple_bind [OF tri_action, where R = "\<lambda>_. P"]) (auto simp: neutral_def)

definition next_record :: "request \<Rightarrow> phase \<Rightarrow> bool option \<Rightarrow> bool option \<Rightarrow> reason option \<Rightarrow> core \<Rightarrow>
    pending_record" where
  "next_record rq ph started old_started why c =
    (case (case c_pending c of None \<Rightarrow> (False, False, Cutover)
        | Some p \<Rightarrow> (pn_candidate_started p, pn_old_started p, pn_reason p)) of (cs, os, y) \<Rightarrow>
     \<lparr>pn_request = rq, pn_phase = ph, pn_candidate_started = or_else started cs,
      pn_old_started = or_else old_started os, pn_reason = or_else why y\<rparr>)"

definition recorded :: "pending_record \<Rightarrow> core \<Rightarrow> core" where
  "recorded p c = c\<lparr>c_pending := Some p, c_durable := Some p, c_finished := None,
    c_world := (c_world c)\<lparr>marked := start_markers p\<rparr>\<rparr>"

lemma agrees_marked [simp]: "agrees po (w\<lparr>marked := m\<rparr>) = agrees po w"
  by (simp add: agrees_def)

lemma tri_checkpoint_with:
  assumes agree: "\<And>c. core_ok rq c \<Longrightarrow> P c \<Longrightarrow> agrees (Some (next_record rq ph started os why c)) (c_world c)"
    and post: "\<And>c. core_ok rq c \<Longrightarrow> P c \<Longrightarrow> Q (recorded (next_record rq ph started os why c) c)"
  shows "tri rq P (checkpoint_with rq ph started os why) (\<lambda>_. Q)"
  unfolding triple_def
proof (intro allI impI)
  fix s r s' assume ok: "st_ok rq s" and p: "P (core_of s)"
    and run: "checkpoint_with rq ph started os why s = (r, s')"
  let ?c = "core_of s"
  define q where "q = next_record rq ph started os why ?c"
  have c: "core_ok rq ?c" and safe: "safe_log (log s)" using ok by (auto simp: st_ok_def)
  have ag: "agrees (Some q) (world_of (log s))" using agree [OF c p] by (simp add: q_def core_of_def)
  have run': "rbind (set_pending q) (\<lambda>_. if valid_pending rq q then persist q
      else raise ''router pending record is incomplete or contradicts its production-start marker'') s = (r, s')"
    using run by (auto simp: checkpoint_with_def q_def next_record_def previous_def core_of_def Let_def
        split: prod.splits option.splits)
  let ?s1 = "s\<lparr>pending := Some q\<rparr>"
  have s1: "st_ok rq ?s1" using c ag safe by (simp add: st_ok_def core_ok_def core_of_def)
  show "st_ok rq s' \<and> (\<forall>x. r = Inr x \<longrightarrow> Q (core_of s'))"
  proof (cases "valid_pending rq q \<and> replies s \<noteq> []")
    case False
    with run' s1 show ?thesis
      by (auto simp: rbind_def set_pending_def raise_def persist_def interact_def split: if_splits)
  next
    case True
    then obtain rep rs where rs: "replies s = rep # rs" by (cases "replies s") auto
    let ?s2 = "?s1\<lparr>replies := rs, log := log s @ [Persist q rep]\<rparr>"
    let ?s3 = "if effective rep then ?s2\<lparr>durable := Some q, finished := None\<rparr> else ?s2"
    from run' True rs have s': "s' = ?s3" and r: "\<And>x. r = Inr x \<Longrightarrow> \<exists>b. rep = Done b"
      by (auto simp: rbind_def set_pending_def persist_def interact_def answered_def rreturn_def raise_def
          split: reply.splits if_splits)
    have "st_ok rq ?s3"
      using c ag safe True by (simp add: st_ok_def core_ok_def core_of_def safe_log_snoc world_of_snoc)
    moreover have "core_of ?s3 = recorded q ?c" if "effective rep"
      using that by (simp add: core_of_def recorded_def world_of_snoc)
    moreover have "effective rep" if "r = Inr x" for x
      using r [OF that] by (auto simp: effective_def)
    ultimately show ?thesis using s' post [OF c p] by (auto simp: q_def)
  qed
qed

lemma tri_finish:
  assumes "\<And>c. core_ok rq c \<Longrightarrow> P c \<Longrightarrow> Q (c\<lparr>c_finished := Some out, c_durable := None\<rparr>)"
  shows "tri rq P (finish out) (\<lambda>x c. x = out \<and> Q c)"
  unfolding triple_def
proof (intro allI impI)
  fix s r s' assume ok: "st_ok rq s" and p: "P (core_of s)" and run: "finish out s = (r, s')"
  have c: "core_ok rq (core_of s)" and safe: "safe_log (log s)" using ok by (auto simp: st_ok_def)
  show "st_ok rq s' \<and> (\<forall>x. r = Inr x \<longrightarrow> x = out \<and> Q (core_of s'))"
  proof (cases "replies s")
    case Nil
    with run ok show ?thesis by (auto simp: finish_def rbind_def interact_def)
  next
    case (Cons rep rs)
    let ?s2 = "s\<lparr>replies := rs, log := log s @ [Finish out rep]\<rparr>"
    let ?s3 = "if effective rep then ?s2\<lparr>finished := Some out, durable := None\<rparr> else ?s2"
    from run Cons have s': "s' = ?s3" and r: "\<And>x. r = Inr x \<Longrightarrow> x = out \<and> (\<exists>b. rep = Done b)"
      by (auto simp: rbind_def finish_def interact_def answered_def rreturn_def raise_def
          split: reply.splits if_splits)
    have "st_ok rq ?s3"
      using c safe by (simp add: st_ok_def core_ok_def core_of_def safe_log_snoc world_of_snoc)
    moreover have "core_of ?s3 = (core_of s)\<lparr>c_finished := Some out, c_durable := None\<rparr>" if "effective rep"
      using that by (simp add: core_of_def world_of_snoc)
    moreover have "effective rep" if "r = Inr x" for x
      using r [OF that] by (auto simp: effective_def)
    ultimately show ?thesis using s' r assms [OF c p] by auto
  qed
qed


section \<open>The stages of a command\<close>

definition c_flags :: "core \<Rightarrow> bool \<times> bool" where
  "c_flags c = flags_of (c_pending c)"

definition synced :: "core \<Rightarrow> bool" where
  "synced c \<longleftrightarrow> c_finished c = None \<and> c_durable c = c_pending c"

text \<open>Cutover: before the old side is stopped, after it, after the copy, and once the start marker
  of the candidate is on disk.\<close>

definition unstarted :: "core \<Rightarrow> bool" where
  "unstarted c \<longleftrightarrow> c_flags c = (False, False) \<and> synced c"

definition both_stopped :: "core \<Rightarrow> bool" where
  "both_stopped c \<longleftrightarrow> unstarted c \<and> Old \<notin> running (c_world c)"

definition copied :: "core \<Rightarrow> bool" where
  "copied c \<longleftrightarrow> both_stopped c \<and> Candidate \<in> latest (c_world c)"

definition candidate_stage :: "bool \<Rightarrow> core \<Rightarrow> bool" where
  "candidate_stage sure c \<longleftrightarrow> c_flags c = (True, False) \<and> synced c \<and> Old \<notin> running (c_world c) \<and>
    Candidate \<in> latest (c_world c) \<and> (sure \<longrightarrow> committed (c_world c))"

text \<open>Recovery of an accepted candidate, and roll back.\<close>

definition accepted_stage :: "core \<Rightarrow> bool" where
  "accepted_stage c \<longleftrightarrow> c_flags c = (True, False) \<and> synced c \<and> Candidate \<in> latest (c_world c) \<and>
    committed (c_world c)"

definition uncommitted :: "core \<Rightarrow> bool" where
  "uncommitted c \<longleftrightarrow> \<not> committed (c_world c)"

definition candidate_fenced :: "core \<Rightarrow> bool" where
  "candidate_fenced c \<longleftrightarrow> uncommitted c \<and> Candidate \<notin> running (c_world c)"

definition reverse_stage :: "core \<Rightarrow> bool" where
  "reverse_stage c \<longleftrightarrow> candidate_fenced c \<and> c_flags c = (True, False) \<and> synced c"

definition reverse_stopped :: "core \<Rightarrow> bool" where
  "reverse_stopped c \<longleftrightarrow> reverse_stage c \<and> Old \<notin> running (c_world c)"

definition old_latest :: "core \<Rightarrow> bool" where
  "old_latest c \<longleftrightarrow> candidate_fenced c \<and> Old \<in> latest (c_world c)"

definition old_stage :: "core \<Rightarrow> bool" where
  "old_stage c \<longleftrightarrow> old_latest c \<and> synced c \<and> snd (c_flags c)"

lemmas stage_defs = unstarted_def both_stopped_def copied_def candidate_stage_def accepted_stage_def
  uncommitted_def candidate_fenced_def reverse_stage_def reverse_stopped_def old_latest_def old_stage_def

lemma c_flags_recorded [simp]:
  "c_flags (recorded (next_record rq ph started os why c) c) =
    (or_else started (fst (c_flags c)), or_else os (snd (c_flags c)))"
  by (auto simp: c_flags_def recorded_def next_record_def flags_of_def split: option.splits)

lemma recorded_simps [simp]:
  "synced (recorded p c)"
  "running (c_world (recorded p c)) = running (c_world c)"
  "latest (c_world (recorded p c)) = latest (c_world c)"
  "committed (c_world (recorded p c)) = committed (c_world c)"
  by (simp_all add: synced_def recorded_def)

lemma c_flags_world [simp]: "c_flags (c\<lparr>c_world := w\<rparr>) = c_flags c" "synced (c\<lparr>c_world := w\<rparr>) = synced c"
  by (simp_all add: c_flags_def synced_def)

lemma agrees_next:
  "agrees (Some (next_record rq ph started os why c)) w \<longleftrightarrow>
    (case (or_else started (fst (c_flags c)), or_else os (snd (c_flags c))) of (cs, os) \<Rightarrow>
      (\<not> cs \<longrightarrow> Old \<in> latest w \<and> Candidate \<notin> running w \<and> \<not> committed w) \<and>
      (cs \<and> \<not> os \<longrightarrow> Candidate \<in> latest w) \<and> (os \<longrightarrow> Old \<in> latest w \<and> \<not> committed w))"
  by (auto simp: agrees_def c_flags_def next_record_def flags_of_def split: option.splits)

lemma core_ok_flags:
  "core_ok rq c \<Longrightarrow>
    (\<not> fst (c_flags c) \<longrightarrow> Old \<in> latest (c_world c) \<and> Candidate \<notin> running (c_world c) \<and> \<not> committed (c_world c)) \<and>
    (fst (c_flags c) \<and> \<not> snd (c_flags c) \<longrightarrow> Candidate \<in> latest (c_world c)) \<and>
    (snd (c_flags c) \<longrightarrow> Old \<in> latest (c_world c) \<and> \<not> committed (c_world c))"
  by (auto simp: core_ok_def agrees_def c_flags_def split: prod.splits)

lemma or_else_simps [simp]: "or_else None d = d" "or_else (Some x) d = x"
  by (simp_all add: or_else_def)

text \<open>A checkpoint that changes no marker keeps every stage.\<close>

lemma tri_checkpoint:
  assumes "\<And>c p. P c \<Longrightarrow> c_flags (recorded p c) = c_flags c \<Longrightarrow> P (recorded p c)"
  shows "tri rq P (checkpoint rq ph) (\<lambda>_. P)" "tri rq P (checkpoint_with rq ph None None why) (\<lambda>_. P)"
  unfolding checkpoint_def
  by (rule tri_checkpoint_with; use assms in \<open>auto simp: agrees_next dest: core_ok_flags\<close>)+

lemma stage_checkpoint [intro]:
  "tri rq unstarted (checkpoint rq ph) (\<lambda>_. unstarted)"
  "tri rq both_stopped (checkpoint rq ph) (\<lambda>_. both_stopped)"
  "tri rq copied (checkpoint rq ph) (\<lambda>_. copied)"
  "tri rq (candidate_stage b) (checkpoint rq ph) (\<lambda>_. candidate_stage b)"
  "tri rq reverse_stage (checkpoint rq ph) (\<lambda>_. reverse_stage)"
  "tri rq reverse_stopped (checkpoint rq ph) (\<lambda>_. reverse_stopped)"
  "tri rq old_latest (checkpoint rq ph) (\<lambda>_. old_latest)"
  "tri rq old_stage (checkpoint rq ph) (\<lambda>_. old_stage)"
  "tri rq uncommitted (checkpoint_with rq ph None None why) (\<lambda>_. uncommitted)"
  by (rule tri_checkpoint, simp add: stage_defs)+

text \<open>The steps that move from one stage to the next.\<close>

lemma core_ok_world:
  "core_ok rq (c\<lparr>c_world := w\<rparr>) \<longleftrightarrow> agrees (c_pending c) w \<and>
    (c_finished c = None \<longrightarrow> agrees (c_durable c) w \<and>
       marked w = (case c_durable c of None \<Rightarrow> {} | Some p \<Rightarrow> start_markers p)) \<and>
    (\<forall>p. c_durable c = Some p \<longrightarrow> valid_pending rq p)"
  by (simp add: core_ok_def)

text \<open>Stopping can only help.\<close>

lemma agrees_fewer_running:
  "agrees po w \<Longrightarrow> R \<subseteq> running w \<Longrightarrow> agrees po (w\<lparr>running := R\<rparr>)"
  by (auto simp: agrees_def split: prod.splits)

lemma core_ok_stop: "core_ok rq c \<Longrightarrow> core_ok rq (c\<lparr>c_world := act_effect (Stop x) rep (c_world c)\<rparr>)"
  by (auto simp: core_ok_def agrees_fewer_running)

lemma core_ok_fence: "core_ok rq c \<Longrightarrow> core_ok rq (c\<lparr>c_world := act_effect FenceAll rep (c_world c)\<rparr>)"
  by (auto simp: core_ok_def agrees_fewer_running)

lemma tri_halt:
  assumes "\<And>c. core_ok rq c \<Longrightarrow> P c \<Longrightarrow>
    Q (c\<lparr>c_world := (c_world c)\<lparr>running := running (c_world c) - {x}\<rparr>\<rparr>)"
  shows "tri rq P (perform (Stop x)) (\<lambda>_. Q)"
  by (rule tri_perform) (use assms in \<open>simp_all add: core_ok_stop confirmed_def del: act_effect.simps\<close>,
      simp add: confirmed_def assms)

lemma stage_stop [intro]:
  "tri rq unstarted (perform (Stop Old)) (\<lambda>_. both_stopped)"
  "tri rq (candidate_stage b) (perform (Stop Candidate)) (\<lambda>_. candidate_stage b)"
  "tri rq accepted_stage (perform (Stop Old)) (\<lambda>_. candidate_stage True)"
  "tri rq uncommitted (perform (Stop Candidate)) (\<lambda>_. candidate_fenced)"
  "tri rq reverse_stage (perform (Stop Old)) (\<lambda>_. reverse_stopped)"
  by (rule tri_halt, simp add: stage_defs)+

lemma marked_act [simp]: "marked (act_effect a r w) = marked w"
  by (induction a r w rule: act_effect.induct) auto

lemma core_ok_synced:
  "core_ok rq c \<Longrightarrow> synced c \<Longrightarrow> marked w = marked (c_world c) \<Longrightarrow>
    core_ok rq (c\<lparr>c_world := w\<rparr>) \<longleftrightarrow> agrees (c_pending c) w"
  by (auto simp: core_ok_def synced_def)

lemma agrees_c_flags:
  "agrees (c_pending c) w \<longleftrightarrow>
    (\<not> fst (c_flags c) \<longrightarrow> Old \<in> latest w \<and> Candidate \<notin> running w \<and> \<not> committed w) \<and>
    (fst (c_flags c) \<and> \<not> snd (c_flags c) \<longrightarrow> Candidate \<in> latest w) \<and>
    (snd (c_flags c) \<longrightarrow> Old \<in> latest w \<and> \<not> committed w)"
  by (simp add: agrees_def c_flags_def split: prod.splits)

lemma synced_marked:
  "core_ok rq c \<Longrightarrow> synced c \<Longrightarrow>
    marked (c_world c) = (if fst (c_flags c) then {Candidate} else {}) \<union> (if snd (c_flags c) then {Old} else {})"
  by (auto simp: core_ok_def synced_def c_flags_def flags_of_def start_markers_def split: option.splits)

text \<open>The rule for an action on a synchronised record: the world after it must agree with the
  markers.\<close>

lemma tri_synced:
  assumes "\<And>c. P c \<Longrightarrow> synced c"
    and "\<And>c rep. core_ok rq c \<Longrightarrow> P c \<Longrightarrow> allowed (c_world c) (Act a rep)"
    and "\<And>c rep. core_ok rq c \<Longrightarrow> P c \<Longrightarrow> agrees (c_pending c) (act_effect a rep (c_world c))"
    and "\<And>c b. core_ok rq c \<Longrightarrow> P c \<Longrightarrow> Q (c\<lparr>c_world := act_effect a (Done b) (c_world c)\<rparr>)"
  shows "tri rq P (perform a) (\<lambda>_. Q)"
  by (rule tri_perform) (use assms in \<open>simp_all add: core_ok_synced\<close>)

lemma side_none: "Old \<notin> R \<Longrightarrow> Candidate \<notin> R \<Longrightarrow> R = {}"
  by (metis all_not_in_conv side.exhaust)

lemma both_stopped_facts:
  "core_ok rq c \<Longrightarrow> both_stopped c \<Longrightarrow> running (c_world c) = {} \<and> Old \<in> latest (c_world c) \<and>
    \<not> committed (c_world c) \<and> synced c \<and> c_flags c = (False, False)"
  using side_none core_ok_flags [of rq c] by (simp add: stage_defs)

lemma reverse_stopped_facts:
  "core_ok rq c \<Longrightarrow> reverse_stopped c \<Longrightarrow> running (c_world c) = {} \<and> Candidate \<in> latest (c_world c) \<and>
    \<not> committed (c_world c) \<and> synced c \<and> c_flags c = (True, False)"
  using side_none core_ok_flags [of rq c] by (simp add: stage_defs)

lemma stage_copy [intro]:
  "tri rq both_stopped (perform (Copy Old Candidate)) (\<lambda>_. copied)"
  "tri rq reverse_stopped (perform (Copy Candidate Old)) (\<lambda>_. old_latest)"
  by (rule tri_synced; (auto simp: stage_defs; fail)?;
      frule (1) both_stopped_facts reverse_stopped_facts;
      simp add: stage_defs agrees_c_flags effective_def called_def)+

lemma stage_start [intro]:
  "tri rq (candidate_stage b) (perform (Start Candidate)) (\<lambda>_. candidate_stage b)"
  "tri rq old_stage (perform (Start Old)) (\<lambda>_. old_stage)"
  by (rule tri_synced; force simp: stage_defs agrees_c_flags called_def other_def synced_marked)+

lemma stage_commit [intro]:
  "tri rq (candidate_stage b) (perform Commit) (\<lambda>_. candidate_stage True)"
  by (rule tri_synced) (auto simp: stage_defs agrees_c_flags effective_def)

lemma stage_mark [intro]:
  "tri rq copied (checkpoint_with rq ph (Some True) None why) (\<lambda>_. candidate_stage False)"
  "tri rq old_latest (checkpoint_with rq ph None (Some True) why) (\<lambda>_. old_stage)"
  by (rule tri_checkpoint_with; auto simp: stage_defs agrees_next dest: core_ok_flags)+

lemma stage_accept [intro]:
  "tri rq (\<lambda>c. committed (c_world c)) (checkpoint_with rq ph (Some True) None why) (\<lambda>_. accepted_stage)"
  by (rule tri_checkpoint_with) (auto simp: stage_defs agrees_next dest: core_ok_flags)


section \<open>Commands keep the invariant\<close>

definition settled :: "outcome \<Rightarrow> core \<Rightarrow> bool" where
  "settled out c \<longleftrightarrow> c_finished c = Some out \<and>
    (case out of
       WasAccepted \<Rightarrow> committed (c_world c) \<and> Old \<notin> running (c_world c) \<and> Candidate \<in> latest (c_world c)
     | WasRolledBack \<Rightarrow> \<not> committed (c_world c) \<and> Candidate \<notin> running (c_world c) \<and> Old \<in> latest (c_world c))"

lemma tri_finish_settled:
  "tri rq (candidate_stage True) (finish WasAccepted) settled"
  "tri rq old_stage (finish WasRolledBack) settled"
  by (rule triple_weaken [OF tri_finish [where P = "candidate_stage True" and Q = "settled WasAccepted"]];
      simp add: settled_def stage_defs)
    (rule triple_weaken [OF tri_finish [where P = old_stage and Q = "settled WasRolledBack"]];
      simp add: settled_def stage_defs)

lemmas sequence = triple_in_order_Nil triple_in_order_Cons
lemmas stage_rules = stage_checkpoint stage_stop stage_copy stage_start stage_commit stage_mark
  stage_accept

lemma tri_finish_committed:
  "tri rq (\<lambda>c. committed (c_world c)) (finish_committed rq why) settled"
  unfolding finish_committed_def
  by (rule triple_bind [OF _ tri_finish_settled(1)])
    (rule sequence stage_rules tri_neutral neutral_acts | assumption)+

lemma tri_reverse_copy: "tri rq candidate_fenced (reverse_copy rq) (\<lambda>_. old_latest)"
proof -
  let ?b = "\<lambda>c. fst (c_flags c) \<and> \<not> snd (c_flags c)"
  let ?m = "in_order [checkpoint rq FencingOld, perform (Stop Old), checkpoint rq CopyingReverse,
          perform (Copy Candidate Old), perform (VerifyCopy Candidate Old)]"
  have eq: "reverse_copy rq = (\<lambda>s. if ?b (core_of s) then ?m s else rreturn () s)"
    by (auto simp: fun_eq_iff reverse_copy_def previous_def c_flags_def flags_of_def core_of_def
        rreturn_def split: option.splits)
  have first: "tri rq (\<lambda>c. candidate_fenced c \<and> ?b c) (checkpoint rq FencingOld) (\<lambda>_. reverse_stage)"
    unfolding checkpoint_def
    by (rule tri_checkpoint_with) (auto simp: stage_defs agrees_next prod_eq_iff dest: core_ok_flags)
  have m: "tri rq (\<lambda>c. candidate_fenced c \<and> ?b c) ?m (\<lambda>_. old_latest)"
    by (rule triple_in_order_Cons [OF first])
      (rule sequence stage_rules tri_neutral neutral_acts)+
  have n: "tri rq (\<lambda>c. candidate_fenced c \<and> \<not> ?b c) (rreturn ()) (\<lambda>_. old_latest)"
    by (auto simp: triple_def rreturn_def stage_defs st_ok_def dest!: core_ok_flags)
  show ?thesis
    unfolding eq by (rule triple_cond [OF m n])
qed

lemma tri_roll_back: "tri rq uncommitted (roll_back rq why) settled"
  unfolding roll_back_def
  by (rule triple_bind [OF _ tri_finish_settled(2)])
    (rule sequence stage_rules tri_reverse_copy tri_neutral neutral_acts)+

lemma tri_recover_body: "tri rq (\<lambda>_. True) (recover_body rq why) settled"
proof -
  have c: "tri rq (\<lambda>_. True) (action Committed) (\<lambda>c k. c = committed (c_world k))"
    by (rule tri_action) simp_all
  have body: "tri rq (\<lambda>k. c = committed (c_world k)) (if c then finish_committed rq why else roll_back rq why) settled" for c
    using tri_finish_committed tri_roll_back by (cases c) (auto simp: uncommitted_def [abs_def])
  show ?thesis
    unfolding recover_body_def
    by (rule triple_bind [OF tri_neutral]) (simp, rule triple_bind [OF c body])
qed

lemma tri_recovery_failed: "tri rq (\<lambda>_. True) (recovery_failed rq) Q"
proof -
  have p: "tri rq (\<lambda>_. True) (perform FenceAll) (\<lambda>_ _. True)"
    by (rule tri_perform) (simp_all add: core_ok_fence del: act_effect.simps)
  have fence: "tri rq (\<lambda>_. True) fence (\<lambda>_ _. True)"
    using p unfolding triple_def fence_def by (auto split: prod.splits sum.splits stop.splits)
  have cp: "tri rq (\<lambda>_. True) (checkpoint_with rq ph None None why) (\<lambda>_ _. True)" for ph why
    by (rule tri_checkpoint) simp
  show ?thesis
    unfolding recovery_failed_def by (rule triple_bind [OF fence], rule triple_bind [OF cp]) (rule triple_raise)
qed

lemma tri_recover: "tri rq (\<lambda>_. True) (recover rq why) settled"
proof -
  have "tri rq (\<lambda>_. True) (catch (recover_body rq why) (\<lambda>_. recovery_failed rq)) settled"
    by (rule triple_catch [OF tri_recover_body tri_recovery_failed])
  note body = tripleD [OF this]
  show ?thesis
    by (rule tripleI) (auto simp: recover_def raise_def split: option.splits if_splits dest: body)
qed

lemma tri_cutover_body: "tri rq (\<lambda>c. c_flags c = (False, False)) (cutover_body rq) settled"
proof -
  have first: "tri rq (\<lambda>c. c_flags c = (False, False)) (checkpoint rq Armed) (\<lambda>_. unstarted)"
    unfolding checkpoint_def
    by (rule tri_checkpoint_with) (auto simp: stage_defs agrees_next dest: core_ok_flags)
  show ?thesis
    unfolding cutover_body_def
    by (rule triple_bind [OF _ tri_finish_settled(1)], rule triple_in_order_Cons [OF first])
      (rule sequence stage_rules tri_neutral tri_wait neutral_acts act.distinct)+
qed

lemma tri_cutover: "tri rq (\<lambda>_. True) (cutover rq) settled"
proof -
  have "tri rq (\<lambda>c. c_flags c = (False, False)) (perform VerifyPrepared) (\<lambda>_ c. c_flags c = (False, False))"
    by (rule tri_neutral) simp
  then have "tri rq (\<lambda>c. c_flags c = (False, False))
      (rbind (perform VerifyPrepared) (\<lambda>_. catch (cutover_body rq) (\<lambda>_. recover rq DeadlineOrCheck))) settled"
    by (rule triple_bind) (rule triple_catch [OF tri_cutover_body tri_recover])
  note body = tripleD [OF this]
  have none: "pending s = None \<Longrightarrow> c_flags (core_of s) = (False, False)" for s
    by (simp add: c_flags_def flags_of_def core_of_def)
  show ?thesis
    by (rule tripleI) (auto simp: cutover_def raise_def split: if_splits dest: body [OF _ none])
qed


section \<open>Histories are safe\<close>

lemma st_ok_boot: "st_ok rq s \<Longrightarrow> finished s = None \<Longrightarrow> st_ok rq (boot rs s)"
  by (auto simp: st_ok_def core_ok_def core_of_def boot_def)

lemma session_ok:
  assumes "st_ok rq s" "finished s = None" "session rq rs s = (r, s')"
  shows "st_ok rq s' \<and> (\<forall>out. r = Inr out \<longrightarrow> settled out (core_of s'))"
proof (cases "durable s = None")
  case True
  with assms(3) show ?thesis
    by (intro tripleD [OF tri_cutover st_ok_boot [OF assms(1,2), of rs]]) (simp_all add: session_def)
next
  case False
  with assms(3) show ?thesis
    by (intro tripleD [OF tri_recover st_ok_boot [OF assms(1,2), of rs]]) (simp_all add: session_def)
qed

lemma initial_ok: "st_ok rq initial"
  by (simp add: st_ok_def core_ok_def core_of_def initial_def agrees_def flags_of_def world_of_def
      initial_world_def safe_log_def)

text \<open>Sessions as a guarded machine: a finished operation has no further session.\<close>

definition session_step :: "request \<Rightarrow> st \<Rightarrow> reply list \<Rightarrow> st res" where
  "session_step rq s rs = bind (require (finished s = None) ''operation is finished'')
     (\<lambda>_. Inr (snd (session rq rs s)))"

interpretation router: guarded_machine "session_step rq" "\<lambda>s. valid_request rq \<and> s = initial" "st_ok rq" for rq
proof
  show "st_ok rq s" if "valid_request rq \<and> s = initial" for s
    using that initial_ok by blast
  show "st_ok rq s'" if "st_ok rq s" "session_step rq s rs = Inr s'" for s rs s'
    using that session_ok [OF that(1) _ prod.collapse [symmetric], of rs] by (auto simp: session_step_def res_simps)
qed

lemma router_start: "valid_request rq \<Longrightarrow> router.reach rq initial"
  by (rule router.reach.start) (rule conjI, assumption, rule refl)

lemma router_session: "router.reach rq s \<Longrightarrow> finished s = None \<Longrightarrow> session rq rs s = (r, s') \<Longrightarrow> router.reach rq s'"
  by (erule router.reach.step [of rq s rs]) (simp only: session_step_def require_True bind_simps snd_conv refl simp_thms)

lemma history_reach: "history rq s \<Longrightarrow> router.reach rq s"
proof (induction rule: history.induct)
  case fresh
  then show ?case by (rule router_start)
next
  case session
  show ?case by (rule router_session [OF session.IH session.hyps(2,3)])
qed

lemma history_ok: "history rq s \<Longrightarrow> st_ok rq s"
  by (rule router.reach_inv) (rule history_reach)

lemma history_allowed:
  assumes "history rq s" "log s = es @ e # fs"
  shows "allowed (world_of es) e"
  using history_ok [OF assms(1)] assms(2)
  by (simp add: st_ok_def safe_log_def safe_from_append world_of_def)

lemma not_both_step: "allowed w e \<Longrightarrow> running w \<noteq> {Old, Candidate} \<Longrightarrow> running (world_step w e) \<noteq> {Old, Candidate}"
proof (cases e)
  case (Act a r)
  assume "allowed w e" "running w \<noteq> {Old, Candidate}"
  moreover have "x = Old \<or> x = Candidate" for x by (cases x) auto
  moreover have "insert x R = {Old, Candidate} \<longleftrightarrow> other x \<in> R" for x R
    by (cases x) (auto simp: other_def, (metis side.exhaust)+)
  moreover have "R - {x} \<noteq> {Old, Candidate}" for x R
    by (cases x) auto
  ultimately show ?thesis using Act by (cases a) auto
qed auto

lemma not_both_from: "safe_from w es \<Longrightarrow> running w \<noteq> {Old, Candidate} \<Longrightarrow>
    running (foldl world_step w es) \<noteq> {Old, Candidate}"
  by (induction es arbitrary: w) (auto simp: not_both_step)

end
