(* ===== verification/Router_Runs.thy ===== *)
theory Router_Runs
  imports Router_Transaction
begin

text \<open>
  What a router session does when every interaction succeeds, and the properties of
  \<open>Router_Transaction\<close> over all histories.
\<close>

section \<open>Runs in which every interaction succeeds\<close>

lemma effective_Done [simp]: "effective (Done b)"
  by (auto simp: effective_def)

definition recorded_as :: "request \<Rightarrow> phase \<Rightarrow> bool \<Rightarrow> bool \<Rightarrow> reason \<Rightarrow> pending_record" where
  "recorded_as rq ph c o1 y =
    \<lparr>pn_request = rq, pn_phase = ph, pn_candidate_started = c, pn_old_started = o1, pn_reason = y\<rparr>"

lemma recorded_as_simps [simp]:
  "pn_request (recorded_as rq ph c o1 y) = rq" "pn_phase (recorded_as rq ph c o1 y) = ph"
  "pn_candidate_started (recorded_as rq ph c o1 y) = c" "pn_old_started (recorded_as rq ph c o1 y) = o1"
  "pn_reason (recorded_as rq ph c o1 y) = y"
  by (simp_all add: recorded_as_def)

lemma recorded_as_collapse: "pn_request p = rq \<Longrightarrow>
    recorded_as rq (pn_phase p) (pn_candidate_started p) (pn_old_started p) (pn_reason p) = p"
  by (simp add: recorded_as_def)

text \<open>The state after an interaction that succeeded.\<close>

definition after :: "(reply \<Rightarrow> event) \<Rightarrow> st \<Rightarrow> st" where
  "after ev s = s\<lparr>replies := tl (replies s), log := log s @ [ev (Done True)]\<rparr>"

definition after_write :: "pending_record \<Rightarrow> st \<Rightarrow> st" where
  "after_write p s = (after (Persist p) s)\<lparr>pending := Some p, durable := Some p, finished := None\<rparr>"

definition served :: "st \<Rightarrow> bool" where
  "served s \<longleftrightarrow> replies s \<noteq> [] \<and> hd (replies s) = Done True"

lemma servedE: "served s \<Longrightarrow> (\<And>rs. replies s = Done True # rs \<Longrightarrow> P) \<Longrightarrow> P"
  by (cases "replies s") (auto simp: served_def)

lemma after_simps [simp]:
  "replies (after ev s) = tl (replies s)" "replies (after_write p s) = tl (replies s)"
  "pending (after ev s) = pending s" "pending (after_write p s) = Some p"
  "log (after ev s) = log s @ [ev (Done True)]"
  by (simp_all add: after_def after_write_def)

definition next_pending :: "request \<Rightarrow> phase \<Rightarrow> bool option \<Rightarrow> bool option \<Rightarrow> reason option \<Rightarrow> bool \<times> bool \<times> reason \<Rightarrow> pending_record" where
  "next_pending rq ph started old_started why t = recorded_as rq ph (or_else started (fst t))
     (or_else old_started (fst (snd t))) (or_else why (snd (snd t)))"

lemma perform_done: "served s \<Longrightarrow> perform a s = (Inr (), after (Act a) s)"
  by (erule servedE)
    (simp add: perform_def action_def interact_def answered_def rbind_def rreturn_def after_def)

lemma wait_done:
  "served s \<Longrightarrow> a \<noteq> Committed \<Longrightarrow> confirmed_wait a msg s = (Inr (), after (Act a) s)"
  by (erule servedE)
    (simp add: confirmed_wait_def action_def interact_def answered_def rbind_def rreturn_def after_def)

lemma committed_done:
  "served s \<Longrightarrow> action Committed s = (Inr (committed (world_of (log s))), after (Act Committed) s)"
  by (erule servedE)
    (simp add: action_def interact_def answered_def rbind_def rreturn_def after_def world_of_snoc)

lemma checkpoint_done:
  assumes "served s" "previous s = t" "valid_pending rq (next_pending rq ph started old_started why t)"
  shows "checkpoint_with rq ph started old_started why s =
    (Inr (), after_write (next_pending rq ph started old_started why t) s)"
  using assms(2,3)
  by (rule_tac servedE [OF assms(1)], cases t)
    (simp add: checkpoint_with_def next_pending_def recorded_as_def rbind_def set_pending_def persist_def
      interact_def answered_def rreturn_def after_write_def after_def Let_def)

lemma previous_write [simp]:
  "previous (after_write (next_pending rq ph a b c t) s) =
    (or_else a (fst t), or_else b (fst (snd t)), or_else c (snd (snd t)))"
  "previous (after_write (recorded_as rq ph c1 o1 y) s) = (c1, o1, y)"
  "previous (after ev s) = previous s"
  by (simp_all add: previous_def next_pending_def)

text \<open>The run returns, with a result and in a state for which \<open>Q\<close> holds.\<close>

definition ends :: "('a \<Rightarrow> st \<Rightarrow> bool) \<Rightarrow> (stop + 'a) \<times> st \<Rightarrow> bool" where
  "ends Q r \<longleftrightarrow> (\<exists>x s'. r = (Inr x, s') \<and> Q x s')"

lemma ends_bind: "ends R (m s) \<Longrightarrow> (\<And>x s'. R x s' \<Longrightarrow> ends Q (f x s')) \<Longrightarrow> ends Q (rbind m f s)"
  by (auto simp: ends_def rbind_def)

lemma ends_in_order: "ends Q (rbind (in_order ms) rreturn s) \<Longrightarrow> ends Q (in_order ms s)"
  by (auto simp: ends_def rbind_def rreturn_def split: prod.splits sum.splits)

lemma in_order_bind: "rbind (in_order (m # ms)) f s = rbind m (\<lambda>_. rbind (in_order ms) f) s"
  by (auto simp: rbind_def split: prod.splits sum.splits)

lemma in_order_done:
  "m s = (Inr (), s') \<Longrightarrow> ends Q (rbind (in_order ms) f s') \<Longrightarrow> ends Q (rbind (in_order (m # ms)) f s)"
  by (simp add: rbind_def)

lemma in_order_perform:
  "served s \<Longrightarrow> ends Q (rbind (in_order ms) f (after (Act a) s)) \<Longrightarrow>
    ends Q (rbind (in_order (perform a # ms)) f s)"
  by (rule in_order_done [OF perform_done])

lemma in_order_wait:
  "served s \<Longrightarrow> a \<noteq> Committed \<Longrightarrow> ends Q (rbind (in_order ms) f (after (Act a) s)) \<Longrightarrow>
    ends Q (rbind (in_order (confirmed_wait a msg # ms)) f s)"
  by (rule in_order_done [OF wait_done])

lemma in_order_checkpoint:
  "served s \<Longrightarrow> previous s = t \<Longrightarrow> valid_pending rq (next_pending rq ph a b c t) \<Longrightarrow>
    ends Q (rbind (in_order ms) f (after_write (next_pending rq ph a b c t) s)) \<Longrightarrow>
    ends Q (rbind (in_order (checkpoint_with rq ph a b c # ms)) f s)"
  by (rule in_order_done [OF checkpoint_done])

lemma in_order_end: "ends Q (f () s) \<Longrightarrow> ends Q (rbind (in_order []) f s)"
  by (simp add: rbind_def rreturn_def)

definition concluded :: "outcome \<Rightarrow> outcome \<Rightarrow> st \<Rightarrow> bool" where
  "concluded out x s \<longleftrightarrow> x = out \<and> finished s = Some out \<and> durable s = None"

lemma finish_done: "served s \<Longrightarrow> ends (concluded out) (finish out s)"
  by (erule servedE)
    (simp add: ends_def concluded_def finish_def interact_def answered_def rbind_def rreturn_def)

lemmas drive = in_order_perform in_order_wait in_order_checkpoint in_order_end finish_done
lemmas drive_simps = valid_pending_def next_pending_def served_def

lemma cutover_body_done:
  assumes "valid_request rq" "previous s = (False, False, y)" "replies s = replicate 60 (Done True)"
  shows "ends (concluded WasAccepted) (cutover_body rq s)"
  unfolding cutover_body_def checkpoint_def
  by (rule drive | (simp add: drive_simps assms; fail))+

lemma finish_committed_done:
  assumes "replies s = replicate 60 (Done True)" "valid_request rq" "previous s = (c, False, y)"
  shows "ends (concluded WasAccepted) (finish_committed rq why s)"
  unfolding finish_committed_def
  by (rule drive | (simp add: drive_simps assms; fail))+

lemma reverse_copy_done:
  assumes "replies s = replicate 58 (Done True)" "valid_request rq" "previous s = (c, o1, y)"
  shows "ends (\<lambda>_ s'. (\<exists>n. (n = 53 \<or> n = 58) \<and> replies s' = replicate n (Done True)) \<and> previous s' = (c, o1, y)) (reverse_copy rq s)"
proof (cases "c \<and> \<not> o1")
  case True
  have "ends (\<lambda>_ s'. (\<exists>n. (n = 53 \<or> n = 58) \<and> replies s' = replicate n (Done True)) \<and> previous s' = (c, o1, y))
    (in_order [checkpoint rq FencingOld, perform (Stop Old), checkpoint rq CopyingReverse,
          perform (Copy Candidate Old), perform (VerifyCopy Candidate Old)] s)"
    unfolding checkpoint_def
    by (rule ends_in_order, (rule drive | (simp add: drive_simps assms True; fail))+)
      (simp add: ends_def rreturn_def assms True next_pending_def)
  then show ?thesis using assms(3) True by (simp add: reverse_copy_def)
next
  case False
  then have "reverse_copy rq s = (Inr (), s)" using assms(3) by (auto simp: reverse_copy_def)
  then show ?thesis using assms by (simp add: ends_def)
qed

lemma roll_back_end_done:
  assumes "n = 53 \<or> n = 58" "replies s = replicate n (Done True)" "valid_request rq" "previous s = (c, o1, y)"
  shows "ends (concluded WasRolledBack) (rbind (in_order
     [checkpoint rq OldReady, checkpoint_with rq StartingOld None (Some True) None, perform (Start Old),
     checkpoint rq CheckingOld, perform (CheckLocal Old), checkpoint rq RolledBack,
     perform (Disarm Old)]) (\<lambda>_. finish WasRolledBack) s)"
proof -
  have "ends (concluded WasRolledBack) (rbind (in_order
     [checkpoint rq OldReady, checkpoint_with rq StartingOld None (Some True) None, perform (Start Old),
     checkpoint rq CheckingOld, perform (CheckLocal Old), checkpoint rq RolledBack,
     perform (Disarm Old)]) (\<lambda>_. finish WasRolledBack) s)" if "replies s = replicate 53 (Done True)"
    unfolding checkpoint_def by (rule drive | (simp add: drive_simps assms(3,4) that; fail))+
  moreover have "ends (concluded WasRolledBack) (rbind (in_order
     [checkpoint rq OldReady, checkpoint_with rq StartingOld None (Some True) None, perform (Start Old),
     checkpoint rq CheckingOld, perform (CheckLocal Old), checkpoint rq RolledBack,
     perform (Disarm Old)]) (\<lambda>_. finish WasRolledBack) s)" if "replies s = replicate 58 (Done True)"
    unfolding checkpoint_def by (rule drive | (simp add: drive_simps assms(3,4) that; fail))+
  ultimately show ?thesis using assms(1,2) by blast
qed

lemma roll_back_done:
  assumes "replies s = replicate 60 (Done True)" "valid_request rq" "previous s = (c, o1, y)"
  shows "ends (concluded WasRolledBack) (roll_back rq why s)"
proof -
  let ?s1 = "after (Act (Stop Candidate)) (after_write (next_pending rq FencingCandidate None None (Some why) (c, o1, y)) s)"
  have copy: "ends (\<lambda>_ s'. (\<exists>n. (n = 53 \<or> n = 58) \<and> replies s' = replicate n (Done True)) \<and> previous s' = (c, o1, why))
     (reverse_copy rq ?s1)"
    by (rule reverse_copy_done) (simp_all add: assms next_pending_def)
  show ?thesis
    unfolding roll_back_def
    by (rule drive | (simp add: drive_simps assms; fail))+
      (subst in_order_bind, rule ends_bind, rule copy, elim conjE exE, rule roll_back_end_done,
        (assumption | rule assms)+)
qed

lemma recover_body_done:
  assumes "replies s = replicate 62 (Done True)" "valid_request rq" "previous s = (c, o1, y)"
    and "committed (world_of (log s)) \<longrightarrow> \<not> o1"
  shows "ends (\<lambda>out s'. concluded out out s' \<and>
    (out = WasAccepted \<longleftrightarrow> committed (world_of (log s)))) (recover_body rq why s)"
proof -
  have "served s" using assms(1) by (simp add: served_def)
  moreover have "served (after (Act VerifyRecovery) s)" using assms(1) by (simp add: served_def)
  moreover have "committed (world_of (log s @ [Act VerifyRecovery (Done True)])) = committed (world_of (log s))"
    by (simp add: world_of_snoc)
  ultimately have "recover_body rq why s = (if committed (world_of (log s)) then finish_committed rq why else roll_back rq why)
      (after (Act Committed) (after (Act VerifyRecovery) s))"
    by (simp add: recover_body_def rbind_def perform_done committed_done)
  moreover have "ends (concluded WasAccepted) (finish_committed rq why (after (Act Committed) (after (Act VerifyRecovery) s)))"
    if "\<not> o1" by (rule finish_committed_done) (use that assms in simp_all)
  moreover have "ends (concluded WasRolledBack) (roll_back rq why (after (Act Committed) (after (Act VerifyRecovery) s)))"
    by (rule roll_back_done) (use assms in simp_all)
  ultimately show ?thesis
    using assms(4) by (auto simp: ends_def concluded_def)
qed

lemma catch_ends: "ends Q (m s) \<Longrightarrow> ends Q (catch m h s)"
  by (auto simp: ends_def catch_def)

lemma cutover_done:
  assumes "valid_request rq" "durable s = None" "finished s = None"
  shows "ends (concluded WasAccepted) (session rq (replicate 61 (Done True)) s)"
proof -
  let ?s = "boot (replicate 61 (Done True)) s"
  have "served ?s" by (simp add: served_def boot_def)
  moreover have "pending ?s = None" using assms(2) by (simp add: boot_def)
  moreover have "ends (concluded WasAccepted) (cutover_body rq (after (Act VerifyPrepared) ?s))"
    by (rule cutover_body_done) (use assms in \<open>simp_all add: boot_def previous_def\<close>)
  ultimately show ?thesis
    using assms(2) by (simp add: session_def cutover_def rbind_def perform_done catch_ends)
qed

section \<open>Properties\<close>

definition sample_request :: request where
  "sample_request = \<lparr>rq_kind = ''klokast.router-transaction-request.v1'', rq_role = ''router'', rq_box = ''b1'',
     rq_operation_id = replicate 24 CHR ''a'', rq_engine_commit = replicate 40 CHR ''b'',
     rq_policy_sha256 = replicate 64 CHR ''1'', rq_accepted_sha256 = replicate 64 CHR ''2'',
     rq_old_sha256 = replicate 64 CHR ''3'', rq_candidate_sha256 = replicate 64 CHR ''4'',
     rq_cutover_seconds = 600, rq_recovery_seconds = 600\<rparr>"

lemma valid_sample [simp]: "valid_request sample_request"
  by code_simp

lemma history_boot: "valid_request rq \<Longrightarrow> history rq (snd (session rq rs initial))"
  by (rule history.session [OF history.fresh _ prod.collapse [symmetric]]) (simp_all add: initial_def)

lemma history_prefix: "history rq s \<Longrightarrow> log s = es @ fs \<Longrightarrow> safe_log es"
  by (drule history_ok) (auto simp: st_ok_def safe_log_def safe_from_append)

lemma latest_kept: "latest w \<noteq> {} \<Longrightarrow> allowed w e \<Longrightarrow> latest (world_step w e) \<noteq> {}"
proof (cases e)
  case (Act a r)
  assume "latest w \<noteq> {}" "allowed w e"
  then show ?thesis using Act by (cases a) auto
qed auto

lemma latest_from: "safe_from w es \<Longrightarrow> latest w \<noteq> {} \<Longrightarrow> latest (foldl world_step w es) \<noteq> {}"
proof (induction es arbitrary: w)
  case (Cons e es)
  then show ?case using latest_kept [of w e] by simp
qed simp

text \<open>C1. A generation is started only while the other generation is confirmed stopped, only when it
  holds the latest router state, and only after its start marker reached the disk - in every
  history of cutovers and boot recoveries, with failures, missed deadlines and crashes anywhere.\<close>

theorem start_is_exclusive_and_latest:
  assumes "history rq s" "log s = es @ Act (Start x) r # fs" "called r"
  shows "other x \<notin> running (world_of es) \<and> x \<in> latest (world_of es) \<and> x \<in> marked (world_of es)"
  using history_allowed [OF assms(1,2)] assms(3) by simp

text \<open>A first cutover in which the call that starts the candidate raises and the host crashes
  in the recovery that follows.\<close>

definition crashed :: st where
  "crashed = snd (session sample_request (replicate 10 (Done True) @ [Failed]) initial)"

lemma crashed_history [simp]: "history sample_request crashed"
  unfolding crashed_def by (rule history_boot) simp

lemmas run_defs = rbind_def rreturn_def raise_def catch_def interact_def answered_def action_def
  perform_def previous_def set_pending_def persist_def checkpoint_with_def checkpoint_def finish_def
  confirmed_wait_def reverse_copy_def roll_back_def recover_body_def fence_def
  recovery_failed_def recover_def cutover_body_def cutover_def boot_def session_def
  effective_def initial_def Let_def valid_pending_def

definition sample_record :: "phase \<Rightarrow> bool \<Rightarrow> pending_record" where
  "sample_record ph c = \<lparr>pn_request = sample_request, pn_phase = ph, pn_candidate_started = c,
     pn_old_started = False, pn_reason = Cutover\<rparr>"

lemma crashed_log: "log crashed = [Act VerifyPrepared (Done True),
    Persist (sample_record Armed False) (Done True), Act Arm (Done True),
    Persist (sample_record StoppingOld False) (Done True), Act (Stop Old) (Done True),
    Persist (sample_record CopyingForward False) (Done True), Act (Copy Old Candidate) (Done True),
    Persist (sample_record CandidateReady False) (Done True), Act (VerifyCopy Old Candidate) (Done True),
    Persist (sample_record StartingCandidate True) (Done True)] @ [Act (Start Candidate) Failed]"
  by (simp add: crashed_def sample_record_def run_defs numeral_eq_Suc)

lemma start_is_exclusive_and_latest_witness:
  "Old \<notin> running (world_of (butlast (log crashed)))"
  using start_is_exclusive_and_latest [OF crashed_history crashed_log]
  by (simp add: called_def other_def crashed_log)

text \<open>C13. Router state is copied only while both generations are stopped, and only from a generation
  that holds the latest state.\<close>

theorem copy_from_latest_while_stopped:
  assumes "history rq s" "log s = es @ Act (Copy x y) r # fs" "called r"
  shows "x \<in> latest (world_of es) \<and> running (world_of es) = {}"
  using history_allowed [OF assms(1,2)] assms(3) by simp

lemma crashed_copy: "log crashed = take 6 (log crashed) @ Act (Copy Old Candidate) (Done True) # drop 7 (log crashed)"
  by (simp add: crashed_log)

lemma copy_from_latest_while_stopped_witness: "Old \<in> latest (world_of (take 6 (log crashed)))"
  using copy_from_latest_while_stopped [OF crashed_history crashed_copy] by (simp add: called_def)

text \<open>C14. At no point of any history do both generations run, and at every point some generation
  holds the latest router state.\<close>

theorem never_both_and_never_lost:
  assumes "history rq s"
  shows "running (world_of (take n (log s))) \<noteq> {Old, Candidate} \<and> latest (world_of (take n (log s))) \<noteq> {}"
proof -
  have "safe_from initial_world (take n (log s))"
    using history_prefix [OF assms append_take_drop_id [symmetric]] by (simp add: safe_log_def)
  from not_both_from [OF this] latest_from [OF this] show ?thesis
    by (simp add: world_of_def initial_world_def)
qed

lemma never_both_and_never_lost_witness: "latest (world_of (take 4 (log crashed))) \<noteq> {}"
  using never_both_and_never_lost [OF crashed_history] by blast

text \<open>C15. A session that returns an outcome has told the truth: accepted means that the accepted
  pointer was switched, the old generation is stopped and the candidate holds the latest state;
  rolled back means the reverse. No pending record is left.\<close>

theorem outcome_is_true:
  assumes "history rq s" "finished s = None" "session rq rs s = (Inr out, s')"
  shows "finished s' = Some out \<and> (case out of
     WasAccepted \<Rightarrow> committed (world_of (log s')) \<and> Old \<notin> running (world_of (log s')) \<and> Candidate \<in> latest (world_of (log s'))
   | WasRolledBack \<Rightarrow> \<not> committed (world_of (log s')) \<and> Candidate \<notin> running (world_of (log s')) \<and> Old \<in> latest (world_of (log s')))"
  using session_ok [OF history_ok [OF assms(1)] assms(2,3)]
  by (cases out) (simp_all add: settled_def core_of_def)

lemma outcome_is_true_witness:
  "\<exists>s'. session sample_request (replicate 61 (Done True)) initial = (Inr WasAccepted, s') \<and> committed (world_of (log s'))"
proof -
  obtain s' where s': "session sample_request (replicate 61 (Done True)) initial = (Inr WasAccepted, s')"
    using cutover_done [OF valid_sample, of initial] by (auto simp: ends_def concluded_def initial_def)
  show ?thesis
    using outcome_is_true [OF history.fresh [OF valid_sample] _ s'] s' by (simp add: initial_def)
qed

text \<open>C11. When every interaction succeeds, a first session of a valid request accepts the candidate,
  and a boot session over a durable record of any phase but the failed one ends: accepted if the
  pointer was switched before the crash, rolled back otherwise.\<close>

theorem sessions_complete:
  assumes "history rq s" "finished s = None"
    and "\<forall>p. durable s = Some p \<longrightarrow> pn_phase p \<noteq> RecoveryFailed"
  shows "\<exists>n out s'. session rq (replicate n (Done True)) s = (Inr out, s') \<and> finished s' = Some out \<and> durable s' = None \<and>
    (out = WasAccepted \<longleftrightarrow> durable s = None \<or> committed (world_of (log s)))"
proof (cases "durable s")
  case None
  have "valid_request rq" using assms(1) by (induction rule: history.induct) simp_all
  from cutover_done [OF this None assms(2)] None show ?thesis
    by (auto simp: ends_def concluded_def intro!: exI [of _ 61])
next
  case (Some p)
  let ?s = "boot (replicate 62 (Done True)) s"
  have ok: "valid_pending rq p" "agrees (durable s) (world_of (log s))"
    using history_ok [OF assms(1)] Some assms(2) by (simp_all add: st_ok_def core_ok_def core_of_def)
  have "ends (\<lambda>out s'. concluded out out s' \<and> (out = WasAccepted \<longleftrightarrow> committed (world_of (log ?s)))) (recover_body rq BootRecovery ?s)"
    by (rule recover_body_done [of _ _ "pn_candidate_started p" "pn_old_started p" "pn_reason p"])
      (use ok Some in \<open>auto simp: boot_def previous_def valid_pending_def agrees_def flags_of_def\<close>)
  then have "ends (\<lambda>out s'. concluded out out s' \<and> (out = WasAccepted \<longleftrightarrow> committed (world_of (log s)))) (session rq (replicate 62 (Done True)) s)"
    using assms(3) Some ok by (simp add: session_def recover_def boot_def catch_ends)
  then show ?thesis using Some
    by (auto simp: ends_def concluded_def intro!: exI [of _ 62])
qed

lemma sessions_complete_witness:
  "\<exists>n s'. session sample_request (replicate n (Done True)) initial = (Inr WasAccepted, s')"
  using sessions_complete [OF history.fresh [OF valid_sample]] by (fastforce simp: initial_def)

text \<open>C16. A failed recovery is final: a later session over its record raises without touching a
  generation or the record.\<close>

theorem failed_recovery_is_final:
  assumes "history rq s" "finished s = None" "durable s = Some p" "pn_phase p = RecoveryFailed"
  shows "\<exists>msg s'. session rq rs s = (Inl (Raised msg), s') \<and> log s' = log s \<and> durable s' = Some p"
proof -
  have "valid_pending rq p"
    using history_ok [OF assms(1)] assms(3) by (simp add: st_ok_def core_ok_def core_of_def)
  then show ?thesis using assms by (simp add: session_def recover_def boot_def raise_def)
qed

definition failed :: st where
  "failed = snd (session sample_request (replicate 2 (Done True) @ [Failed, Failed, Done True, Done True]) initial)"

lemma failed_facts:
  "finished failed = None \<and> map_option pn_phase (durable failed) = Some RecoveryFailed"
  by (simp add: failed_def run_defs numeral_eq_Suc) blast

lemma failed_recovery_is_final_witness:
  "\<exists>msg s'. session sample_request [Done True] failed = (Inl (Raised msg), s') \<and> log s' = log failed"
proof -
  have h: "history sample_request failed" unfolding failed_def by (rule history_boot) simp
  obtain p where p: "durable failed = Some p" "pn_phase p = RecoveryFailed" using failed_facts by auto
  from failed_recovery_is_final [OF h conjunct1 [OF failed_facts] p] show ?thesis by blast
qed

end
