(* ===== verification/Router_Bounds.thy ===== *)
theory Router_Bounds
  imports Router_Runs
begin

text \<open>
  How long a session of the router cutover can take: the number of interactions with the adapter of
  every command, and the bound of 49 on a whole session.
\<close>

abbreviation "takes \<equiv> within replies"

lemma takes_interact: "takes 1 (interact ev)"
  by (auto simp: within_def interact_def split: list.splits)

lemma takes_answered: "takes 0 (answered msg r)"
  by (auto simp: answered_def split: reply.splits intro: within_return within_raise)

lemma takes_keep: "(\<And>s. replies (g s) = replies s) \<Longrightarrow> takes 0 (\<lambda>s. (Inr (f s), g s))"
  by (simp add: within_def)

lemma takes_action: "takes 1 (action a)"
proof -
  have "takes (1 + (0 + 0)) (action a)"
    unfolding action_def by (intro within_bind takes_interact takes_answered takes_keep) simp
  then show ?thesis by simp
qed

lemma takes_perform: "takes 1 (perform a)"
  using within_bind [OF takes_action within_return] unfolding perform_def by fastforce

lemma takes_persist: "takes 1 (persist p)"
proof -
  have "takes (1 + (0 + (0 + 0))) (persist p)"
    unfolding persist_def by (intro within_bind takes_interact takes_answered takes_keep within_return) simp
  then show ?thesis by simp
qed

lemma takes_checkpoint: "takes 1 (checkpoint_with rq ph c o1 y)" "takes 1 (checkpoint rq ph)"
proof -
  have "takes 1 (checkpoint_with rq ph c o1 y)" for c o1 y
  proof -
    let ?f = "\<lambda>s. case previous s of (c', o', y') \<Rightarrow> (let p = \<lparr>pn_request = rq, pn_phase = ph,
          pn_candidate_started = or_else c c', pn_old_started = or_else o1 o', pn_reason = or_else y y'\<rparr>
       in rbind (set_pending p) (\<lambda>_. if valid_pending rq p then persist p
          else raise ''router pending record is incomplete or contradicts its production-start marker''))"
    have "takes (0 + 1) (rbind (set_pending p) (\<lambda>_. if valid_pending rq p then persist p else raise msg))" for p msg
      unfolding set_pending_def
      by (intro within_bind takes_keep) (simp_all add: takes_persist [unfolded One_nat_def] within_raise)
    then have "takes 1 (?f s)" for s by (simp add: Let_def split: prod.split)
    then have "takes 1 (\<lambda>s. ?f s s)" by (rule within_state)
    moreover have "(\<lambda>s. ?f s s) = checkpoint_with rq ph c o1 y"
      by (simp add: fun_eq_iff checkpoint_with_def split_beta Let_def)
    ultimately show ?thesis by simp
  qed
  then show "takes 1 (checkpoint_with rq ph c o1 y)" "takes 1 (checkpoint rq ph)" by (simp_all add: checkpoint_def)
qed

lemma takes_finish: "takes 1 (finish out)"
proof -
  have "takes (1 + (0 + (0 + 0))) (finish out)"
    unfolding finish_def by (intro within_bind takes_interact takes_answered takes_keep within_return) simp
  then show ?thesis by simp
qed

lemma takes_wait: "takes 1 (confirmed_wait a msg)"
proof -
  have "takes (1 + 0) (confirmed_wait a msg)"
    unfolding confirmed_wait_def by (intro within_bind takes_action) (simp add: within_return within_raise)
  then show ?thesis by simp
qed

text \<open>A list of statements of one interaction each.\<close>

lemma takes_in_order: "list_all (takes 1) ms \<Longrightarrow> length ms \<le> n \<Longrightarrow> takes n (in_order ms)"
proof (induction ms arbitrary: n)
  case Nil
  then show ?case by (simp add: within_mono [OF within_return])
next
  case (Cons m ms)
  then have "takes (1 + (n - 1)) (in_order (m # ms))" by (simp only: in_order.simps) (intro within_bind, auto)
  with Cons.prems(2) show ?case by simp
qed

lemmas takes_one = takes_perform takes_checkpoint takes_wait takes_finish takes_action takes_persist

lemmas takes_one_Suc = takes_one [unfolded One_nat_def]

lemma takes_reverse_copy: "takes 5 (reverse_copy rq)"
proof -
  let ?ms = "[checkpoint rq FencingOld, perform (Stop Old), checkpoint rq CopyingReverse,
          perform (Copy Candidate Old), perform (VerifyCopy Candidate Old)]"
  have "takes 5 (in_order ?ms)" by (rule takes_in_order) (simp_all add: takes_one_Suc)
  then show ?thesis
    unfolding reverse_copy_def [abs_def] within_def by (auto split: if_splits prod.splits)
qed

lemma takes_finish_committed: "takes 6 (finish_committed rq why)"
proof -
  have "takes (5 + 1) (finish_committed rq why)" unfolding finish_committed_def
    by (intro within_bind takes_finish takes_in_order) (simp_all add: takes_one_Suc)
  then show ?thesis by simp
qed

lemma takes_roll_back: "takes 15 (roll_back rq why)"
proof -
  let ?ms = "[checkpoint_with rq FencingCandidate None None (Some why), perform (Stop Candidate), reverse_copy rq,
     checkpoint rq OldReady, checkpoint_with rq StartingOld None (Some True) None, perform (Start Old),
     checkpoint rq CheckingOld, perform (CheckLocal Old), checkpoint rq RolledBack,
     perform (Disarm Old)]"
  have "takes 14 (in_order ?ms)"
    using within_in_order [of replies "[1, 1, 5, 1, 1, 1, 1, 1, 1, 1]" ?ms] by (simp add: takes_one_Suc takes_reverse_copy del: in_order.simps)
  from within_bind [OF this takes_finish] show ?thesis unfolding roll_back_def by simp
qed

lemma takes_recovery_failed: "takes 2 (recovery_failed rq)"
proof -
  have "takes 1 fence" using takes_perform unfolding fence_def [abs_def] within_def
    by (auto split: prod.splits sum.splits stop.splits)
  then have "takes (1 + (1 + 0)) (recovery_failed rq)"
    unfolding recovery_failed_def by (intro within_bind takes_checkpoint within_raise)
  then show ?thesis by (simp add: numeral_2_eq_2)
qed

lemma takes_recover: "takes 19 (recover rq why)"
proof -
  have "takes (1 + (1 + 15)) (recover_body rq why)" unfolding recover_body_def
    by (intro within_bind takes_perform takes_action) (simp add: takes_roll_back within_mono [OF takes_finish_committed])
  then have "takes (17 + 2) (catch (recover_body rq why) (\<lambda>_. recovery_failed rq))"
    by (intro within_catch takes_recovery_failed) simp
  then have "takes 19 (catch (recover_body rq why) (\<lambda>_. recovery_failed rq))" by simp
  then show ?thesis by (rule within_guarded) (auto simp: recover_def split: option.splits)
qed

lemma takes_cutover: "takes 49 (cutover rq)"
proof -
  have "takes (28 + 1) (cutover_body rq)" unfolding cutover_body_def
    by (intro within_bind takes_finish takes_in_order) (simp_all add: takes_one_Suc)
  then have "takes (1 + (29 + 19)) (rbind (perform VerifyPrepared) (\<lambda>_. catch (cutover_body rq) (\<lambda>_. recover rq DeadlineOrCheck)))"
    by (intro within_bind within_catch takes_perform takes_recover) simp
  then have "takes 49 (rbind (perform VerifyPrepared) (\<lambda>_. catch (cutover_body rq) (\<lambda>_. recover rq DeadlineOrCheck)))"
    by simp
  then show ?thesis by (rule within_guarded) (auto simp: cutover_def)
qed

text \<open>C12. Every session of a cutover ends: however the adapter answers, a session takes at most 49 interactions, and then
  it has returned an outcome or raised; it cannot wait or retry for ever.\<close>

theorem sessions_terminate:
  assumes "session rq rs s = (r, s')" "49 \<le> length rs"
  shows "((\<exists>out. r = Inr out) \<or> (\<exists>msg. r = Inl (Raised msg))) \<and> length rs \<le> length (replies s') + 49"
proof -
  have "takes 49 (if durable s = None then cutover rq else recover rq BootRecovery)"
    using takes_cutover within_mono [OF takes_recover] by simp
  moreover have "(if durable s = None then cutover rq else recover rq BootRecovery) (boot rs s) = (r, s')"
    using assms(1) by (cases "durable s") (simp_all add: session_def)
  ultimately have "length rs \<le> length (replies s') + 49" "r \<noteq> Inl Crash"
    using assms(2) by (auto dest!: withinD simp: boot_def)
  then show ?thesis by (metis stop.exhaust sum.exhaust)
qed

lemma sessions_terminate_witness:
  "(case session sample_request (replicate 60 Failed) initial of (r, s') \<Rightarrow> (\<exists>msg. r = Inl (Raised msg)) \<and> 11 \<le> length (replies s'))"
proof -
  obtain r s' where s: "session sample_request (replicate 60 Failed) initial = (r, s')" by fastforce
  have "fst (session sample_request (replicate 60 Failed) initial) = Inl (Raised ''router transaction action'')"
    by (simp add: run_defs numeral_eq_Suc)
  with sessions_terminate [OF s] s show ?thesis by simp
qed
end
