(* ===== verification/Vm_Update.thy ===== *)
theory Vm_Update
  imports Effects Interfaces
begin

text \<open>
  The stages of a guest replacement: \<open>Transaction.record\<close>, \<open>step\<close>, \<open>recover\<close>, the durable part
  of \<open>arm\<close> and \<open>adopt_old\<close>, \<open>controller_lost\<close> and \<open>reconcile_assignment\<close> of
  \<^verbatim>\<open>roles/vm-update-recovery/files/vm_update_engine.py\<close>.

  Files, logical volumes, artifact checksums and Xen are the environment. Every interaction with
  it consumes one \<open>vreply\<close>; when none is left the host has crashed there. \<open>Lost\<close>: the call raised and changed
  nothing. \<open>Unsure\<close>: it took effect and raised. \<open>Fine\<close>: it returned. A guest may also vanish by itself
  before any interaction (\<open>vr_died\<close>). Clock readings are integers. \<open>guest()\<close> refuses a wrong identity or disk, and otherwise
  tells which generation holds the disks; that is \<open>Lost\<close>, or the live side of the world.

  The log determines the world: the durable journal, the live guest and the published
  definition. \<open>may_happen\<close> says when an event is allowed; the safety theorem is that no sequence of
  commands, failures and crashes logs an event that is not.
\<close>

section \<open>Requests and journals\<close>

datatype kind = SwitchV1 | SwitchV2 | SwitchV3 | Service | Retained | Adoption

record vm_request =
  vq_kind :: kind
  vq_role :: string
  vq_autostart :: bool
  vq_replacement_seconds :: int
  vq_recovery_seconds :: int

definition service_kind :: "vm_request \<Rightarrow> bool" where
  "service_kind rq \<longleftrightarrow> vq_kind rq \<in> {Service, Retained}"

definition live_kind :: "vm_request \<Rightarrow> bool" where
  "live_kind rq \<longleftrightarrow> vq_kind rq \<in> {SwitchV2, SwitchV3}"

datatype vstage =
    VArmed | VStopping | VStopped | VStarting | VBooted | VTested | VRecovering
  | VAdopted | VAccepted | VComplete | VRecovered | VRecoveryFailed

definition PRE_ACCEPT :: "vstage set" where
  "PRE_ACCEPT = {VArmed, VStopping, VStopped, VStarting, VBooted, VTested, VRecovering}"

definition POST_BOOT :: "vstage set" where
  "POST_BOOT = {VStarting, VBooted, VTested, VAccepted, VComplete}"

record journal =
  j_stage :: vstage
  j_deadline :: int
  j_controller_seen_at :: "int option"
  j_old_shutdown_pending :: "bool option"
  j_recovery_started_at :: "int option"
  j_checks_sha256 :: "string option"

text \<open>\<open>controller_timeout_seconds\<close> is 90 wherever \<open>controller_seen_at\<close> is present.\<close>

definition controller_lost :: "journal \<Rightarrow> int \<Rightarrow> bool" where
  "controller_lost j now =
    (if j_stage j \<notin> PRE_ACCEPT then False
     else case j_controller_seen_at j of
       None \<Rightarrow> False
     | Some seen \<Rightarrow> \<not> (0 \<le> now - seen \<and> now - seen < 90))"


section \<open>The environment\<close>

datatype vside = OldVm | NewVm

datatype vres = Lost | Unsure | Fine

record vreply =
  vr_died :: bool
  vr_res :: vres
  vr_now :: int
  vr_flag :: bool
  vr_text :: string

datatype vevent =
    Died
  | Journal journal vres
  | Publish vside vres
  | StartVm vside vres
  | StopVm vside bool vres
  | Check string vres

record vworld =
  w_journal :: "journal option"
  w_live :: "vside option"
  w_assigned :: "vside option"

primrec vworld_step :: "vworld \<Rightarrow> vevent \<Rightarrow> vworld" where
  "vworld_step w Died = w\<lparr>w_live := None\<rparr>"
| "vworld_step w (Journal j r) = (if r = Lost then w else w\<lparr>w_journal := Some j\<rparr>)"
| "vworld_step w (Publish s r) = (if r = Lost then w else w\<lparr>w_assigned := Some s\<rparr>)"
| "vworld_step w (StartVm s r) = (if r = Lost then w else w\<lparr>w_live := Some s\<rparr>)"
| "vworld_step w (StopVm s g r) = (if r = Lost then w else w\<lparr>w_live := None\<rparr>)"
| "vworld_step w (Check n r) = w"

record vst =
  vm_memory :: "journal option"
  vm_world :: vworld
  vm_log :: "(vworld \<times> vevent) list"
  vm_replies :: "vreply list"

text \<open>Each event is logged with the world it happens in.\<close>

definition log_event :: "vevent \<Rightarrow> vst \<Rightarrow> vst" where
  "log_event e s = s\<lparr>vm_log := vm_log s @ [(vm_world s, e)], vm_world := vworld_step (vm_world s) e\<rparr>"

definition next_reply :: "(vst, vreply) run" where
  "next_reply s = (case vm_replies s of
       [] \<Rightarrow> (Inl Crash, s)
     | r # rs \<Rightarrow>
        (let s' = s\<lparr>vm_replies := rs\<rparr>
         in (Inr r, if vr_died r then log_event Died s' else s')))"

definition emit :: "vevent \<Rightarrow> (vst, unit) run" where
  "emit e s = (Inr (), log_event e s)"

definition refused_if :: "vres \<Rightarrow> string \<Rightarrow> (vst, unit) run" where
  "refused_if r msg = rrequire (r = Fine) msg"

definition now :: "(vst, int) run" where
  "now = rbind next_reply (\<lambda>r. rreturn (vr_now r))"

definition check :: "string \<Rightarrow> (vst, vreply) run" where
  "check name = rbind next_reply (\<lambda>r. rbind (emit (Check name (vr_res r))) (\<lambda>_.
    rbind (refused_if (vr_res r) name) (\<lambda>_. rreturn r)))"

text \<open>\<open>self.guest()\<close> and \<open>self.guest(sides)\<close>: a live guest of another side is refused.\<close>

definition guest :: "vside list \<Rightarrow> (vst, vside option) run" where
  "guest sides = rbind (check ''guest'') (\<lambda>_. \<lambda>s.
    (case w_live (vm_world s) of
       None \<Rightarrow> (Inr None, s)
     | Some x \<Rightarrow> if x \<in> set sides then (Inr (Some x), s)
         else (Inl (Raised ''running guest uses the wrong accepted disk generation''), s)))"

definition record_journal :: "journal \<Rightarrow> (vst, unit) run" where
  "record_journal j = rbind next_reply (\<lambda>r. rbind (emit (Journal j (vr_res r))) (\<lambda>_.
    rbind (refused_if (vr_res r) ''journal'') (\<lambda>_. \<lambda>s. (Inr (), s\<lparr>vm_memory := Some j\<rparr>))))"

definition assignment :: "vside \<Rightarrow> (vst, unit) run" where
  "assignment x = rbind next_reply (\<lambda>r. rbind (emit (Publish x (vr_res r))) (\<lambda>_.
    refused_if (vr_res r) ''assignment''))"

definition start :: "vside \<Rightarrow> (vst, unit) run" where
  "start x = rbind next_reply (\<lambda>r. rbind (emit (StartVm x (vr_res r))) (\<lambda>_.
    refused_if (vr_res r) ''start''))"

text \<open>\<open>native.stop(guest, graceful)\<close> returns at once when the guest is already gone.\<close>

definition stop :: "vside \<Rightarrow> bool \<Rightarrow> (vst, unit) run" where
  "stop x graceful = rbind next_reply (\<lambda>r. \<lambda>s.
    if w_live (vm_world s) = None then (Inr (), s)
    else rbind (emit (StopVm x graceful (vr_res r))) (\<lambda>_. refused_if (vr_res r) ''stop'') s)"

definition journal_of :: "(journal \<Rightarrow> (vst, 'a) run) \<Rightarrow> string \<Rightarrow> (vst, 'a) run" where
  "journal_of f msg s = (case vm_memory s of None \<Rightarrow> raise msg s | Some j \<Rightarrow> f j s)"

text \<open>\<open>self.record(stage, ...)\<close> on the journal in memory.\<close>

definition record_stage :: "vstage \<Rightarrow> (journal \<Rightarrow> journal) \<Rightarrow> (vst, unit) run" where
  "record_stage st f = journal_of (\<lambda>j. record_journal (f (j\<lparr>j_stage := st\<rparr>))) ''transaction is not armed''"


section \<open>Arming and adopting\<close>

definition first_journal :: "vm_request \<Rightarrow> vstage \<Rightarrow> int \<Rightarrow> journal" where
  "first_journal rq st observed =
    \<lparr>j_stage = st, j_deadline = observed + vq_replacement_seconds rq,
     j_controller_seen_at = (if live_kind rq then Some observed else None),
     j_old_shutdown_pending = None, j_recovery_started_at = None, j_checks_sha256 = None\<rparr>"

definition fresh :: "string \<Rightarrow> (vst, unit) run" where
  "fresh msg s = rrequire (vm_memory s = None) msg s"

definition discard :: "(vst, 'a) run \<Rightarrow> (vst, unit) run" where
  "discard m = rbind m (\<lambda>_. rreturn ())"

definition arm :: "vm_request \<Rightarrow> (vst, unit) run" where
  "arm rq = in_order [
    rrequire (vq_kind rq \<noteq> Adoption) ''adoption record cannot arm a replacement'',
    fresh ''operation has already been armed; do not replay it'',
    discard (check ''previous assignment and live definition''),
    rbind (guest [OldVm, NewVm]) (\<lambda>g. rrequire (g = Some OldVm) ''arm requires the exact running old guest''),
    discard (check ''artifacts''),
    rbind now (\<lambda>observed. record_journal (first_journal rq VArmed observed)),
    discard (check ''active pointer and watcher''),
    record_stage VArmed id]"

definition adopt_old :: "vm_request \<Rightarrow> (vst, unit) run" where
  "adopt_old rq = in_order [
    rrequire (vq_kind rq \<in> {Adoption, SwitchV2} \<and> vq_autostart rq)
      ''adoption requires a running guest and the current recovery contract'',
    fresh ''adoption operation has already been recorded'',
    discard (check ''pointers, live definition and autostart link''),
    rbind (guest [OldVm]) (\<lambda>g. rrequire (g = Some OldVm) ''adoption requires the exact running old guest''),
    discard (check ''artifacts''),
    rbind now (\<lambda>observed. record_journal (first_journal rq VAdopted observed)),
    discard (check ''active pointer''),
    assignment OldVm]"


section \<open>Recovery\<close>

definition within_recovery :: "vm_request \<Rightarrow> int \<Rightarrow> (vst, unit) run" where
  "within_recovery rq started = rbind now (\<lambda>t.
    rrequire (t < started + vq_recovery_seconds rq) ''local recovery exceeded its recorded budget'')"

definition finish_shutdown :: "vside option \<Rightarrow> (vst, vside option) run" where
  "finish_shutdown g =
    rbind (if g \<noteq> None then stop OldVm True else rreturn ()) (\<lambda>_.
    rbind (guest [OldVm, NewVm]) (\<lambda>g'.
    rbind (rrequire (g' = None) ''old guest shutdown is still pending; recovery cannot restart it'') (\<lambda>_.
    rbind (record_stage VRecovering (\<lambda>j. j\<lparr>j_old_shutdown_pending := Some False\<rparr>)) (\<lambda>_.
    rreturn g'))))"

definition recover_old :: "vm_request \<Rightarrow> int \<Rightarrow> bool \<Rightarrow> (vst, unit) run" where
  "recover_old rq started pending =
    rbind (within_recovery rq started) (\<lambda>_.
    rbind (guest [OldVm, NewVm]) (\<lambda>g1.
    rbind (if g1 = Some NewVm then stop NewVm False else rreturn ()) (\<lambda>_.
    rbind (guest [OldVm, NewVm]) (\<lambda>g2.
    rbind (rrequire (g2 \<noteq> Some NewVm) ''candidate still holds disks during recovery'') (\<lambda>_.
    rbind (if pending then finish_shutdown g2 else rreturn g2) (\<lambda>g3.
    rbind (assignment OldVm) (\<lambda>_.
    rbind (if g3 = None then start OldVm else rreturn ()) (\<lambda>_.
    rbind (guest [OldVm, NewVm]) (\<lambda>g4.
    rbind (rrequire (g4 = Some OldVm) ''old guest did not restart with the recorded identity'') (\<lambda>_.
    rbind (within_recovery rq started) (\<lambda>_.
    record_stage VRecovered id)))))))))))"

definition roll_back_vm :: "vm_request \<Rightarrow> journal \<Rightarrow> (vst, unit) run" where
  "roll_back_vm rq j =
    rbind now (\<lambda>t.
    let started = (case j_recovery_started_at j of None \<Rightarrow> t | Some x \<Rightarrow> x);
        pending = (case j_old_shutdown_pending j of None \<Rightarrow> j_stage j = VStopping | Some b \<Rightarrow> b) in
    rbind (record_stage VRecovering (\<lambda>j. j\<lparr>j_recovery_started_at := Some started,
             j_old_shutdown_pending := Some pending\<rparr>)) (\<lambda>_.
    catch (recover_old rq started pending)
      (\<lambda>msg. rbind (record_stage VRecoveryFailed id) (\<lambda>_. raise msg))))"

definition keep :: "vside \<Rightarrow> (vst, unit) run" where
  "keep x = rbind (guest [x]) (\<lambda>_. assignment x)"

definition recover_vm :: "vm_request \<Rightarrow> (vst, unit) run" where
  "recover_vm rq = journal_of (\<lambda>j.
    if service_kind rq \<and> j_stage j \<in> POST_BOOT then keep NewVm
    else if j_stage j \<in> {VAccepted, VComplete} then keep NewVm
    else if j_stage j \<in> {VAdopted, VRecovered} then keep OldVm
    else if j_stage j = VRecoveryFailed then
      raise ''recovery previously failed; keep the VM fenced for inspection''
    else roll_back_vm rq j) ''cannot recover an unarmed operation''"


section \<open>Stages\<close>

datatype vaction = Heartbeat | StopOld | StartNew | Tested | Accept | Complete | Recover

definition check_deadline :: "vm_request \<Rightarrow> journal \<Rightarrow> (vst, unit) run" where
  "check_deadline rq j = rbind now (\<lambda>t. rrequire
    (\<not> (j_stage j \<in> PRE_ACCEPT \<and> j_deadline j \<le> t \<and> \<not> (service_kind rq \<and> j_stage j \<in> POST_BOOT)))
    ''replacement exceeded its recorded budget; local recovery is required'')"

definition check_controller :: "journal \<Rightarrow> (vst, unit) run" where
  "check_controller j = rbind now (\<lambda>t. rrequire (\<not> controller_lost j t)
    ''controller liveness expired; local recovery is required'')"

definition expect :: "vside list \<Rightarrow> (vside option \<Rightarrow> bool) \<Rightarrow> string \<Rightarrow> (vst, unit) run" where
  "expect sides P msg = rbind (guest sides) (\<lambda>g. rrequire (P g) msg)"

definition stop_old :: "(vst, unit) run" where
  "stop_old = in_order [
    discard (check ''watcher''),
    record_stage VStopping (\<lambda>j. j\<lparr>j_old_shutdown_pending := Some True\<rparr>),
    rbind (guest [OldVm, NewVm]) (\<lambda>g. case g of
        None \<Rightarrow> rreturn ()
      | Some NewVm \<Rightarrow> raise ''candidate appeared before old guest stopped''
      | Some OldVm \<Rightarrow> stop OldVm True),
    expect [OldVm, NewVm] (\<lambda>g. g = None) ''old guest still holds its disks'',
    record_stage VStopped (\<lambda>j. j\<lparr>j_old_shutdown_pending := Some False\<rparr>)]"

text \<open>The observation that no guest holds the disks is the last thing before the start that could
  see one; between the two only files are checked and written.\<close>

definition start_new :: "vm_request \<Rightarrow> (vst, unit) run" where
  "start_new rq = in_order [
    expect [OldVm, NewVm] (\<lambda>g. g = None) ''a guest appeared before candidate start'',
    discard (check ''artifacts and retained state''),
    record_stage VStarting id,
    if service_kind rq then assignment NewVm else rreturn (),
    start NewVm,
    expect [OldVm, NewVm] (\<lambda>g. g = Some NewVm) ''candidate did not start with the recorded identity'',
    record_stage VBooted id]"

definition restart_new :: "(vst, unit) run" where
  "restart_new = in_order [
    assignment NewVm,
    rbind (guest [NewVm]) (\<lambda>g. if g = None then start NewVm else rreturn ()),
    expect [NewVm] (\<lambda>g. g \<noteq> None) ''recorded service generation did not start'',
    record_stage VBooted id]"

definition tested :: "(vst, unit) run" where
  "tested = rbind (check ''evidence'') (\<lambda>r.
    rbind (rrequire (vr_flag r) ''controller compatibility evidence is incomplete'') (\<lambda>_.
    record_stage VTested (\<lambda>j. j\<lparr>j_checks_sha256 := Some (vr_text r)\<rparr>)))"

definition accept_new :: "journal \<Rightarrow> (vst, unit) run" where
  "accept_new j = in_order [
    rbind (check ''evidence'') (\<lambda>r. rrequire (j_checks_sha256 j = Some (vr_text r))
      ''test evidence changed before acceptance''),
    expect [OldVm, NewVm] (\<lambda>g. g = Some NewVm) ''candidate is absent before acceptance'',
    discard (check ''artifacts''),
    record_stage VAccepted id,
    assignment NewVm]"

definition complete :: "(vst, unit) run" where
  "complete = in_order [
    expect [NewVm] (\<lambda>g. g \<noteq> None) ''accepted guest is absent; completion requires verification'',
    assignment NewVm,
    record_stage VComplete id]"

definition advance :: "vm_request \<Rightarrow> vaction \<Rightarrow> journal \<Rightarrow> (vst, unit) run" where
  "advance rq a j =
    (if a = Heartbeat then
       rbind (rrequire (live_kind rq \<and> j_stage j \<in> PRE_ACCEPT - {VRecovering})
         ''heartbeat requires a live pre-acceptance v2 transaction'') (\<lambda>_.
       rbind now (\<lambda>t. record_stage (j_stage j) (\<lambda>j. j\<lparr>j_controller_seen_at := Some t\<rparr>)))
     else if a = StopOld \<and> j_stage j = VArmed then stop_old
     else if a = StartNew \<and> j_stage j = VStopped then start_new rq
     else if a = StartNew \<and> service_kind rq \<and> j_stage j \<in> {VStarting, VBooted} then restart_new
     else if a = Tested \<and> j_stage j = VBooted then tested
     else if a = Accept \<and> j_stage j = VTested then accept_new j
     else if a = Complete \<and> j_stage j = VAccepted then complete
     else raise ''operation cannot skip, repeat, or reverse a transaction stage'')"

definition step :: "vm_request \<Rightarrow> vaction \<Rightarrow> (vst, unit) run" where
  "step rq a = journal_of (\<lambda>j.
    if a = Recover then recover_vm rq
    else in_order [check_deadline rq j, check_controller j, advance rq a j])
    ''transaction is not armed''"

text \<open>The runtime of a completed operation: publish its side again, and stop or start it.\<close>

definition reconcile_assignment :: "bool \<Rightarrow> (vst, unit) run" where
  "reconcile_assignment want_running = journal_of (\<lambda>j.
    let side = (if j_stage j = VComplete then NewVm else OldVm) in
    rbind (rrequire (j_stage j \<in> {VAdopted, VComplete, VRecovered})
      ''runtime reconciliation requires a completed operation'') (\<lambda>_.
    rbind (check ''intent'') (\<lambda>r.
    rbind (if vr_flag r then assignment side else rreturn ()) (\<lambda>_.
    rbind (guest [side]) (\<lambda>g.
    rbind (if \<not> want_running \<and> g \<noteq> None then stop side True
           else if want_running \<and> g = None then start side else rreturn ()) (\<lambda>_.
    discard (check ''report'')))))))
    ''runtime reconciliation assignment changed or is absent''"


section \<open>Histories\<close>

datatype command = CmdArm | CmdAdopt | CmdStep vaction | CmdReconcile bool

text \<open>\<open>invoke(operation, action)\<close>: the request, the box and, for a step, the role's active pointer
  are read first; each of them may raise. The remaining time is a bound on the interactions.\<close>

primrec run_command :: "vm_request \<Rightarrow> command \<Rightarrow> (vst, unit) run" where
  "run_command rq CmdArm = in_order [discard (check ''request and box''), arm rq]"
| "run_command rq CmdAdopt = in_order [discard (check ''request and box''),
    rrequire (vq_kind rq = Adoption) ''public adoption requires the old-only v1 request'', adopt_old rq]"
| "run_command rq (CmdStep a) = in_order [discard (check ''request and box''),
    discard (check ''active pointer''), step rq a]"
| "run_command rq (CmdReconcile b) = in_order [discard (check ''request and box''), reconcile_assignment b]"

text \<open>Each command is a new process that reads the durable journal.\<close>

definition load :: "vreply list \<Rightarrow> vst \<Rightarrow> vst" where
  "load rs s = s\<lparr>vm_memory := w_journal (vm_world s), vm_replies := rs\<rparr>"

definition invoke :: "vm_request \<Rightarrow> vst \<Rightarrow> command \<times> vreply list \<Rightarrow> vst" where
  "invoke rq s = (\<lambda>(c, rs). snd (run_command rq c (load rs s)))"

definition vm_initial :: "vside option \<Rightarrow> vst" where
  "vm_initial live = \<lparr>vm_memory = None,
     vm_world = \<lparr>w_journal = None, w_live = live, w_assigned = None\<rparr>, vm_log = [], vm_replies = []\<rparr>"

inductive operations :: "vm_request \<Rightarrow> vst \<Rightarrow> bool" for rq where
  install: "live \<noteq> Some NewVm \<Longrightarrow> operations rq (vm_initial live)"
| command: "operations rq s \<Longrightarrow> operations rq (invoke rq s cmd)"


section \<open>What may happen\<close>

fun may_start :: "vm_request \<Rightarrow> journal \<Rightarrow> vside \<Rightarrow> bool" where
  "may_start rq j NewVm \<longleftrightarrow>
    j_stage j \<in> {VStarting, VComplete} \<or> service_kind rq \<and> j_stage j = VBooted"
| "may_start rq j OldVm \<longleftrightarrow>
    j_stage j = VRecovering \<and> j_old_shutdown_pending j = Some False \<or> j_stage j \<in> {VAdopted, VRecovered}"

fun may_publish :: "vm_request \<Rightarrow> journal \<Rightarrow> vside \<Rightarrow> bool" where
  "may_publish rq j NewVm \<longleftrightarrow>
    j_stage j \<in> {VAccepted, VComplete} \<or> service_kind rq \<and> j_stage j \<in> POST_BOOT"
| "may_publish rq j OldVm \<longleftrightarrow> j_stage j \<in> {VRecovering, VAdopted, VRecovered}"

fun may_stop :: "journal \<Rightarrow> vside \<Rightarrow> bool \<Rightarrow> bool" where
  "may_stop j NewVm graceful \<longleftrightarrow> j_stage j = VRecovering \<or> j_stage j = VComplete \<and> graceful"
| "may_stop j OldVm graceful \<longleftrightarrow> graceful \<and>
    (j_stage j \<in> {VStopping, VRecovering} \<and> j_old_shutdown_pending j = Some True \<or>
     j_stage j \<in> {VAdopted, VRecovered})"

text \<open>The stages a journal may go through. \<open>VRecovered\<close> to \<open>VRecoveryFailed\<close> is a journal
  write that took effect although it raised.\<close>

inductive next_stage :: "bool \<Rightarrow> vstage \<Rightarrow> vstage \<Rightarrow> bool" for service where
  again: "next_stage service x x"
| stopping: "next_stage service VArmed VStopping"
| stopped: "next_stage service VStopping VStopped"
| starting: "next_stage service VStopped VStarting"
| booted: "next_stage service VStarting VBooted"
| tested: "next_stage service VBooted VTested"
| accepted: "next_stage service VTested VAccepted"
| complete: "next_stage service VAccepted VComplete"
| recovering: "x \<in> PRE_ACCEPT \<Longrightarrow> \<not> (service \<and> x \<in> POST_BOOT) \<Longrightarrow> next_stage service x VRecovering"
| recovered: "next_stage service VRecovering VRecovered"
| failed: "x \<in> {VRecovering, VRecovered} \<Longrightarrow> next_stage service x VRecoveryFailed"

definition may_record :: "vm_request \<Rightarrow> journal option \<Rightarrow> journal \<Rightarrow> bool" where
  "may_record rq d j \<longleftrightarrow> (case d of
     None \<Rightarrow> j_stage j \<in> {VArmed, VAdopted}
   | Some i \<Rightarrow> next_stage (service_kind rq) (j_stage i) (j_stage j))"

definition durably :: "vworld \<Rightarrow> (journal \<Rightarrow> bool) \<Rightarrow> bool" where
  "durably w P \<longleftrightarrow> (\<exists>j. w_journal w = Some j \<and> P j)"

primrec may_happen :: "vm_request \<Rightarrow> vworld \<Rightarrow> vevent \<Rightarrow> bool" where
  "may_happen rq w Died \<longleftrightarrow> True"
| "may_happen rq w (Journal j r) \<longleftrightarrow> may_record rq (w_journal w) j"
| "may_happen rq w (Publish s r) \<longleftrightarrow> durably w (\<lambda>j. may_publish rq j s)"
| "may_happen rq w (StartVm s r) \<longleftrightarrow> w_live w = None \<and> durably w (\<lambda>j. may_start rq j s)"
| "may_happen rq w (StopVm s g r) \<longleftrightarrow> w_live w = Some s \<and> durably w (\<lambda>j. may_stop j s g)"
| "may_happen rq w (Check n r) \<longleftrightarrow> True"

text \<open>The log is a run: every event is logged with the world the events before it lead to.\<close>

primrec run_from :: "vworld \<Rightarrow> (vworld \<times> vevent) list \<Rightarrow> vworld \<Rightarrow> bool" where
  "run_from w [] w' \<longleftrightarrow> w' = w"
| "run_from w (x # xs) w' \<longleftrightarrow> fst x = w \<and> run_from (vworld_step w (snd x)) xs w'"

definition log_safe :: "vm_request \<Rightarrow> (vworld \<times> vevent) list \<Rightarrow> vworld \<Rightarrow> bool" where
  "log_safe rq l w \<longleftrightarrow> (\<forall>x\<in>set l. may_happen rq (fst x) (snd x)) \<and>
     (\<exists>live. live \<noteq> Some NewVm \<and> run_from \<lparr>w_journal = None, w_live = live, w_assigned = None\<rparr> l w)"

definition vm_safe :: "vm_request \<Rightarrow> vst \<Rightarrow> bool" where
  "vm_safe rq s \<longleftrightarrow> log_safe rq (vm_log s) (vm_world s)"

lemma run_from_append: "run_from w (xs @ ys) w' \<longleftrightarrow> (\<exists>v. run_from w xs v \<and> run_from v ys w')"
  by (induction xs arbitrary: w) auto

lemma log_safe_snoc [simp]:
  "log_safe rq (l @ [(w, e)]) w' \<longleftrightarrow> log_safe rq l w \<and> may_happen rq w e \<and> w' = vworld_step w e"
  by (auto simp: log_safe_def run_from_append)

lemma log_safe_snoc2 [simp]:
  "log_safe rq (l @ [(w, e), (w1, e1)]) w' \<longleftrightarrow>
    log_safe rq l w \<and> may_happen rq w e \<and> w1 = vworld_step w e \<and> may_happen rq w1 e1 \<and> w' = vworld_step w1 e1"
  using log_safe_snoc [of rq "l @ [(w, e)]" w1 e1 w'] by auto


section \<open>Reasoning about commands\<close>

text \<open>\<open>E\<close> is what every state of a block keeps of the journals in memory and on disk.\<close>

definition vm_ok :: "vm_request \<Rightarrow> (journal option \<Rightarrow> journal option \<Rightarrow> bool) \<Rightarrow> vst \<Rightarrow> bool" where
  "vm_ok rq E s \<longleftrightarrow> vm_safe rq s \<and> E (vm_memory s) (w_journal (vm_world s))"

definition vobs :: "vst \<Rightarrow> journal option \<times> vworld" where
  "vobs s = (vm_memory s, vm_world s)"

abbreviation vtri :: "vm_request \<Rightarrow> (journal option \<Rightarrow> journal option \<Rightarrow> bool) \<Rightarrow>
    (journal option \<times> vworld \<Rightarrow> bool) \<Rightarrow> (vst, 'a) run \<Rightarrow> ('a \<Rightarrow> journal option \<times> vworld \<Rightarrow> bool) \<Rightarrow> bool" where
  "vtri rq E \<equiv> triple (vm_ok rq E) vobs"

text \<open>\<open>holds J L\<close>: memory and disk agree on a journal that satisfies \<open>J\<close>, and only a side of \<open>L\<close> can
  be live.\<close>

definition holds :: "(journal \<Rightarrow> bool) \<Rightarrow> vside set \<Rightarrow> journal option \<times> vworld \<Rightarrow> bool" where
  "holds J L = (\<lambda>(m, w). m = w_journal w \<and> (\<exists>j. m = Some j \<and> J j) \<and> set_option (w_live w) \<subseteq> L)"

definition stable :: "(journal option \<times> vworld \<Rightarrow> bool) \<Rightarrow> bool" where
  "stable P \<longleftrightarrow> (\<forall>m w. P (m, w) \<longrightarrow> P (m, w\<lparr>w_live := None\<rparr>))"

lemma stable_holds [simp]: "stable (holds J L)"
  by (simp add: stable_def holds_def)

lemma holds_mono: "holds J L c \<Longrightarrow> (\<And>j. J j \<Longrightarrow> J' j) \<Longrightarrow> L \<subseteq> L' \<Longrightarrow> holds J' L' c"
  by (auto simp: holds_def)

lemma vm_ok_log: "vm_ok rq E (log_event e s) \<longleftrightarrow>
    vm_safe rq s \<and> may_happen rq (vm_world s) e \<and> E (vm_memory s) (w_journal (vworld_step (vm_world s) e))"
  by (auto simp: vm_ok_def vm_safe_def log_event_def)

lemma vobs_log: "vobs (log_event e s) = (vm_memory s, vworld_step (vm_world s) e)"
  by (simp add: vobs_def log_event_def)

lemma tri_next_reply: "stable P \<Longrightarrow> vtri rq E P next_reply (\<lambda>_. P)"
  by (rule tripleI)
    (auto simp: next_reply_def Let_def vm_ok_def vm_safe_def log_event_def vobs_def stable_def
      split: list.splits if_splits)

lemma tri_emit:
  assumes "\<And>m w. P (m, w) \<Longrightarrow> E m (w_journal w) \<Longrightarrow> may_happen rq w e \<and> E m (w_journal (vworld_step w e)) \<and> Q (m, vworld_step w e)"
  shows "vtri rq E P (emit e) (\<lambda>_. Q)"
  by (rule tripleI) (use assms in \<open>auto simp: emit_def vm_ok_log vobs_log\<close>,
      auto simp: vm_ok_def vobs_def)

lemma tri_now: "stable P \<Longrightarrow> vtri rq E P now (\<lambda>_. P)"
  unfolding now_def by (rule triple_bind [OF tri_next_reply]) auto

lemma tri_check: "stable P \<Longrightarrow> vtri rq E P (check name) (\<lambda>_. P)"
  unfolding check_def refused_if_def
  by (rule triple_bind [OF tri_next_reply], assumption, rule triple_bind [OF tri_emit [where Q = P]], simp,
      rule triple_bind [OF triple_require], auto)

lemma tri_discard: "vtri rq E P m (\<lambda>_. Q) \<Longrightarrow> vtri rq E P (discard m) (\<lambda>_. Q)"
  unfolding discard_def by (rule triple_bind) auto

lemma tri_guest:
  "vtri rq E (holds J L) (guest sides) (\<lambda>g c. holds J (set_option g \<inter> L) c \<and> set_option g \<subseteq> set sides)"
proof -
  have rest: "vtri rq E (holds J L) (\<lambda>s. case w_live (vm_world s) of
       None \<Rightarrow> (Inr None, s)
     | Some x \<Rightarrow> if x \<in> set sides then (Inr (Some x), s)
         else (Inl (Raised ''running guest uses the wrong accepted disk generation''), s))
     (\<lambda>g c. holds J (set_option g \<inter> L) c \<and> set_option g \<subseteq> set sides)"
    by (rule tripleI) (auto simp: vobs_def holds_def split: option.splits if_splits; metis)
  show ?thesis
    unfolding guest_def by (rule triple_bind [OF tri_check rest]) simp
qed

lemma tri_expect:
  "vtri rq E (holds J L) (expect sides P msg)
    (\<lambda>_ c. \<exists>g. P g \<and> set_option g \<subseteq> set sides \<and> holds J (set_option g \<inter> L) c)"
  unfolding expect_def
  by (rule triple_bind [OF tri_guest], rule triple_require_weaken) auto

text \<open>A journal write: allowed from what is on disk, and kept by the block.\<close>

lemma tri_record_journal:
  assumes "\<And>d. (case d of None \<Rightarrow> False | Some i \<Rightarrow> J i) \<or> d = None \<and> none \<Longrightarrow> may_record rq d j"
    and "\<And>d. E d d \<Longrightarrow> E d (Some j) \<and> E (Some j) (Some j)"
  shows "vtri rq E (\<lambda>c. holds J L c \<or> none \<and> c = (None, snd c) \<and> w_journal (snd c) = None \<and>
      set_option (w_live (snd c)) \<subseteq> L) (record_journal j) (\<lambda>_. holds (\<lambda>i. i = j) L)"
proof -
  let ?P = "\<lambda>c. holds J L c \<or> none \<and> c = (None, snd c) \<and> w_journal (snd c) = None \<and>
      set_option (w_live (snd c)) \<subseteq> L"
  have st: "stable ?P" by (auto simp: stable_def holds_def)
  have emit: "vtri rq E ?P (emit (Journal j r))
      (\<lambda>_ c. r = Fine \<longrightarrow> w_journal (snd c) = Some j \<and> set_option (w_live (snd c)) \<subseteq> L \<and> E (Some j) (Some j))" for r
  proof (rule tri_emit)
    fix m w assume P: "?P (m, w)" and e: "E m (w_journal w)"
    from P have mw: "m = w_journal w" "may_record rq (w_journal w) j" "set_option (w_live w) \<subseteq> L"
      by (auto simp: holds_def intro: assms(1))
    with e assms(2) [of m] show "may_happen rq w (Journal j r) \<and> E m (w_journal (vworld_step w (Journal j r))) \<and>
        (r = Fine \<longrightarrow> w_journal (snd (m, vworld_step w (Journal j r))) = Some j \<and>
           set_option (w_live (snd (m, vworld_step w (Journal j r)))) \<subseteq> L \<and> E (Some j) (Some j))"
      by auto
  qed
  have last: "vtri rq E (\<lambda>c. (r = Fine \<longrightarrow> w_journal (snd c) = Some j \<and> set_option (w_live (snd c)) \<subseteq> L
        \<and> E (Some j) (Some j)) \<and> r = Fine)
      (\<lambda>s. (Inr (), s\<lparr>vm_memory := Some j\<rparr>)) (\<lambda>_. holds (\<lambda>i. i = j) L)" for r
    by (rule tripleI) (auto simp: vm_ok_def vm_safe_def vobs_def holds_def)
  show ?thesis
    unfolding record_journal_def refused_if_def
    by (rule triple_bind [OF tri_next_reply [OF st]], rule triple_bind [OF emit],
        rule triple_bind [OF triple_require], rule last)
qed

lemma tri_journal_of:
  assumes "\<And>j. J j \<Longrightarrow> vtri rq E (holds (\<lambda>i. i = j) L) (f j) Q"
  shows "vtri rq E (holds J L) (journal_of f msg) Q"
proof (rule tripleI)
  fix s r s' assume s: "vm_ok rq E s" "holds J L (vobs s)" "journal_of f msg s = (r, s')"
  then obtain j where j: "vm_memory s = Some j" "J j" "holds (\<lambda>i. i = j) L (vobs s)"
    by (auto simp: holds_def vobs_def)
  with s(3) have "f j s = (r, s')" by (simp add: journal_of_def)
  with tripleD [OF assms [OF j(2)] s(1) j(3)]
  show "vm_ok rq E s' \<and> (\<forall>x. r = Inr x \<longrightarrow> Q x (vobs s'))" by simp
qed

lemma tri_record_stage:
  assumes "\<And>i. J i \<Longrightarrow> may_record rq (Some i) (f (i\<lparr>j_stage := st\<rparr>))"
    and "\<And>i d. J i \<Longrightarrow> E d d \<Longrightarrow> E d (Some (f (i\<lparr>j_stage := st\<rparr>))) \<and>
      E (Some (f (i\<lparr>j_stage := st\<rparr>))) (Some (f (i\<lparr>j_stage := st\<rparr>)))"
    and "\<And>i. J i \<Longrightarrow> K (f (i\<lparr>j_stage := st\<rparr>))"
  shows "vtri rq E (holds J L) (record_stage st f) (\<lambda>_. holds K L)"
  unfolding record_stage_def
proof (rule tri_journal_of)
  fix j assume j: "J j"
  let ?j = "f (j\<lparr>j_stage := st\<rparr>)"
  have "vtri rq E (\<lambda>c. holds (\<lambda>i. i = j) L c \<or> False \<and> c = (None, snd c) \<and> w_journal (snd c) = None \<and>
      set_option (w_live (snd c)) \<subseteq> L) (record_journal ?j) (\<lambda>_. holds (\<lambda>i. i = ?j) L)"
    by (rule tri_record_journal) (use assms(1,2) j in \<open>auto split: option.splits\<close>)
  then show "vtri rq E (holds (\<lambda>i. i = j) L) (record_journal ?j) (\<lambda>_. holds K L)"
    by (rule triple_weaken) (auto simp: holds_def assms(3) [OF j])
qed

lemma tri_assignment:
  assumes "\<And>j. J j \<Longrightarrow> may_publish rq j x"
  shows "vtri rq E (holds J L) (assignment x) (\<lambda>_. holds J L)"
  unfolding assignment_def refused_if_def
  by (rule triple_bind [OF tri_next_reply], simp,
      rule triple_bind [OF tri_emit [where Q = "holds J L"]],
      use assms in \<open>force simp: holds_def durably_def\<close>,
      rule triple_require_weaken, simp)

lemma tri_start:
  assumes "\<And>j. J j \<Longrightarrow> may_start rq j x"
  shows "vtri rq E (holds J {}) (start x) (\<lambda>_. holds J {x})"
  unfolding start_def refused_if_def
  by (rule triple_bind [OF tri_next_reply], simp,
      rule triple_bind [OF tri_emit [where Q = "holds J {x}"]],
      use assms in \<open>force simp: holds_def durably_def\<close>,
      rule triple_require_weaken, simp)

lemma tri_stop:
  assumes "\<And>j. J j \<Longrightarrow> may_stop j x g"
  shows "vtri rq E (holds J {x}) (stop x g) (\<lambda>_. holds J {})"
proof -
  have live: "vtri rq E (\<lambda>c. holds J {x} c \<and> \<not> w_live (snd c) = None)
      (rbind (emit (StopVm x g r)) (\<lambda>_. refused_if r ''stop'')) (\<lambda>_. holds J {})" for r
    unfolding refused_if_def
    by (rule triple_bind [OF tri_emit [where Q = "\<lambda>c. r = Fine \<longrightarrow> holds J {} c"]],
        use assms in \<open>force simp: holds_def durably_def\<close>,
        rule triple_require_weaken, simp)
  have gone: "vtri rq E (\<lambda>c. holds J {x} c \<and> w_live (snd c) = None) (rreturn ()) (\<lambda>_. holds J {})"
    by (rule triple_return) (auto simp: holds_def)
  have eq: "(\<lambda>s. if w_live (vm_world s) = None then (Inr (), s)
      else rbind (emit (StopVm x g (vr_res r))) (\<lambda>_. refused_if (vr_res r) ''stop'') s) =
    (\<lambda>s. if w_live (snd (vobs s)) = None then rreturn () s
      else rbind (emit (StopVm x g (vr_res r))) (\<lambda>_. refused_if (vr_res r) ''stop'') s)" for r
    by (simp add: vobs_def rreturn_def fun_eq_iff)
  show ?thesis
    unfolding stop_def eq
    by (rule triple_bind [OF tri_next_reply], simp, rule triple_cond [OF gone live])
qed


section \<open>Every command is safe\<close>

definition at :: "vstage \<Rightarrow> journal \<Rightarrow> bool" where
  "at st j \<longleftrightarrow> j_stage j = st"

definition any :: "journal option \<Rightarrow> journal option \<Rightarrow> bool" where
  "any m d \<longleftrightarrow> True"

lemma tri_expect_none:
  "vtri rq E (holds J L) (expect sides (\<lambda>g. g = None) msg) (\<lambda>_. holds J {})"
  by (rule triple_weaken [OF tri_expect]) auto

lemma tri_expect_keep:
  "vtri rq E (holds J L) (expect sides P msg) (\<lambda>_. holds J L)"
  by (rule triple_weaken [OF tri_expect]) (auto elim: holds_mono)

lemma tri_stage:
  assumes "\<And>i. J i \<Longrightarrow> next_stage (service_kind rq) (j_stage i) (j_stage (f (i\<lparr>j_stage := st\<rparr>)))"
    and "\<And>i. J i \<Longrightarrow> K (f (i\<lparr>j_stage := st\<rparr>))"
  shows "vtri rq any (holds J L) (record_stage st f) (\<lambda>_. holds K L)"
  by (rule tri_record_stage) (use assms in \<open>simp_all add: may_record_def any_def\<close>)

lemmas vm_sequence = triple_in_order_Nil triple_in_order_Cons

lemma tri_check_keep: "vtri rq E (holds J L) (discard (check n)) (\<lambda>_. holds J L)"
  by (rule tri_discard, rule tri_check) simp

lemma tri_stop_old: "vtri rq any (holds (at VArmed) L) stop_old (\<lambda>_. holds (at VStopped) {})"
proof -
  let ?S = "\<lambda>j. j_stage j = VStopping \<and> j_old_shutdown_pending j = Some True"
  have case_g: "vtri rq any (\<lambda>c. holds ?S (set_option g \<inter> L) c \<and> set_option g \<subseteq> set [OldVm, NewVm])
    (case g of None \<Rightarrow> rreturn () | Some NewVm \<Rightarrow> raise msg | Some OldVm \<Rightarrow> stop OldVm True)
    (\<lambda>_. holds ?S {})" for g msg
  proof (cases g)
    case None
    then show ?thesis by auto
  next
    case (Some x)
    then show ?thesis
      by (cases x)
        (auto intro!: triple_weaken [OF tri_stop [of ?S]] elim: holds_mono)
  qed
  show ?thesis
    unfolding stop_old_def
    by (rule vm_sequence tri_check_keep tri_stage [where K = ?S] tri_expect_none
        triple_bind [OF tri_guest case_g] tri_stage [where K = "at VStopped"]
      | simp add: at_def next_stage.intros)+
qed

lemma tri_start_new: "vtri rq any (holds (at VStopped) L) (start_new rq) (\<lambda>_. holds (at VBooted) {NewVm})"
proof -
  have publish: "vtri rq any (holds (at VStarting) {}) (if service_kind rq then assignment NewVm else rreturn ())
      (\<lambda>_. holds (at VStarting) {})"
    by (auto intro!: tri_assignment simp: at_def POST_BOOT_def)
  show ?thesis
    unfolding start_new_def
    by (rule vm_sequence tri_check_keep tri_expect_none tri_stage [where K = "at VStarting"] publish
        tri_start tri_expect_keep tri_stage [where K = "at VBooted"]
      | simp add: at_def next_stage.intros)+
qed

lemma tri_restart_new:
  assumes "service_kind rq"
  shows "vtri rq any (holds (\<lambda>j. j_stage j \<in> {VStarting, VBooted}) L) restart_new (\<lambda>_. holds (at VBooted) {NewVm})"
proof -
  let ?S = "\<lambda>j. j_stage j \<in> {VStarting, VBooted}"
  have begin_g: "vtri rq any (\<lambda>c. holds ?S (set_option g \<inter> L) c \<and> set_option g \<subseteq> set [NewVm])
     (if g = None then start NewVm else rreturn ()) (\<lambda>_. holds ?S {NewVm})" for g
    using assms
    by (cases g) (auto intro!: triple_weaken [OF tri_start [of ?S]] elim: holds_mono)
  have last: "vtri rq any (holds ?S {NewVm}) (record_stage VBooted id) (\<lambda>_. holds (at VBooted) {NewVm})"
    by (rule tri_stage) (auto simp: at_def next_stage.intros)
  have a: "vtri rq any (holds ?S L) (assignment NewVm) (\<lambda>_. holds ?S L)"
    using assms by (intro tri_assignment) (auto simp: POST_BOOT_def)
  show ?thesis
    unfolding restart_new_def
    by (rule vm_sequence a triple_bind [OF tri_guest begin_g] tri_expect_keep last)+
qed

lemma tri_tested: "vtri rq any (holds (at VBooted) L) tested (\<lambda>_. holds (at VTested) L)"
  unfolding tested_def
  by (rule triple_bind [OF tri_check], simp, rule triple_bind [OF triple_require_weaken [where Q = "holds (at VBooted) L"]],
      assumption, rule tri_stage) (simp_all add: at_def next_stage.intros)

lemma tri_accept_new: "vtri rq any (holds (at VTested) L) (accept_new j) (\<lambda>_. holds (at VAccepted) L)"
proof -
  have ev: "vtri rq any (holds (at VTested) L)
      (rbind (check n) (\<lambda>r. rrequire (P r) msg)) (\<lambda>_. holds (at VTested) L)" for n P msg
    by (rule triple_bind [OF tri_check], simp, rule triple_require_weaken)
  show ?thesis
    unfolding accept_new_def
    by (rule vm_sequence ev tri_expect_keep tri_check_keep tri_stage [where K = "at VAccepted"] tri_assignment
      | simp add: at_def next_stage.intros)+
qed

lemma tri_complete: "vtri rq any (holds (at VAccepted) L) complete (\<lambda>_. holds (at VComplete) L)"
  unfolding complete_def
  by (rule vm_sequence tri_expect_keep tri_assignment tri_stage [where K = "at VComplete"]
    | simp add: at_def next_stage.intros)+

abbreviation (input) "done_ok \<equiv> \<lambda>_ _. True"

lemma tri_done: "vtri rq E P m Q \<Longrightarrow> vtri rq E P m done_ok"
  by (erule triple_weaken) auto

lemma tri_advance:
  "vtri rq any (holds (\<lambda>i. i = j) L) (advance rq a j) done_ok"
proof -
  have j: "j_stage j = st \<Longrightarrow> vtri rq any (holds (at st) L) m Q \<Longrightarrow> vtri rq any (holds (\<lambda>i. i = j) L) m done_ok"
    for st and m :: "(vst, unit) run" and Q
    by (erule triple_weaken) (auto simp: at_def elim: holds_mono)
  have beat: "vtri rq any (holds (\<lambda>i. i = j) L) (rbind (rrequire c msg) (\<lambda>_.
       rbind now (\<lambda>t. record_stage (j_stage j) (\<lambda>j. j\<lparr>j_controller_seen_at := Some t\<rparr>)))) done_ok" for c msg
    by (rule triple_bind [OF triple_require_weaken [where Q = "holds (\<lambda>i. i = j) L"]], assumption,
        rule triple_bind [OF tri_now], simp, rule tri_done, rule tri_stage [where K = "\<lambda>_. True"])
      (simp_all add: next_stage.intros)
  have restart: "service_kind rq \<Longrightarrow> j_stage j \<in> {VStarting, VBooted} \<Longrightarrow>
      vtri rq any (holds (\<lambda>i. i = j) L) restart_new done_ok"
    by (rule triple_weaken [OF tri_restart_new]) (auto elim: holds_mono)
  show ?thesis
    unfolding advance_def
    by (intro triple_if beat triple_raise; elim conjE;
        (erule (1) restart | erule j, rule tri_stop_old tri_start_new tri_tested tri_accept_new tri_complete))
qed

subsection \<open>Recovery\<close>

definition in_recovery :: "journal option \<Rightarrow> journal option \<Rightarrow> bool" where
  "in_recovery m d \<longleftrightarrow> (\<forall>x\<in>{m, d}. \<exists>j. x = Some j \<and> j_stage j \<in> {VRecovering, VRecovered})"

definition rec :: "bool \<Rightarrow> journal \<Rightarrow> bool" where
  "rec pending j \<longleftrightarrow> j_stage j = VRecovering \<and> j_old_shutdown_pending j = Some pending"

lemma tri_within: "vtri rq E (holds J L) (within_recovery rq t) (\<lambda>_. holds J L)"
  unfolding within_recovery_def
  by (rule triple_bind [OF tri_now], simp, rule triple_require_weaken)

lemma tri_finish_shutdown:
  "vtri rq in_recovery (holds (rec True) (set_option g \<inter> {OldVm})) (finish_shutdown g)
    (\<lambda>g'. holds (rec False) (set_option g'))"
proof -
  have stop: "vtri rq in_recovery (holds (rec True) (set_option g \<inter> {OldVm}))
      (if g \<noteq> None then stop OldVm True else rreturn ()) (\<lambda>_. holds (rec True) {})"
    by (rule triple_if, rule triple_weaken [OF tri_stop [of "rec True"]])
      (auto simp: rec_def elim: holds_mono)
  have mark: "vtri rq in_recovery (holds (rec True) {})
      (record_stage VRecovering (\<lambda>j. j\<lparr>j_old_shutdown_pending := Some False\<rparr>)) (\<lambda>_. holds (rec False) {})"
    by (rule tri_record_stage) (auto simp: rec_def may_record_def in_recovery_def next_stage.intros)
  show ?thesis
    unfolding finish_shutdown_def
    by (rule triple_bind [OF stop], rule triple_bind [OF tri_guest],
        rule triple_bind [OF triple_require_weaken [where Q = "holds (rec True) {}"]],
        simp add: holds_mono, rule triple_bind [OF mark], rule triple_return)
      (auto elim: holds_mono)
qed

lemma tri_recover_old:
  "vtri rq in_recovery (holds (rec pending) L) (recover_old rq started pending) done_ok"
proof -
  have stop: "vtri rq in_recovery (\<lambda>c. holds (rec pending) (set_option g \<inter> L) c \<and> set_option g \<subseteq> set [OldVm, NewVm])
      (if g = Some NewVm then stop NewVm False else rreturn ()) (\<lambda>_. holds (rec pending) {OldVm})" for g
    by (rule triple_if, rule triple_weaken [OF tri_stop [of "rec pending"]])
      (auto simp: rec_def elim: holds_mono vside.exhaust intro!: triple_return)
  have shut: "vtri rq in_recovery (holds (rec pending) (set_option g \<inter> {OldVm}))
      (if pending then finish_shutdown g else rreturn g) (\<lambda>g'. holds (rec False) (set_option g'))" for g
    using tri_finish_shutdown [of rq g]
    by (cases pending) (auto intro!: triple_return elim: holds_mono)
  have begin_g: "vtri rq in_recovery (holds (rec False) (set_option g))
      (if g = None then start OldVm else rreturn ()) (\<lambda>_. holds (rec False) UNIV)" for g
    by (rule triple_if, rule triple_weaken [OF tri_start [of "rec False"]])
      (auto simp: rec_def elim: holds_mono intro!: triple_return)
  have last: "vtri rq in_recovery (holds (rec False) UNIV) (record_stage VRecovered id) (\<lambda>_. holds (at VRecovered) UNIV)"
    by (rule tri_record_stage) (auto simp: rec_def at_def may_record_def in_recovery_def next_stage.intros)
  show ?thesis
    unfolding recover_old_def
    apply (rule triple_bind [OF tri_within], rule triple_bind [OF tri_guest], rule triple_bind [OF stop],
        rule triple_bind [OF tri_guest])
    apply (rule triple_bind [OF triple_require_weaken])
     prefer 2
     apply (rule triple_bind [OF shut], rule triple_bind [OF tri_assignment])
      apply (simp add: rec_def)
     apply (rule triple_bind [OF begin_g], rule triple_bind [OF tri_guest])
     apply (rule triple_bind [OF triple_require_weaken [where Q = "holds (rec False) UNIV"]])
      apply (auto elim: holds_mono)[1]
     apply (rule triple_bind [OF tri_within], rule tri_done, rule last)
    apply simp
    done
qed

text \<open>A block that keeps \<open>in_recovery\<close> keeps the weaker \<open>any\<close>; its handler starts from there.\<close>

lemma record_failed:
  assumes "vm_ok rq in_recovery s" "rbind (record_stage VRecoveryFailed id) (\<lambda>_. raise msg) s = (r, s')"
  shows "vm_ok rq any s' \<and> (\<exists>e. r = Inl e)"
  using assms
  by (auto simp: rbind_def record_stage_def journal_of_def record_journal_def next_reply_def emit_def
      refused_if_def rrequire_def rreturn_def raise_def log_event_def vm_ok_def vm_safe_def any_def
      in_recovery_def may_record_def Let_def next_stage.intros
      split: option.splits list.splits if_splits prod.splits sum.splits)

lemma catch_recovery:
  assumes "vtri rq in_recovery P m done_ok" "\<And>s. P (vobs s) \<Longrightarrow> in_recovery (vm_memory s) (w_journal (vm_world s))"
  shows "vtri rq any P (catch m (\<lambda>msg. rbind (record_stage VRecoveryFailed id) (\<lambda>_. raise msg))) done_ok"
proof (rule tripleI)
  fix s r s' assume s: "vm_ok rq any s" "P (vobs s)"
    and run: "catch m (\<lambda>msg. rbind (record_stage VRecoveryFailed id) (\<lambda>_. raise msg)) s = (r, s')"
  obtain r1 s1 where m: "m s = (r1, s1)" by fastforce
  have ok1: "vm_ok rq in_recovery s1"
    using tripleD [OF assms(1) _ s(2) m] s assms(2) by (auto simp: vm_ok_def)
  show "vm_ok rq any s' \<and> (\<forall>x. r = Inr x \<longrightarrow> True)"
  proof (cases "\<exists>msg. r1 = Inl (Raised msg)")
    case True
    then obtain msg where "rbind (record_stage VRecoveryFailed id) (\<lambda>_. raise msg) s1 = (r, s')"
      using run m by (auto simp: catch_def)
    from record_failed [OF ok1 this] show ?thesis by simp
  next
    case False
    then have "s' = s1"
      using m run by (auto simp: catch_def split: sum.splits stop.splits)
    with ok1 show ?thesis by (auto simp: vm_ok_def any_def)
  qed
qed

lemma tri_roll_back_vm:
  assumes "j_stage j \<in> PRE_ACCEPT" "\<not> (service_kind rq \<and> j_stage j \<in> POST_BOOT)"
  shows "vtri rq any (holds (\<lambda>i. i = j) L) (roll_back_vm rq j) done_ok"
proof -
  have rec: "vtri rq any (holds (\<lambda>i. i = j) L)
      (record_stage VRecovering (\<lambda>j. j\<lparr>j_recovery_started_at := Some t, j_old_shutdown_pending := Some p\<rparr>))
      (\<lambda>_. holds (rec p) L)" for t p
    by (rule tri_stage) (use assms in \<open>auto simp: rec_def intro: next_stage.recovering\<close>)
  have body: "vtri rq any (holds (rec p) L) (catch (recover_old rq t p)
      (\<lambda>msg. rbind (record_stage VRecoveryFailed id) (\<lambda>_. raise msg))) done_ok" for t p
    by (rule catch_recovery [OF tri_recover_old])
      (auto simp: holds_def vobs_def in_recovery_def rec_def dest: sym)
  show ?thesis
    unfolding roll_back_vm_def Let_def
    by (rule triple_bind [OF tri_now], simp, rule triple_bind [OF rec body])
qed

lemma tri_guest_keep: "vtri rq E (holds J L) (guest sides) (\<lambda>_. holds J L)"
  by (rule triple_weaken [OF tri_guest]) (auto elim: holds_mono)

lemma tri_keep:
  assumes "\<And>j. J j \<Longrightarrow> may_publish rq j x"
  shows "vtri rq E (holds J L) (keep x) done_ok"
  unfolding keep_def
  by (rule triple_bind [OF tri_guest_keep], rule tri_done, rule tri_assignment) (rule assms)

lemma tri_recover_vm: "vtri rq any (holds J L) (recover_vm rq) done_ok"
proof -
  have k: "vtri rq any (holds (\<lambda>i. i = j) L) (keep x) done_ok" if "may_publish rq j x" for j x
    by (rule tri_keep) (use that in simp)
  have st: "j_stage j \<in> PRE_ACCEPT" if "j_stage j \<notin> {VAccepted, VComplete}" "j_stage j \<notin> {VAdopted, VRecovered}"
    "j_stage j \<noteq> VRecoveryFailed" for j
    using that by (cases "j_stage j") (auto simp: PRE_ACCEPT_def)
  show ?thesis
    unfolding recover_vm_def
    by (rule tri_journal_of, intro triple_if k triple_raise tri_roll_back_vm st) (auto simp: PRE_ACCEPT_def)
qed

lemma tri_step: "vtri rq any (holds J L) (step rq a) done_ok"
proof -
  have d: "vtri rq any (holds K L) (check_deadline rq j) (\<lambda>_. holds K L)" for K j
    unfolding check_deadline_def by (rule triple_bind [OF tri_now], simp, rule triple_require_weaken)
  have c: "vtri rq any (holds K L) (check_controller j) (\<lambda>_. holds K L)" for K j
    unfolding check_controller_def by (rule triple_bind [OF tri_now], simp, rule triple_require_weaken)
  have seq: "vtri rq any (holds (\<lambda>i. i = j) L) (in_order [check_deadline rq j, check_controller j, advance rq a j]) done_ok" for j
    by (rule triple_in_order_Cons [OF d], rule triple_in_order_Cons [OF c],
        rule triple_in_order_Cons [OF tri_advance], rule triple_in_order_Nil)
  show ?thesis
    unfolding step_def by (rule tri_journal_of, intro triple_if tri_recover_vm seq)
qed


subsection \<open>First records and the runtime\<close>

definition unarmed :: "journal option \<times> vworld \<Rightarrow> bool" where
  "unarmed c \<longleftrightarrow> fst c = None \<and> w_journal (snd c) = None"

lemma stable_unarmed [simp]: "stable unarmed"
  by (simp add: stable_def unarmed_def)

lemma tri_first_journal:
  assumes "st \<in> {VArmed, VAdopted}"
  shows "vtri rq any unarmed (rbind now (\<lambda>t. record_journal (first_journal rq st t))) (\<lambda>_. holds (at st) UNIV)"
proof -
  have r: "vtri rq any unarmed (record_journal (first_journal rq st t)) (\<lambda>_. holds (at st) UNIV)" for t
  proof -
    have "vtri rq any (\<lambda>c. holds (\<lambda>_. False) UNIV c \<or> True \<and> c = (None, snd c) \<and> w_journal (snd c) = None \<and>
        set_option (w_live (snd c)) \<subseteq> UNIV) (record_journal (first_journal rq st t))
        (\<lambda>_. holds (\<lambda>i. i = first_journal rq st t) UNIV)"
      by (rule tri_record_journal)
        (use assms in \<open>auto simp: may_record_def first_journal_def any_def split: option.splits\<close>)
    then show ?thesis
      by (rule triple_weaken)
        (auto simp: unarmed_def at_def first_journal_def prod_eq_iff elim: holds_mono)
  qed
  show ?thesis by (rule triple_bind [OF tri_now r]) simp
qed

lemma tri_unarmed_guest:
  "vtri rq E unarmed (rbind (guest sides) (\<lambda>g. rrequire (P g) msg)) (\<lambda>_. unarmed)"
proof -
  have g: "vtri rq E unarmed (guest sides) (\<lambda>_. unarmed)"
    unfolding guest_def
    by (rule triple_bind [OF tri_check], simp, rule tripleI) (auto split: option.splits if_splits)
  show ?thesis by (rule triple_bind [OF g triple_require_weaken])
qed

lemma tri_fresh:
  "vtri rq any (\<lambda>c. fst c = w_journal (snd c)) (fresh msg) (\<lambda>_. unarmed)"
  by (rule tripleI) (auto simp: fresh_def rrequire_def rreturn_def raise_def vobs_def unarmed_def split: if_splits)

definition loaded :: "journal option \<times> vworld \<Rightarrow> bool" where
  "loaded c \<longleftrightarrow> fst c = w_journal (snd c)"

lemma tri_fresh_check:
  "vtri rq any loaded (rrequire b msg) (\<lambda>_. loaded)"
  "vtri rq any loaded (fresh msg) (\<lambda>_. unarmed)"
  "vtri rq any unarmed (discard (check n)) (\<lambda>_. unarmed)"
  by (rule triple_require_weaken, assumption)
    (use tri_fresh in \<open>simp add: loaded_def [abs_def]\<close>, rule tri_discard, rule tri_check, simp)

lemma tri_arm: "vtri rq any loaded (arm rq) done_ok"
  unfolding arm_def
  by (rule tri_done) (rule vm_sequence tri_fresh_check tri_unarmed_guest tri_first_journal tri_check_keep
      tri_stage [where K = "at VArmed"] | simp add: at_def next_stage.intros)+

lemma tri_adopt_old: "vtri rq any loaded (adopt_old rq) done_ok"
  unfolding adopt_old_def
  by (rule tri_done) (rule vm_sequence tri_fresh_check tri_unarmed_guest tri_first_journal tri_check_keep
      tri_assignment | simp add: at_def)+

definition side_of :: "journal \<Rightarrow> vside" where
  "side_of j = (if j_stage j = VComplete then NewVm else OldVm)"

lemma side_of_allows:
  assumes "j_stage j \<in> {VAdopted, VComplete, VRecovered}"
  shows "may_publish rq j (side_of j)" "may_start rq j (side_of j)" "may_stop j (side_of j) True"
  using assms by (auto simp: side_of_def)

lemma tri_set_running:
  assumes "j_stage j \<in> {VAdopted, VComplete, VRecovered}" "set_option g \<subseteq> {side_of j}"
  shows "vtri rq any (holds (\<lambda>i. i = j) (set_option g))
    (if \<not> b \<and> g \<noteq> None then stop (side_of j) True else if b \<and> g = None then start (side_of j) else rreturn ())
    done_ok"
proof -
  have stop: "vtri rq any (holds (\<lambda>i. i = j) {side_of j}) (stop (side_of j) True) done_ok"
    by (rule tri_done, rule tri_stop) (simp add: side_of_allows(3) [OF assms(1)])
  have start: "vtri rq any (holds (\<lambda>i. i = j) {}) (start (side_of j)) done_ok"
    by (rule tri_done, rule tri_start) (simp add: side_of_allows(2) [OF assms(1)])
  have ret: "vtri rq any P (rreturn ()) done_ok" for P :: "journal option \<times> vworld \<Rightarrow> bool"
    by (rule triple_return) simp
  show ?thesis
  proof (cases g)
    case None
    then show ?thesis using start ret by (cases b) simp_all
  next
    case (Some x)
    with assms(2) have "x = side_of j" by simp
    with Some show ?thesis using stop ret by (cases b) simp_all
  qed
qed

lemma tri_reconcile: "vtri rq any (holds J L) (reconcile_assignment b) done_ok"
proof -
  have p: "vtri rq any (holds (\<lambda>i. i = j) L) (if flag then assignment (side_of j) else rreturn ())
      (\<lambda>_. holds (\<lambda>i. i = j) L)" if "j_stage j \<in> {VAdopted, VComplete, VRecovered}" for j flag
    by (rule triple_if, rule tri_assignment, use side_of_allows(1) [OF that] in simp) (rule triple_return)
  have g: "vtri rq any (holds (\<lambda>i. i = j) L) (guest [side_of j])
      (\<lambda>g c. holds (\<lambda>i. i = j) (set_option g) c \<and> set_option g \<subseteq> {side_of j})" for j
    by (rule triple_weaken [OF tri_guest]) (auto elim: holds_mono)
  have m: "vtri rq any (\<lambda>c. holds (\<lambda>i. i = j) (set_option g) c \<and> set_option g \<subseteq> {side_of j})
    (if \<not> b \<and> g \<noteq> None then stop (side_of j) True else if b \<and> g = None then start (side_of j) else rreturn ())
    done_ok" if "j_stage j \<in> {VAdopted, VComplete, VRecovered}" for j g
  proof (cases "set_option g \<subseteq> {side_of j}")
    case True
    show ?thesis by (rule triple_weaken [OF tri_set_running [OF that True]]) auto
  next
    case False
    then show ?thesis by (simp add: triple_def)
  qed
  have body: "vtri rq any (holds (\<lambda>i. i = j) L)
    (rbind (check ''intent'') (\<lambda>r.
    rbind (if vr_flag r then assignment (side_of j) else rreturn ()) (\<lambda>_.
    rbind (guest [side_of j]) (\<lambda>g.
    rbind (if \<not> b \<and> g \<noteq> None then stop (side_of j) True
           else if b \<and> g = None then start (side_of j) else rreturn ()) (\<lambda>_.
    discard (check ''report''))))))
    done_ok" if "j_stage j \<in> {VAdopted, VComplete, VRecovered}" for j
    by (rule triple_bind [OF tri_check], simp, rule triple_bind [OF p [OF that]], rule triple_bind [OF g],
        rule triple_bind [OF m [OF that]], rule tri_discard, rule tri_check) (simp add: stable_def)
  show ?thesis
    unfolding reconcile_assignment_def Let_def side_of_def [symmetric]
    by (rule tri_journal_of, rule triple_require_then, rule body)
qed


section \<open>Histories are safe\<close>

lemma load_ok: "vm_safe rq s \<Longrightarrow> vm_ok rq any (load rs s)"
  by (simp add: vm_ok_def vm_safe_def load_def any_def)

text \<open>A command on a state just loaded: there is a journal in memory, or the command refuses.\<close>

lemma tri_journal_loaded:
  assumes "vtri rq any (holds (\<lambda>_. True) UNIV) (journal_of f msg) Q"
  shows "vtri rq any loaded (journal_of f msg) Q"
proof (rule tripleI)
  fix s r s' assume s: "vm_ok rq any s" "loaded (vobs s)" "journal_of f msg s = (r, s')"
  show "vm_ok rq any s' \<and> (\<forall>x. r = Inr x \<longrightarrow> Q x (vobs s'))"
  proof (cases "vm_memory s")
    case None
    with s(1,3) show ?thesis by (auto simp: journal_of_def raise_def)
  next
    case (Some j)
    with s(2) have "holds (\<lambda>_. True) UNIV (vobs s)"
      by (simp add: holds_def loaded_def vobs_def) (metis Some)
    from tripleD [OF assms s(1) this s(3)] show ?thesis .
  qed
qed

lemma stable_loaded [simp]: "stable loaded"
  by (simp add: stable_def loaded_def)

lemma tri_loaded_command:
  "vtri rq any loaded (step rq a) done_ok" "vtri rq any loaded (reconcile_assignment b) done_ok"
  unfolding step_def reconcile_assignment_def
  by (rule tri_journal_loaded, rule tri_step [unfolded step_def])
    (rule tri_journal_loaded, rule tri_reconcile [unfolded reconcile_assignment_def])

lemma tri_run_command: "vtri rq any loaded (run_command rq c) done_ok"
proof -
  have chk: "vtri rq any loaded (discard (check n)) (\<lambda>_. loaded)" for n
    by (rule tri_discard, rule tri_check) simp
  show ?thesis
    by (cases c; simp only: run_command.simps)
      (rule vm_sequence chk tri_fresh_check(1) tri_arm tri_adopt_old tri_loaded_command)+
qed

lemma run_command_ok:
  assumes "vm_safe rq s"
  shows "vm_safe rq (snd (run_command rq c (load rs s)))"
  using tripleD [OF tri_run_command load_ok [OF assms] _ prod.collapse [symmetric], of rs c]
  by (simp add: loaded_def vobs_def load_def vm_ok_def)

text \<open>Operations as a guarded machine.\<close>

interpretation vm: guarded_machine "\<lambda>s c. Inr (invoke rq s c)"
  "\<lambda>s. \<exists>live. live \<noteq> Some NewVm \<and> s = vm_initial live" "vm_safe rq" for rq
proof
  show "vm_safe rq s" if "\<exists>live. live \<noteq> Some NewVm \<and> s = vm_initial live" for s
    using that by (auto simp: vm_safe_def vm_initial_def log_safe_def)
  show "vm_safe rq s'" if "vm_safe rq s" "Inr (invoke rq s c) = (Inr s' :: vst res)" for s c s'
    using that by (cases c) (auto simp: invoke_def run_command_ok)
qed

lemma operations_reach: "operations rq s \<Longrightarrow> vm.reach rq s"
proof (induction rule: operations.induct)
  case (install live)
  show ?case by (rule vm.reach.start) (use install in blast)
next
  case (command s cmd)
  show ?case by (rule vm.reach.step [OF command.IH refl])
qed

lemma operations_ok: "operations rq s \<Longrightarrow> vm_safe rq s"
  by (rule vm.reach_inv) (rule operations_reach)

end
