(* ===== verification/Vm_Runs.thy ===== *)
theory Vm_Runs
  imports Vm_Update
begin

text \<open>
  The properties of \<open>Vm_Update\<close> over all histories: what an event in the log implies, the point of no
  return, the finality of a failed recovery, and that recovery and replacement complete
  when every interaction succeeds.
\<close>

section \<open>Stages never leave a closed set\<close>

definition closed_stages :: "vm_request \<Rightarrow> vstage set \<Rightarrow> bool" where
  "closed_stages rq S \<longleftrightarrow> (\<forall>x y. x \<in> S \<longrightarrow> next_stage (service_kind rq) x y \<longrightarrow> y \<in> S)"

inductive_cases next_stageE: "next_stage service x y"

lemma closed_accepted: "closed_stages rq {VAccepted, VComplete}"
  by (auto simp: closed_stages_def PRE_ACCEPT_def elim: next_stageE)

lemma closed_service: "service_kind rq \<Longrightarrow> closed_stages rq POST_BOOT"
  by (auto simp: closed_stages_def POST_BOOT_def elim: next_stageE)

lemma closed_failed: "closed_stages rq {VRecoveryFailed}"
  by (auto simp: closed_stages_def PRE_ACCEPT_def elim: next_stageE)

lemma durably_step:
  assumes "closed_stages rq S" "durably w (\<lambda>j. j_stage j \<in> S)" "may_happen rq w e"
  shows "durably (vworld_step w e) (\<lambda>j. j_stage j \<in> S)"
proof (cases e)
  case (Journal j r)
  with assms show ?thesis
    by (auto simp: durably_def may_record_def closed_stages_def)
qed (use assms in \<open>auto simp: durably_def\<close>)

lemma durably_run:
  assumes "closed_stages rq S"
  shows "run_from w l w' \<Longrightarrow> \<forall>x\<in>set l. may_happen rq (fst x) (snd x) \<Longrightarrow> durably w (\<lambda>j. j_stage j \<in> S) \<Longrightarrow>
    x \<in> set l \<Longrightarrow> durably (fst x) (\<lambda>j. j_stage j \<in> S)"
proof (induction l arbitrary: w)
  case (Cons y l)
  then show ?case using durably_step [OF assms] by auto
qed simp

lemma closed_history:
  assumes "operations rq s" "vm_log s = xs @ (w, e) # ys" "closed_stages rq S" "durably w (\<lambda>j. j_stage j \<in> S)"
    and "(w', e') \<in> set ys"
  shows "durably w' (\<lambda>j. j_stage j \<in> S) \<and> may_happen rq w' e'"
proof -
  have safe: "log_safe rq (xs @ (w, e) # ys) (vm_world s)"
    using operations_ok [OF assms(1)] assms(2) by (simp add: vm_safe_def)
  then obtain w2 where "run_from w2 ((w, e) # ys) (vm_world s)"
    by (auto simp: log_safe_def run_from_append)
  then have "run_from w ((w, e) # ys) (vm_world s)" by simp
  moreover have all: "\<forall>x\<in>set (xs @ (w, e) # ys). may_happen rq (fst x) (snd x)"
    using safe by (simp add: log_safe_def)
  ultimately have "durably (fst (w', e')) (\<lambda>j. j_stage j \<in> S)"
    by (intro durably_run [OF assms(3) _ _ assms(4), of "(w, e) # ys" "vm_world s"]) (use assms(5) in simp_all)
  moreover have "may_happen rq (fst (w', e')) (snd (w', e'))"
    by (rule bspec [OF all]) (use assms(5) in simp)
  ultimately show ?thesis by simp
qed

lemma history_event: "operations rq s \<Longrightarrow> (w, e) \<in> set (vm_log s) \<Longrightarrow> may_happen rq w e"
  using operations_ok by (fastforce simp: vm_safe_def log_safe_def)


section \<open>Runs in which every interaction succeeds\<close>

definition fine :: "int \<Rightarrow> vreply" where
  "fine t = \<lparr>vr_died = False, vr_res = Fine, vr_now = t, vr_flag = True, vr_text = ''evidence''\<rparr>"

lemma fine_simps [simp]:
  "vr_died (fine t) = False" "vr_res (fine t) = Fine" "vr_now (fine t) = t" "vr_flag (fine t)"
  "vr_text (fine t) = ''evidence''"
  by (simp_all add: fine_def)

definition smooth :: "int \<Rightarrow> nat \<Rightarrow> journal \<Rightarrow> vside option \<Rightarrow> vside option \<Rightarrow> vst \<Rightarrow> bool" where
  "smooth t n j live asg s \<longleftrightarrow> vm_memory s = Some j \<and> w_journal (vm_world s) = Some j \<and>
     w_live (vm_world s) = live \<and> w_assigned (vm_world s) = asg \<and> vm_replies s = replicate n (fine t)"

definition leads :: "('a \<Rightarrow> vst \<Rightarrow> bool) \<Rightarrow> (stop + 'a) \<times> vst \<Rightarrow> bool" where
  "leads Q r \<longleftrightarrow> (\<exists>x s'. r = (Inr x, s') \<and> Q x s')"

lemma lead_bindI: "m s = (Inr x, s') \<Longrightarrow> leads Q (f x s') \<Longrightarrow> leads Q (rbind m f s)"
  by (simp add: rbind_def)

lemma lead_last: "leads Q (rbind m rreturn s) \<Longrightarrow> leads Q (m s)"
  by (auto simp: leads_def rbind_def rreturn_def split: prod.splits sum.splits)

lemma lead_return: "Q x s \<Longrightarrow> leads Q (rreturn x s)"
  by (simp add: leads_def rreturn_def)

lemma rbind_simps [simp]:
  "rbind (rreturn x) f = f x" "rbind (rrequire True msg) h = h ()"
  "rbind (rbind m g) k = rbind m (\<lambda>x. rbind (g x) k)"
  by (auto simp: fun_eq_iff rbind_def rreturn_def rrequire_def split: prod.splits sum.splits)

lemma rbind_return [simp]: "rbind m rreturn = m" "rbind (m' :: (vst, unit) run) (\<lambda>_. rreturn ()) = m'"
  by (auto simp: fun_eq_iff rbind_def rreturn_def split: prod.splits sum.splits)

lemmas vrun_defs = rbind_def rreturn_def raise_def rrequire_def next_reply_def emit_def log_event_def refused_if_def
  now_def check_def guest_def record_journal_def assignment_def start_def stop_def journal_of_def
  record_stage_def discard_def Let_def

lemma smooth_now:
  assumes "smooth t (Suc n) j l a s" and "\<And>s'. smooth t n j l a s' \<Longrightarrow> leads Q (f t s')"
  shows "leads Q (rbind now f s)"
  by (rule lead_bindI [where x = "t" and s' = "s\<lparr>vm_replies := replicate n (fine t)\<rparr>"],
      use assms(1) in \<open>auto simp: smooth_def vrun_defs split: option.splits\<close>, rule assms(2),
      use assms(1) in \<open>auto simp: smooth_def log_event_def\<close>)

lemma smooth_check:
  assumes "smooth t (Suc n) j l a s" and "\<And>s'. smooth t n j l a s' \<Longrightarrow> leads Q (f (fine t) s')"
  shows "leads Q (rbind (check name) f s)"
  by (rule lead_bindI [where x = "fine t" and s' = "log_event (Check name Fine) (s\<lparr>vm_replies := replicate n (fine t)\<rparr>)"],
      use assms(1) in \<open>auto simp: smooth_def vrun_defs split: option.splits\<close>, rule assms(2),
      use assms(1) in \<open>auto simp: smooth_def log_event_def\<close>)

lemma smooth_guest:
  assumes "smooth t (Suc n) j l a s" "set_option l \<subseteq> set sides" and "\<And>s'. smooth t n j l a s' \<Longrightarrow> leads Q (f l s')"
  shows "leads Q (rbind (guest sides) f s)"
  by (rule lead_bindI [where x = "l" and s' = "log_event (Check ''guest'' Fine) (s\<lparr>vm_replies := replicate n (fine t)\<rparr>)"],
      use assms(1,2) in \<open>cases l; simp add: smooth_def vrun_defs\<close>, rule assms(3),
      use assms(1,2) in \<open>auto simp: smooth_def log_event_def\<close>)

lemma smooth_assignment:
  assumes "smooth t (Suc n) j l a s" and "\<And>s'. smooth t n j l (Some x) s' \<Longrightarrow> leads Q (f () s')"
  shows "leads Q (rbind (assignment x) f s)"
  by (rule lead_bindI [where x = "()" and s' = "log_event (Publish x Fine) (s\<lparr>vm_replies := replicate n (fine t)\<rparr>)"],
      use assms(1) in \<open>auto simp: smooth_def vrun_defs split: option.splits\<close>, rule assms(2),
      use assms(1) in \<open>auto simp: smooth_def log_event_def\<close>)

lemma smooth_start:
  assumes "smooth t (Suc n) j l a s" and "\<And>s'. smooth t n j (Some x) a s' \<Longrightarrow> leads Q (f () s')"
  shows "leads Q (rbind (start x) f s)"
  by (rule lead_bindI [where x = "()" and s' = "log_event (StartVm x Fine) (s\<lparr>vm_replies := replicate n (fine t)\<rparr>)"],
      use assms(1) in \<open>auto simp: smooth_def vrun_defs split: option.splits\<close>, rule assms(2),
      use assms(1) in \<open>auto simp: smooth_def log_event_def\<close>)

lemma smooth_stop:
  assumes "smooth t (Suc n) j (Some y) a s" and "\<And>s'. smooth t n j None a s' \<Longrightarrow> leads Q (f () s')"
  shows "leads Q (rbind (stop x g) f s)"
  by (rule lead_bindI [where x = "()" and s' = "log_event (StopVm x g Fine) (s\<lparr>vm_replies := replicate n (fine t)\<rparr>)"],
      use assms(1) in \<open>auto simp: smooth_def vrun_defs split: option.splits\<close>, rule assms(2),
      use assms(1) in \<open>auto simp: smooth_def log_event_def\<close>)

lemma smooth_stage:
  assumes "smooth t (Suc n) j l a s" and "\<And>s'. smooth t n (h (j\<lparr>j_stage := st\<rparr>)) l a s' \<Longrightarrow> leads Q (f () s')"
  shows "leads Q (rbind (record_stage st h) f s)"
  by (rule lead_bindI [where x = "()" and s' = "(log_event (Journal (h (j\<lparr>j_stage := st\<rparr>)) Fine) (s\<lparr>vm_replies := replicate n (fine t)\<rparr>))\<lparr>vm_memory := Some (h (j\<lparr>j_stage := st\<rparr>))\<rparr>"],
      use assms(1) in \<open>auto simp: smooth_def vrun_defs split: option.splits\<close>, rule assms(2),
      use assms(1) in \<open>auto simp: smooth_def log_event_def\<close>)

lemma smooth_journal: "smooth t n j l a s \<Longrightarrow> leads Q (f j s) \<Longrightarrow> leads Q (journal_of f msg s)"
  by (simp add: smooth_def journal_of_def)

lemmas smooth_rules = smooth_now smooth_check smooth_assignment smooth_start smooth_stop smooth_stage

lemmas smooth_steps = smooth_rules smooth_guest

lemma smooth_last:
  "smooth t (Suc n) j l a s \<Longrightarrow>
   leads (\<lambda>_ s'. \<exists>n. smooth t n (h (j\<lparr>j_stage := st\<rparr>)) l a s') (record_stage st h s)"
  by (rule lead_last, erule smooth_stage, rule lead_return) blast

lemma recover_old_done:
  assumes s: "smooth t (n + 15) j l a s" and t: "t < started + vq_recovery_seconds rq"
  shows "leads (\<lambda>_ s'. \<exists>n i. j_stage i = VRecovered \<and> smooth t n i (Some OldVm) (Some OldVm) s')
    (recover_old rq started pending s)"
proof -
  from s obtain m where m: "smooth t (Suc (Suc (Suc (Suc (Suc (Suc (Suc (Suc (Suc (Suc (Suc (Suc m)))))))))))) j l a s"
    by (simp add: eval_nat_numeral)
  consider "l = None" | "l = Some OldVm" | "l = Some NewVm" by (cases l) (use vside.exhaust in auto)
  then show ?thesis
    using m t
    by cases (cases pending; simp add: recover_old_def within_recovery_def;
      ((rule smooth_steps, (assumption | (simp; fail))+) | simp add: finish_shutdown_def)+;
      rule lead_last, erule smooth_stage, rule lead_return, force)+
qed

lemma leads_catch: "leads Q (m s) \<Longrightarrow> leads Q (catch m h s)"
  by (auto simp: leads_def catch_def)

lemma leads_bind: "leads R (m s) \<Longrightarrow> (\<And>x s'. R x s' \<Longrightarrow> leads Q (f x s')) \<Longrightarrow> leads Q (rbind m f s)"
  by (auto simp: leads_def rbind_def)

lemma recover_vm_done:
  assumes s: "smooth t (n + 17) j l a s"
    and j: "j_stage j \<in> PRE_ACCEPT" "\<not> (service_kind rq \<and> j_stage j \<in> POST_BOOT)"
    and t: "t < (case j_recovery_started_at j of None \<Rightarrow> t | Some x \<Rightarrow> x) + vq_recovery_seconds rq"
  shows "leads (\<lambda>_ s'. \<exists>n i. j_stage i = VRecovered \<and> smooth t n i (Some OldVm) (Some OldVm) s') (recover_vm rq s)"
proof -
  from s have m: "smooth t (Suc (Suc (n + 15))) j l a s" by (simp add: eval_nat_numeral)
  have "leads (\<lambda>_ s'. \<exists>n i. j_stage i = VRecovered \<and> smooth t n i (Some OldVm) (Some OldVm) s') (roll_back_vm rq j s)"
    unfolding roll_back_vm_def Let_def
    by (rule smooth_now [OF m], erule smooth_stage, rule leads_catch, erule recover_old_done, rule t)
  then show ?thesis
    using j unfolding recover_vm_def
    by (intro smooth_journal [OF s]) (auto simp: PRE_ACCEPT_def)
qed

lemma in_order_rbind [simp]: "rbind (in_order (m # ms)) f = rbind m (\<lambda>_. rbind (in_order ms) f)"
  "rbind (in_order []) h = h ()"
  by simp_all

lemma smooth_journal_bind: "smooth t n j l a s \<Longrightarrow> leads Q (rbind (g j) f s) \<Longrightarrow>
    leads Q (rbind (journal_of g msg) f s)"
  by (simp add: rbind_def smooth_def journal_of_def)

text \<open>One command of a process that loads the durable journal, with successful replies.\<close>

definition world_is :: "journal \<Rightarrow> vside option \<Rightarrow> vside option \<Rightarrow> vst \<Rightarrow> bool" where
  "world_is j l a s \<longleftrightarrow> w_journal (vm_world s) = Some j \<and> w_live (vm_world s) = l \<and> w_assigned (vm_world s) = a"

lemma invoke_step:
  assumes "world_is j l a s"
    and "\<And>s'. smooth t (Suc (Suc (Suc (Suc (Suc (Suc (Suc (Suc (Suc m))))))))) j l a s' \<Longrightarrow>
      leads (\<lambda>_ s'. \<exists>n. smooth t n j' l' a' s') (step rq b s')"
  shows "world_is j' l' a' (invoke rq s (CmdStep b, replicate (m + 11) (fine t)))"
proof -
  have "smooth t (Suc (Suc (Suc (Suc (Suc (Suc (Suc (Suc (Suc (Suc (Suc m))))))))))) j l a (load (replicate (m + 11) (fine t)) s)"
    using assms(1) by (simp add: smooth_def load_def world_is_def eval_nat_numeral)
  then have "leads (\<lambda>_ s'. \<exists>n. smooth t n j' l' a' s') (run_command rq (CmdStep b) (load (replicate (m + 11) (fine t)) s))"
    unfolding run_command.simps in_order.simps discard_def rbind_simps rbind_return
    by (elim smooth_check) (rule assms(2))
  then show ?thesis
    by (auto simp: leads_def invoke_def world_is_def smooth_def)
qed

lemmas step_defs = step_def check_deadline_def check_controller_def advance_def
  stop_old_def start_new_def tested_def accept_new_def complete_def discard_def expect_def
  PRE_ACCEPT_def POST_BOOT_def

lemma stop_done:
  assumes "world_is j (Some OldVm) a s" "t < j_deadline j" "\<not> controller_lost j t" "j_stage j = VArmed"
  shows "world_is (j\<lparr>j_stage := VStopped, j_old_shutdown_pending := Some False\<rparr>) None a (invoke rq s (CmdStep StopOld, replicate (m + 11) (fine t)))"
proof (rule invoke_step [OF assms(1)])
  fix s' assume "smooth t (Suc (Suc (Suc (Suc (Suc (Suc (Suc (Suc (Suc m))))))))) j (Some OldVm) a s'"
  with assms(2-) show "leads (\<lambda>_ s'. \<exists>n. smooth t n (j\<lparr>j_stage := VStopped, j_old_shutdown_pending := Some False\<rparr>) None a s') (step rq StopOld s')"
    by - (simp add: step_defs, rule smooth_journal, assumption,
      ((rule smooth_steps, (assumption | (simp; fail))+) | simp add: step_defs)+,
      rule lead_last, rule smooth_rules, assumption, rule lead_return, rule exI, simp)
qed

lemma start_done:
  assumes "world_is j None a s" "t < j_deadline j" "\<not> controller_lost j t" "j_stage j = VStopped"
  shows "world_is (j\<lparr>j_stage := VBooted\<rparr>) (Some NewVm) (if service_kind rq then Some NewVm else a) (invoke rq s (CmdStep StartNew, replicate (m + 11) (fine t)))"
proof (rule invoke_step [OF assms(1)])
  fix s' assume "smooth t (Suc (Suc (Suc (Suc (Suc (Suc (Suc (Suc (Suc m))))))))) j None a s'"
  with assms(2-) show "leads (\<lambda>_ s'. \<exists>n. smooth t n (j\<lparr>j_stage := VBooted\<rparr>) (Some NewVm) (if service_kind rq then Some NewVm else a) s') (step rq StartNew s')"
    by (cases "service_kind rq") (simp add: step_defs, rule smooth_journal, assumption,
      ((rule smooth_steps, (assumption | (simp; fail))+) | simp add: step_defs)+,
      rule lead_last, rule smooth_rules, assumption, rule lead_return, rule exI, simp)+
qed

lemma tested_done:
  assumes "world_is j (Some NewVm) a s" "t < j_deadline j" "\<not> controller_lost j t" "j_stage j = VBooted"
  shows "world_is (j\<lparr>j_stage := VTested, j_checks_sha256 := Some ''evidence''\<rparr>) (Some NewVm) a (invoke rq s (CmdStep Tested, replicate (m + 11) (fine t)))"
proof (rule invoke_step [OF assms(1)])
  fix s' assume "smooth t (Suc (Suc (Suc (Suc (Suc (Suc (Suc (Suc (Suc m))))))))) j (Some NewVm) a s'"
  with assms(2-) show "leads (\<lambda>_ s'. \<exists>n. smooth t n (j\<lparr>j_stage := VTested, j_checks_sha256 := Some ''evidence''\<rparr>) (Some NewVm) a s') (step rq Tested s')"
    by - (simp add: step_defs, rule smooth_journal, assumption,
      ((rule smooth_steps, (assumption | (simp; fail))+) | simp add: step_defs)+,
      rule lead_last, rule smooth_rules, assumption, rule lead_return, rule exI, simp)
qed

lemma accept_done:
  assumes "world_is j (Some NewVm) a s" "t < j_deadline j" "\<not> controller_lost j t" "j_stage j = VTested"
    "j_checks_sha256 j = Some ''evidence''"
  shows "world_is (j\<lparr>j_stage := VAccepted\<rparr>) (Some NewVm) (Some NewVm) (invoke rq s (CmdStep Accept, replicate (m + 11) (fine t)))"
proof (rule invoke_step [OF assms(1)])
  fix s' assume "smooth t (Suc (Suc (Suc (Suc (Suc (Suc (Suc (Suc (Suc m))))))))) j (Some NewVm) a s'"
  with assms(2-) show "leads (\<lambda>_ s'. \<exists>n. smooth t n (j\<lparr>j_stage := VAccepted\<rparr>) (Some NewVm) (Some NewVm) s') (step rq Accept s')"
    by - (simp add: step_defs, rule smooth_journal, assumption,
      ((rule smooth_steps, (assumption | (simp; fail))+) | simp add: step_defs)+,
      rule lead_last, rule smooth_rules, assumption, rule lead_return, rule exI, simp)
qed

lemma complete_done:
  assumes "world_is j (Some NewVm) a s" "t < j_deadline j" "\<not> controller_lost j t" "j_stage j = VAccepted"
  shows "world_is (j\<lparr>j_stage := VComplete\<rparr>) (Some NewVm) (Some NewVm) (invoke rq s (CmdStep Complete, replicate (m + 11) (fine t)))"
proof (rule invoke_step [OF assms(1)])
  fix s' assume "smooth t (Suc (Suc (Suc (Suc (Suc (Suc (Suc (Suc (Suc m))))))))) j (Some NewVm) a s'"
  with assms(2-) show "leads (\<lambda>_ s'. \<exists>n. smooth t n (j\<lparr>j_stage := VComplete\<rparr>) (Some NewVm) (Some NewVm) s') (step rq Complete s')"
    by - (simp add: step_defs, rule smooth_journal, assumption,
      ((rule smooth_steps, (assumption | (simp; fail))+) | simp add: step_defs)+,
      rule lead_last, rule smooth_rules, assumption, rule lead_return, rule exI, simp)
qed


section \<open>Properties\<close>

definition sample_vm :: vm_request where
  "sample_vm = \<lparr>vq_kind = Service, vq_role = ''ops'', vq_autostart = True,
     vq_replacement_seconds = 600, vq_recovery_seconds = 600\<rparr>"

definition sample_commands :: "command list" where
  "sample_commands = [CmdArm, CmdStep StopOld, CmdStep StartNew, CmdStep Tested, CmdStep Accept, CmdStep Complete]"

definition sample_run :: vst where
  "sample_run = foldl (\<lambda>s c. invoke sample_vm s (c, replicate 15 (fine 0))) (vm_initial (Some OldVm)) sample_commands"

lemma sample_operations [simp]: "operations sample_vm sample_run"
  unfolding sample_run_def sample_commands_def foldl.simps
  by (intro operations.intros) simp

abbreviation entry :: "nat \<Rightarrow> vworld \<times> vevent" where
  "entry k \<equiv> vm_log sample_run ! k"

lemma sample_log:
  "length (vm_log sample_run) = 40 \<and> snd (entry 21) = StartVm NewVm Fine \<and> snd (entry 12) = StopVm OldVm True Fine \<and>
   map_option j_stage (w_journal (fst (entry 20))) = Some VStarting \<and>
   map_option j_stage (w_journal (fst (entry 12))) = Some VStopping \<and>
   map_option j_stage (w_journal (vm_world sample_run)) = Some VComplete"
  unfolding sample_run_def sample_commands_def by code_simp

lemma sample_entry: "k < 40 \<Longrightarrow> (fst (entry k), snd (entry k)) \<in> set (vm_log sample_run)"
  using sample_log by simp

lemma sample_split: "k < 40 \<Longrightarrow>
    vm_log sample_run = take k (vm_log sample_run) @ (fst (entry k), snd (entry k)) # drop (Suc k) (vm_log sample_run)"
  using sample_log by (simp add: id_take_nth_drop)

text \<open>C3. A guest is created only while no guest holds the disks. The candidate is created only when the
  durable journal says that its start was recorded; the old guest only when the journal says that an
  old-guest shutdown is no longer pending during a recovery, or that the operation ended with the
  old generation.\<close>

theorem starts_are_fenced:
  assumes "operations rq s" "(w, StartVm x r) \<in> set (vm_log s)"
  shows "w_live w = None \<and> (\<exists>j. w_journal w = Some j \<and>
    (case x of
       NewVm \<Rightarrow> j_stage j \<in> {VStarting, VComplete} \<or> service_kind rq \<and> j_stage j = VBooted
     | OldVm \<Rightarrow> j_stage j \<in> {VAdopted, VRecovered} \<or> j_stage j = VRecovering \<and> j_old_shutdown_pending j = Some False))"
  using history_event [OF assms] by (cases x) (auto simp: durably_def)

lemma starts_are_fenced_witness: "w_live (fst (entry 21)) = None"
  using starts_are_fenced [OF sample_operations, of "fst (entry 21)" NewVm Fine] sample_entry [of 21] sample_log by simp

text \<open>C17. A running guest is stopped only when the durable journal allows it. The old guest is only ever stopped
  gracefully: while the replacement or its recovery is under way, only after the shutdown was recorded as pending;
  otherwise only after the operation ended with it, adopted or recovered, when it is stopped to follow the intended
  runtime state. The candidate is stopped only in a recorded recovery, or gracefully after the operation is
  complete.\<close>

theorem stops_are_recorded:
  assumes "operations rq s" "(w, StopVm x g r) \<in> set (vm_log s)"
  shows "w_live w = Some x \<and> (\<exists>j. w_journal w = Some j \<and>
    (case x of
       NewVm \<Rightarrow> j_stage j = VRecovering \<or> j_stage j = VComplete \<and> g
     | OldVm \<Rightarrow> g \<and> (j_stage j \<in> {VAdopted, VRecovered} \<or>
         j_stage j \<in> {VStopping, VRecovering} \<and> j_old_shutdown_pending j = Some True)))"
  using history_event [OF assms] by (cases x) (auto simp: durably_def)

lemma stops_are_recorded_witness: "w_live (fst (entry 12)) = Some OldVm"
  using stops_are_recorded [OF sample_operations, of "fst (entry 12)" OldVm True Fine] sample_entry [of 12] sample_log
  by simp

text \<open>C2. The point of no return: once the durable journal says accepted (for the service kinds, already
  once it says that the candidate is being started), no later command, failure or crash leads to the
  old guest being created or its definition being published again.\<close>

theorem point_of_no_return:
  assumes "operations rq s" "vm_log s = xs @ (w, e) # ys" "w_journal w = Some j"
    and "j_stage j \<in> {VAccepted, VComplete} \<or> service_kind rq \<and> j_stage j \<in> POST_BOOT"
    and "(w', e') \<in> set ys"
  shows "e' \<noteq> StartVm OldVm r \<and> e' \<noteq> Publish OldVm r"
proof -
  obtain S where S: "closed_stages rq S" "j_stage j \<in> S" "S \<subseteq> POST_BOOT"
    using assms(4) closed_accepted closed_service by (auto simp: POST_BOOT_def)
  have "durably w (\<lambda>j. j_stage j \<in> S)" using assms(3) S(2) by (simp add: durably_def)
  from closed_history [OF assms(1,2) S(1) this assms(5)] S(3) show ?thesis
    by (auto simp: durably_def POST_BOOT_def)
qed

lemma point_of_no_return_witness: "snd (entry 39) \<noteq> Publish OldVm Fine"
proof -
  obtain j where j: "w_journal (fst (entry 20)) = Some j" "j_stage j = VStarting"
    using sample_log by auto
  have "(fst (entry 39), snd (entry 39)) \<in> set (drop (Suc 20) (vm_log sample_run))"
    using sample_log by (auto simp: in_set_conv_nth intro!: exI [of _ 18])
  moreover have "(20::nat) < 40" by simp
  ultimately have "snd (entry 39) \<noteq> StartVm OldVm Fine \<and> snd (entry 39) \<noteq> Publish OldVm Fine"
    using point_of_no_return [OF sample_operations sample_split j(1)] j(2)
    by (simp add: sample_vm_def service_kind_def POST_BOOT_def) (metis prod.collapse)
  then show ?thesis by simp
qed

text \<open>Once a recovery has durably failed, no guest is created or stopped and no definition is published.\<close>

theorem failed_vm_recovery_is_final:
  assumes "operations rq s" "vm_log s = xs @ (w, e) # ys" "w_journal w = Some j" "j_stage j = VRecoveryFailed"
    and "(w', e') \<in> set ys"
  shows "e' \<noteq> StartVm x r \<and> e' \<noteq> StopVm x g r \<and> e' \<noteq> Publish x r"
proof -
  have "durably w (\<lambda>j. j_stage j \<in> {VRecoveryFailed})" using assms(3,4) by (simp add: durably_def)
  from closed_history [OF assms(1,2) closed_failed this assms(5)] show ?thesis
    by (cases x) (auto simp: durably_def POST_BOOT_def)
qed

definition failed_run :: vst where
  "failed_run = foldl (\<lambda>s c. invoke sample_vm s c) (vm_initial (Some OldVm))
     [(CmdArm, replicate 15 (fine 0)), (CmdStep Recover, replicate 4 (fine 0) @ [fine 700] @ replicate 3 (fine 0)),
      (CmdStep Recover, replicate 9 (fine 0))]"

lemma failed_run_log:
  "length (vm_log failed_run) = 13 \<and> map_option j_stage (w_journal (fst (vm_log failed_run ! 11))) = Some VRecoveryFailed"
  unfolding failed_run_def by code_simp

lemma failed_vm_recovery_is_final_witness: "snd (vm_log failed_run ! 12) \<noteq> StartVm OldVm Fine"
proof -
  obtain j where j: "w_journal (fst (vm_log failed_run ! 11)) = Some j" "j_stage j = VRecoveryFailed"
    using failed_run_log by auto
  have op: "operations sample_vm failed_run"
    unfolding failed_run_def foldl.simps by (intro operations.intros) simp
  have split: "vm_log failed_run = take 11 (vm_log failed_run) @
      (fst (vm_log failed_run ! 11), snd (vm_log failed_run ! 11)) # drop (Suc 11) (vm_log failed_run)"
    using failed_run_log by (simp only: prod.collapse) (rule id_take_nth_drop, simp)
  have "(fst (vm_log failed_run ! 12), snd (vm_log failed_run ! 12)) \<in> set (drop (Suc 11) (vm_log failed_run))"
    using failed_run_log by (auto simp: in_set_conv_nth)
  from failed_vm_recovery_is_final [OF op split j this] show ?thesis by blast
qed

text \<open>C18. Durable journals follow the stage machine: the first one is \<open>armed\<close> or \<open>adopted\<close>, and every later
  one repeats its predecessor's stage or takes one allowed transition.\<close>

theorem journals_follow_stages:
  assumes "operations rq s" "(w, Journal j r) \<in> set (vm_log s)"
  shows "case w_journal w of None \<Rightarrow> j_stage j \<in> {VArmed, VAdopted}
     | Some i \<Rightarrow> next_stage (service_kind rq) (j_stage i) (j_stage j)"
  using history_event [OF assms] by (simp add: may_record_def)

lemma sample_journal_entry: "w_journal (fst (entry 4)) = None \<and> (case snd (entry 4) of Journal j r \<Rightarrow> True | _ \<Rightarrow> False)"
  unfolding sample_run_def sample_commands_def by code_simp

lemma journals_follow_stages_witness:
  "case snd (entry 4) of Journal j r \<Rightarrow> j_stage j \<in> {VArmed, VAdopted} | _ \<Rightarrow> False"
proof -
  obtain j r where e: "snd (entry 4) = Journal j r" using sample_journal_entry by (auto split: vevent.splits)
  have "(fst (entry 4), Journal j r) \<in> set (vm_log sample_run)" using sample_entry [of 4] e by simp
  from journals_follow_stages [OF sample_operations this] sample_journal_entry e show ?thesis by simp
qed

text \<open>C22. Recovery from any stage that recovery may roll back, whatever guest is live and whether or not an old
  shutdown is pending, ends with the old guest running and published when every interaction succeeds
  within the recovery budget.\<close>

theorem recovery_completes:
  assumes "w_journal (vm_world s) = Some j" "j_stage j \<in> PRE_ACCEPT" "\<not> (service_kind rq \<and> j_stage j \<in> POST_BOOT)"
    and "t < (case j_recovery_started_at j of None \<Rightarrow> t | Some x \<Rightarrow> x) + vq_recovery_seconds rq"
  shows "\<exists>i. j_stage i = VRecovered \<and>
    world_is i (Some OldVm) (Some OldVm) (invoke rq s (CmdStep Recover, replicate 19 (fine t)))"
proof -
  have s: "smooth t (Suc (Suc (0 + 17))) j (w_live (vm_world s)) (w_assigned (vm_world s)) (load (replicate 19 (fine t)) s)"
    using assms(1) by (simp add: smooth_def load_def)
  have "leads (\<lambda>_ s'. \<exists>n i. j_stage i = VRecovered \<and> smooth t n i (Some OldVm) (Some OldVm) s')
      (step rq Recover s')" if "smooth t (0 + 17) j l a s'" for l a s'
    using recover_vm_done [OF that assms(2-4)] that by (simp add: step_def smooth_def journal_of_def)
  then have "leads (\<lambda>_ s'. \<exists>n i. j_stage i = VRecovered \<and> smooth t n i (Some OldVm) (Some OldVm) s')
      (run_command rq (CmdStep Recover) (load (replicate 19 (fine t)) s))"
    using s unfolding run_command.simps in_order.simps discard_def rbind_simps rbind_return
    by (elim smooth_check) blast
  then show ?thesis
    by (auto simp: leads_def invoke_def world_is_def smooth_def)
qed

definition sample_stopped :: vst where
  "sample_stopped = foldl (\<lambda>s c. invoke sample_vm s (c, replicate 15 (fine 0))) (vm_initial (Some OldVm)) [CmdArm, CmdStep StopOld]"

lemma sample_stopped_journal:
  "map_option (\<lambda>j. (j_stage j, j_recovery_started_at j)) (w_journal (vm_world sample_stopped)) = Some (VStopped, None)"
  unfolding sample_stopped_def by code_simp

lemma recovery_completes_witness:
  "\<exists>i. world_is i (Some OldVm) (Some OldVm) (invoke sample_vm sample_stopped (CmdStep Recover, replicate 19 (fine 5)))"
proof -
  obtain j where j: "w_journal (vm_world sample_stopped) = Some j" "j_stage j = VStopped" "j_recovery_started_at j = None"
    using sample_stopped_journal by auto
  from recovery_completes [OF j(1), of sample_vm 5] j(2,3) show ?thesis
    by (auto simp: PRE_ACCEPT_def POST_BOOT_def sample_vm_def)
qed

text \<open>C23. An armed replacement whose commands are each answered before the deadline and with a live controller ends
  complete, with the new guest running and published.\<close>

theorem replacement_completes:
  assumes "world_is j (Some OldVm) a s" "j_stage j = VArmed" "t < j_deadline j" "\<not> controller_lost j t"
  shows "\<exists>i. j_stage i = VComplete \<and> world_is i (Some NewVm) (Some NewVm)
    (foldl (\<lambda>s b. invoke rq s (CmdStep b, replicate 11 (fine t))) s [StopOld, StartNew, Tested, Accept, Complete])"
proof -
  let ?go = "\<lambda>s b. invoke rq s (CmdStep b, replicate (0 + 11) (fine t))"
  have alive: "\<not> controller_lost i t" if "j_controller_seen_at i = j_controller_seen_at j" for i
    using that assms(2,4) by (auto simp: controller_lost_def PRE_ACCEPT_def)
  note 1 = stop_done [OF assms(1,3,4,2), of rq 0]
  note 2 = start_done [OF 1, of t rq 0, simplified, OF assms(3) alive, simplified]
  note 3 = tested_done [OF 2, of t rq 0, simplified, OF assms(3) alive, simplified]
  note 4 = accept_done [OF 3, of t rq 0, simplified, OF assms(3) alive, simplified]
  note 5 = complete_done [OF 4, of t rq 0, simplified, OF assms(3) alive, simplified]
  then show ?thesis by (intro exI conjI) (simp_all only: foldl.simps, simp)
qed

definition sample_armed :: vst where
  "sample_armed = invoke sample_vm (vm_initial (Some OldVm)) (CmdArm, replicate 15 (fine 0))"

lemma sample_armed_world:
  "w_live (vm_world sample_armed) = Some OldVm \<and> map_option (\<lambda>j. (j_stage j, j_deadline j, j_controller_seen_at j))
    (w_journal (vm_world sample_armed)) = Some (VArmed, 600, None)"
  unfolding sample_armed_def by code_simp

lemma replacement_completes_witness:
  "\<exists>i. world_is i (Some NewVm) (Some NewVm) (foldl (\<lambda>s b. invoke sample_vm s (CmdStep b, replicate 11 (fine 7)))
     sample_armed [StopOld, StartNew, Tested, Accept, Complete])"
proof -
  obtain j where j: "w_journal (vm_world sample_armed) = Some j" "j_stage j = VArmed" "j_deadline j = 600"
      "j_controller_seen_at j = None"
    using sample_armed_world by auto
  have w: "world_is j (Some OldVm) (w_assigned (vm_world sample_armed)) sample_armed"
    using j(1) sample_armed_world by (simp add: world_is_def)
  have "\<not> controller_lost j 7" by (simp add: controller_lost_def j(4))
  from replacement_completes [OF w j(2) _ this, of sample_vm] j(3) show ?thesis by (simp only: foldl.simps) auto
qed

text \<open>C24. As long as the stage can still be rolled back, no command but recovery acts after the deadline (from which
  the service kinds are exempt once their candidate was started), nor when the controller has been silent for 90
  seconds or the clock went backward: it raises, and the journal, the live guest and the published definition are as
  before, unless the guest died by itself.\<close>

theorem expired_steps_do_nothing:
  assumes "vm_memory s = Some j" "a \<noteq> Recover" "vm_replies s = r1 # r2 # rs" "j_stage j \<in> PRE_ACCEPT"
    and "j_deadline j \<le> vr_now r1 \<and> \<not> (service_kind rq \<and> j_stage j \<in> POST_BOOT) \<or> controller_lost j (vr_now r2)"
  shows "\<exists>msg s'. step rq a s = (Inl (Raised msg), s') \<and> w_journal (vm_world s') = w_journal (vm_world s) \<and>
    w_assigned (vm_world s') = w_assigned (vm_world s) \<and> w_live (vm_world s') \<in> {w_live (vm_world s), None}"
  using assms
  by (auto simp: step_def journal_of_def check_deadline_def check_controller_def now_def next_reply_def rbind_def
      rreturn_def raise_def rrequire_def log_event_def Let_def)

lemma expired_steps_do_nothing_witness:
  "\<exists>msg s'. step sample_vm StopOld (sample_armed\<lparr>vm_replies := [fine 600, fine 600]\<rparr>) = (Inl (Raised msg), s')"
proof -
  obtain j where j: "w_journal (vm_world sample_armed) = Some j" "j_stage j = VArmed" "j_deadline j = 600"
    using sample_armed_world by auto
  have m: "vm_memory sample_armed = w_journal (vm_world sample_armed)"
    unfolding sample_armed_def by code_simp
  show ?thesis
    using expired_steps_do_nothing [of "sample_armed\<lparr>vm_replies := [fine 600, fine 600]\<rparr>" j StopOld "fine 600" "fine 600" "[]" sample_vm]
      j m by (auto simp: PRE_ACCEPT_def POST_BOOT_def)
qed

end
