(* ===== verification/Vm_Request.thy ===== *)
theory Vm_Request
  imports Vm_Update Vm_Config
begin

text \<open>
  \<open>Transaction.__init__\<close> of \<^verbatim>\<open>roles/vm-update-recovery/files/vm_update_engine.py\<close>: what the engine accepts as a
  request, as the staged guest definitions and as a journal before it looks at a guest. The files of an operation's
  directory are the record \<open>staged\<close>; a read that raises is an \<open>Inl\<close> there. Two reads of one file give the same.
  The request and the journal are decoded JSON documents without floating point numbers, so the deadline is an integer.
\<close>

section \<open>Identities\<close>

text \<open>\<open>uuid.UUID(s)\<close>, as an integer, and \<open>str\<close> of it. \<open>int(s, 16)\<close> allows space around, a sign, the prefix \<open>0x\<close> and
  single underscores between digits.\<close>

definition hex_value :: "char \<Rightarrow> int option" where
  "hex_value c =
    (if in_range 48 57 c then Some (of_char c - 48)
     else if in_range 97 102 c then Some (of_char c - 87)
     else if in_range 65 70 c then Some (of_char c - 55) else None)"

definition int_base16 :: "string \<Rightarrow> int option" where
  "int_base16 s =
    (let t = strip_chars is_space s;
         negative = starts_with t ''-'';
         u = (if negative \<or> starts_with t ''+'' then drop 1 t else t);
         prefixed = starts_with u ''0x'' \<or> starts_with u ''0X'';
         v = (if prefixed then drop 2 u else u);
         w = (if prefixed \<and> starts_with v ''_'' then drop 1 v else v);
         groups = split_on CHR ''_'' w
     in if list_ex (\<lambda>g. g = [] \<or> list_ex (\<lambda>c. hex_value c = None) g) groups then None
        else Some ((if negative then - 1 else 1) *
          foldl (\<lambda>n c. 16 * n + the (hex_value c)) 0 (concat groups)))"

definition parse_uuid :: "string \<Rightarrow> int res" where
  "parse_uuid s =
    (let hex = replace_all ''-'' [] (strip_chars (\<lambda>c. c \<in> set ''{}'')
                 (replace_all ''uuid:'' [] (replace_all ''urn:'' [] s)))
     in if length hex \<noteq> 32 then Inl (ValueError ''badly formed hexadecimal UUID string'')
        else case int_base16 hex of
          None \<Rightarrow> Inl (ValueError ''invalid literal for int() with base 16'')
        | Some i \<Rightarrow> if 0 \<le> i \<and> i < 2 ^ 128 then Inr i
            else Inl (ValueError ''int is out of range (need a 128-bit value)''))"

primrec hex_padded :: "nat \<Rightarrow> int \<Rightarrow> string" where
  "hex_padded 0 i = []"
| "hex_padded (Suc k) i = hex_padded k (i div 16) @ [hex_digit (nat (i mod 16))]"

definition uuid_str :: "int \<Rightarrow> string" where
  "uuid_str i = (let h = hex_padded 32 i in
     join ''-'' [take 8 h, take 4 (drop 8 h), take 4 (drop 12 h), take 4 (drop 16 h), drop 20 h])"

definition check_uuid :: "pyval \<Rightarrow> unit res" where
  "check_uuid v = (case v of
     PStr s \<Rightarrow> bind (parse_uuid s) (\<lambda>n. refuse_if (uuid_str n \<noteq> s) ''transaction has an invalid domain UUID'')
   | _ \<Rightarrow> Inl (Refused ''transaction has an invalid domain UUID''))"

definition matches :: "rx \<Rightarrow> pyval \<Rightarrow> bool" where
  "matches r v = (case v of PStr s \<Rightarrow> fullmatch r s | _ \<Rightarrow> False)"

lemma matches_iff: "matches r v \<longleftrightarrow> (\<exists>s. v = PStr s \<and> fullmatch r s)"
  by (auto simp: matches_def split: pyval.splits)

definition has_fields :: "pyval \<Rightarrow> string list \<Rightarrow> bool" where
  "has_fields v ks \<longleftrightarrow> is_dict v \<and> set (dkeys (dict_of v)) = set ks"


section \<open>Router contracts\<close>

abbreviation hex_chars :: rx where "hex_chars \<equiv> Cls [d09, (CHR ''a'', CHR ''f'')]"

definition UUID_RE :: rx where
  "UUID_RE = Seq (Rep hex_chars 8 8)
     (Seq (Rep (Seq (Lit ''-'') (Rep hex_chars 4 4)) 3 3) (Seq (Lit ''-'') (Rep hex_chars 12 12)))"

definition account_id :: "pyval \<Rightarrow> bool" where
  "account_id v = (case v of PInt i \<Rightarrow> 1 \<le> i \<and> i \<le> 65534 | _ \<Rightarrow> False)"

definition router_contract :: "pyval \<Rightarrow> pyval \<Rightarrow> unit res" where
  "router_contract v box =
    (let d = dict_of v; accounts = dget d ''accounts'' in
     refuse_if (\<not> has_fields v [''kind'', ''box'', ''filesystem_uuid'', ''accounts'']
         \<or> dget d ''kind'' \<noteq> PStr ''klokast.router-retained-state.v1'' \<or> \<not> py_eq (dget d ''box'') box
         \<or> \<not> matches UUID_RE (dget d ''filesystem_uuid'')
         \<or> \<not> has_fields accounts [''dnsmasq_uid'', ''dnsmasq_gid'', ''tailscale_gid'']
         \<or> \<not> list_all (account_id \<circ> snd) (dict_of accounts))
       ''router retained-state contract is incomplete'')"

definition legacy_source :: "pyval \<Rightarrow> bool" where
  "legacy_source v \<longleftrightarrow>
    (has_fields v [''assignment_sha256'', ''generation_sha256'']
     \<or> has_fields v [''assignment_sha256'', ''generation_sha256'', ''topology_sha256''])
    \<and> list_all (matches HEX \<circ> snd) (dict_of v)"


section \<open>The request\<close>

abbreviation switch_v1 :: string where "switch_v1 \<equiv> ''klokast.vm-switch.v1''"
abbreviation switch_v2 :: string where "switch_v2 \<equiv> ''klokast.vm-switch.v2''"
abbreviation switch_v3 :: string where "switch_v3 \<equiv> ''klokast.vm-switch.v3''"
abbreviation adoption_kind :: string where "adoption_kind \<equiv> ''klokast.vm-adoption.v1''"

definition request_fields :: "pydict \<Rightarrow> string list" where
  "request_fields r =
    (let kind = dget r ''kind''; role = dget r ''role'' in
     [''kind'', ''operation_id'', ''box'', ''role'', ''engine_commit'', ''policy_sha256'',
      ''old_uuid'', ''old_config_sha256'', ''old_disks'', ''old_artifacts'', ''autostart'']
     @ (if kind = PStr adoption_kind then [''qualification_sha256'', ''source_evidence_sha256'']
        else [''new_uuid'', ''new_config_sha256'', ''new_disks'', ''new_artifacts'', ''release_sha256''])
     @ (if str_in kind [switch_v2, switch_v3] then [''controller_timeout_seconds''] else [])
     @ (if str_in kind (switch_v3 # SERVICE_KINDS) then [''replacement_seconds'', ''recovery_seconds''] else [])
     @ (if str_in kind SERVICE_KINDS then [''image_profile''] else [])
     @ (if role = PStr ''router'' then [''router_state'', ''router_source''] else [])
     @ (if kind = PStr RETAINED_KIND then [''retained_disks''] else []))"

definition whole_minutes :: "pyval \<Rightarrow> bool" where
  "whole_minutes v = (case v of PInt i \<Rightarrow> 60 \<le> i \<and> i \<le> 86400 \<and> i mod 60 = 0 | _ \<Rightarrow> False)"

definition image_profile :: "pyval \<Rightarrow> string" where
  "image_profile role = (case role of
     PStr s \<Rightarrow> if s \<in> set [''ops'', ''air''] then s @ ''-alpine-v1''
       else if s = ''router'' then ROUTER_PROFILE
       else if s = ''vpn-egress'' then ''vpn-egress-alpine-v1'' else ''shared-alpine-v1''
   | _ \<Rightarrow> ''shared-alpine-v1'')"

text \<open>The checks of single settings, in the order of the code. Asking whether an unhashable kind is in a set raises.\<close>

definition check_settings :: "pydict \<Rightarrow> unit res" where
  "check_settings r =
    (let kind = dget r ''kind''; role = dget r ''role''; source = dget r ''router_source'' in
     bind (str_member kind [switch_v2, switch_v3]) (\<lambda>live.
     bind (refuse_if (live \<and> dget r ''controller_timeout_seconds'' \<noteq> PInt 90)
       ''controller liveness requires the fixed 90-second timeout'') (\<lambda>_.
     bind (str_member kind (switch_v3 # SERVICE_KINDS)) (\<lambda>budgeted.
     bind (refuse_if (budgeted \<and> \<not> (whole_minutes (dget r ''replacement_seconds'')
                                   \<and> whole_minutes (dget r ''recovery_seconds'')))
       ''transaction budgets must be positive whole minutes within one day'') (\<lambda>_.
     bind (str_member kind SERVICE_KINDS) (\<lambda>service.
     bind (refuse_if (service \<and> dget r ''image_profile'' \<noteq> PStr (image_profile role))
       ''service image profile differs from its role'') (\<lambda>_.
     bind (if role = PStr ''router'' then
             bind (refuse_if (kind \<noteq> PStr RETAINED_KIND)
               ''router requires the common retained-disk transaction'') (\<lambda>_.
             bind (router_contract (dget r ''router_state'') (dget r ''box'')) (\<lambda>_.
             refuse_if (source \<noteq> PNone \<and> \<not> legacy_source source)
               ''router migration lacks its exact legacy source''))
           else Inr ()) (\<lambda>_.
     if kind = PStr RETAINED_KIND then
       bind (str_member role [''bak'', ''dmz'', ''iot'', ''router'', ''ops'', ''air'']) (\<lambda>known.
       refuse_if (\<not> known) ''persistent service disks require a shared guest or router role'')
     else Inr ()))))))))"

definition REQUEST_BOX_RE :: rx where
  "REQUEST_BOX_RE = Seq (Cls [az, d09]) (Rep (Cls [az, d09, one CHR ''-'']) 0 30)"

definition COMMIT_RE :: rx where
  "COMMIT_RE = Rep hex_chars 40 40"

definition check_identity :: "string \<Rightarrow> pydict \<Rightarrow> unit res" where
  "check_identity name r =
    (let kind = dget r ''kind''; role = dget r ''role''; msg = ''invalid or unsupported transaction request'' in
     bind (refuse_if (\<not> has_fields (PDict r) (request_fields r)
         \<or> \<not> str_in kind ([switch_v1, switch_v2, switch_v3] @ SERVICE_KINDS @ [adoption_kind])
         \<or> dget r ''operation_id'' \<noteq> PStr name \<or> \<not> fullmatch OP name
         \<or> \<not> matches REQUEST_BOX_RE (dget r ''box'')) msg) (\<lambda>_.
     bind (str_member role ROLES) (\<lambda>known.
     refuse_if (\<not> known \<or> dget r ''autostart'' \<notin> {PBool True, PBool False}
         \<or> role = PStr ''vpn-egress'' \<and> kind \<noteq> PStr SERVICE_KIND
         \<or> str_in role [''ops'', ''air''] \<and> kind \<noteq> PStr RETAINED_KIND
         \<or> \<not> matches COMMIT_RE (dget r ''engine_commit'')) msg)))"

definition is_adoption :: "pydict \<Rightarrow> bool" where
  "is_adoption r \<longleftrightarrow> dget r ''kind'' = PStr adoption_kind"

definition validate_request :: "string \<Rightarrow> pyval \<Rightarrow> pydict res" where
  "validate_request name v = (case v of
     PDict r \<Rightarrow>
      bind (check_settings r) (\<lambda>_.
      bind (check_identity name r) (\<lambda>_.
      bind (checks (map (\<lambda>key. refuse_if (\<not> matches HEX (dget r key)) ''transaction has an invalid checksum'')
        (if is_adoption r
         then [''policy_sha256'', ''old_config_sha256'', ''qualification_sha256'', ''source_evidence_sha256'']
         else [''policy_sha256'', ''old_config_sha256'', ''new_config_sha256'', ''release_sha256'']))) (\<lambda>_.
      bind (checks (map (\<lambda>key. check_uuid (dget r key))
        (if is_adoption r then [''old_uuid''] else [''old_uuid'', ''new_uuid'']))) (\<lambda>_.
      bind (refuse_if (\<not> is_adoption r \<and> dget r ''old_uuid'' = dget r ''new_uuid'')
        ''old and candidate Xen UUIDs must differ'') (\<lambda>_.
      Inr r)))))
   | _ \<Rightarrow> Inl (Refused ''invalid or unsupported transaction request''))"


section \<open>Staged files\<close>

record staged =
  sg_name :: string
  sg_request :: "pyval res"
  sg_old_cfg :: "string res"
  sg_new_cfg :: "string res"
  sg_journal :: "pyval option res"
  sg_runtime :: "pyval option res"

primrec sg_cfg :: "staged \<Rightarrow> vside \<Rightarrow> string res" where
  "sg_cfg sg OldVm = sg_old_cfg sg"
| "sg_cfg sg NewVm = sg_new_cfg sg"

primrec side_key :: "vside \<Rightarrow> string \<Rightarrow> string" where
  "side_key OldVm k = ''old_'' @ k"
| "side_key NewVm k = ''new_'' @ k"

definition LV_UUID_RE :: rx where
  "LV_UUID_RE = Rep (Cls [AZ, az, d09, one CHR ''-'']) 6 128"

definition lv_identity :: "pyval \<Rightarrow> bool" where
  "lv_identity v \<longleftrightarrow> has_fields v [''uuid'', ''bytes''] \<and> matches LV_UUID_RE (dget (dict_of v) ''uuid'')
     \<and> (case dget (dict_of v) ''bytes'' of PInt i \<Rightarrow> 0 < i | _ \<Rightarrow> False)"

definition artifact_identity :: "pyval \<Rightarrow> bool" where
  "artifact_identity v \<longleftrightarrow> has_fields v [''sha256'', ''bytes''] \<and> matches HEX (dget (dict_of v) ''sha256'')
     \<and> (case dget (dict_of v) ''bytes'' of PInt i \<Rightarrow> 0 < i \<and> i \<le> 512 * 1024 * 1024 | _ \<Rightarrow> False)"

text \<open>One round of the loop over the sides: the settings of the definition and its disk paths in order.\<close>

definition staged_configuration ::
  "(string \<Rightarrow> stmt list option) \<Rightarrow> staged \<Rightarrow> pydict \<Rightarrow> vside \<Rightarrow> (pydict \<times> string list) res" where
  "staged_configuration ast_parse sg r side =
    bind (sg_cfg sg side) (\<lambda>content.
    bind (as_str (dget r ''role'')) (\<lambda>role.
    bind (as_str (dget r (side_key side ''uuid''))) (\<lambda>identity.
    configuration (ast_parse content) role identity)))"

definition check_side ::
  "(string \<Rightarrow> stmt list option) \<Rightarrow> staged \<Rightarrow> pydict \<Rightarrow> vside \<Rightarrow> pydict res" where
  "check_side ast_parse sg r side =
    bind (sg_cfg sg side) (\<lambda>content.
    bind (refuse_if (PStr (sha256_hex content) \<noteq> dget r (side_key side ''config_sha256''))
      ''staged Xen configuration checksum differs'') (\<lambda>_.
    bind (staged_configuration ast_parse sg r side) (\<lambda>(config, paths).
    bind (refuse_if (side = NewVm \<and> dget config ''uuid'' \<noteq> dget r ''new_uuid'')
      ''candidate configuration requires its exact recorded UUID'') (\<lambda>_.
    let disks = dget r (side_key side ''disks''); artifacts = dget r (side_key side ''artifacts'') in
    bind (refuse_if (\<not> has_fields disks paths) ''disk identities differ from the Xen configuration'') (\<lambda>_.
    bind (refuse_if (\<not> list_all (lv_identity \<circ> snd) (dict_of disks))
      ''logical volume identity is incomplete'') (\<lambda>_.
    bind (as_str (dget config ''kernel'')) (\<lambda>kernel.
    bind (as_str (dget config ''ramdisk'')) (\<lambda>ramdisk.
    bind (refuse_if (\<not> has_fields artifacts [kernel, ramdisk])
      ''boot artifact identities differ from the Xen configuration'') (\<lambda>_.
    bind (refuse_if (\<not> list_all (artifact_identity \<circ> snd) (dict_of artifacts))
      ''boot artifact identity is incomplete'') (\<lambda>_.
    Inr config))))))))))"


section \<open>Retained disks\<close>

text \<open>\<open>entry.split(',')[1]\<close> for every entry of a checked definition.\<close>

definition disk_devices :: "pydict \<Rightarrow> string list res" where
  "disk_devices config = traverse (\<lambda>v. bind (as_str v) (\<lambda>s.
     case split_on CHR '','' s of _ # b # _ \<Rightarrow> Inr b | _ \<Rightarrow> Inl (ValueError ''list index out of range'')))
     (list_of (dget config ''disk''))"

definition check_retained_devices :: "pydict \<Rightarrow> unit res" where
  "check_retained_devices config =
    bind (disk_devices config) (\<lambda>devices.
    refuse_if (devices \<noteq> take (length (list_of (dget config ''disk''))) [''xvda'', ''xvdb''])
      ''persistent data requires root xvda and data xvdb'')"

definition vif_uses_ops :: "pyval \<Rightarrow> bool" where
  "vif_uses_ops v = (case v of PStr s \<Rightarrow> ''bridge=br-ops'' \<in> set (split_on CHR '','' s) | _ \<Rightarrow> True)"

definition check_router_disks :: "pydict \<Rightarrow> string list \<Rightarrow> pydict \<Rightarrow> pydict \<Rightarrow> unit res" where
  "check_router_disks r old_paths old new =
    (let vifs = dget old ''vif'' in
     bind (vitem (snd (hd (dict_of (dget r ''retained_disks'')))) ''bytes'') (\<lambda>bytes.
     bind (refuse_if ((length old_paths = 1) \<noteq> (dget r ''router_source'' \<noteq> PNone) \<or> \<not> py_eq bytes (PInt (1024 ^ 3)))
       ''router requires one 1 GiB data LV and an explicit first-migration source'') (\<lambda>_.
     refuse_if (\<not> is_list vifs \<or> list_of vifs = [] \<or> \<not> py_eq vifs (dget new ''vif'')
         \<or> list_ex vif_uses_ops (list_of vifs))
       ''router replacement must preserve topology after ops has an independent uplink'')))"

definition check_retained ::
  "(string \<Rightarrow> stmt list option) \<Rightarrow> staged \<Rightarrow> pydict \<Rightarrow> pydict \<Rightarrow> pydict \<Rightarrow> unit res" where
  "check_retained ast_parse sg r old new =
    (let retained = dget r ''retained_disks'';
         old_disks = dict_of (dget r ''old_disks''); new_disks = dict_of (dget r ''new_disks'') in
     bind (staged_configuration ast_parse sg r OldVm) (\<lambda>(_, old_paths).
     bind (staged_configuration ast_parse sg r NewVm) (\<lambda>(_, new_paths).
     bind (refuse_if (\<not> is_dict retained \<or> length (dict_of retained) \<noteq> 1
         \<or> length new_paths \<noteq> 2 \<or> length old_paths \<notin> {1, 2}
         \<or> \<not> py_eq retained (PDict [(new_paths ! 1, dget new_disks (new_paths ! 1))])
         \<or> dhas old_disks (new_paths ! 0) \<or> dhas (dict_of retained) (old_paths ! 0)
         \<or> length old_paths = 2 \<and> (old_paths ! 1 \<noteq> new_paths ! 1 \<or>
              \<not> py_eq (dget old_disks (old_paths ! 1)) (dget (dict_of retained) (new_paths ! 1))))
       ''persistent data identity differs or overlaps an OS root'') (\<lambda>_.
     bind (check_retained_devices old) (\<lambda>_.
     bind (check_retained_devices new) (\<lambda>_.
     if dget r ''role'' = PStr ''router'' then check_router_disks r old_paths old new else Inr ()))))))"


section \<open>The journal\<close>

text \<open>\<open>math.isfinite\<close> converts an integer to a float first.\<close>

definition finite_int :: "int \<Rightarrow> unit res" where
  "finite_int i = (if \<bar>i\<bar> < 2 ^ 1024 - 2 ^ 970 then Inr () else Inl OverflowError)"

definition check_time :: "pyval \<Rightarrow> string \<Rightarrow> unit res" where
  "check_time v msg = (case v of PInt i \<Rightarrow> finite_int i | _ \<Rightarrow> Inl (Refused msg))"

definition previous_profiles :: "string list" where
  "previous_profiles = [''shared-alpine-v1'', ''vpn-egress-alpine-v1'', ROUTER_PROFILE, ''ops-alpine-v1'', ''air-alpine-v1'']"

definition previous_ok :: "string \<Rightarrow> pyval \<Rightarrow> bool" where
  "previous_ok name v \<longleftrightarrow>
    (let d = dict_of v; release = dget d ''release_sha256''; profile = dget d ''profile'' in
     has_fields v [''operation_id'', ''request_sha256'', ''release_sha256'', ''profile'']
     \<and> matches OP (dget d ''operation_id'') \<and> dget d ''operation_id'' \<noteq> PStr name
     \<and> matches HEX (dget d ''request_sha256'')
     \<and> ((release = PNone) = (profile = PNone))
     \<and> (release \<noteq> PNone \<longrightarrow> matches HEX release \<and> str_in profile previous_profiles))"

definition check_journal :: "string \<Rightarrow> pydict \<Rightarrow> int \<Rightarrow> pyval \<Rightarrow> unit res" where
  "check_journal name r recovery_seconds journal =
    (if \<not> truthy journal then Inr ()
     else bind (as_dict journal) (\<lambda>j.
       let msg = ''transaction journal differs from its immutable request'';
           live = str_in (dget r ''kind'') [switch_v2, switch_v3];
           live_msg = ''transaction has invalid controller liveness evidence'' in
       bind (refuse_if (dget j ''request_sha256'' \<noteq> PStr (digest (PDict r))) msg) (\<lambda>_.
       bind (str_member (dget j ''stage'') stage_names) (\<lambda>known.
       bind (refuse_if (\<not> known) msg) (\<lambda>_.
       bind (check_time (dget j ''deadline'') msg) (\<lambda>_.
       bind (refuse_if (\<not> py_eq (dget j ''recovery_seconds'') (PInt recovery_seconds)) msg) (\<lambda>_.
       bind (refuse_if (live \<and> \<not> py_eq (dget j ''controller_timeout_seconds'') (PInt 90)) live_msg) (\<lambda>_.
       bind (if live then check_time (dget j ''controller_seen_at'') live_msg else Inr ()) (\<lambda>_.
       bind (refuse_if (\<not> live \<and> (dhas j ''controller_seen_at'' \<or> dhas j ''controller_timeout_seconds''))
         ''legacy transaction cannot acquire controller liveness fields'') (\<lambda>_.
       bind (refuse_if (dhas j ''old_shutdown_pending'' \<and>
           dget j ''old_shutdown_pending'' \<notin> {PBool True, PBool False})
         ''transaction shutdown state is invalid'') (\<lambda>_.
       refuse_if (dget j ''previous_assignment'' \<noteq> PNone \<and> \<not> previous_ok name (dget j ''previous_assignment''))
         ''previous accepted assignment identity is invalid'')))))))))))"


section \<open>Transactions\<close>

record transaction =
  tx_work :: staged
  tx_request :: pydict
  tx_old :: pydict
  tx_new :: "pydict option"
  tx_replacement_seconds :: int
  tx_recovery_seconds :: int
  tx_journal :: pyval

text \<open>The two budgets are read before the fields are checked; a request that passes has integers there.\<close>

definition seconds :: "pydict \<Rightarrow> string \<Rightarrow> int" where
  "seconds r key = (case dgetd r key (PInt 1800) of PInt i \<Rightarrow> i | _ \<Rightarrow> 0)"

definition open_transaction :: "(string \<Rightarrow> stmt list option) \<Rightarrow> staged \<Rightarrow> transaction res" where
  "open_transaction ast_parse sg =
    bind (sg_request sg) (\<lambda>v.
    bind (validate_request (sg_name sg) v) (\<lambda>r.
    bind (check_side ast_parse sg r OldVm) (\<lambda>old.
    bind (if is_adoption r then Inr None
          else bind (check_side ast_parse sg r NewVm) (\<lambda>new. Inr (Some new))) (\<lambda>new.
    bind (if dget r ''kind'' = PStr RETAINED_KIND then check_retained ast_parse sg r old (the new)
          else refuse_if (\<not> is_adoption r \<and>
             list_ex (\<lambda>p. dhas (dict_of (dget r ''new_disks'')) p) (dkeys (dict_of (dget r ''old_disks''))))
            ''old and candidate writable disks must be disjoint'') (\<lambda>_.
    bind (sg_journal sg) (\<lambda>file.
    let journal = (case file of None \<Rightarrow> PNone | Some j \<Rightarrow> j) in
    bind (check_journal (sg_name sg) r (seconds r ''recovery_seconds'') journal) (\<lambda>_.
    Inr \<lparr>tx_work = sg, tx_request = r, tx_old = old, tx_new = new,
         tx_replacement_seconds = seconds r ''replacement_seconds'',
         tx_recovery_seconds = seconds r ''recovery_seconds'', tx_journal = journal\<rparr>)))))))"

end
