(* ===== verification/Vm_Live.thy ===== *)
theory Vm_Live
  imports Vm_Request
begin

text \<open>
  What \<^verbatim>\<open>vm_update_engine.py\<close> checks of a running guest before it acts: \<open>Transaction.disks\<close> and \<open>guest\<close>, the identity of the
  published definition (\<open>release_identity\<close>, \<open>runtime_intent\<close>, \<open>assignment_content\<close>) and the lineage
  that \<open>arm\<close> and \<open>adopt_old\<close> demand of the assignments before them.

  Xen and the disks are seen through the record \<open>xen_view\<close>: the answers of \<^verbatim>\<open>lvs\<close> and \<^verbatim>\<open>stat\<close>, the device numbers
  mounted on dom0 and the decoded output of \<^verbatim>\<open>xl list -l\<close>. The paths of one guest are resolved in the order of its
  attachments; the code takes them from a set, which can only change the error it raises first.
\<close>

section \<open>Disks\<close>

record lv_row =
  lv_uuid :: string
  lv_bytes :: int
  lv_device :: int

record xen_view =
  xv_lv :: "string \<Rightarrow> lv_row res"
  xv_device :: "string \<Rightarrow> int res"
  xv_mounted :: "int list"
  xv_list :: "pyval res"

type_synonym disk_map = "(string \<times> lv_row) list"

definition check_disk :: "xen_view \<Rightarrow> disk_map \<Rightarrow> string \<times> pyval \<Rightarrow> disk_map res" where
  "check_disk xv actual = (\<lambda>(path, expected).
    bind (xv_lv xv path) (\<lambda>item.
    bind (refuse_if (\<not> py_eq (PDict [(''uuid'', PStr (lv_uuid item)), (''bytes'', PInt (lv_bytes item))]) expected)
      ''logical volume was replaced or resized during the transaction'') (\<lambda>_.
    Inr (AList.update path item actual))))"

definition side_disks :: "transaction \<Rightarrow> vside \<Rightarrow> pydict" where
  "side_disks tx side = dict_of (dget (tx_request tx) (side_key side ''disks''))"

definition devices_of :: "disk_map \<Rightarrow> int list" where
  "devices_of actual = map (lv_device \<circ> snd) actual"

definition tx_disks :: "transaction \<Rightarrow> xen_view \<Rightarrow> vside list \<Rightarrow> disk_map res" where
  "tx_disks tx xv sides =
    bind (fold_res (check_disk xv) [] (concat (map (side_disks tx) sides))) (\<lambda>actual.
    bind (refuse_if (\<not> distinct (devices_of actual)) ''transaction disk device identities overlap'') (\<lambda>_.
    bind (refuse_if (list_ex (\<lambda>d. d \<in> set (xv_mounted xv)) (devices_of actual))
      ''transaction disk is mounted on dom0'') (\<lambda>_.
    Inr actual)))"


section \<open>The live guest\<close>

text \<open>The paths of the attachments of a guest, and the device a path resolves to.\<close>

definition attachment_path :: "pyval \<Rightarrow> pyval res" where
  "attachment_path d = bind (vget d ''pdev_path'') (\<lambda>path. if hashable path then Inr path else Inl TypeError)"

definition path_device :: "xen_view \<Rightarrow> pyval \<Rightarrow> int res" where
  "path_device xv path = (case path of
     PStr p \<Rightarrow> if starts_with p ''/dev/'' then xv_device xv p
       else Inl (Refused ''guest has an unsupported disk attachment'')
   | _ \<Rightarrow> Inl (Refused ''guest has an unsupported disk attachment''))"

definition attached_devices :: "xen_view \<Rightarrow> pyval list \<Rightarrow> int list res" where
  "attached_devices xv attachments =
    bind (traverse attachment_path attachments) (\<lambda>used. traverse (path_device xv) (remdups used))"

definition tx_config :: "transaction \<Rightarrow> vside \<Rightarrow> pydict" where
  "tx_config tx side = (case side of OldVm \<Rightarrow> tx_old tx | NewVm \<Rightarrow> (case tx_new tx of None \<Rightarrow> [] | Some c \<Rightarrow> c))"

text \<open>\<open>entry.removeprefix('phy:').split(',')\<close>, and the device of the first part.\<close>

definition expected_mapping :: "disk_map \<Rightarrow> pyval \<Rightarrow> (int \<times> string) res" where
  "expected_mapping actual v =
    bind (as_str v) (\<lambda>s.
    case split_on CHR '','' (if starts_with s ''phy:'' then drop 4 s else s) of
      [path, vdev, mode] \<Rightarrow> (case map_of actual path of
          None \<Rightarrow> Inl (KeyError path) | Some item \<Rightarrow> Inr (lv_device item, vdev))
    | _ \<Rightarrow> Inl (ValueError ''wrong number of values to unpack''))"

definition attachment_mapping :: "xen_view \<Rightarrow> pyval \<Rightarrow> (int \<times> pyval \<times> pyval) res" where
  "attachment_mapping xv d =
    bind (attachment_path d) (\<lambda>path.
    bind (path_device xv path) (\<lambda>device.
    bind (vget d ''vdev'') (\<lambda>vdev.
    bind (vget d ''readwrite'') (\<lambda>mode.
    if hashable vdev \<and> hashable mode then Inr (device, vdev, mode) else Inl TypeError))))"

definition same_mapping :: "int \<times> string \<Rightarrow> int \<times> pyval \<times> pyval \<Rightarrow> bool" where
  "same_mapping = (\<lambda>(device, vdev) (d, v, mode). d = device \<and> v = PStr vdev \<and> int_of mode = Some 1)"

definition check_target ::
  "transaction \<Rightarrow> xen_view \<Rightarrow> vside list \<Rightarrow> disk_map \<Rightarrow> pyval \<Rightarrow> pyval list \<Rightarrow> int list \<Rightarrow> unit res" where
  "check_target tx xv sides actual identity attachments devices =
    (let r = tx_request tx;
         side = (if identity = dget r ''old_uuid'' then OldVm else NewVm) in
     bind (refuse_if (\<not> (identity = dget r ''old_uuid'' \<or> dhas r ''new_uuid'' \<and> identity = dget r ''new_uuid''))
       ''target domain identity changed'') (\<lambda>_.
     bind (refuse_if (side \<notin> set sides) ''running guest uses the wrong accepted disk generation'') (\<lambda>_.
     bind (traverse (\<lambda>p. case map_of actual p of None \<Rightarrow> Inl (KeyError p) | Some item \<Rightarrow> Inr (lv_device item))
             (dkeys (side_disks tx side))) (\<lambda>expected.
     bind (refuse_if (set devices \<noteq> set expected) ''target live disks differ from its recorded identity'') (\<lambda>_.
     bind (traverse (attachment_mapping xv) attachments) (\<lambda>mappings.
     bind (traverse (expected_mapping actual) (list_of (dget (tx_config tx side) ''disk''))) (\<lambda>wanted.
     refuse_if (length attachments \<noteq> length (remdups wanted)
         \<or> \<not> list_all (\<lambda>m. list_ex (\<lambda>w. same_mapping w m) wanted) mappings
         \<or> \<not> list_all (\<lambda>w. list_ex (same_mapping w) mappings) wanted)
       ''target live disk device names or write modes differ from its definition'')))))))"

definition scan_guest ::
  "transaction \<Rightarrow> xen_view \<Rightarrow> vside list \<Rightarrow> disk_map \<Rightarrow> pyval option \<Rightarrow> pyval \<Rightarrow> pyval option res" where
  "scan_guest tx xv sides actual found domain =
    bind (vitem domain ''domid'') (\<lambda>domid.
    if domid = PInt 0 then Inr found
    else bind (vitem domain ''config'') (\<lambda>config.
      bind (vitem config ''c_info'') (\<lambda>info.
      bind (vget config ''disks'') (\<lambda>attached.
      bind (refuse_if (\<not> is_list attached) ''Xen did not report guest disk attachments'') (\<lambda>_.
      bind (attached_devices xv (list_of attached)) (\<lambda>devices.
      bind (vitem info ''name'') (\<lambda>name.
      if name = dget (tx_request tx) ''role'' then
        bind (vitem info ''uuid'') (\<lambda>identity.
        bind (refuse_if (found \<noteq> None) ''target domain identity changed'') (\<lambda>_.
        bind (check_target tx xv sides actual identity (list_of attached) devices) (\<lambda>_.
        Inr (Some domain))))
      else bind (refuse_if (list_ex (\<lambda>d. d \<in> set (devices_of actual)) devices)
          ''another Xen guest holds a transaction disk'') (\<lambda>_.
        Inr found))))))))"

definition live_guest :: "transaction \<Rightarrow> xen_view \<Rightarrow> vside list \<Rightarrow> pyval option res" where
  "live_guest tx xv sides =
    bind (tx_disks tx xv sides) (\<lambda>actual.
    bind (bind (xv_list xv) inventory) (\<lambda>records.
    fold_res (scan_guest tx xv sides actual) None records))"


section \<open>Who holds the disks\<close>

definition domain_devices :: "xen_view \<Rightarrow> pyval \<Rightarrow> int list res" where
  "domain_devices xv domain =
    bind (vitem domain ''config'') (\<lambda>config.
    bind (vget config ''disks'') (\<lambda>attached. attached_devices xv (list_of attached)))"

definition domain_info :: "pyval \<Rightarrow> string \<Rightarrow> pyval res" where
  "domain_info domain key =
    bind (vitem domain ''config'') (\<lambda>config. bind (vitem config ''c_info'') (\<lambda>info. vitem info key))"

text \<open>A domain is the guest of one side: its name, its UUID and its devices are the recorded ones.\<close>

definition side_devices :: "transaction \<Rightarrow> disk_map \<Rightarrow> vside \<Rightarrow> int list" where
  "side_devices tx actual side =
    map lv_device (List.map_filter (map_of actual) (dkeys (side_disks tx side)))"

definition is_side :: "transaction \<Rightarrow> xen_view \<Rightarrow> disk_map \<Rightarrow> vside \<Rightarrow> pyval \<Rightarrow> bool" where
  "is_side tx xv actual side domain \<longleftrightarrow>
    domain_info domain ''name'' = Inr (dget (tx_request tx) ''role'')
    \<and> domain_info domain ''uuid'' = Inr (dget (tx_request tx) (side_key side ''uuid''))
    \<and> (case domain_devices xv domain of Inl e \<Rightarrow> False
       | Inr devices \<Rightarrow> set devices = set (side_devices tx actual side))"

lemma check_target_exact:
  assumes "check_target tx xv sides actual identity attachments devices = Inr ()"
  shows "\<exists>side\<in>set sides. identity = dget (tx_request tx) (side_key side ''uuid'') \<and>
    set devices = set (side_devices tx actual side)"
proof -
  let ?side = "if identity = dget (tx_request tx) ''old_uuid'' then OldVm else NewVm"
  let ?dev = "\<lambda>p. case map_of actual p of None \<Rightarrow> Inl (KeyError p) | Some item \<Rightarrow> Inr (lv_device item)"
  have images: "ys = map lv_device (List.map_filter (map_of actual) ps)" if "traverse ?dev ps = Inr ys" for ps ys
    using that
    by (induction ps arbitrary: ys) (auto simp: res_simps map_filter_simps split: option.splits)
  from assms obtain expected where 1: "?side \<in> set sides"
    "identity = dget (tx_request tx) ''old_uuid'' \<or> identity = dget (tx_request tx) ''new_uuid''"
    "traverse ?dev (dkeys (side_disks tx ?side)) = Inr expected" "set devices = set expected"
    unfolding check_target_def Let_def bind_eq_Inr refuse_if_eq_Inr by blast
  with images [OF 1(3)] show ?thesis
    by (intro bexI [OF _ 1(1)]) (auto simp: side_devices_def)
qed

lemma scan_guest_step:
  assumes "scan_guest tx xv sides actual found domain = Inr found'"
  obtains "vitem domain ''domid'' = Inr (PInt 0)" "found' = found"
  | devices where "domain_devices xv domain = Inr devices" "found' = found"
      "set devices \<inter> set (devices_of actual) = {}"
  | side where "found = None" "found' = Some domain" "side \<in> set sides" "is_side tx xv actual side domain"
proof -
  note [simp] = scan_guest_def domain_devices_def domain_info_def
  from assms obtain domid where domid: "vitem domain ''domid'' = Inr domid"
    by (auto simp: bind_eq_Inr)
  show thesis
  proof (cases "domid = PInt 0")
    case True
    with assms domid that(1) show ?thesis by simp
  next
    case False
    with assms domid obtain config info attached devices name where c:
      "vitem domain ''config'' = Inr config" "vitem config ''c_info'' = Inr info"
      "vget config ''disks'' = Inr attached" "attached_devices xv (list_of attached) = Inr devices"
      "vitem info ''name'' = Inr name"
      by (auto simp: bind_eq_Inr)
    show ?thesis
    proof (cases "name = dget (tx_request tx) ''role''")
      case False
      with assms domid c \<open>domid \<noteq> PInt 0\<close> have "found' = found" "set devices \<inter> set (devices_of actual) = {}"
        by (auto simp: res_simps list_ex_iff)
      with c that(2) show ?thesis by simp
    next
      case True
      with assms domid c \<open>domid \<noteq> PInt 0\<close> obtain identity where "vitem info ''uuid'' = Inr identity"
        "found = None" "found' = Some domain"
        "check_target tx xv sides actual identity (list_of attached) devices = Inr ()"
        by (auto simp: res_simps)
      with c True that(3) check_target_exact [of tx xv sides actual identity "list_of attached" devices]
      show ?thesis by (fastforce simp: is_side_def)
    qed
  qed
qed

lemma live_guest_scan:
  assumes "fold_res (scan_guest tx xv sides actual) None records = Inr g"
  shows "(\<forall>domain\<in>set records. vitem domain ''domid'' \<noteq> Inr (PInt 0) \<longrightarrow> g \<noteq> Some domain \<longrightarrow>
      (\<exists>devices. domain_devices xv domain = Inr devices \<and> set devices \<inter> set (devices_of actual) = {})) \<and>
    (\<forall>domain. g = Some domain \<longrightarrow> domain \<in> set records \<and> (\<exists>side\<in>set sides. is_side tx xv actual side domain))"
    (is "?P records g")
proof (rule fold_res_invariant_prefix [where P = ?P, OF assms])
  show "?P [] None" by simp
next
  fix pre x s s'
  assume P: "?P pre s" and step: "scan_guest tx xv sides actual s x = Inr s'"
  from step show "?P (pre @ [x]) s'"
  proof (cases rule: scan_guest_step)
    case 1
    with P show ?thesis by auto
  next
    case (2 devices)
    with P show ?thesis by auto
  next
    case (3 side)
    with P show ?thesis by auto
  qed
qed

end
