(* ===== verification/Vm_Lineage.thy ===== *)
theory Vm_Lineage
  imports Vm_Live
begin

text \<open>
  What \<open>arm\<close> and \<open>adopt_old\<close> of \<^verbatim>\<open>vm_update_engine.py\<close> demand before they write anything: the identity of the
  published definition (\<open>release_identity\<close>, \<open>runtime_intent\<close>, \<open>assignment_content\<close>), the assignments that are
  active on the box, the source of a first router migration, and the exact running guest. The box is
  the record \<open>host\<close>; each read that can raise is a \<open>res\<close>.
\<close>

section \<open>The published definition\<close>

definition release_identity :: "transaction \<Rightarrow> vside \<Rightarrow> pydict res" where
  "release_identity tx side =
    (if side = NewVm then
       bind (ditem (tx_request tx) ''release_sha256'') (\<lambda>release.
       Inr [(''release_sha256'', release),
            (''profile'', dgetd (tx_request tx) ''image_profile'' (PStr ''shared-alpine-v1''))])
     else
       let previous = dict_of (dget (dict_of (tx_journal tx)) ''previous_assignment'') in
       Inr [(''release_sha256'', dget previous ''release_sha256''), (''profile'', dget previous ''profile'')])"

definition stage_of :: "transaction \<Rightarrow> pyval" where
  "stage_of tx = dget (dict_of (tx_journal tx)) ''stage''"

definition tx_settled :: "transaction \<Rightarrow> bool" where
  "tx_settled tx \<longleftrightarrow> truthy (tx_journal tx) \<and> str_in (stage_of tx) [''adopted'', ''complete'', ''recovered'']"

definition runtime_intent :: "transaction \<Rightarrow> pydict res" where
  "runtime_intent tx =
    bind (sg_runtime (tx_work tx)) (\<lambda>file.
    case file of
      None \<Rightarrow> Inr [(''runtime_state'',
        PStr (if truthy (dget (tx_request tx) ''autostart'') then ''running'' else ''stopped''))]
    | Some value \<Rightarrow>
       let d = dict_of value; msg = ''runtime intent differs from the completed assignment'' in
       bind (refuse_if (\<not> has_fields value [''kind'', ''request_sha256'', ''intent_sha256'', ''runtime_state'']
           \<or> dget d ''kind'' \<noteq> PStr ''klokast.vm-runtime-intent.v1''
           \<or> dget d ''request_sha256'' \<noteq> PStr (digest (PDict (tx_request tx)))
           \<or> \<not> matches HEX (dget d ''intent_sha256'')) msg) (\<lambda>_.
       bind (str_member (dget d ''runtime_state'') [''running'', ''stopped'']) (\<lambda>known.
       bind (refuse_if (\<not> known \<or> \<not> tx_settled tx) msg) (\<lambda>_. Inr d))))"

definition wants_running :: "transaction \<Rightarrow> bool res" where
  "wants_running tx = bind (runtime_intent tx) (\<lambda>d. Inr (dget d ''runtime_state'' = PStr ''running''))"

text \<open>The name is rendered with \<open>json.dumps\<close>, every other setting with \<open>repr\<close>.\<close>

definition setting_line :: "string \<times> pyval \<Rightarrow> string" where
  "setting_line = (\<lambda>(key, value). key @ '' = '' @
     (case value of PStr s \<Rightarrow> if key = ''name'' then json_str True s else py_repr value | _ \<Rightarrow> py_repr value))"

definition eol :: string where "eol = [CHR 0x0A]"

definition assignment_content :: "transaction \<Rightarrow> vside \<Rightarrow> string res" where
  "assignment_content tx side =
    (let r = tx_request tx;
         config = dset (tx_config tx side) ''uuid'' (dget r (side_key side ''uuid'')) in
     bind (release_identity tx side) (\<lambda>release.
     let provenance = PDict
       [(''kind'', PStr ''klokast.vm-boot-provenance.v1''), (''operation_id'', dget r ''operation_id''),
        (''request_sha256'', PStr (digest (PDict r))), (''engine_commit'', dget r ''engine_commit''),
        (''profile'', dget release ''profile''),
        (''selection'', PStr (if side = NewVm then ''accepted'' else ''recorded-previous'')),
        (''release_sha256'', dget release ''release_sha256''),
        (''source_config_sha256'', dget r (side_key side ''config_sha256''))]
     in Inr (''# klokast-provenance: '' @ json_dumps False provenance @ eol
         @ join eol (map setting_line config) @ eol)))"


section \<open>The box\<close>

datatype link = NoLink | NotALink | LinkTo string

record legacy =
  lg_busy :: bool
  lg_contract :: "pyval res"
  lg_accepted :: "pyval res"
  lg_record :: "string \<Rightarrow> pyval res"
  lg_installation :: "pyval option res"
  lg_topology :: "pyval res"

record host =
  ho_xen :: xen_view
  ho_active :: "(string \<times> pyval res) list"
  ho_operation :: "string \<Rightarrow> staged"
  ho_published :: "string \<Rightarrow> string option res"
  ho_artifact :: "string \<Rightarrow> pyval res"
  ho_link :: "string \<Rightarrow> link"
  ho_legacy :: legacy

definition tx_role :: "transaction \<Rightarrow> string" where
  "tx_role tx = (case dget (tx_request tx) ''role'' of PStr s \<Rightarrow> s | _ \<Rightarrow> [])"

definition check_artifacts :: "transaction \<Rightarrow> host \<Rightarrow> vside \<Rightarrow> unit res" where
  "check_artifacts tx ho side =
    checks (map (\<lambda>(path, expected). bind (ho_artifact ho path) (\<lambda>found.
        refuse_if (\<not> py_eq found expected) (''recorded boot artifact was changed: '' @ last (split_on CHR ''/'' path))))
      (dict_of (dget (tx_request tx) (side_key side ''artifacts''))))"

text \<open>\<open>set(value) == {...}\<close> of a value that may not be a mapping.\<close>

definition key_set_is :: "pyval \<Rightarrow> string list \<Rightarrow> bool res" where
  "key_set_is v ks = bind (viter v) (\<lambda>xs. if list_all hashable xs
     then Inr (set xs = PStr ` set ks) else Inl TypeError)"

text \<open>\<open>secure(XEN / (role + '.cfg')).read_bytes()\<close>; reading a file that is not there raises.\<close>

definition read_published :: "host \<Rightarrow> string \<Rightarrow> string res" where
  "read_published ho role = bind (ho_published ho role) (\<lambda>content.
     case content of None \<Rightarrow> Inl (OSError role) | Some text \<Rightarrow> Inr text)"

text \<open>The published definition still is the one the request was made from.\<close>

definition check_published :: "transaction \<Rightarrow> host \<Rightarrow> string \<Rightarrow> unit res" where
  "check_published tx ho msg =
    bind (read_published ho (tx_role tx)) (\<lambda>active.
    refuse_if (PStr (sha256_hex active) \<noteq> dget (tx_request tx) ''old_config_sha256'') msg)"

text \<open>The guest runs, and it is the old one.\<close>

definition check_old_runs :: "transaction \<Rightarrow> host \<Rightarrow> vside list \<Rightarrow> string \<Rightarrow> unit res" where
  "check_old_runs tx ho sides msg =
    bind (live_guest tx (ho_xen ho) sides) (\<lambda>guest.
    case guest of
      None \<Rightarrow> Inl (Refused msg)
    | Some domain \<Rightarrow> bind (domain_info domain ''uuid'') (\<lambda>identity.
        refuse_if (identity \<noteq> dget (tx_request tx) ''old_uuid'') msg))"


section \<open>Arming\<close>

definition pointer_file :: "string \<Rightarrow> string" where
  "pointer_file role = role @ ''.json''"

definition open_pointer ::
  "(string \<Rightarrow> stmt list option) \<Rightarrow> host \<Rightarrow> string \<times> pyval res \<Rightarrow> (pyval \<times> transaction) res" where
  "open_pointer ast_parse ho = (\<lambda>(name, file).
    bind (refuse_if (name \<notin> set (map pointer_file ROLES)) ''unexpected active transaction pointer'') (\<lambda>_.
    bind file (\<lambda>previous.
    bind (key_set_is previous [''operation_id'', ''request_sha256'']) (\<lambda>exact.
    bind (refuse_if (\<not> exact) ''active transaction pointer is invalid'') (\<lambda>_.
    bind (vitem previous ''operation_id'') (\<lambda>v.
    bind (as_str v) (\<lambda>operation.
    bind (refuse_if (\<not> fullmatch OP operation) ''active transaction pointer is invalid'') (\<lambda>_.
    bind (open_transaction ast_parse (ho_operation ho operation)) (\<lambda>older.
    bind (refuse_if (dget (dict_of previous) ''request_sha256'' \<noteq> PStr (digest (PDict (tx_request older)))
        \<or> name \<noteq> pointer_file (tx_role older))
      ''active transaction pointer does not match its request'') (\<lambda>_.
    bind (refuse_if (\<not> tx_settled older) ''another guest transaction is not complete'') (\<lambda>_.
    Inr (previous, older))))))))))))"

definition settled_side :: "transaction \<Rightarrow> vside" where
  "settled_side tx = (if stage_of tx = PStr ''complete'' then NewVm else OldVm)"

text \<open>The request starts from the side the assignment before it settled on.\<close>

definition continues :: "transaction \<Rightarrow> transaction \<Rightarrow> unit res" where
  "continues tx older =
    (let r = tx_request tx; before = tx_request older; side = settled_side older;
         msg = ''old generation differs from the protected previous assignment'' in
     bind (ditem before (side_key side ''uuid'')) (\<lambda>identity.
     bind (refuse_if (dget r ''old_uuid'' \<noteq> identity
         \<or> \<not> py_eq (dget r ''old_disks'') (dget before (side_key side ''disks''))
         \<or> \<not> py_eq (dget r ''old_artifacts'') (dget before (side_key side ''artifacts''))) msg) (\<lambda>_.
     bind (assignment_content older side) (\<lambda>content.
     bind (refuse_if (dget r ''old_config_sha256'' \<noteq> PStr (sha256_hex content)) msg) (\<lambda>_.
     bind (wants_running older) (\<lambda>running.
     bind (refuse_if (dget r ''autostart'' \<noteq> PBool running) msg) (\<lambda>_.
     refuse_if (dget r ''role'' = PStr ''router'' \<and> \<not> py_eq (dget before ''router_state'') (dget r ''router_state'')
         \<and> side = NewVm)
       ''router replacement cannot change its retained disk identity or accounts'')))))))"

definition scan_active ::
  "(string \<Rightarrow> stmt list option) \<Rightarrow> transaction \<Rightarrow> host \<Rightarrow> pyval \<Rightarrow> string \<times> pyval res \<Rightarrow> pyval res" where
  "scan_active ast_parse tx ho previous_assignment entry =
    bind (open_pointer ast_parse ho entry) (\<lambda>(previous, older).
    if tx_role older = tx_role tx then
      bind (continues tx older) (\<lambda>_.
      bind (release_identity older (settled_side older)) (\<lambda>release.
      Inr (PDict (AList.updates (map fst release) (map snd release) (dict_of previous)))))
    else Inr previous_assignment)"

text \<open>\<open>router_source(request)\<close>: the exact accepted generation of the legacy router.\<close>

definition without_digest :: "pydict \<Rightarrow> pyval" where
  "without_digest d = PDict (filter (\<lambda>(k, v). k \<noteq> ''record_sha256'') d)"

definition check_legacy_record :: "pydict \<Rightarrow> pyval \<times> pyval \<Rightarrow> unit res" where
  "check_legacy_record r = (\<lambda>(value, expected).
    bind (as_dict value) (\<lambda>d.
    refuse_if (\<not> py_eq (dget d ''record_sha256'') expected \<or> PStr (digest (without_digest d)) \<noteq> expected
        \<or> \<not> py_eq (dget d ''box'') (dget r ''box'') \<or> dget d ''role'' \<noteq> PStr ''router'')
      ''router migration source differs from protected legacy evidence''))"

definition identity_entry :: "string list \<Rightarrow> pyval \<Rightarrow> (pyval \<times> pyval) res" where
  "identity_entry ks v =
    bind (vitem v ''path'') (\<lambda>path.
    bind (traverse (\<lambda>k. bind (vitem v k) (\<lambda>x. Inr (k, x))) ks) (\<lambda>d.
    if hashable path then Inr (path, PDict d) else Inl TypeError))"

definition same_identities :: "pyval \<Rightarrow> (pyval \<times> pyval) list \<Rightarrow> bool" where
  "same_identities v entries \<longleftrightarrow> list_all (is_str \<circ> fst) entries \<and>
    py_eq v (PDict (foldl (\<lambda>d (path, x). dset d (case path of PStr p \<Rightarrow> p | _ \<Rightarrow> []) x) [] entries))"

definition check_legacy_root :: "pydict \<Rightarrow> pydict \<Rightarrow> pydict \<Rightarrow> pydict \<Rightarrow> unit res" where
  "check_legacy_root r source accepted generation =
    (let msg = ''router migration does not select the accepted legacy root'' in
     bind (refuse_if (\<not> py_eq (dget accepted ''current_sha256'') (dget source ''generation_sha256'')) msg) (\<lambda>_.
     bind (vget (dgetd generation ''xen'' (PDict [])) ''uuid'') (\<lambda>identity.
     bind (refuse_if (\<not> py_eq identity (dget r ''old_uuid'')
         \<or> \<not> py_eq (dget generation ''accounts'') (dget (dict_of (dget r ''router_state'')) ''accounts'')) msg) (\<lambda>_.
     bind (ditem generation ''disk'') (\<lambda>disk.
     bind (identity_entry [''uuid'', ''bytes''] disk) (\<lambda>root.
     bind (refuse_if (\<not> same_identities (dget r ''old_disks'') [root]) msg) (\<lambda>_.
     bind (ditem generation ''boot'') (\<lambda>boot.
     bind (as_dict boot) (\<lambda>files.
     bind (traverse (identity_entry [''sha256'', ''bytes'']) (map snd files)) (\<lambda>artifacts.
     refuse_if (\<not> same_identities (dget r ''old_artifacts'') artifacts) msg))))))))))"

definition check_legacy_topology :: "pydict \<Rightarrow> pydict \<Rightarrow> pyval \<Rightarrow> pydict \<Rightarrow> pyval \<Rightarrow> unit res" where
  "check_legacy_topology r source accepted generation topology =
    (let msg = ''router replacement requires the exact accepted controller network topology'' in
     bind (as_dict topology) (\<lambda>t.
     bind (refuse_if (dget t ''stage'' \<noteq> PStr ''accepted'' \<or> \<not> py_eq (dget t ''box'') (dget r ''box'')
         \<or> dget source ''topology_sha256'' \<noteq> PStr (digest topology)
         \<or> \<not> py_eq (dget t ''accepted_after'') accepted) msg) (\<lambda>_.
     bind (vget (dgetd t ''boot_after'' (PDict [])) ''vif'') (\<lambda>vif.
     bind (ditem generation ''xen'') (\<lambda>xen.
     bind (vitem xen ''vif'') (\<lambda>wanted.
     refuse_if (\<not> py_eq vif wanted) msg))))))"

definition router_source :: "legacy \<Rightarrow> pydict \<Rightarrow> unit res" where
  "router_source lg r =
    bind (refuse_if (lg_busy lg) ''finish the legacy router operation before common replacement'') (\<lambda>_.
    if dget r ''router_source'' = PNone then Inr ()
    else
      let source = dict_of (dget r ''router_source'') in
      bind (lg_contract lg) (\<lambda>readiness.
      bind (refuse_if (\<not> py_eq readiness (PDict [(''kind'', PStr ''klokast.router-common-contract.v1''),
          (''engine_commit'', dget r ''engine_commit'')]))
        ''install the matching legacy handoff guard before common router replacement'') (\<lambda>_.
      bind (lg_accepted lg) (\<lambda>accepted.
      bind (as_str (dget source ''generation_sha256'')) (\<lambda>record.
      bind (lg_record lg record) (\<lambda>generation.
      bind (checks (map (check_legacy_record r)
        [(accepted, dget source ''assignment_sha256''), (generation, dget source ''generation_sha256'')])) (\<lambda>_.
      bind (check_legacy_root r source (dict_of accepted) (dict_of generation)) (\<lambda>_.
      bind (lg_installation lg) (\<lambda>initial.
      bind (case initial of None \<Rightarrow> Inr () | Some v \<Rightarrow> bind (vget v ''stage'') (\<lambda>stage.
          refuse_if (stage \<noteq> PStr ''verified'') ''finish router first installation before migrating its state'')) (\<lambda>_.
      bind (lg_topology lg) (\<lambda>topology.
      check_legacy_topology r source accepted (dict_of generation) topology)))))))))))"

text \<open>A first migration of the router also keeps its recorded network.\<close>

definition check_router_network :: "transaction \<Rightarrow> legacy \<Rightarrow> unit res" where
  "check_router_network tx lg =
    (let source = dget (tx_request tx) ''router_source'' in
     if tx_role tx = ''router'' \<and> source \<noteq> PNone then
       bind (as_str (dget (dict_of source) ''generation_sha256'')) (\<lambda>record.
       bind (lg_record lg record) (\<lambda>generation.
       bind (vitem generation ''xen'') (\<lambda>xen.
       bind (vitem xen ''vif'') (\<lambda>wanted.
       refuse_if (\<not> py_eq (dget (tx_old tx) ''vif'') wanted)
         ''router migration must preserve the accepted network topology''))))
     else Inr ())"

text \<open>\<open>arm\<close> up to its first write; the result is the previous assignment the journal records.\<close>

definition arm_checks :: "(string \<Rightarrow> stmt list option) \<Rightarrow> host \<Rightarrow> transaction \<Rightarrow> pyval res" where
  "arm_checks ast_parse ho tx =
    bind (refuse_if (is_adoption (tx_request tx)) ''adoption record cannot arm a replacement'') (\<lambda>_.
    bind (refuse_if (tx_journal tx \<noteq> PNone) ''operation has already been armed; do not replay it'') (\<lambda>_.
    bind (if tx_role tx = ''router'' then
            bind (router_source (ho_legacy ho) (tx_request tx)) (\<lambda>_.
            refuse_if (dget (tx_request tx) ''router_source'' = PNone
                \<and> ''router.json'' \<notin> set (map fst (ho_active ho)))
              ''router data attachment requires a prior common assignment'')
          else Inr ()) (\<lambda>_.
    bind (fold_res (scan_active ast_parse tx ho) PNone (sort_key fst (ho_active ho))) (\<lambda>previous.
    bind (check_published tx ho ''live Xen definition changed before arm'') (\<lambda>_.
    bind (check_router_network tx (ho_legacy ho)) (\<lambda>_.
    bind (check_old_runs tx ho [OldVm, NewVm] ''arm requires the exact running old guest'') (\<lambda>_.
    bind (check_artifacts tx ho OldVm) (\<lambda>_.
    bind (check_artifacts tx ho NewVm) (\<lambda>_. Inr previous)))))))))"


section \<open>Adopting\<close>

definition open_other ::
  "(string \<Rightarrow> stmt list option) \<Rightarrow> host \<Rightarrow> string \<times> pyval res \<Rightarrow> unit res" where
  "open_other ast_parse ho = (\<lambda>(name, file).
    bind (refuse_if (name \<notin> set (map pointer_file ROLES)) ''unexpected active transaction pointer'') (\<lambda>_.
    bind file (\<lambda>value.
    bind (key_set_is value [''operation_id'', ''request_sha256'']) (\<lambda>exact.
    bind (refuse_if (\<not> exact) ''another assignment pointer is invalid'') (\<lambda>_.
    bind (vitem value ''operation_id'') (\<lambda>v.
    bind (refuse_if (\<not> matches OP v) ''another assignment pointer is invalid'') (\<lambda>_.
    bind (as_str v) (\<lambda>operation.
    bind (open_transaction ast_parse (ho_operation ho operation)) (\<lambda>older.
    refuse_if (dget (dict_of value) ''request_sha256'' \<noteq> PStr (digest (PDict (tx_request older)))
        \<or> name \<noteq> pointer_file (tx_role older) \<or> \<not> tx_settled older)
      ''another guest transaction is not complete'')))))))))"

definition expected_link :: "string \<Rightarrow> link \<Rightarrow> bool" where
  "expected_link role l = (case l of
     LinkTo target \<Rightarrow> target \<in> set [''../'' @ role @ ''.cfg'', ''/etc/xen/'' @ role @ ''.cfg''] | _ \<Rightarrow> False)"

definition adopt_checks :: "(string \<Rightarrow> stmt list option) \<Rightarrow> host \<Rightarrow> transaction \<Rightarrow> unit res" where
  "adopt_checks ast_parse ho tx =
    bind (refuse_if (\<not> str_in (dget (tx_request tx) ''kind'') [adoption_kind, switch_v2]
        \<or> dget (tx_request tx) ''autostart'' \<noteq> PBool True)
      ''adoption requires a running guest and the current recovery contract'') (\<lambda>_.
    bind (refuse_if (tx_journal tx \<noteq> PNone) ''adoption operation has already been recorded'') (\<lambda>_.
    bind (refuse_if (pointer_file (tx_role tx) \<in> set (map fst (ho_active ho)))
      ''guest already has an active disk assignment'') (\<lambda>_.
    bind (checks (map (open_other ast_parse ho) (ho_active ho))) (\<lambda>_.
    bind (check_published tx ho ''live Xen definition changed before adoption'') (\<lambda>_.
    bind (refuse_if (\<not> expected_link (tx_role tx) (ho_link ho (tx_role tx)))
      ''running old guest lacks its recorded autostart link'') (\<lambda>_.
    bind (check_old_runs tx ho [OldVm] ''adoption requires the exact running old guest'') (\<lambda>_.
    check_artifacts tx ho OldVm)))))))"


section \<open>The request of the stage machine\<close>

text \<open>What the stages of \<open>Vm_Update\<close> use of an opened transaction.\<close>

definition kind_names :: "(string \<times> kind) list" where
  "kind_names = [(switch_v1, SwitchV1), (switch_v2, SwitchV2), (switch_v3, SwitchV3),
     (SERVICE_KIND, Service), (RETAINED_KIND, Retained), (adoption_kind, Adoption)]"

definition engine_request :: "transaction \<Rightarrow> vm_request option" where
  "engine_request tx =
    (case dget (tx_request tx) ''kind'' of
       PStr k \<Rightarrow> (case map_of kind_names k of
           None \<Rightarrow> None
         | Some kind \<Rightarrow> Some \<lparr>vq_kind = kind, vq_role = tx_role tx,
             vq_autostart = truthy (dget (tx_request tx) ''autostart''),
             vq_replacement_seconds = tx_replacement_seconds tx,
             vq_recovery_seconds = tx_recovery_seconds tx\<rparr>)
     | _ \<Rightarrow> None)"

end
