(* ===== verification/Vm_Status.thy ===== *)
theory Vm_Status
  imports Vm_Lineage
begin

text \<open>
  What \<^verbatim>\<open>vm_update_engine.py\<close> reports of a box without changing it: the current assignment of a role
  (\<open>current_assignment\<close>, \<open>assignment_report\<close>, \<open>assignment_status\<close>, \<open>router_owner\<close>) and the identity of a guest that no
  transaction manages yet (\<open>source_status\<close>), which the adoption request must repeat exactly
  (\<open>stage_adoption\<close>). The name of the host and the clock are arguments.
\<close>

section \<open>Publishing a side\<close>

text \<open>\<open>assignment(side)\<close>: the host afterwards, and whether it raised. The definition is written before the
  link is looked at; the old link is gone before the runtime intent is read.\<close>

definition set_published :: "string \<Rightarrow> string \<Rightarrow> host \<Rightarrow> host" where
  "set_published role content ho = ho\<lparr>ho_published := (ho_published ho)(role := Inr (Some content))\<rparr>"

definition set_link :: "string \<Rightarrow> link \<Rightarrow> host \<Rightarrow> host" where
  "set_link role l ho = ho\<lparr>ho_link := (ho_link ho)(role := l)\<rparr>"

definition check_link :: "string \<Rightarrow> link \<Rightarrow> unit res" where
  "check_link role l = (case l of
     NoLink \<Rightarrow> Inr ()
   | NotALink \<Rightarrow> Inl (Refused ''autostart path is not a managed symbolic link'')
   | LinkTo target \<Rightarrow> refuse_if (\<not> expected_link role l) ''autostart link has an unexpected destination'')"

definition publish :: "transaction \<Rightarrow> vside \<Rightarrow> host \<Rightarrow> host \<times> unit res" where
  "publish tx side ho =
    (let role = tx_role tx in
     case bind (check_artifacts tx ho side) (\<lambda>_. assignment_content tx side) of
       Inl e \<Rightarrow> (ho, Inl e)
     | Inr content \<Rightarrow>
        let written = set_published role content ho in
        case check_link role (ho_link ho role) of
          Inl e \<Rightarrow> (written, Inl e)
        | Inr _ \<Rightarrow>
           let unlinked = set_link role NoLink written in
           case wants_running tx of
             Inl e \<Rightarrow> (unlinked, Inl e)
           | Inr running \<Rightarrow>
              (if running then set_link role (LinkTo (''../'' @ role @ ''.cfg'')) unlinked else unlinked, Inr ()))"


section \<open>The current assignment\<close>

text \<open>\<open>with current_assignment(role) as tx\<close>: \<open>None\<close> where no pointer is active.\<close>

definition current_assignment ::
  "(string \<Rightarrow> stmt list option) \<Rightarrow> host \<Rightarrow> string \<Rightarrow> string \<Rightarrow> transaction option res" where
  "current_assignment ast_parse ho hostname role =
    bind (refuse_if (role \<notin> set ROLES) ''assignment requires a supported shared VM role'') (\<lambda>_.
    case map_of (ho_active ho) (pointer_file role) of
      None \<Rightarrow> Inr None
    | Some file_contents \<Rightarrow>
       bind file_contents (\<lambda>selection.
       bind (refuse_if (\<not> has_fields selection [''operation_id'', ''request_sha256'']
           \<or> \<not> matches OP (dget (dict_of selection) ''operation_id''))
         ''current boot assignment pointer is invalid'') (\<lambda>_.
       bind (as_str (dget (dict_of selection) ''operation_id'')) (\<lambda>operation.
       bind (open_transaction ast_parse (ho_operation ho operation)) (\<lambda>tx.
       bind (as_str (dget (tx_request tx) ''box'')) (\<lambda>box.
       bind (refuse_if (tx_role tx \<noteq> role
           \<or> dget (dict_of selection) ''request_sha256'' \<noteq> PStr (digest (PDict (tx_request tx)))
           \<or> hd (split_on CHR ''.'' hostname) \<noteq> box @ ''-dom0'' \<or> \<not> truthy (tx_journal tx))
         ''current boot assignment differs from its operation or box'') (\<lambda>_.
       Inr (Some tx))))))))"

definition report_side :: "pyval \<Rightarrow> vside option" where
  "report_side stage =
    (if str_in stage [''accepted'', ''complete''] then Some NewVm
     else if str_in stage [''adopted'', ''recovered''] then Some OldVm else None)"

definition link_exists :: "link \<Rightarrow> bool" where
  "link_exists l \<longleftrightarrow> l \<noteq> NoLink"

definition autostart_drift :: "string \<Rightarrow> link \<Rightarrow> bool \<Rightarrow> bool" where
  "autostart_drift role l autostart = (if autostart then \<not> expected_link role l else link_exists l)"

definition report_base :: "transaction \<Rightarrow> vside option \<Rightarrow> pydict \<Rightarrow> pydict" where
  "report_base tx side release =
    [(''kind'', PStr ''klokast.vm-boot-assignment.v1''), (''role'', PStr (tx_role tx)), (''managed'', PBool True),
     (''operation_id'', PStr (sg_name (tx_work tx))), (''request_sha256'', PStr (digest (PDict (tx_request tx)))),
     (''stage'', stage_of tx),
     (''selection'', PStr (case side of Some NewVm \<Rightarrow> ''accepted'' | Some OldVm \<Rightarrow> ''recorded-previous''
        | None \<Rightarrow> ''pending'')),
     (''release_sha256'', dget release ''release_sha256''), (''engine_commit'', dget (tx_request tx) ''engine_commit''),
     (''profile'', dget release ''profile'')]"

text \<open>The part of the report for a journal that selects a side.\<close>

definition report_selected :: "host \<Rightarrow> transaction \<Rightarrow> vside \<Rightarrow> pydict res" where
  "report_selected ho tx side =
    (let r = tx_request tx; role = tx_role tx in
     bind (check_artifacts tx ho side) (\<lambda>_.
     bind (live_guest tx (ho_xen ho) [side]) (\<lambda>guest.
     bind (assignment_content tx side) (\<lambda>expected.
     bind (ho_published ho role) (\<lambda>current.
     bind (wants_running tx) (\<lambda>autostart.
     bind (ditem r (side_key side ''uuid'')) (\<lambda>identity.
     Inr [(''vm_uuid'', identity), (''boot_configuration'', PDict (tx_config tx side)),
       (''disks'', dget r (side_key side ''disks'')), (''artifacts'', dget r (side_key side ''artifacts'')),
       (''autostart'', PBool autostart), (''runtime'', PStr (if guest = None then ''stopped'' else ''running'')),
       (''configuration_sha256'', PStr (sha256_hex expected)),
       (''configuration_drift'', PBool (current \<noteq> Some expected)),
       (''autostart_drift'', PBool (autostart_drift role (ho_link ho role) autostart))])))))))"

definition assignment_report :: "host \<Rightarrow> transaction \<Rightarrow> pydict res" where
  "assignment_report ho tx =
    (let side = report_side (stage_of tx) in
     bind (case side of None \<Rightarrow> Inr [(''release_sha256'', PNone), (''profile'', PNone)]
           | Some s \<Rightarrow> release_identity tx s) (\<lambda>release.
     bind (case side of None \<Rightarrow> Inr [] | Some s \<Rightarrow> report_selected ho tx s) (\<lambda>rest.
     Inr (report_base tx side release @ rest))))"

definition assignment_status ::
  "(string \<Rightarrow> stmt list option) \<Rightarrow> host \<Rightarrow> string \<Rightarrow> string \<Rightarrow> pydict res" where
  "assignment_status ast_parse ho hostname role =
    bind (current_assignment ast_parse ho hostname role) (\<lambda>current.
    case current of
      None \<Rightarrow> Inr [(''kind'', PStr ''klokast.vm-boot-assignment.v1''), (''role'', PStr role), (''managed'', PBool False)]
    | Some tx \<Rightarrow> assignment_report ho tx)"

text \<open>Who owns the router: the legacy program, or the common transaction on one side.\<close>

definition owner_side :: "pyval \<Rightarrow> vside option" where
  "owner_side stage =
    (if str_in stage [''starting'', ''booted'', ''tested'', ''accepted'', ''complete''] then Some NewVm
     else if stage = PStr ''recovered'' then Some OldVm else None)"

definition boot_ready :: "host \<Rightarrow> transaction \<Rightarrow> vside \<Rightarrow> bool res" where
  "boot_ready ho tx side =
    bind (tx_disks tx (ho_xen ho) [side]) (\<lambda>_.
    bind (check_artifacts tx ho side) (\<lambda>_.
    bind (live_guest tx (ho_xen ho) [side]) (\<lambda>_.
    bind (wants_running tx) (\<lambda>enabled.
    bind (read_published ho ''router'') (\<lambda>published.
    bind (assignment_content tx side) (\<lambda>expected.
    Inr (published = expected \<and> \<not> autostart_drift ''router'' (ho_link ho ''router'') enabled)))))))"

definition router_owner :: "(string \<Rightarrow> stmt list option) \<Rightarrow> host \<Rightarrow> string \<Rightarrow> pydict res" where
  "router_owner ast_parse ho hostname =
    bind (current_assignment ast_parse ho hostname ''router'') (\<lambda>current.
    case current of
      None \<Rightarrow> Inr [(''owner'', PStr ''legacy-router''), (''managed'', PBool False)]
    | Some tx \<Rightarrow>
       bind (refuse_if (lg_busy (ho_legacy ho)) ''router has conflicting legacy and common operations'') (\<lambda>_.
       let side = owner_side (stage_of tx) in
       bind (case side of None \<Rightarrow> Inr False | Some s \<Rightarrow> boot_ready ho tx s) (\<lambda>ready.
       Inr [(''owner'', PStr ''common-vm''), (''managed'', PBool True),
         (''operation_id'', PStr (sg_name (tx_work tx))), (''stage'', stage_of tx),
         (''selection'', case side of None \<Rightarrow> PNone | Some NewVm \<Rightarrow> PStr ''new'' | Some OldVm \<Rightarrow> PStr ''old''),
         (''boot_ready'', PBool ready)])))"


section \<open>An unmanaged guest\<close>

text \<open>The disks the definition attaches, with the device and the name Xen must report for each.\<close>

definition source_mapping :: "xen_view \<Rightarrow> pyval \<Rightarrow> (int \<times> string \<times> string) res" where
  "source_mapping xv v =
    bind (as_str v) (\<lambda>s.
    case split_on CHR '','' (if starts_with s ''phy:'' then drop 4 s else s) of
      [disk, vdev, mode] \<Rightarrow> bind (xv_device xv disk) (\<lambda>device. Inr (device, vdev, disk))
    | _ \<Rightarrow> Inl (ValueError ''wrong number of values to unpack''))"

definition source_attachment :: "xen_view \<Rightarrow> pyval \<Rightarrow> (int \<times> pyval \<times> pyval) res" where
  "source_attachment xv v =
    (let d = dict_of v; disk = dget d ''pdev_path'' in
     bind (path_device xv disk) (\<lambda>device.
     if hashable (dget d ''vdev'') \<and> hashable (dget d ''readwrite'')
     then Inr (device, dget d ''vdev'', dget d ''readwrite'') else Inl TypeError))"

definition check_source_domain ::
  "xen_view \<Rightarrow> pyval \<Rightarrow> (int \<times> string \<times> string) list \<Rightarrow> int list \<Rightarrow> pyval \<Rightarrow> unit res" where
  "check_source_domain xv target expected devices domain =
    bind (vitem domain ''domid'') (\<lambda>domid.
    if domid = PInt 0 then Inr ()
    else bind (vitem domain ''config'') (\<lambda>config.
      bind (vget config ''disks'') (\<lambda>attached.
      bind (refuse_if (\<not> is_list attached) ''Xen did not report source disk attachments'') (\<lambda>_.
      bind (traverse (source_attachment xv) (list_of attached)) (\<lambda>mappings.
      let wanted = map (\<lambda>(device, vdev, disk). (device, vdev)) expected in
      if domain = target then
        refuse_if (length (list_of attached) \<noteq> length (remdups wanted)
            \<or> \<not> list_all (\<lambda>m. list_ex (\<lambda>w. same_mapping w m) wanted) mappings
            \<or> \<not> list_all (\<lambda>w. list_ex (same_mapping w) mappings) wanted)
          ''running source disk mappings differ from its Xen definition''
      else refuse_if (list_ex (\<lambda>m. fst m \<in> set devices) mappings)
          ''another Xen guest holds a source disk'')))))"

definition source_guest :: "pyval list \<Rightarrow> string \<Rightarrow> pyval res" where
  "source_guest records role =
    bind (filter_res (\<lambda>domain. bind (vitem domain ''domid'') (\<lambda>domid.
        if domid = PInt 0 then Inr False
        else bind (domain_info domain ''name'') (\<lambda>name. Inr (name = PStr role)))) records) (\<lambda>found.
    case found of [target] \<Rightarrow> Inr target
    | _ \<Rightarrow> Inl (Refused ''source inspection requires exactly one running guest''))"

definition link_autostart :: "string \<Rightarrow> link \<Rightarrow> bool res" where
  "link_autostart role l = (case l of
     NoLink \<Rightarrow> Inr False
   | NotALink \<Rightarrow> Inl (Refused ''source autostart entry is not a supported link'')
   | LinkTo target \<Rightarrow> bind (refuse_if (\<not> expected_link role l)
       ''source autostart link differs from its Xen definition'') (\<lambda>_. Inr True))"

definition lv_record :: "lv_row \<Rightarrow> pyval" where
  "lv_record row = PDict [(''uuid'', PStr (lv_uuid row)), (''bytes'', PInt (lv_bytes row))]"

definition source_status ::
  "(string \<Rightarrow> stmt list option) \<Rightarrow> host \<Rightarrow> string \<Rightarrow> int \<Rightarrow> string \<Rightarrow> pydict res" where
  "source_status ast_parse ho hostname observed_at role =
    (let xv = ho_xen ho in
     bind (refuse_if (role \<notin> set ROLES) ''source inspection requires a supported shared VM role'') (\<lambda>_.
     bind (refuse_if (pointer_file role \<in> set (map fst (ho_active ho)))
       ''source inspection requires an unmanaged guest'') (\<lambda>_.
     bind (read_published ho role) (\<lambda>content.
     bind (bind (xv_list xv) inventory) (\<lambda>records.
     bind (source_guest records role) (\<lambda>target.
     bind (bind (domain_info target ''uuid'') as_str) (\<lambda>identity.
     bind (configuration (ast_parse content) role identity) (\<lambda>(config, paths).
     bind (traverse (\<lambda>p. bind (xv_lv xv p) (\<lambda>row. Inr (p, row))) paths) (\<lambda>disks.
     bind (refuse_if (\<not> distinct (devices_of disks)) ''source disk device identities overlap'') (\<lambda>_.
     bind (refuse_if (list_ex (\<lambda>d. d \<in> set (xv_mounted xv)) (devices_of disks))
       ''transaction disk is mounted on dom0'') (\<lambda>_.
     bind (traverse (source_mapping xv) (list_of (dget config ''disk''))) (\<lambda>expected.
     bind (checks (map (check_source_domain xv target expected (devices_of disks)) records)) (\<lambda>_.
     bind (traverse (\<lambda>name. bind (as_str (dget config name)) (\<lambda>p.
         bind (ho_artifact ho p) (\<lambda>a. Inr (p, a)))) [''kernel'', ''ramdisk'']) (\<lambda>artifacts.
     bind (link_autostart role (ho_link ho role)) (\<lambda>autostart.
     Inr [(''kind'', PStr ''klokast.vm-unmanaged-source.v1''), (''role'', PStr role),
       (''dom0'', PStr (hd (split_on CHR ''.'' hostname))), (''observed_at'', PInt observed_at),
       (''vm_uuid'', PStr identity), (''configuration_sha256'', PStr (sha256_hex content)),
       (''disks'', PDict (map (\<lambda>(p, row). (p, lv_record row)) disks)),
       (''disk_mappings'', PDict (foldl (\<lambda>d (device, vdev, disk). dset d disk (PStr vdev)) [] expected)),
       (''artifacts'', PDict (foldl (\<lambda>d (p, a). dset d p a) [] artifacts)),
       (''autostart'', PBool autostart), (''runtime'', PStr ''running'')])))))))))))))))"

text \<open>What \<open>stage_adoption\<close> demands of a new request; staging the files and \<open>adopt_old\<close> follow.\<close>

definition adoption_targets :: "(string \<times> string) list" where
  "adoption_targets = [(''k001'', ''dmz''), (''k002'', ''dmz''), (''k002'', ''iot'')]"

definition adoption_target :: "pyval \<Rightarrow> (string \<times> string) res" where
  "adoption_target request =
    (let r = dict_of request; msg = ''adoption request must select one approved no-application target'' in
     bind (refuse_if (\<not> is_dict request \<or> dget r ''kind'' \<noteq> PStr adoption_kind
         \<or> \<not> matches OP (dget r ''operation_id'')) msg) (\<lambda>_.
     bind (str_member (dget r ''role'') [''dmz'', ''iot'']) (\<lambda>known_role.
     bind (refuse_if (\<not> known_role) msg) (\<lambda>_.
     bind (str_member (dget r ''box'') [''k001'', ''k002'']) (\<lambda>known_box.
     bind (refuse_if (\<not> known_box) msg) (\<lambda>_.
     bind (as_str (dget r ''box'')) (\<lambda>box.
     bind (as_str (dget r ''role'')) (\<lambda>role.
     bind (refuse_if ((box, role) \<notin> set adoption_targets) msg) (\<lambda>_.
     Inr (box, role))))))))))"

definition check_adoption_source :: "pydict \<Rightarrow> string \<Rightarrow> pydict \<Rightarrow> unit res" where
  "check_adoption_source r box source =
    refuse_if (dget source ''dom0'' \<noteq> PStr (box @ ''-dom0'') \<or> dget source ''runtime'' \<noteq> PStr ''running''
        \<or> dget source ''autostart'' \<noteq> PBool True \<or> dget r ''autostart'' \<noteq> PBool True
        \<or> \<not> py_eq (dget r ''old_uuid'') (dget source ''vm_uuid'')
        \<or> \<not> py_eq (dget r ''old_config_sha256'') (dget source ''configuration_sha256'')
        \<or> \<not> py_eq (dget r ''old_disks'') (dget source ''disks'')
        \<or> \<not> py_eq (dget r ''old_artifacts'') (dget source ''artifacts''))
      ''adoption source changed from the signed controller request''"

definition stage_adoption_checks ::
  "(string \<Rightarrow> stmt list option) \<Rightarrow> host \<Rightarrow> string \<Rightarrow> int \<Rightarrow> pyval \<Rightarrow> unit res" where
  "stage_adoption_checks ast_parse ho hostname observed_at request =
    bind (adoption_target request) (\<lambda>(box, role).
    bind (source_status ast_parse ho hostname observed_at role) (\<lambda>source.
    check_adoption_source (dict_of request) box source))"

text \<open>A new adoption is staged, and its closed request validated, before \<open>adopt_old\<close> runs. The stored request
  is read back as the same document.\<close>

definition stage_new_adoption ::
  "(string \<Rightarrow> stmt list option) \<Rightarrow> host \<Rightarrow> string \<Rightarrow> int \<Rightarrow> pyval \<Rightarrow> transaction res" where
  "stage_new_adoption ast_parse ho hostname observed_at request =
    bind (stage_adoption_checks ast_parse ho hostname observed_at request) (\<lambda>_.
    let r = dict_of request in
    bind (as_str (dget r ''role'')) (\<lambda>role.
    bind (as_str (dget r ''operation_id'')) (\<lambda>operation.
    bind (read_published ho role) (\<lambda>content.
    bind (refuse_if (PStr (sha256_hex content) \<noteq> dget r ''old_config_sha256'')
      ''Xen definition changed while staging adoption'') (\<lambda>_.
    open_transaction ast_parse \<lparr>sg_name = operation, sg_request = Inr request, sg_old_cfg = Inr content,
      sg_new_cfg = Inl (OSError ''new.cfg''), sg_journal = Inr None, sg_runtime = Inr None\<rparr>)))))"

text \<open>A report that shows the recorded guest running as recorded.\<close>

definition runs_without_drift :: "pydict \<Rightarrow> bool" where
  "runs_without_drift report \<longleftrightarrow> \<not> truthy (dget report ''configuration_drift'')
     \<and> \<not> truthy (dget report ''autostart_drift'') \<and> dget report ''runtime'' = PStr ''running''"

text \<open>Staging again the operation that was already staged returns its journal.\<close>

definition stage_adoption_again ::
  "(string \<Rightarrow> stmt list option) \<Rightarrow> host \<Rightarrow> string \<Rightarrow> pyval \<Rightarrow> pyval res" where
  "stage_adoption_again ast_parse ho hostname request =
    bind (adoption_target request) (\<lambda>(box, role).
    bind (current_assignment ast_parse ho hostname role) (\<lambda>existing.
    let msg = ''adoption operation ID exists without the same durable assignment'' in
    case existing of
      None \<Rightarrow> Inl (Refused msg)
    | Some tx \<Rightarrow>
       bind (refuse_if (PStr (sg_name (tx_work tx)) \<noteq> dget (dict_of request) ''operation_id''
           \<or> \<not> py_eq (PDict (tx_request tx)) request \<or> stage_of tx \<noteq> PStr ''adopted'') msg) (\<lambda>_.
       bind (assignment_report ho tx) (\<lambda>report.
       bind (refuse_if (\<not> runs_without_drift report) ''recorded old VM generation has drifted'') (\<lambda>_.
       Inr (tx_journal tx))))))"


section \<open>Convergence of the controller\<close>

text \<open>\<open>record_convergence\<close>: whether the state of the service changed, and the state.\<close>

definition record_convergence ::
  "(string \<Rightarrow> stmt list option) \<Rightarrow> host \<Rightarrow> string \<Rightarrow> pyval res \<Rightarrow> pyval res \<Rightarrow> string \<Rightarrow> (bool \<times> pydict) res" where
  "record_convergence ast_parse ho hostname configuration_file service_file role =
    bind (refuse_if (role \<noteq> ''ops'') ''controller convergence requires the ops assignment'') (\<lambda>_.
    bind configuration_file (\<lambda>value.
    bind (refuse_if (\<not> has_fields value [''engine_commit'', ''instance_commit'']
        \<or> \<not> list_all (matches COMMIT_RE \<circ> snd) (dict_of value))
      ''controller convergence revisions are invalid'') (\<lambda>_.
    bind (current_assignment ast_parse ho hostname role) (\<lambda>current.
    let msg = ''finish common controller replacement before explicit convergence'' in
    case current of
      None \<Rightarrow> Inl (Refused msg)
    | Some tx \<Rightarrow>
       bind (refuse_if (stage_of tx \<noteq> PStr ''complete'') msg) (\<lambda>_.
       bind (assignment_report ho tx) (\<lambda>report.
       bind (refuse_if (\<not> runs_without_drift report)
         ''controller assignment differs before convergence publication'') (\<lambda>_.
       bind (bind service_file as_dict) (\<lambda>state.
       bind (vget (dgetd state ''reboot_verification'' (PDict [])) ''status'') (\<lambda>status.
       bind (refuse_if (status \<noteq> PStr ''complete'')
         ''finish controller reboot verification before convergence'') (\<lambda>_.
       let changed = \<not> py_eq (dget state ''convergence'') value in
       Inr (changed, if changed then dset state ''convergence'' value else state)))))))))))"


section \<open>The fence at boot\<close>

text \<open>\<open>fence_autostart()\<close>: no managed guest starts by itself before its transaction is recovered. A file in the place of a
  link is moved out of the directory.\<close>

definition fence_role :: "host \<Rightarrow> string \<Rightarrow> host" where
  "fence_role ho role =
    (if role \<in> set [''router'', ''ops'', ''air''] \<and> pointer_file role \<notin> set (map fst (ho_active ho)) then ho
     else if ho_link ho role = NoLink then ho else set_link role NoLink ho)"

definition fence_autostart :: "host \<Rightarrow> host" where
  "fence_autostart ho = foldl fence_role ho (sort ROLES)"

definition fenced :: "host \<Rightarrow> string \<Rightarrow> bool" where
  "fenced ho role \<longleftrightarrow> (role \<in> {''router'', ''ops'', ''air''} \<longrightarrow> pointer_file role \<in> fst ` set (ho_active ho))"

lemma fence_role_active: "ho_active (fence_role ho role) = ho_active ho"
  by (simp add: fence_role_def set_link_def)

lemma fence_role_link:
  "ho_link (fence_role ho role) = (if fenced ho role then (ho_link ho)(role := NoLink) else ho_link ho)"
  by (cases "fenced ho role") (auto simp: fence_role_def set_link_def fenced_def fun_upd_idem)

lemma fence_fold_link: "ho_link (foldl fence_role ho roles) r =
    (if r \<in> set roles \<and> fenced ho r then NoLink else ho_link ho r)"
proof (induction roles arbitrary: ho)
  case (Cons role roles)
  have "fenced (fence_role ho role) r = fenced ho r" by (simp add: fenced_def fence_role_active)
  then show ?case by (simp add: Cons fence_role_link)
qed simp

text \<open>Exactly the managed guests are fenced; an unconverted router, ops or air guest keeps its link.\<close>

lemma fence_exact: "ho_link (fence_autostart ho) role =
    (if role \<in> set ROLES \<and> fenced ho role then NoLink else ho_link ho role)"
  by (simp add: fence_autostart_def fence_fold_link)

end
