(* ===== verification/Vm_Properties.thy ===== *)
theory Vm_Properties
  imports Vm_Lineage
begin

text \<open>
  What the checks of a guest replacement guarantee: the two generations of an accepted request share at most the
  retained data disk (\<open>generations_apart\<close>), the engine sees exactly one holder of its disks (\<open>live_guest_exact\<close>), and
  arming starts from the assignment the last operation settled on (\<open>arming_continues\<close>). The sample is one guest
  that was replaced once and is about to be replaced again.
\<close>

section \<open>Accepted requests\<close>

lemma check_side_Inr:
  assumes "check_side ast_parse sg r side = Inr config"
  obtains paths where "staged_configuration ast_parse sg r side = Inr (config, paths)"
    "fst ` set (dict_of (dget r (side_key side ''disks''))) = set paths"
    "side = NewVm \<Longrightarrow> dget config ''uuid'' = dget r ''new_uuid''"
  using assms unfolding check_side_def Let_def bind_eq_Inr refuse_if_eq_Inr has_fields_def
  by (auto simp: bind_eq_Inr refuse_if_eq_Inr)

lemma check_side_volumes:
  "check_side ast_parse sg r side = Inr config \<Longrightarrow> list_all (lv_identity \<circ> snd) (dict_of (dget r (side_key side ''disks'')))"
  unfolding check_side_def Let_def bind_eq_Inr refuse_if_eq_Inr by (auto simp: bind_eq_Inr refuse_if_eq_Inr)

lemma open_transaction_Inr:
  assumes "open_transaction ast_parse sg = Inr tx"
  obtains r where "tx_request tx = r" "tx_work tx = sg" "validate_request (sg_name sg) (PDict r) = Inr r"
    "check_side ast_parse sg r OldVm = Inr (tx_old tx)"
    "\<not> is_adoption r \<longrightarrow> (\<exists>new. tx_new tx = Some new \<and> check_side ast_parse sg r NewVm = Inr new)"
    "is_adoption r \<longrightarrow> tx_new tx = None"
    "dget r ''kind'' = PStr RETAINED_KIND \<longrightarrow> check_retained ast_parse sg r (tx_old tx) (the (tx_new tx)) = Inr ()"
    "dget r ''kind'' \<noteq> PStr RETAINED_KIND \<longrightarrow> \<not> is_adoption r \<longrightarrow>
      fst ` set (dict_of (dget r ''old_disks'')) \<inter> fst ` set (dict_of (dget r ''new_disks'')) = {}"
    "tx_replacement_seconds tx = seconds r ''replacement_seconds''"
    "tx_recovery_seconds tx = seconds r ''recovery_seconds''"
    "check_journal (sg_name sg) r (tx_recovery_seconds tx) (tx_journal tx) = Inr ()"
proof -
  from assms obtain v r old new journal_file and u1 u2 :: unit where 1: "sg_request sg = Inr v" "validate_request (sg_name sg) v = Inr r"
    "check_side ast_parse sg r OldVm = Inr old"
    "(if is_adoption r then Inr None
          else bind (check_side ast_parse sg r NewVm) (\<lambda>new. Inr (Some new))) = Inr new"
    "(if dget r ''kind'' = PStr RETAINED_KIND then check_retained ast_parse sg r old (the new)
          else refuse_if (\<not> is_adoption r \<and>
             list_ex (\<lambda>p. dhas (dict_of (dget r ''new_disks'')) p) (dkeys (dict_of (dget r ''old_disks''))))
            ''old and candidate writable disks must be disjoint'') = Inr u1"
    "check_journal (sg_name sg) r (seconds r ''recovery_seconds'') (case journal_file of None \<Rightarrow> PNone | Some j \<Rightarrow> j) = Inr u2"
    "(Inr \<lparr>tx_work = sg, tx_request = r, tx_old = old, tx_new = new,
         tx_replacement_seconds = seconds r ''replacement_seconds'',
         tx_recovery_seconds = seconds r ''recovery_seconds'', tx_journal = (case journal_file of None \<Rightarrow> PNone | Some j \<Rightarrow> j)\<rparr> :: transaction res) = Inr tx"
    unfolding open_transaction_def bind_eq_Inr Let_def by blast
  from 1(2) have "v = PDict r" by (auto simp: validate_request_def bind_eq_Inr split: pyval.splits)
  with 1 show thesis
    by (intro that [of r]) (auto simp: bind_eq_Inr refuse_if_eq_Inr list_ex_iff dhas_def split: if_splits)
qed


text \<open>A mapping with one item equals another only if they have the same key.\<close>

lemma py_eq_singleton:
  assumes "is_dict v" "length (dict_of v) = 1" "py_eq v (PDict [(k, x)])"
  shows "\<exists>y. v = PDict [(k, y)] \<and> py_eq y x"
proof -
  from assms(1,2) obtain k' y where "v = PDict [(k', y)]"
    by (auto simp: is_dict_iff length_Suc_conv)
  with assms(3) show ?thesis by (auto split: if_splits)
qed

text \<open>Two recorded identities name the same logical volume.\<close>

definition same_volume :: "pyval \<Rightarrow> pyval \<Rightarrow> bool" where
  "same_volume v w \<longleftrightarrow> (\<exists>d e uuid bytes. v = PDict d \<and> w = PDict e \<and>
     dget d ''uuid'' = PStr uuid \<and> dget e ''uuid'' = PStr uuid \<and> dget d ''bytes'' = PInt bytes \<and> dget e ''bytes'' = PInt bytes)"

lemma py_eq_item:
  assumes "py_eq (PDict d) v" "map_of d k = Some x"
  shows "\<exists>e y. v = PDict e \<and> map_of e k = Some y \<and> py_eq x y"
proof -
  from assms(1) obtain e where e: "v = PDict e"
    "list_all (\<lambda>(k, x). case map_of e k of None \<Rightarrow> False | Some y \<Rightarrow> py_eq x y) d" by (cases v) auto
  from e(2) map_of_SomeD [OF assms(2)] show ?thesis by (auto simp: e(1) list_all_iff split: option.splits)
qed

lemma py_eq_int: "py_eq v w \<Longrightarrow> int_of v = Some n \<Longrightarrow> int_of w = Some n"
  by (cases v) auto

lemma lv_identity_fields:
  assumes "lv_identity v"
  obtains d uuid bytes where "v = PDict d" "map_of d ''uuid'' = Some (PStr uuid)" "map_of d ''bytes'' = Some (PInt bytes)"
proof -
  have "\<exists>d. v = PDict d" using assms by (cases v) (simp_all add: lv_identity_def has_fields_def)
  moreover have "\<exists>uuid. dget (dict_of v) ''uuid'' = PStr uuid"
    using assms by (cases "dget (dict_of v) ''uuid''") (simp_all add: lv_identity_def matches_def)
  moreover have "\<exists>bytes. dget (dict_of v) ''bytes'' = PInt bytes"
    using assms by (cases "dget (dict_of v) ''bytes''") (simp_all add: lv_identity_def)
  ultimately obtain d uuid bytes where d: "v = PDict d" "dget d ''uuid'' = PStr uuid" "dget d ''bytes'' = PInt bytes"
    by auto
  then have "map_of d ''uuid'' = Some (PStr uuid)" "map_of d ''bytes'' = Some (PInt bytes)"
    by (simp_all add: dget_def dgetd_def split: option.splits)
  with d(1) show thesis by (rule that)
qed

lemma same_volumeI:
  assumes "lv_identity a" "lv_identity c" "py_eq a b" "py_eq b c"
  shows "same_volume a c"
proof -
  obtain d uuid bytes where a: "a = PDict d" "map_of d ''uuid'' = Some (PStr uuid)" "map_of d ''bytes'' = Some (PInt bytes)"
    using assms(1) by (rule lv_identity_fields)
  obtain f uuid' bytes' where c: "c = PDict f" "map_of f ''uuid'' = Some (PStr uuid')" "map_of f ''bytes'' = Some (PInt bytes')"
    using assms(2) by (rule lv_identity_fields)
  from py_eq_item [OF _ a(2), of b] py_eq_item [OF _ a(3), of b] assms(3) a(1) obtain e y
    where b: "b = PDict e" "map_of e ''uuid'' = Some (PStr uuid)" "map_of e ''bytes'' = Some y" "int_of y = Some bytes" by auto
  from py_eq_item [OF _ b(2), of c] assms(4) b(1) c have "uuid' = uuid" by auto
  moreover from py_eq_item [OF _ b(3), of c] assms(4) b(1,4) c have "bytes' = bytes" by (auto dest: py_eq_int)
  ultimately show ?thesis using a c by (auto simp: same_volume_def dget_def dgetd_def)
qed

lemma retained_shared:
  assumes "check_retained ast_parse sg r old new = Inr ()"
    "staged_configuration ast_parse sg r OldVm = Inr (old, old_paths)"
    "staged_configuration ast_parse sg r NewVm = Inr (new, new_paths)"
    "p \<in> set old_paths" "p \<in> set new_paths"
    "fst ` set (dict_of (dget r ''old_disks'')) = set old_paths"
  shows "dkeys (dict_of (dget r ''retained_disks'')) = [p] \<and>
    py_eq (dget (dict_of (dget r ''old_disks'')) p) (dget (dict_of (dget r ''retained_disks'')) p) \<and>
    py_eq (dget (dict_of (dget r ''retained_disks'')) p) (dget (dict_of (dget r ''new_disks'')) p)"
proof -
  let ?retained = "dget r ''retained_disks''"
  from assms(1-3) have len: "length new_paths = 2" "length old_paths \<in> {1, 2}"
    and single: "is_dict ?retained" "length (dict_of ?retained) = 1"
      "py_eq ?retained (PDict [(new_paths ! 1, dget (dict_of (dget r ''new_disks'')) (new_paths ! 1))])"
    and new0: "\<not> dhas (dict_of (dget r ''old_disks'')) (new_paths ! 0)"
    and old0: "\<not> dhas (dict_of ?retained) (old_paths ! 0)"
    and old1: "length old_paths = 2 \<Longrightarrow> old_paths ! 1 = new_paths ! 1 \<and>
      py_eq (dget (dict_of (dget r ''old_disks'')) (old_paths ! 1)) (dget (dict_of ?retained) (new_paths ! 1))"
    unfolding check_retained_def Let_def by (auto simp: bind_eq_Inr refuse_if_eq_Inr)
  from py_eq_singleton [OF single] obtain y where y: "?retained = PDict [(new_paths ! 1, y)]"
    "py_eq y (dget (dict_of (dget r ''new_disks'')) (new_paths ! 1))" by blast
  from len(1) assms(5) have "p = new_paths ! 0 \<or> p = new_paths ! 1"
    by (auto simp: in_set_conv_nth less_2_cases_iff)
  with new0 assms(4,6) have p: "p = new_paths ! 1" by (auto simp: dhas_def)
  with old0 y have "p \<noteq> old_paths ! 0" by auto
  with assms(4) len(2) have "length old_paths = 2"
    by (auto simp: in_set_conv_nth less_Suc_eq)
  with old1 p y show ?thesis by auto
qed

text \<open>The budgets of an accepted request are whole minutes within one day, given or not.\<close>

lemma budget_seconds:
  assumes "check_settings r = Inr ()" "check_identity name r = Inr ()"
    "key \<in> {''replacement_seconds'', ''recovery_seconds''}"
  shows "60 \<le> seconds r key \<and> seconds r key \<le> 86400 \<and> seconds r key mod 60 = 0"
proof (cases "dhas r key")
  case False
  then have "map_of r key = None" by (auto simp: dhas_def map_of_eq_None_iff)
  then show ?thesis by (simp add: seconds_def dgetd_def)
next
  case True
  have "set (dkeys r) = set (request_fields r)"
    using assms(2) by (simp add: check_identity_def Let_def res_simps has_fields_def)
  with True have "key \<in> set (request_fields r)" by (auto simp: dhas_def)
  with assms(3) have kind: "str_in (dget r ''kind'') (switch_v3 # SERVICE_KINDS)"
    by (auto simp: request_fields_def Let_def split: if_splits)
  have "whole_minutes (dget r key)"
    using assms(1,3) kind by (auto simp: check_settings_def Let_def res_simps str_in_iff)
  moreover have "dgetd r key (PInt 1800) = dget r key"
    using True by (auto simp: dget_def dgetd_def dhas_def split: option.splits dest: weak_map_of_SomeI)
  ultimately show ?thesis
    by (simp add: seconds_def whole_minutes_def split: pyval.splits)
qed

lemma validate_request_Inr:
  assumes "validate_request name (PDict r) = Inr r"
  shows "check_settings r = Inr ()" "check_identity name r = Inr ()"
    "\<not> is_adoption r \<Longrightarrow> dget r ''old_uuid'' \<noteq> dget r ''new_uuid''"
  using assms by (auto simp: validate_request_def res_simps)

lemma known_kind:
  assumes "check_identity name r = Inr ()"
  obtains k kind where "dget r ''kind'' = PStr k" "map_of kind_names k = Some kind"
proof -
  have "str_in (dget r ''kind'') ([switch_v1, switch_v2, switch_v3] @ SERVICE_KINDS @ [adoption_kind])"
    using assms by (simp add: check_identity_def Let_def res_simps)
  then obtain k where "dget r ''kind'' = PStr k"
    "k \<in> set ([switch_v1, switch_v2, switch_v3] @ SERVICE_KINDS @ [adoption_kind])"
    by (auto simp only: str_in_iff)
  moreover from this have "k \<in> fst ` set kind_names"
    by (auto simp: kind_names_def SERVICE_KINDS_def)
  ultimately show thesis by (metis that map_of_eq_None_iff not_None_eq)
qed

section \<open>Arming\<close>

lemma scan_active_all:
  assumes "fold_res (scan_active ast_parse tx ho) acc entries = Inr previous" "entry \<in> set entries"
  shows "\<exists>pointer older. open_pointer ast_parse ho entry = Inr (pointer, older) \<and>
    (tx_role older = tx_role tx \<longrightarrow> continues tx older = Inr ())"
  using assms
  by (induction entries arbitrary: acc) (auto simp: scan_active_def bind_eq_Inr split: if_splits)

lemma open_pointer_Inr:
  assumes "open_pointer ast_parse ho (name, journal_file) = Inr (pointer, older)"
  shows "tx_settled older \<and> name = pointer_file (tx_role older)"
  using assms by (auto simp: open_pointer_def res_simps)

lemma arm_checks_Inr:
  assumes "arm_checks ast_parse ho tx = Inr previous"
  obtains "\<not> is_adoption (tx_request tx)" "tx_journal tx = PNone"
    "fold_res (scan_active ast_parse tx ho) PNone (sort_key fst (ho_active ho)) = Inr previous"
    "check_published tx ho ''live Xen definition changed before arm'' = Inr ()"
    "check_old_runs tx ho [OldVm, NewVm] ''arm requires the exact running old guest'' = Inr ()"
    "check_artifacts tx ho OldVm = Inr ()" "check_artifacts tx ho NewVm = Inr ()"
  using assms unfolding arm_checks_def by (auto simp: bind_eq_Inr refuse_if_eq_Inr)

lemma check_old_runs_Inr:
  assumes "check_old_runs tx ho sides msg = Inr ()"
  obtains domain where "live_guest tx (ho_xen ho) sides = Inr (Some domain)"
    "domain_info domain ''uuid'' = Inr (dget (tx_request tx) ''old_uuid'')"
  using assms by (auto simp: check_old_runs_def res_simps split: option.splits)

lemma live_guest_Inr:
  assumes "live_guest tx xv sides = Inr g"
  obtains actual records where "tx_disks tx xv sides = Inr actual" "bind (xv_list xv) inventory = Inr records"
    "fold_res (scan_guest tx xv sides actual) None records = Inr g"
  using assms by (auto simp: live_guest_def res_simps)

lemma opened_uuids:
  assumes "open_transaction ast_parse sg = Inr tx" "\<not> is_adoption (tx_request tx)"
  shows "dget (tx_request tx) ''old_uuid'' \<noteq> dget (tx_request tx) ''new_uuid''"
  using assms by (metis open_transaction_Inr validate_request_Inr(3))

text \<open>The old side continues what an assignment before it settled on.\<close>

definition continues_from :: "transaction \<Rightarrow> transaction \<Rightarrow> bool" where
  "continues_from tx older \<longleftrightarrow>
    (let r = tx_request tx; before = tx_request older; side = settled_side older in
     dget r ''old_uuid'' = dget before (side_key side ''uuid'')
     \<and> py_eq (dget r ''old_disks'') (dget before (side_key side ''disks''))
     \<and> py_eq (dget r ''old_artifacts'') (dget before (side_key side ''artifacts''))
     \<and> (case assignment_content older side of
          Inl e \<Rightarrow> False | Inr content \<Rightarrow> dget r ''old_config_sha256'' = PStr (sha256_hex content))
     \<and> (case wants_running older of Inl e \<Rightarrow> False | Inr running \<Rightarrow> dget r ''autostart'' = PBool running))"

lemma continues_Inr: "continues tx older = Inr () \<Longrightarrow> continues_from tx older"
  by (auto simp: continues_def continues_from_def Let_def res_simps dget_def dgetd_def)


section \<open>A sample\<close>

abbreviation lvid :: "string \<Rightarrow> int \<Rightarrow> pyval" where
  "lvid u n \<equiv> PDict [(''uuid'', PStr u), (''bytes'', PInt n)]"

abbreviation "uuid1 \<equiv> ''00000000-0000-0000-0000-000000000001''"
abbreviation "uuid2 \<equiv> ''00000000-0000-0000-0000-000000000002''"
abbreviation "uuid3 \<equiv> ''00000000-0000-0000-0000-000000000003''"
abbreviation "first_op \<equiv> ''0123456789abcdef01234567''"
abbreviation "second_op \<equiv> ''0123456789abcdef01234568''"

definition sample_artifacts :: "string \<Rightarrow> pyval" where
  "sample_artifacts h = PDict
    [(''/mnt/dom0_data/k'', PDict [(''sha256'', PStr h), (''bytes'', PInt 5)]),
     (''/mnt/dom0_data/i'', PDict [(''sha256'', PStr h), (''bytes'', PInt 7)])]"

definition sample_disks :: "string \<Rightarrow> string \<Rightarrow> pyval" where
  "sample_disks path u = PDict [(path, lvid u 10), (''/dev/v/d'', lvid ''DDDDDD'' 20)]"

text \<open>An operation, its UUIDs and root disks, and the hashes of the two definitions and the boot files.\<close>

definition guest_request ::
  "string \<Rightarrow> string \<times> string \<Rightarrow> (string \<times> string) \<times> string \<times> string \<Rightarrow> string \<times> string \<Rightarrow> string \<Rightarrow> pydict" where
  "guest_request operation = (\<lambda>(u, v) ((p, pu), q, qu) (a, b) h.
    [(''kind'', PStr ''klokast.vm-switch.v5''), (''operation_id'', PStr operation), (''box'', PStr ''k001''),
     (''role'', PStr ''dmz''), (''engine_commit'', PStr ''0123456789abcdef0123456789abcdef01234567''),
     (''policy_sha256'', PStr h), (''old_uuid'', PStr u), (''new_uuid'', PStr v),
     (''old_config_sha256'', PStr a), (''new_config_sha256'', PStr b), (''release_sha256'', PStr h),
     (''old_disks'', sample_disks p pu), (''new_disks'', sample_disks q qu),
     (''retained_disks'', PDict [(''/dev/v/d'', lvid ''DDDDDD'' 20)]),
     (''old_artifacts'', sample_artifacts h), (''new_artifacts'', sample_artifacts h),
     (''image_profile'', PStr ''shared-alpine-v1''), (''replacement_seconds'', PInt 1800),
     (''recovery_seconds'', PInt 600), (''autostart'', PBool True)])"

definition first_request :: "string \<Rightarrow> string \<Rightarrow> string \<Rightarrow> pydict" where
  "first_request a b h =
    guest_request first_op (uuid1, uuid2) ((''/dev/v/a'', ''AAAAAA''), ''/dev/v/b'', ''BBBBBB'') (a, b) h"

definition second_request :: "string \<Rightarrow> string \<Rightarrow> string \<Rightarrow> pydict" where
  "second_request a b h =
    guest_request second_op (uuid2, uuid3) ((''/dev/v/b'', ''BBBBBB''), ''/dev/v/c'', ''CCCCCC'') (a, b) h"

definition sample_config :: "string \<Rightarrow> string \<Rightarrow> pydict" where
  "sample_config identity disk =
    [(''name'', PStr ''dmz''), (''uuid'', PStr identity), (''type'', PStr ''pvh''),
     (''kernel'', PStr ''/mnt/dom0_data/k''), (''ramdisk'', PStr ''/mnt/dom0_data/i''),
     (''disk'', PList [PStr (''phy:'' @ disk @ '',xvda,w''), PStr ''phy:/dev/v/d,xvdb,w''])]"

definition sample_parse :: "string \<Rightarrow> stmt list option" where
  "sample_parse c = Some (map (\<lambda>(k, v). Assign k (Some v))
    (if c = ''old'' then sample_config uuid1 ''/dev/v/a''
     else if c = ''third'' then sample_config uuid3 ''/dev/v/c''
     else sample_config uuid2 ''/dev/v/b''))"

definition staged_files :: "string \<Rightarrow> pydict \<Rightarrow> string \<times> string \<Rightarrow> pyval option \<Rightarrow> staged" where
  "staged_files operation r = (\<lambda>(old, new) journal. \<lparr>sg_name = operation, sg_request = Inr (PDict r),
     sg_old_cfg = Inr old, sg_new_cfg = Inr new, sg_journal = Inr journal, sg_runtime = Inr None\<rparr>)"

abbreviation "some_hash \<equiv> sha256_hex []"

text \<open>The first operation completed; what it published is the definition the second one starts from.\<close>

definition first_journal_file :: "pydict \<Rightarrow> pyval" where
  "first_journal_file r = PDict
    [(''request_sha256'', PStr (digest (PDict r))), (''stage'', PStr ''complete''),
     (''deadline'', PInt 2000), (''recovery_seconds'', PInt 600), (''previous_assignment'', PNone)]"

definition opened :: "staged \<Rightarrow> pydict \<Rightarrow> pydict \<Rightarrow> pydict \<Rightarrow> pyval \<Rightarrow> transaction" where
  "opened sg r old new journal = \<lparr>tx_work = sg, tx_request = r, tx_old = old, tx_new = Some new,
     tx_replacement_seconds = 1800, tx_recovery_seconds = 600, tx_journal = journal\<rparr>"

lemma sample_matches:
  "fullmatch OP first_op" "fullmatch OP second_op"
  "check_uuid (PStr uuid1) = Inr ()" "check_uuid (PStr uuid2) = Inr ()" "check_uuid (PStr uuid3) = Inr ()"
  "fullmatch LV_UUID_RE ''AAAAAA''" "fullmatch LV_UUID_RE ''BBBBBB''" "fullmatch LV_UUID_RE ''CCCCCC''"
  "fullmatch LV_UUID_RE ''DDDDDD''"
  by code_simp+

lemma sample_settings:
  "check_settings (first_request a b h) = Inr ()" "check_settings (second_request a b h) = Inr ()"
  "check_identity first_op (first_request a b h) = Inr ()" "check_identity second_op (second_request a b h) = Inr ()"
  "dget (first_request a b h) ''kind'' = PStr RETAINED_KIND" "dget (second_request a b h) ''kind'' = PStr RETAINED_KIND"
  "seconds (first_request a b h) ''replacement_seconds'' = 1800" "seconds (first_request a b h) ''recovery_seconds'' = 600"
  "seconds (second_request a b h) ''replacement_seconds'' = 1800" "seconds (second_request a b h) ''recovery_seconds'' = 600"
  "is_adoption (first_request a b h) \<longleftrightarrow> False" "is_adoption (second_request a b h) \<longleftrightarrow> False"
  by code_simp+

lemmas request_defs = first_request_def second_request_def guest_request_def sample_disks_def sample_artifacts_def

lemma sample_valid:
  assumes "fullmatch HEX a" "fullmatch HEX b" "fullmatch HEX h"
  shows "validate_request first_op (PDict (first_request a b h)) = Inr (first_request a b h)"
    "validate_request second_op (PDict (second_request a b h)) = Inr (second_request a b h)"
  using assms by (simp_all add: validate_request_def sample_settings)
    (simp_all add: request_defs matches_def sample_matches)

lemma sample_configuration:
  "staged_configuration sample_parse (staged_files first_op r (''old'', ''new'') j) (first_request a b h) OldVm =
    Inr (sample_config uuid1 ''/dev/v/a'', [''/dev/v/a'', ''/dev/v/d''])"
  "staged_configuration sample_parse (staged_files first_op r (''old'', ''new'') j) (first_request a b h) NewVm =
    Inr (sample_config uuid2 ''/dev/v/b'', [''/dev/v/b'', ''/dev/v/d''])"
  "staged_configuration sample_parse (staged_files second_op r (CHR ''#'' # c, ''third'') j) (second_request a b h) OldVm =
    Inr (sample_config uuid2 ''/dev/v/b'', [''/dev/v/b'', ''/dev/v/d''])"
  "staged_configuration sample_parse (staged_files second_op r (CHR ''#'' # c, ''third'') j) (second_request a b h) NewVm =
    Inr (sample_config uuid3 ''/dev/v/c'', [''/dev/v/c'', ''/dev/v/d''])"
  by code_simp+

lemma sample_retained:
  "check_retained sample_parse (staged_files first_op r (''old'', ''new'') j) (first_request a b h)
     (sample_config uuid1 ''/dev/v/a'') (sample_config uuid2 ''/dev/v/b'') = Inr ()"
  "check_retained sample_parse (staged_files second_op r (CHR ''#'' # c, ''third'') j) (second_request a b h)
     (sample_config uuid2 ''/dev/v/b'') (sample_config uuid3 ''/dev/v/c'') = Inr ()"
  by code_simp+

lemma sample_sides:
  assumes "fullmatch HEX h"
  shows "check_side sample_parse (staged_files first_op r (''old'', ''new'') j)
      (first_request (sha256_hex ''old'') b h) OldVm = Inr (sample_config uuid1 ''/dev/v/a'')"
    "check_side sample_parse (staged_files first_op r (''old'', ''new'') j)
      (first_request a (sha256_hex ''new'') h) NewVm = Inr (sample_config uuid2 ''/dev/v/b'')"
    "check_side sample_parse (staged_files second_op r (CHR ''#'' # c, ''third'') j)
      (second_request (sha256_hex (CHR ''#'' # c)) b h) OldVm = Inr (sample_config uuid2 ''/dev/v/b'')"
    "check_side sample_parse (staged_files second_op r (CHR ''#'' # c, ''third'') j)
      (second_request a (sha256_hex ''third'') h) NewVm = Inr (sample_config uuid3 ''/dev/v/c'')"
  using assms by (simp_all add: check_side_def sample_configuration)
    (simp_all add: request_defs staged_files_def sample_config_def has_fields_def artifact_identity_def
      lv_identity_def matches_def sample_matches insert_commute)

definition r1 :: pydict where
  "r1 = first_request (sha256_hex ''old'') (sha256_hex ''new'') some_hash"

definition sg1 :: staged where
  "sg1 = staged_files first_op r1 (''old'', ''new'') (Some (first_journal_file r1))"

definition tx1 :: transaction where
  "tx1 = opened sg1 r1 (sample_config uuid1 ''/dev/v/a'') (sample_config uuid2 ''/dev/v/b'') (first_journal_file r1)"

definition published_tail :: string where
  "published_tail = (case assignment_content tx1 NewVm of Inr c \<Rightarrow> tl c | Inl e \<Rightarrow> [])"

definition r2 :: pydict where
  "r2 = second_request (sha256_hex (CHR ''#'' # published_tail)) (sha256_hex ''third'') some_hash"

definition sg2 :: staged where
  "sg2 = staged_files second_op r2 (CHR ''#'' # published_tail, ''third'') None"

definition tx2 :: transaction where
  "tx2 = opened sg2 r2 (sample_config uuid2 ''/dev/v/b'') (sample_config uuid3 ''/dev/v/c'') PNone"

lemma staged_files_sel [simp]:
  "sg_name (staged_files operation r cs j) = operation" "sg_request (staged_files operation r cs j) = Inr (PDict r)"
  "sg_journal (staged_files operation r cs j) = Inr j" "sg_runtime (staged_files operation r cs j) = Inr None"
  by (simp_all add: staged_files_def split: prod.splits)

lemma opened_sel [simp]:
  "tx_request (opened sg r old new j) = r" "tx_journal (opened sg r old new j) = j"
  "tx_old (opened sg r old new j) = old" "tx_new (opened sg r old new j) = Some new"
  "tx_work (opened sg r old new j) = sg"
  by (simp_all add: opened_def)

lemma first_journal_ok: "check_journal first_op r1 600 (first_journal_file r1) = Inr ()"
proof -
  have kind: "str_in (dget r1 ''kind'') [switch_v2, switch_v3] \<longleftrightarrow> False"
    by (simp add: r1_def sample_settings RETAINED_KIND_def)
  show ?thesis
    by (simp add: check_journal_def first_journal_file_def Let_def kind stage_names_def check_time_def finite_int_def)
qed

lemma sample_opens:
  "open_transaction sample_parse sg1 = Inr tx1" "open_transaction sample_parse sg2 = Inr tx2"
proof -
  show "open_transaction sample_parse sg1 = Inr tx1"
    by (simp add: open_transaction_def sg1_def tx1_def opened_def first_journal_ok)
      (simp add: r1_def sample_valid sample_sides sample_settings sample_retained first_journal_ok [unfolded r1_def] Let_def)
  show "open_transaction sample_parse sg2 = Inr tx2"
    by (simp add: open_transaction_def sg2_def tx2_def opened_def)
      (simp add: r2_def sample_valid sample_sides sample_settings sample_retained check_journal_def)
qed

definition sample_domain :: pyval where
  "sample_domain = PDict [(''domid'', PInt 7), (''config'', PDict
     [(''c_info'', PDict [(''name'', PStr ''dmz''), (''uuid'', PStr uuid2)]),
      (''disks'', PList
        [PDict [(''pdev_path'', PStr ''/dev/v/b''), (''vdev'', PStr ''xvda''), (''readwrite'', PInt 1)],
         PDict [(''pdev_path'', PStr ''/dev/v/d''), (''vdev'', PStr ''xvdb''), (''readwrite'', PInt 1)]])])]"

definition sample_xen :: xen_view where
  "sample_xen =
    \<lparr>xv_lv = (\<lambda>p. if p = ''/dev/v/b'' then Inr \<lparr>lv_uuid = ''BBBBBB'', lv_bytes = 10, lv_device = 2\<rparr>
       else if p = ''/dev/v/c'' then Inr \<lparr>lv_uuid = ''CCCCCC'', lv_bytes = 10, lv_device = 3\<rparr>
       else Inr \<lparr>lv_uuid = ''DDDDDD'', lv_bytes = 20, lv_device = 4\<rparr>),
     xv_device = (\<lambda>p. Inr (if p = ''/dev/v/b'' then 2 else if p = ''/dev/v/d'' then 4 else 9)),
     xv_mounted = [1],
     xv_list = Inr (PList
       [PDict [(''domid'', PInt 0), (''config'', PDict [(''c_info'', PDict [(''name'', PStr ''Domain-0'')])])],
        PDict [(''domid'', PInt 5), (''config'', PDict
          [(''c_info'', PDict [(''name'', PStr ''iot''), (''uuid'', PStr uuid1)]),
           (''disks'', PList [PDict [(''pdev_path'', PStr ''/dev/v/i''), (''vdev'', PStr ''xvda''), (''readwrite'', PInt 1)]])])],
        sample_domain])\<rparr>"

lemma sample_guest: "live_guest (opened sg (second_request a b h) (sample_config uuid2 ''/dev/v/b'')
    (sample_config uuid3 ''/dev/v/c'') j) sample_xen [OldVm, NewVm] = Inr (Some sample_domain)"
  by code_simp

definition sample_host :: host where
  "sample_host =
    \<lparr>ho_xen = sample_xen,
     ho_active = [(''dmz.json'', Inr (PDict [(''operation_id'', PStr first_op), (''request_sha256'', PStr (digest (PDict r1)))]))],
     ho_operation = (\<lambda>_. sg1), ho_published = (\<lambda>_. Inr (Some (CHR ''#'' # published_tail))),
     ho_artifact = (\<lambda>p. Inr (PDict [(''sha256'', PStr some_hash), (''bytes'', PInt (if p = ''/mnt/dom0_data/k'' then 5 else 7))])),
     ho_link = (\<lambda>_. LinkTo ''../dmz.cfg''),
     ho_legacy = \<lparr>lg_busy = False, lg_contract = Inr PNone, lg_accepted = Inr PNone, lg_record = (\<lambda>_. Inr PNone),
        lg_installation = Inr None, lg_topology = Inr PNone\<rparr>\<rparr>"

lemma sample_roles:
  "tx_role (opened sg (first_request a b h) o1 n1 j) = ''dmz''"
  "tx_role (opened sg (second_request a b h) o1 n1 j) = ''dmz''"
  by code_simp+

lemma sample_content: "assignment_content tx1 NewVm = Inr (CHR ''#'' # published_tail)"
  by (simp add: published_tail_def assignment_content_def release_identity_def tx1_def r1_def request_defs Let_def)

lemma sample_settled: "tx_settled tx1" "settled_side tx1 = NewVm"
  by (simp_all add: tx_settled_def settled_side_def stage_of_def tx1_def first_journal_file_def)

lemma sample_pointer: "open_pointer sample_parse sample_host (hd (ho_active sample_host)) =
    Inr (PDict [(''operation_id'', PStr first_op), (''request_sha256'', PStr (digest (PDict r1)))], tx1)"
proof -
  have role: "tx_role tx1 = ''dmz''" by (simp add: tx1_def r1_def sample_roles)
  show ?thesis
    by (simp add: open_pointer_def sample_host_def key_set_is_def hashable_def sample_matches sample_opens sample_settled
      role pointer_file_def ROLES_def insert_commute) (simp add: tx1_def)
qed

lemma sample_continues: "continues tx2 tx1 = Inr ()"
proof -
  have running: "wants_running tx1 = Inr True"
    by (simp add: wants_running_def runtime_intent_def tx1_def sg1_def r1_def request_defs)
  have "settled_side tx1 = NewVm" by (rule sample_settled)
  then show ?thesis
    by (simp add: continues_def sample_content running)
      (simp add: tx1_def tx2_def r1_def r2_def request_defs)
qed

lemma sample_arms: "arm_checks sample_parse sample_host tx2 =
    Inr (PDict [(''operation_id'', PStr first_op), (''request_sha256'', PStr (digest (PDict r1))),
      (''release_sha256'', PStr some_hash), (''profile'', PStr ''shared-alpine-v1'')])"
proof -
  have role: "tx_role tx2 = ''dmz''" "tx_role tx1 = ''dmz''"
    by (simp_all add: tx1_def tx2_def r1_def r2_def sample_roles)
  have release: "release_identity tx1 NewVm = Inr [(''release_sha256'', PStr some_hash), (''profile'', PStr ''shared-alpine-v1'')]"
    by (simp add: release_identity_def tx1_def r1_def request_defs)
  obtain entry where active: "ho_active sample_host = [entry]"
    "open_pointer sample_parse sample_host entry =
      Inr (PDict [(''operation_id'', PStr first_op), (''request_sha256'', PStr (digest (PDict r1)))], tx1)"
    using sample_pointer by (simp add: sample_host_def)
  have scan: "fold_res (scan_active sample_parse tx2 sample_host) PNone (sort_key fst (ho_active sample_host)) =
    Inr (PDict [(''operation_id'', PStr first_op), (''request_sha256'', PStr (digest (PDict r1))),
      (''release_sha256'', PStr some_hash), (''profile'', PStr ''shared-alpine-v1'')])"
    by (simp add: active scan_active_def role sample_continues sample_settled release)
  have runs: "check_old_runs tx2 sample_host [OldVm, NewVm] ''arm requires the exact running old guest'' = Inr ()"
    by (simp add: check_old_runs_def sample_host_def tx2_def r2_def sample_guest)
      (simp add: sample_domain_def domain_info_def request_defs)
  have rest: "\<not> is_adoption (tx_request tx2)" "tx_journal tx2 = PNone"
    "check_published tx2 sample_host ''live Xen definition changed before arm'' = Inr ()"
    "check_artifacts tx2 sample_host OldVm = Inr ()" "check_artifacts tx2 sample_host NewVm = Inr ()"
    "check_router_network tx2 (ho_legacy sample_host) = Inr ()"
    by (simp_all add: tx2_def r2_def sample_settings check_published_def read_published_def check_artifacts_def check_router_network_def
        sample_host_def sample_roles) (simp_all add: request_defs)
  show ?thesis
    by (simp add: arm_checks_def rest role scan runs)
qed


section \<open>What is guaranteed\<close>

text \<open>C21. A replacement request that \<open>Transaction.__init__\<close> accepts has two generations that cannot be mistaken for
  each other: their domain UUIDs differ, and a disk that both attach is the one retained data disk of a request of that
  kind, and the same logical volume on both sides: the same LVM UUID and size, equal to those recorded as retained.\<close>

theorem generations_apart:
  assumes "open_transaction ast_parse sg = Inr tx" "\<not> is_adoption (tx_request tx)"
  shows "dget (tx_request tx) ''old_uuid'' \<noteq> dget (tx_request tx) ''new_uuid'' \<and>
    (\<forall>p \<in> set (dkeys (side_disks tx OldVm)). p \<in> set (dkeys (side_disks tx NewVm)) \<longrightarrow>
       dget (tx_request tx) ''kind'' = PStr RETAINED_KIND \<and>
       dkeys (dict_of (dget (tx_request tx) ''retained_disks'')) = [p] \<and>
       same_volume (dget (side_disks tx OldVm) p) (dget (side_disks tx NewVm) p) \<and>
       py_eq (dget (side_disks tx OldVm) p) (dget (dict_of (dget (tx_request tx) ''retained_disks'')) p) \<and>
       py_eq (dget (dict_of (dget (tx_request tx) ''retained_disks'')) p) (dget (side_disks tx NewVm) p))"
proof -
  from assms(1) obtain r where r: "tx_request tx = r" "validate_request (sg_name sg) (PDict r) = Inr r"
    and old: "check_side ast_parse sg r OldVm = Inr (tx_old tx)"
    and new: "\<not> is_adoption r \<longrightarrow> (\<exists>new. tx_new tx = Some new \<and> check_side ast_parse sg r NewVm = Inr new)"
    and retained: "dget r ''kind'' = PStr RETAINED_KIND \<longrightarrow>
      check_retained ast_parse sg r (tx_old tx) (the (tx_new tx)) = Inr ()"
    and disjoint: "dget r ''kind'' \<noteq> PStr RETAINED_KIND \<longrightarrow> \<not> is_adoption r \<longrightarrow>
      fst ` set (dict_of (dget r ''old_disks'')) \<inter> fst ` set (dict_of (dget r ''new_disks'')) = {}"
    by (rule open_transaction_Inr)
  from new assms(2) r(1) obtain cfg where cfg: "tx_new tx = Some cfg" "check_side ast_parse sg r NewVm = Inr cfg"
    by blast
  from old obtain old_paths where o: "staged_configuration ast_parse sg r OldVm = Inr (tx_old tx, old_paths)"
    "fst ` set (dict_of (dget r ''old_disks'')) = set old_paths"
    by (rule check_side_Inr) simp
  from cfg(2) obtain new_paths where n: "staged_configuration ast_parse sg r NewVm = Inr (cfg, new_paths)"
    "fst ` set (dict_of (dget r ''new_disks'')) = set new_paths"
    by (rule check_side_Inr) simp
  have shared: "dget r ''kind'' = PStr RETAINED_KIND \<and> dkeys (dict_of (dget r ''retained_disks'')) = [p] \<and>
      same_volume (dget (dict_of (dget r ''old_disks'')) p) (dget (dict_of (dget r ''new_disks'')) p) \<and>
      py_eq (dget (dict_of (dget r ''old_disks'')) p) (dget (dict_of (dget r ''retained_disks'')) p) \<and>
      py_eq (dget (dict_of (dget r ''retained_disks'')) p) (dget (dict_of (dget r ''new_disks'')) p)"
    if p: "p \<in> set (dkeys (dict_of (dget r ''old_disks'')))" "p \<in> set (dkeys (dict_of (dget r ''new_disks'')))" for p
  proof -
    have kind: "dget r ''kind'' = PStr RETAINED_KIND" using disjoint assms(2) r(1) p by auto
    with retained cfg(1) have check: "check_retained ast_parse sg r (tx_old tx) cfg = Inr ()" by simp
    from p o(2) n(2) have "p \<in> set old_paths" "p \<in> set new_paths" by auto
    note eq = retained_shared [OF check o(1) n(1) this o(2)]
    have "lv_identity (dget (dict_of (dget r (side_key side ''disks''))) p)"
      if "check_side ast_parse sg r side = Inr c" "p \<in> set (dkeys (dict_of (dget r (side_key side ''disks''))))" for side c
      using check_side_volumes [OF that(1)] dget_member [OF that(2)] by (auto simp: list_all_iff)
    from this [OF old] this [OF cfg(2)] p
    have "lv_identity (dget (dict_of (dget r ''old_disks'')) p)" "lv_identity (dget (dict_of (dget r ''new_disks'')) p)" by simp_all
    with eq kind show ?thesis by (blast intro: same_volumeI)
  qed
  show ?thesis
    using validate_request_Inr(3) [OF r(2)] assms(2) shared by (simp add: r(1) side_disks_def)
qed

theorem generations_apart_witness:
  "dget (tx_request tx2) ''old_uuid'' \<noteq> dget (tx_request tx2) ''new_uuid'' \<and>
    same_volume (dget (side_disks tx2 OldVm) ''/dev/v/d'') (dget (side_disks tx2 NewVm) ''/dev/v/d'')"
proof -
  have "\<not> is_adoption (tx_request tx2)" by (simp add: tx2_def r2_def sample_settings)
  from generations_apart [OF sample_opens(2) this] show ?thesis
    by (simp add: tx2_def r2_def side_disks_def request_defs)
qed


text \<open>C19. When \<open>guest()\<close> answers, the disks of the transaction are distinct devices that dom0 has not mounted; every
  domain but dom0 and the answered one attaches none of them; and the answered domain has the recorded name, UUID
  and exactly the devices of one of the sides asked for.\<close>

theorem live_guest_exact:
  assumes "live_guest tx xv sides = Inr g"
  shows "\<exists>actual records. tx_disks tx xv sides = Inr actual \<and> bind (xv_list xv) inventory = Inr records \<and>
    distinct (devices_of actual) \<and> set (devices_of actual) \<inter> set (xv_mounted xv) = {} \<and>
    (\<forall>domain \<in> set records. vitem domain ''domid'' \<noteq> Inr (PInt 0) \<longrightarrow> g \<noteq> Some domain \<longrightarrow>
       (\<exists>devices. domain_devices xv domain = Inr devices \<and> set devices \<inter> set (devices_of actual) = {})) \<and>
    (\<forall>domain. g = Some domain \<longrightarrow> domain \<in> set records \<and> (\<exists>side \<in> set sides. is_side tx xv actual side domain))"
proof -
  from assms obtain actual records where 1: "tx_disks tx xv sides = Inr actual"
    "bind (xv_list xv) inventory = Inr records" "fold_res (scan_guest tx xv sides actual) None records = Inr g"
    by (rule live_guest_Inr)
  then have "distinct (devices_of actual)" "set (devices_of actual) \<inter> set (xv_mounted xv) = {}"
    by (auto simp: tx_disks_def res_simps list_ex_iff)
  with 1 live_guest_scan [OF 1(3)] show ?thesis by (intro exI [of _ actual] exI [of _ records]) simp
qed

theorem live_guest_exact_witness:
  "\<exists>actual. tx_disks tx2 sample_xen [OldVm, NewVm] = Inr actual \<and> distinct (devices_of actual) \<and>
    (\<exists>side \<in> {OldVm, NewVm}. is_side tx2 sample_xen actual side sample_domain)"
proof -
  have "live_guest tx2 sample_xen [OldVm, NewVm] = Inr (Some sample_domain)"
    by (simp add: tx2_def r2_def sample_guest)
  from live_guest_exact [OF this] show ?thesis by auto
qed


text \<open>C20. Arming succeeds only if every active assignment of the box is settled, the one of the same role left the
  generation the request calls old (UUID, disks, boot artifacts, rendered definition and runtime), the published
  definition is that one, and the guest that runs is the old one, with exactly its devices.\<close>

theorem arming_continues:
  assumes "open_transaction ast_parse sg = Inr tx" "arm_checks ast_parse ho tx = Inr previous"
  shows "(\<forall>entry \<in> set (ho_active ho). \<exists>pointer older. open_pointer ast_parse ho entry = Inr (pointer, older) \<and>
       tx_settled older \<and> (tx_role older = tx_role tx \<longrightarrow> continues_from tx older)) \<and>
    (\<exists>active. ho_published ho (tx_role tx) = Inr (Some active) \<and>
       dget (tx_request tx) ''old_config_sha256'' = PStr (sha256_hex active)) \<and>
    (\<exists>actual domain. tx_disks tx (ho_xen ho) [OldVm, NewVm] = Inr actual \<and>
       is_side tx (ho_xen ho) actual OldVm domain)"
proof -
  from assms(2) have scan: "fold_res (scan_active ast_parse tx ho) PNone (sort_key fst (ho_active ho)) = Inr previous"
    and published: "check_published tx ho ''live Xen definition changed before arm'' = Inr ()"
    and runs: "check_old_runs tx ho [OldVm, NewVm] ''arm requires the exact running old guest'' = Inr ()"
    by (rule arm_checks_Inr, simp)+
  have lineage: "\<exists>pointer older. open_pointer ast_parse ho entry = Inr (pointer, older) \<and>
       tx_settled older \<and> (tx_role older = tx_role tx \<longrightarrow> continues_from tx older)"
    if "entry \<in> set (ho_active ho)" for entry
  proof -
    from scan_active_all [OF scan, of entry] that obtain pointer older where
      "open_pointer ast_parse ho entry = Inr (pointer, older)" "tx_role older = tx_role tx \<longrightarrow> continues tx older = Inr ()"
      by auto
    then show ?thesis using continues_Inr open_pointer_Inr by (metis surj_pair)
  qed
  from runs obtain domain where d: "live_guest tx (ho_xen ho) [OldVm, NewVm] = Inr (Some domain)"
    "domain_info domain ''uuid'' = Inr (dget (tx_request tx) ''old_uuid'')"
    by (rule check_old_runs_Inr)
  from d(1) obtain actual records where "tx_disks tx (ho_xen ho) [OldVm, NewVm] = Inr actual"
    "fold_res (scan_guest tx (ho_xen ho) [OldVm, NewVm] actual) None records = Inr (Some domain)"
    by (rule live_guest_Inr)
  with live_guest_scan obtain side where side: "tx_disks tx (ho_xen ho) [OldVm, NewVm] = Inr actual"
    "is_side tx (ho_xen ho) actual side domain" by blast
  have "side = OldVm"
    using side(2) d(2) opened_uuids [OF assms(1)] arm_checks_Inr [OF assms(2)] by (cases side) (auto simp: is_side_def)
  with side lineage show ?thesis
    using published by (auto simp: check_published_def read_published_def res_simps split: option.splits)
qed

theorem arming_continues_witness:
  "\<exists>actual domain. tx_disks tx2 sample_xen [OldVm, NewVm] = Inr actual \<and> is_side tx2 sample_xen actual OldVm domain"
  using arming_continues [OF sample_opens(2) sample_arms] by (simp add: sample_host_def)


text \<open>The stage machine gets a request it knows, with budgets of whole minutes between one minute and one day, so
  the deadline of its first journal is later than the reading of the clock.\<close>

theorem budgets_bounded:
  assumes "open_transaction ast_parse sg = Inr tx"
  shows "\<exists>rq. engine_request tx = Some rq \<and>
    60 \<le> vq_replacement_seconds rq \<and> vq_replacement_seconds rq \<le> 86400 \<and> vq_replacement_seconds rq mod 60 = 0 \<and>
    60 \<le> vq_recovery_seconds rq \<and> vq_recovery_seconds rq \<le> 86400 \<and> vq_recovery_seconds rq mod 60 = 0 \<and>
    observed < j_deadline (first_journal rq stage observed)"
proof -
  from assms obtain r where r: "tx_request tx = r" "validate_request (sg_name sg) (PDict r) = Inr r"
    "tx_replacement_seconds tx = seconds r ''replacement_seconds''"
    "tx_recovery_seconds tx = seconds r ''recovery_seconds''"
    by (rule open_transaction_Inr)
  note v = validate_request_Inr(1,2) [OF r(2)]
  from v(2) obtain k kind where "dget r ''kind'' = PStr k" "map_of kind_names k = Some kind"
    by (rule known_kind)
  with r budget_seconds [OF v, of "''replacement_seconds''"] budget_seconds [OF v, of "''recovery_seconds''"]
  show ?thesis by (simp add: engine_request_def first_journal_def)
qed

theorem budgets_bounded_witness:
  "\<exists>rq. engine_request tx2 = Some rq \<and> 60 \<le> vq_recovery_seconds rq \<and>
    1000 < j_deadline (first_journal rq VArmed 1000)"
  using budgets_bounded [OF sample_opens(2), of 1000 VArmed] by blast

end
