(* ===== verification/Vm_Reports.thy ===== *)
theory Vm_Reports
  imports Vm_Status Vm_Properties
begin

text \<open>
  What the read-only commands of \<^verbatim>\<open>vm_update_engine.py\<close> guarantee: a report without drift
  (\<open>no_drift\<close>) and a first adoption of an unmanaged guest (\<open>adoption_is_exact\<close>).
\<close>

section \<open>Reports\<close>

lemma dget_append: "\<not> dhas d k \<Longrightarrow> dget (d @ e) k = dget e k"
  by (induction d) auto

lemma report_base_keys: "key \<in> {''configuration_drift'', ''autostart_drift'', ''runtime'', ''configuration_sha256''} \<Longrightarrow>
    \<not> dhas (report_base tx side release) key"
  by (elim insertE emptyE) (simp_all add: report_base_def)

definition running_exactly :: "host \<Rightarrow> transaction \<Rightarrow> vside \<Rightarrow> bool \<Rightarrow> bool" where
  "running_exactly ho tx side running \<longleftrightarrow>
    (case live_guest tx (ho_xen ho) [side] of
       Inr (Some domain) \<Rightarrow> running | Inr None \<Rightarrow> \<not> running | Inl e \<Rightarrow> False)"

definition drift_free :: "pydict \<Rightarrow> bool" where
  "drift_free rep \<longleftrightarrow> dget rep ''configuration_drift'' = PBool False \<and> dget rep ''autostart_drift'' = PBool False"

lemma report_selected_parts:
  assumes "report_selected ho tx side = Inr rest"
  obtains found expected current autostart where
    "check_artifacts tx ho side = Inr ()" "live_guest tx (ho_xen ho) [side] = Inr found"
    "assignment_content tx side = Inr expected" "ho_published ho (tx_role tx) = Inr current"
    "wants_running tx = Inr autostart"
    "dget rest ''runtime'' = PStr (if found = None then ''stopped'' else ''running'')"
    "dget rest ''configuration_drift'' = PBool (current \<noteq> Some expected)"
    "dget rest ''autostart_drift'' = PBool (autostart_drift (tx_role tx) (ho_link ho (tx_role tx)) autostart)"
    "dget rest ''configuration_sha256'' = PStr (sha256_hex expected)"
proof -
  from assms obtain found expected current autostart identity where
    p: "check_artifacts tx ho side = Inr ()" "live_guest tx (ho_xen ho) [side] = Inr found"
    "assignment_content tx side = Inr expected" "ho_published ho (tx_role tx) = Inr current"
    "wants_running tx = Inr autostart" "ditem (tx_request tx) (side_key side ''uuid'') = Inr identity"
    unfolding report_selected_def Let_def bind_eq_Inr by auto
  with assms have "rest = [(''vm_uuid'', identity), (''boot_configuration'', PDict (tx_config tx side)),
       (''disks'', dget (tx_request tx) (side_key side ''disks'')),
       (''artifacts'', dget (tx_request tx) (side_key side ''artifacts'')),
       (''autostart'', PBool autostart), (''runtime'', PStr (if found = None then ''stopped'' else ''running'')),
       (''configuration_sha256'', PStr (sha256_hex expected)),
       (''configuration_drift'', PBool (current \<noteq> Some expected)),
       (''autostart_drift'', PBool (autostart_drift (tx_role tx) (ho_link ho (tx_role tx)) autostart))]"
    unfolding report_selected_def Let_def by simp
  then show thesis by (intro that [OF p(1-5)]) simp_all
qed

lemma assignment_report_side:
  assumes "assignment_report ho tx = Inr rep" "drift_free rep"
  obtains side rest where "report_side (stage_of tx) = Some side" "report_selected ho tx side = Inr rest"
    "\<forall>key \<in> {''configuration_drift'', ''autostart_drift'', ''runtime'', ''configuration_sha256''}. dget rep key = dget rest key"
proof -
  from assms(1) obtain release rest where rep: "rep = report_base tx (report_side (stage_of tx)) release @ rest"
    and sel: "(case report_side (stage_of tx) of None \<Rightarrow> Inr [] | Some s \<Rightarrow> report_selected ho tx s) = Inr rest"
    unfolding assignment_report_def Let_def bind_eq_Inr by auto
  have same: "dget rep key = dget rest key"
    if "key \<in> {''configuration_drift'', ''autostart_drift'', ''runtime'', ''configuration_sha256''}" for key
    unfolding rep by (rule dget_append [OF report_base_keys [OF that]])
  show thesis
  proof (cases "report_side (stage_of tx)")
    case None
    with sel have "rest = []" by simp
    with assms(2) same show ?thesis by (simp add: drift_free_def)
  next
    case (Some side)
    with sel same that show ?thesis by simp
  qed
qed


text \<open>Publishing changes what is published and linked, and nothing else a report looks at.\<close>

lemma host_updates [simp]:
  "ho_xen (set_published role c ho) = ho_xen ho" "ho_xen (set_link role l ho) = ho_xen ho"
  "ho_artifact (set_published role c ho) = ho_artifact ho" "ho_artifact (set_link role l ho) = ho_artifact ho"
  "ho_published (set_published role c ho) = (ho_published ho)(role := Inr (Some c))"
  "ho_published (set_link role l ho) = ho_published ho"
  "ho_link (set_published role c ho) = ho_link ho" "ho_link (set_link role l ho) = (ho_link ho)(role := l)"
  by (simp_all add: set_published_def set_link_def)

lemma expected_own_link: "expected_link role (LinkTo (''../'' @ role @ ''.cfg''))"
  by (simp add: expected_link_def)

lemma publish_Inr:
  assumes "publish tx side ho = (ho', Inr ())"
  obtains content running where "check_artifacts tx ho side = Inr ()" "assignment_content tx side = Inr content"
    "wants_running tx = Inr running"
    "ho_xen ho' = ho_xen ho" "ho_artifact ho' = ho_artifact ho"
    "ho_published ho' (tx_role tx) = Inr (Some content)"
    "ho_link ho' (tx_role tx) = (if running then LinkTo (''../'' @ tx_role tx @ ''.cfg'') else NoLink)"
  using assms by (auto simp: publish_def Let_def bind_eq_Inr split: sum.splits if_splits)

section \<open>Unmanaged guests\<close>

lemma source_guest_Inr:
  assumes "source_guest records role = Inr target"
  shows "target \<in> set records \<and> domain_info target ''name'' = Inr (PStr role) \<and>
    (\<forall>domain \<in> set records. vitem domain ''domid'' \<noteq> Inr (PInt 0) \<longrightarrow> domain \<noteq> target \<longrightarrow>
      domain_info domain ''name'' \<noteq> Inr (PStr role))"
proof -
  let ?test = "\<lambda>domain. bind (vitem domain ''domid'') (\<lambda>domid. if domid = PInt 0 then Inr False
      else bind (domain_info domain ''name'') (\<lambda>name. Inr (name = PStr role)))"
  from assms obtain xs where xs: "filter_res ?test records = Inr xs"
    "(case xs of [t] \<Rightarrow> Inr t
      | _ \<Rightarrow> Inl (Refused ''source inspection requires exactly one running guest'')) = (Inr target :: pyval res)"
    unfolding source_guest_def bind_eq_Inr by blast
  then have found: "filter_res ?test records = Inr [target]"
    by (cases xs rule: remdups_adj.cases) auto
  note sound = filter_res_sound [OF found]
  have target: "?test target = Inr True" "target \<in> set records" using sound by auto
  have "domain_info domain ''name'' \<noteq> Inr (PStr role)"
    if "domain \<in> set records" "vitem domain ''domid'' \<noteq> Inr (PInt 0)" "domain \<noteq> target" for domain
  proof
    assume "domain_info domain ''name'' = Inr (PStr role)"
    moreover from sound that(1) obtain b where "?test domain = Inr b" by blast
    ultimately have "?test domain = Inr True"
      using that(2) by (auto simp: bind_eq_Inr split: if_splits)
    then have "domain \<in> {d \<in> set records. ?test d = Inr True}" using that(1) by simp
    with sound that(3) show False by auto
  qed
  with target show ?thesis by (auto simp: bind_eq_Inr split: if_splits)
qed

lemma check_source_domain_other:
  assumes "check_source_domain xv target expected devices domain = Inr ()" "domain \<noteq> target"
    "vitem domain ''domid'' \<noteq> Inr (PInt 0)"
  shows "\<exists>attached mappings. bind (vitem domain ''config'') (\<lambda>config. vget config ''disks'') = Inr (PList attached) \<and>
    traverse (source_attachment xv) attached = Inr mappings \<and> set (map fst mappings) \<inter> set devices = {}"
  using assms
  by (auto simp: check_source_domain_def bind_eq_Inr refuse_if_eq_Inr Let_def is_list_iff list_ex_iff split: if_splits)

lemma py_eq_PStr_right: "py_eq v (PStr s) \<longleftrightarrow> v = PStr s"
  by (cases v) auto

lemma adoption_target_Inr:
  assumes "adoption_target request = Inr (box, role)"
  shows "(box, role) \<in> set adoption_targets \<and> request = PDict (dict_of request) \<and>
    dget (dict_of request) ''box'' = PStr box \<and> dget (dict_of request) ''role'' = PStr role"
  using assms by (auto simp: adoption_target_def Let_def res_simps is_dict_iff)

lemma source_status_Inr:
  assumes "source_status ast_parse ho hostname t role = Inr source"
  obtains content records target identity config paths disks expected where
    "pointer_file role \<notin> set (map fst (ho_active ho))"
    "read_published ho role = Inr content" "bind (xv_list (ho_xen ho)) inventory = Inr records"
    "source_guest records role = Inr target" "domain_info target ''uuid'' = Inr (PStr identity)"
    "configuration (ast_parse content) role identity = Inr (config, paths)"
    "traverse (\<lambda>p. bind (xv_lv (ho_xen ho) p) (\<lambda>row. Inr (p, row))) paths = Inr disks"
    "distinct (devices_of disks)" "set (devices_of disks) \<inter> set (xv_mounted (ho_xen ho)) = {}"
    "\<forall>domain \<in> set records. check_source_domain (ho_xen ho) target expected (devices_of disks) domain = Inr ()"
    "dget source ''autostart'' = PBool True \<longrightarrow> expected_link role (ho_link ho role)"
    "dget source ''vm_uuid'' = PStr identity" "dget source ''configuration_sha256'' = PStr (sha256_hex content)"
    "dget source ''disks'' = PDict (map (\<lambda>(p, row). (p, lv_record row)) disks)"
proof -
  have link: "expected_link role l" if "link_autostart role l = Inr True" for l
    using that by (auto simp: link_autostart_def res_simps split: link.splits)
  from assms obtain content records target identity config paths disks expected artifacts autostart where
    "pointer_file role \<notin> set (map fst (ho_active ho))"
    "read_published ho role = Inr content" "bind (xv_list (ho_xen ho)) inventory = Inr records"
    "source_guest records role = Inr target" "bind (domain_info target ''uuid'') as_str = Inr identity"
    "configuration (ast_parse content) role identity = Inr (config, paths)"
    "traverse (\<lambda>p. bind (xv_lv (ho_xen ho) p) (\<lambda>row. Inr (p, row))) paths = Inr disks"
    "distinct (devices_of disks)" "\<not> list_ex (\<lambda>d. d \<in> set (xv_mounted (ho_xen ho))) (devices_of disks)"
    "checks (map (check_source_domain (ho_xen ho) target expected (devices_of disks)) records) = Inr ()"
    "link_autostart role (ho_link ho role) = Inr autostart"
    "source = [(''kind'', PStr ''klokast.vm-unmanaged-source.v1''), (''role'', PStr role),
       (''dom0'', PStr (hd (split_on CHR ''.'' hostname))), (''observed_at'', PInt t),
       (''vm_uuid'', PStr identity), (''configuration_sha256'', PStr (sha256_hex content)),
       (''disks'', PDict (map (\<lambda>(p, row). (p, lv_record row)) disks)),
       (''disk_mappings'', PDict (foldl (\<lambda>d (device, vdev, disk). dset d disk (PStr vdev)) [] expected)),
       (''artifacts'', PDict (foldl (\<lambda>d (p, a). dset d p a) [] artifacts)),
       (''autostart'', PBool autostart), (''runtime'', PStr ''running'')]"
    unfolding source_status_def Let_def bind_eq_Inr refuse_if_eq_Inr split_paired_Ex prod.case by fastforce
  then show thesis
    by (intro that [of content records target identity config paths disks expected])
      (auto simp: bind_eq_Inr as_str_iff checks_eq_Inr list_ex_iff intro: link)
qed


section \<open>Samples\<close>

lemma sample_report_guest: "live_guest (opened sg (first_request a b h) (sample_config uuid1 ''/dev/v/a'')
    (sample_config uuid2 ''/dev/v/b'') j) sample_xen [NewVm] = Inr (Some sample_domain)"
  by code_simp

lemma sample_report: "\<exists>rep. assignment_report sample_host tx1 = Inr rep \<and> drift_free rep"
proof -
  have role: "tx_role tx1 = ''dmz''" by (simp add: tx1_def r1_def sample_roles)
  have stage: "report_side (stage_of tx1) = Some NewVm"
    by (simp add: report_side_def stage_of_def tx1_def first_journal_file_def)
  have release: "release_identity tx1 NewVm = Inr [(''release_sha256'', PStr some_hash), (''profile'', PStr ''shared-alpine-v1'')]"
    by (simp add: release_identity_def tx1_def r1_def request_defs)
  have guest: "live_guest tx1 sample_xen [NewVm] = Inr (Some sample_domain)"
    by (simp add: tx1_def r1_def sample_report_guest)
  have running: "wants_running tx1 = Inr True"
    by (simp add: wants_running_def runtime_intent_def tx1_def sg1_def r1_def request_defs)
  have artifacts: "check_artifacts tx1 sample_host NewVm = Inr ()"
    by (simp add: check_artifacts_def sample_host_def tx1_def r1_def request_defs)
  obtain identity where identity: "ditem (tx_request tx1) ''new_uuid'' = Inr identity"
    by (simp add: tx1_def r1_def request_defs)
  obtain rest where rest: "report_selected sample_host tx1 NewVm = Inr rest" "drift_free rest"
    by (simp add: report_selected_def artifacts guest running role sample_content identity drift_free_def)
      (simp add: sample_host_def guest autostart_drift_def expected_link_def Let_def)
  then have "drift_free (report_base tx1 (Some NewVm) release @ rest)" for release
    by (simp add: drift_free_def dget_append report_base_keys)
  then show ?thesis
    by (simp add: assignment_report_def stage release rest)
qed

text \<open>A guest that no transaction manages, and the request to adopt it.\<close>

definition unmanaged_domain :: pyval where
  "unmanaged_domain = PDict [(''domid'', PInt 7), (''config'', PDict
     [(''c_info'', PDict [(''name'', PStr ''dmz''), (''uuid'', PStr uuid1)]),
      (''disks'', PList
        [PDict [(''pdev_path'', PStr ''/dev/v/a''), (''vdev'', PStr ''xvda''), (''readwrite'', PInt 1)],
         PDict [(''pdev_path'', PStr ''/dev/v/d''), (''vdev'', PStr ''xvdb''), (''readwrite'', PInt 1)]])])]"

definition unmanaged_xen :: xen_view where
  "unmanaged_xen =
    \<lparr>xv_lv = (\<lambda>p. if p = ''/dev/v/a'' then Inr \<lparr>lv_uuid = ''AAAAAA'', lv_bytes = 10, lv_device = 2\<rparr>
       else Inr \<lparr>lv_uuid = ''DDDDDD'', lv_bytes = 20, lv_device = 4\<rparr>),
     xv_device = (\<lambda>p. Inr (if p = ''/dev/v/a'' then 2 else if p = ''/dev/v/d'' then 4 else 9)),
     xv_mounted = [1],
     xv_list = Inr (PList
       [PDict [(''domid'', PInt 0), (''config'', PDict [(''c_info'', PDict [(''name'', PStr ''Domain-0'')])])],
        PDict [(''domid'', PInt 5), (''config'', PDict
          [(''c_info'', PDict [(''name'', PStr ''iot''), (''uuid'', PStr uuid2)]),
           (''disks'', PList [PDict [(''pdev_path'', PStr ''/dev/v/i''), (''vdev'', PStr ''xvda''), (''readwrite'', PInt 1)]])])],
        unmanaged_domain])\<rparr>"

definition unmanaged_host :: "string \<Rightarrow> host" where
  "unmanaged_host h =
    \<lparr>ho_xen = unmanaged_xen, ho_active = [], ho_operation = (\<lambda>_. sg1),
     ho_published = (\<lambda>_. Inr (Some ''old'')),
     ho_artifact = (\<lambda>p. Inr (PDict [(''sha256'', PStr h), (''bytes'', PInt (if p = ''/mnt/dom0_data/k'' then 5 else 7))])),
     ho_link = (\<lambda>_. LinkTo ''../dmz.cfg''),
     ho_legacy = \<lparr>lg_busy = False, lg_contract = Inr PNone, lg_accepted = Inr PNone, lg_record = (\<lambda>_. Inr PNone),
        lg_installation = Inr None, lg_topology = Inr PNone\<rparr>\<rparr>"

definition adoption_request :: "string \<Rightarrow> string \<Rightarrow> pydict" where
  "adoption_request a h =
    [(''kind'', PStr adoption_kind), (''operation_id'', PStr first_op), (''box'', PStr ''k001''), (''role'', PStr ''dmz''),
     (''old_uuid'', PStr uuid1), (''old_config_sha256'', PStr a), (''old_disks'', sample_disks ''/dev/v/a'' ''AAAAAA''),
     (''old_artifacts'', sample_artifacts h), (''autostart'', PBool True)]"

lemma adoption_samples:
  "adoption_target (PDict (adoption_request a h)) = Inr (''k001'', ''dmz'')"
  "bind (xv_list unmanaged_xen) inventory = Inr (list_of (projr (xv_list unmanaged_xen)))"
  "source_guest (list_of (projr (xv_list unmanaged_xen))) ''dmz'' = Inr unmanaged_domain"
  "configuration (sample_parse ''old'') ''dmz'' uuid1 =
    Inr (sample_config uuid1 ''/dev/v/a'', [''/dev/v/a'', ''/dev/v/d''])"
  "traverse (source_mapping unmanaged_xen) (list_of (dget (sample_config uuid1 ''/dev/v/a'') ''disk'')) =
    Inr [(2, ''xvda'', ''/dev/v/a''), (4, ''xvdb'', ''/dev/v/d'')]"
  "checks (map (check_source_domain unmanaged_xen unmanaged_domain [(2, ''xvda'', ''/dev/v/a''), (4, ''xvdb'', ''/dev/v/d'')]
     [2, 4]) (list_of (projr (xv_list unmanaged_xen)))) = Inr ()"
  by code_simp+

lemma adoption_staged: "stage_adoption_checks sample_parse (unmanaged_host h) ''k001-dom0'' 0
    (PDict (adoption_request (sha256_hex ''old'') h)) = Inr ()"
proof -
  have sel: "ho_xen (unmanaged_host h) = unmanaged_xen" "ho_active (unmanaged_host h) = []"
    "read_published (unmanaged_host h) role = Inr ''old''" "ho_link (unmanaged_host h) role = LinkTo ''../dmz.cfg''" for role
    by (simp_all add: unmanaged_host_def read_published_def)
  have lv: "traverse (\<lambda>p. bind (xv_lv unmanaged_xen p) (\<lambda>row. Inr (p, row))) [''/dev/v/a'', ''/dev/v/d''] =
      Inr [(''/dev/v/a'', \<lparr>lv_uuid = ''AAAAAA'', lv_bytes = 10, lv_device = 2\<rparr>),
           (''/dev/v/d'', \<lparr>lv_uuid = ''DDDDDD'', lv_bytes = 20, lv_device = 4\<rparr>)]"
    "xv_mounted unmanaged_xen = [1]"
    by (simp_all add: unmanaged_xen_def)
  have identity: "bind (domain_info unmanaged_domain ''uuid'') as_str = Inr uuid1"
    by code_simp
  have artifacts: "traverse (\<lambda>name. bind (as_str (dget (sample_config uuid1 ''/dev/v/a'') name)) (\<lambda>p.
        bind (ho_artifact (unmanaged_host h) p) (\<lambda>a. Inr (p, a)))) [''kernel'', ''ramdisk''] =
      Inr [(''/mnt/dom0_data/k'', PDict [(''sha256'', PStr h), (''bytes'', PInt 5)]),
           (''/mnt/dom0_data/i'', PDict [(''sha256'', PStr h), (''bytes'', PInt 7)])]"
    by (simp add: unmanaged_host_def sample_config_def)
  have link: "link_autostart ''dmz'' (LinkTo ''../dmz.cfg'') = Inr True" by code_simp
  have box: "hd (split_on CHR ''.'' ''k001-dom0'') = ''k001-dom0''" by code_simp
  show ?thesis
    unfolding stage_adoption_checks_def adoption_samples bind_simps prod.case source_status_def sel Let_def
    by (simp only: bind_simps prod.case adoption_samples identity lv artifacts link) 
      (simp add: ROLES_def devices_of_def adoption_samples identity lv artifacts link box check_adoption_source_def
        adoption_request_def sample_disks_def sample_artifacts_def lv_record_def)
qed


section \<open>What is guaranteed\<close>

text \<open>C27. A report without drift is true of the box: the published definition is the rendering of the side the journal
  selects, the autostart link agrees with the runtime intent, the boot files are the recorded ones, and the guest is
  reported running exactly if it runs with that side's identity and disks.\<close>

theorem no_drift:
  assumes "assignment_report ho tx = Inr rep" "drift_free rep"
  shows "\<exists>side content running. report_side (stage_of tx) = Some side \<and>
    assignment_content tx side = Inr content \<and> ho_published ho (tx_role tx) = Inr (Some content) \<and>
    dget rep ''configuration_sha256'' = PStr (sha256_hex content) \<and>
    wants_running tx = Inr running \<and>
    (if running then expected_link (tx_role tx) (ho_link ho (tx_role tx)) else ho_link ho (tx_role tx) = NoLink) \<and>
    check_artifacts tx ho side = Inr () \<and>
    running_exactly ho tx side (dget rep ''runtime'' = PStr ''running'')"
proof -
  from assms obtain side rest where s: "report_side (stage_of tx) = Some side" "report_selected ho tx side = Inr rest"
    and rep: "\<forall>key \<in> {''configuration_drift'', ''autostart_drift'', ''runtime'', ''configuration_sha256''}.
      dget rep key = dget rest key"
    by (rule assignment_report_side)
  from s(2) obtain found expected current autostart where
    p: "check_artifacts tx ho side = Inr ()" "live_guest tx (ho_xen ho) [side] = Inr found"
    "assignment_content tx side = Inr expected" "ho_published ho (tx_role tx) = Inr current"
    "wants_running tx = Inr autostart"
    "dget rest ''runtime'' = PStr (if found = None then ''stopped'' else ''running'')"
    "dget rest ''configuration_drift'' = PBool (current \<noteq> Some expected)"
    "dget rest ''autostart_drift'' = PBool (autostart_drift (tx_role tx) (ho_link ho (tx_role tx)) autostart)"
    "dget rest ''configuration_sha256'' = PStr (sha256_hex expected)"
    by (rule report_selected_parts)
  have "current = Some expected"
    "if autostart then expected_link (tx_role tx) (ho_link ho (tx_role tx)) else ho_link ho (tx_role tx) = NoLink"
    using assms(2) rep p(7,8) by (auto simp: drift_free_def autostart_drift_def link_exists_def)
  moreover have "running_exactly ho tx side (dget rep ''runtime'' = PStr ''running'')"
    using rep p(2,6) by (auto simp: running_exactly_def split: option.splits)
  ultimately show ?thesis
    using s(1) p rep by (intro exI [of _ side] exI [of _ expected] exI [of _ autostart]) simp
qed

theorem no_drift_witness:
  "\<exists>side content running. assignment_content tx1 side = Inr content \<and>
     ho_published sample_host (tx_role tx1) = Inr (Some content) \<and> wants_running tx1 = Inr running"
proof -
  from sample_report obtain rep where "assignment_report sample_host tx1 = Inr rep" "drift_free rep" by blast
  from no_drift [OF this] show ?thesis by blast
qed

text \<open>C25. Publishing a side and reading it back agree: after \<open>assignment(side)\<close> of the side the journal selects, the report
  of the same transaction shows no drift, as long as the guest can be inspected; and publishing once more succeeds and
  leaves the definition and the link as they are.\<close>

theorem publish_then_report:
  assumes "publish tx side ho = (ho', Inr ())" "report_side (stage_of tx) = Some side"
    and "live_guest tx (ho_xen ho) [side] = Inr g" "dhas (tx_request tx) (side_key side ''uuid'')"
  shows "(\<exists>rep. assignment_report ho' tx = Inr rep \<and> drift_free rep) \<and>
    (\<exists>ho''. publish tx side ho' = (ho'', Inr ()) \<and>
       ho_published ho'' (tx_role tx) = ho_published ho' (tx_role tx) \<and>
       ho_link ho'' (tx_role tx) = ho_link ho' (tx_role tx))"
proof -
  from assms(1) obtain content running where p: "check_artifacts tx ho side = Inr ()"
    "assignment_content tx side = Inr content" "wants_running tx = Inr running"
    "ho_xen ho' = ho_xen ho" "ho_artifact ho' = ho_artifact ho"
    "ho_published ho' (tx_role tx) = Inr (Some content)"
    "ho_link ho' (tx_role tx) = (if running then LinkTo (''../'' @ tx_role tx @ ''.cfg'') else NoLink)"
    by (rule publish_Inr)
  have artifacts: "check_artifacts tx ho' side = Inr ()"
    using p(1,5) by (simp add: check_artifacts_def)
  from assms(4) obtain identity where identity: "ditem (tx_request tx) (side_key side ''uuid'') = Inr identity"
    by (auto simp: res_simps dhas_def) (metis map_of_eq_None_iff not_None_eq imageI fst_conv)
  obtain release where release: "release_identity tx side = Inr release"
    using p(2) by (auto simp: assignment_content_def Let_def bind_eq_Inr)
  obtain rest where rest: "report_selected ho' tx side = Inr rest" "drift_free rest"
    using p artifacts assms(3) identity expected_own_link
    by (cases running) (auto simp: report_selected_def drift_free_def autostart_drift_def link_exists_def Let_def)
  then have "drift_free (report_base tx (Some side) release @ rest)"
    by (simp add: drift_free_def dget_append report_base_keys)
  moreover have "publish tx side ho' = (set_link (tx_role tx) (ho_link ho' (tx_role tx))
      (if running then set_link (tx_role tx) NoLink (set_published (tx_role tx) content ho')
       else set_published (tx_role tx) content ho'), Inr ())"
    using p artifacts expected_own_link by (cases running) (simp_all add: publish_def check_link_def Let_def)
  ultimately show ?thesis
    using p(6) rest by (simp add: assignment_report_def assms(2) release)
qed

theorem publish_then_report_witness:
  "\<exists>ho' rep. publish tx1 NewVm sample_host = (ho', Inr ()) \<and> assignment_report ho' tx1 = Inr rep \<and> drift_free rep"
proof -
  have stage: "report_side (stage_of tx1) = Some NewVm"
    by (simp add: report_side_def stage_of_def tx1_def first_journal_file_def)
  have guest: "live_guest tx1 (ho_xen sample_host) [NewVm] = Inr (Some sample_domain)"
    by (simp add: tx1_def r1_def sample_report_guest sample_host_def)
  have parts: "check_artifacts tx1 sample_host NewVm = Inr ()" "dhas (tx_request tx1) (side_key NewVm ''uuid'')"
    "wants_running tx1 = Inr True"
    by (simp_all add: check_artifacts_def sample_host_def wants_running_def runtime_intent_def sg1_def
        tx1_def r1_def request_defs)
  have role: "tx_role tx1 = ''dmz''" by (simp add: tx1_def r1_def sample_roles)
  have link: "check_link ''dmz'' (ho_link sample_host ''dmz'') = Inr ()"
    by (simp add: check_link_def sample_host_def expected_link_def)
  obtain ho' where published: "publish tx1 NewVm sample_host = (ho', Inr ())"
    by (simp add: publish_def parts role link sample_content Let_def)
  from publish_then_report [OF published stage guest parts(2)] published show ?thesis by blast
qed

text \<open>C26. An adoption is staged only for an approved box and role that no transaction manages yet, and only if the request
  names the guest that runs: the sum of the published definition, the domain UUID, and the logical volumes that dom0
  finds at the disk paths of that definition. They are distinct devices, dom0 has none of them mounted, and no other
  guest attaches one.\<close>

theorem adoption_is_exact:
  assumes "stage_adoption_checks ast_parse ho hostname t (PDict r) = Inr ()"
  shows "\<exists>box role content records target identity config paths disks. (box, role) \<in> set adoption_targets \<and>
    dget r ''box'' = PStr box \<and> dget r ''role'' = PStr role \<and>
    pointer_file role \<notin> set (map fst (ho_active ho)) \<and> expected_link role (ho_link ho role) \<and>
    read_published ho role = Inr content \<and> dget r ''old_config_sha256'' = PStr (sha256_hex content) \<and>
    bind (xv_list (ho_xen ho)) inventory = Inr records \<and> target \<in> set records \<and>
    domain_info target ''name'' = Inr (PStr role) \<and> domain_info target ''uuid'' = Inr (PStr identity) \<and>
    dget r ''old_uuid'' = PStr identity \<and> configuration (ast_parse content) role identity = Inr (config, paths) \<and>
    list_all2 (\<lambda>p (q, row). q = p \<and> xv_lv (ho_xen ho) p = Inr row) paths disks \<and>
    py_eq (dget r ''old_disks'') (PDict (map (\<lambda>(p, row). (p, lv_record row)) disks)) \<and>
    distinct (devices_of disks) \<and> set (devices_of disks) \<inter> set (xv_mounted (ho_xen ho)) = {} \<and>
    (\<forall>domain \<in> set records. vitem domain ''domid'' \<noteq> Inr (PInt 0) \<longrightarrow> domain \<noteq> target \<longrightarrow>
      (\<exists>attached mappings. bind (vitem domain ''config'') (\<lambda>config. vget config ''disks'') = Inr (PList attached) \<and>
        traverse (source_attachment (ho_xen ho)) attached = Inr mappings \<and>
        set (map fst mappings) \<inter> set (devices_of disks) = {}))"
proof -
  from assms obtain box role source where a: "adoption_target (PDict r) = Inr (box, role)"
    "source_status ast_parse ho hostname t role = Inr source" "check_adoption_source r box source = Inr ()"
    by (auto simp: stage_adoption_checks_def bind_eq_Inr)
  from a(2) obtain content records target identity config paths disks expected where s:
    "pointer_file role \<notin> set (map fst (ho_active ho))"
    "read_published ho role = Inr content" "bind (xv_list (ho_xen ho)) inventory = Inr records"
    "source_guest records role = Inr target" "domain_info target ''uuid'' = Inr (PStr identity)"
    "configuration (ast_parse content) role identity = Inr (config, paths)"
    "traverse (\<lambda>p. bind (xv_lv (ho_xen ho) p) (\<lambda>row. Inr (p, row))) paths = Inr disks"
    "distinct (devices_of disks)" "set (devices_of disks) \<inter> set (xv_mounted (ho_xen ho)) = {}"
    "\<forall>domain \<in> set records. check_source_domain (ho_xen ho) target expected (devices_of disks) domain = Inr ()"
    "dget source ''autostart'' = PBool True \<longrightarrow> expected_link role (ho_link ho role)"
    "dget source ''vm_uuid'' = PStr identity" "dget source ''configuration_sha256'' = PStr (sha256_hex content)"
    "dget source ''disks'' = PDict (map (\<lambda>(p, row). (p, lv_record row)) disks)"
    by (rule source_status_Inr)
  have rows: "list_all2 (\<lambda>p (q, row). q = p \<and> xv_lv (ho_xen ho) p = Inr row) paths disks"
    using s(7) unfolding traverse_eq_Inr by (rule list_all2_mono) (auto simp: bind_eq_Inr)
  have same: "dget source ''autostart'' = PBool True" "dget r ''old_uuid'' = PStr identity"
    "dget r ''old_config_sha256'' = PStr (sha256_hex content)"
    "py_eq (dget r ''old_disks'') (PDict (map (\<lambda>(p, row). (p, lv_record row)) disks))"
    using a(3) unfolding check_adoption_source_def refuse_if_eq_Inr s(12-14) py_eq_PStr_right by blast+
  have others: "\<forall>domain \<in> set records. vitem domain ''domid'' \<noteq> Inr (PInt 0) \<longrightarrow> domain \<noteq> target \<longrightarrow>
      (\<exists>attached mappings. bind (vitem domain ''config'') (\<lambda>config. vget config ''disks'') = Inr (PList attached) \<and>
        traverse (source_attachment (ho_xen ho)) attached = Inr mappings \<and>
        set (map fst mappings) \<inter> set (devices_of disks) = {})"
    using s(10) check_source_domain_other by blast
  note parts = adoption_target_Inr [OF a(1)] source_guest_Inr [OF s(4)] s(1-3,5,6,8,9,11) rows same others
  show ?thesis
    by (rule exI [of _ box], rule exI [of _ role], rule exI [of _ content], rule exI [of _ records],
        rule exI [of _ target], rule exI [of _ identity], rule exI [of _ config], rule exI [of _ paths],
        rule exI [of _ disks]) (use parts in \<open>simp only: dict_of.simps simp_thms\<close>)
qed

theorem adoption_is_exact_witness:
  "\<exists>records target disks. bind (xv_list unmanaged_xen) inventory = Inr records \<and> target \<in> set records \<and>
    domain_info target ''name'' = Inr (PStr ''dmz'') \<and> domain_info target ''uuid'' = Inr (PStr uuid1) \<and>
    list_all2 (\<lambda>p (q, row). q = p \<and> xv_lv unmanaged_xen p = Inr row) [''/dev/v/a'', ''/dev/v/d''] disks \<and>
    distinct (devices_of disks)"
proof -
  have host: "ho_xen (unmanaged_host some_hash) = unmanaged_xen"
    "read_published (unmanaged_host some_hash) role = Inr ''old''" for role
    by (simp_all add: unmanaged_host_def read_published_def)
  have fields: "dget (adoption_request (sha256_hex ''old'') some_hash) ''role'' = PStr ''dmz''"
    "dget (adoption_request (sha256_hex ''old'') some_hash) ''old_uuid'' = PStr uuid1"
    by (simp_all add: adoption_request_def)
  show ?thesis
    using adoption_is_exact [OF adoption_staged [of some_hash]] unfolding host fields
    by (auto simp: adoption_samples(4))
qed

end
