(* ===== verification/Vm_Maintenance.thy ===== *)
theory Vm_Maintenance
  imports Vm_Status
begin

text \<open>
  \<open>replacement_source_status\<close> of \<^verbatim>\<open>vm_update_engine.py\<close>: the source of the next replacement of a guest, read from its
  accepted assignment and from the protected records of the operation that made it. The five records are
  arguments; each is the decoded document or the exception that reading it raised.
\<close>

record records =
  rc_prepared :: "pyval res"
  rc_personalized :: "pyval res"
  rc_personal_result :: "pyval res"
  rc_final :: "pyval res"
  rc_release :: "pyval res"

definition without :: "string \<Rightarrow> pydict \<Rightarrow> pyval" where
  "without key d = PDict (filter (\<lambda>(k, v). k \<noteq> key) d)"

text \<open>The settled, running assignment without drift that recurring maintenance requires.\<close>

definition maintained ::
  "(string \<Rightarrow> stmt list option) \<Rightarrow> host \<Rightarrow> string \<Rightarrow> string \<Rightarrow> (transaction \<times> pydict) res" where
  "maintained ast_parse ho hostname role =
    bind (current_assignment ast_parse ho hostname role) (\<lambda>current.
    case current of
      None \<Rightarrow> Inl (Refused ''recurring maintenance requires an accepted assignment'')
    | Some tx \<Rightarrow>
       bind (assignment_report ho tx) (\<lambda>report.
       bind (refuse_if (dget report ''stage'' \<noteq> PStr ''complete'' \<or> dget report ''selection'' \<noteq> PStr ''accepted''
           \<or> dget report ''runtime'' \<noteq> PStr ''running'' \<or> \<not> truthy (dget report ''autostart'')
           \<or> truthy (dget report ''configuration_drift'') \<or> truthy (dget report ''autostart_drift''))
         ''recurring maintenance requires a complete running assignment without drift'') (\<lambda>_.
       Inr (tx, report))))"

text \<open>The chain of records: the prepared generation, the personalization request, the retained copy and the release.\<close>

definition check_generation ::
  "transaction \<Rightarrow> string \<Rightarrow> pydict \<Rightarrow> pydict \<Rightarrow> pydict \<Rightarrow> pydict \<Rightarrow> pyval \<Rightarrow> pyval \<Rightarrow> pyval \<Rightarrow> unit res" where
  "check_generation tx role report prepared personalized final machine receipt release =
    (let operation = PStr (sg_name (tx_work tx)); box = dget (tx_request tx) ''box'';
         msg = ''accepted generation lacks matching protected data and personalization records'' in
     bind (refuse_if (dget prepared ''operation_id'' \<noteq> operation \<or> \<not> py_eq (dget prepared ''box'') box
         \<or> dget prepared ''role'' \<noteq> PStr role
         \<or> dget prepared ''receipt_sha256'' \<noteq> PStr (digest (without ''receipt_sha256'' prepared))
         \<or> dget personalized ''mode'' \<noteq> PStr ''personalize'' \<or> dget personalized ''operation_id'' \<noteq> operation) msg) (\<lambda>_.
     bind (as_dict machine) (\<lambda>m.
     bind (refuse_if (dget m ''kind'' \<noteq> PStr ''klokast.vm-personalize.v2'' \<or> dget m ''operation_id'' \<noteq> operation
         \<or> \<not> py_eq (dget m ''box'') box \<or> dget m ''role'' \<noteq> PStr role
         \<or> \<not> py_eq (dget m ''root_uuid'') (dget prepared ''root_uuid'')
         \<or> \<not> py_eq (dget m ''retained_uuid'') (dget prepared ''data_uuid'')
         \<or> dget final ''success'' \<noteq> PBool True \<or> dget final ''mode'' \<noteq> PStr ''finalize''
         \<or> dget final ''operation_id'' \<noteq> operation) msg) (\<lambda>_.
     bind (as_dict receipt) (\<lambda>c.
     bind (refuse_if (dget c ''copy_verified'' \<noteq> PBool True
         \<or> dget c ''kind'' \<noteq> PStr ''klokast.vm-retained-final-result.v3''
         \<or> dget c ''receipt_sha256'' \<noteq> PStr (digest (without ''receipt_sha256'' c))
         \<or> \<not> py_eq (dget m ''retained_receipt_sha256'') (dget c ''receipt_sha256'')) msg) (\<lambda>_.
     bind (as_dict release) (\<lambda>l.
     refuse_if (\<not> py_eq (dget l ''release_sha256'') (dget report ''release_sha256'')
         \<or> dget l ''release_sha256'' \<noteq> PStr (digest (without ''release_sha256'' l))
         \<or> \<not> py_eq (dget m ''release_sha256'') (dget l ''release_sha256'')
         \<or> \<not> py_eq (dget m ''packages'') (dget l ''packages'')
         \<or> \<not> py_eq (dget m ''inputs_sha256'') (dget l ''inputs_sha256'')) msg)))))))"

definition personal_digest :: "pyval \<Rightarrow> string" where
  "personal_digest v = sha256_hex (json_dumps True v)"

definition fixed_files :: "string list" where
  "fixed_files = [''etc/passwd'', ''etc/group'', ''etc/shadow'', ''etc/subuid'', ''etc/subgid'', ''etc/fstab'',
     ''etc/conf.d/tailscale'', ''etc/doas.d/doas.conf'', ''etc/klokast/app-resources/vm-input.d/000-empty.nft'',
     ''etc/ssh/ssh_host_rsa_key'', ''etc/ssh/ssh_host_ecdsa_key'', ''etc/ssh/ssh_host_ed25519_key'']"

definition measured_row :: "pyval \<Rightarrow> bool" where
  "measured_row v \<longleftrightarrow> has_fields v [''sha256'', ''mode''] \<and> matches HEX (dget (dict_of v) ''sha256'')
     \<and> dget (dict_of v) ''mode'' \<in> {PInt 0x180, PInt 0x1A4, PInt 0x1ED}"

text \<open>The result of the personalization matches its request, and measures exactly the files it wrote.\<close>

definition check_personal ::
  "transaction \<Rightarrow> string \<Rightarrow> pydict \<Rightarrow> pyval \<Rightarrow> pydict \<Rightarrow> pyval \<Rightarrow> pydict res" where
  "check_personal tx role personal_result personalized m personal_receipt =
    (let operation = PStr (sg_name (tx_work tx));
         msg = ''accepted generation lacks a matching completed personalization result'' in
     bind (ditem m ''files'') (\<lambda>files.
     bind (viter files) (\<lambda>own.
     bind (if list_all hashable own then Inr () else Inl TypeError) (\<lambda>_.
     bind (vget personal_receipt ''files'') (\<lambda>measured.
     let names = own @ map PStr fixed_files; p = dict_of personal_receipt in
     bind (refuse_if (dget personal_result ''success'' \<noteq> PBool True \<or> dget personal_result ''mode'' \<noteq> PStr ''personalize''
         \<or> dget personal_result ''operation_id'' \<noteq> operation
         \<or> dget personal_result ''request_sha256'' \<noteq> PStr (personal_digest personalized)
         \<or> dget p ''kind'' \<noteq> PStr ''klokast.vm-personalization-result.v2''
         \<or> dget p ''request_sha256'' \<noteq> PStr (personal_digest (PDict m))
         \<or> dget p ''packages_unchanged'' \<noteq> PBool True) msg) (\<lambda>_.
     bind (checks (map (\<lambda>key. bind (ditem m key) (\<lambda>v. refuse_if (\<not> py_eq (dget p key) v) msg))
       [''operation_id'', ''release_sha256'', ''inputs_sha256'', ''engine_commit'', ''root_uuid'', ''retained_uuid'',
        ''runtime'', ''retained_receipt_sha256''])) (\<lambda>_.
     bind (as_str (dget (tx_request tx) ''box'')) (\<lambda>box.
     bind (refuse_if (dget p ''hostname'' \<noteq> PStr (box @ ''-'' @ role) \<or> \<not> is_dict measured
         \<or> PStr ` set (dkeys (dict_of measured)) \<noteq> set names
         \<or> \<not> list_all (measured_row \<circ> snd) (dict_of measured)) msg) (\<lambda>_.
     bind (as_dict files) (\<lambda>written.
     bind (checks (map (\<lambda>(path, v). case v of
           PStr content \<Rightarrow> refuse_if (dget (dict_of (dget (dict_of measured) path)) ''sha256''
             \<noteq> PStr (sha256_hex content)) msg
         | _ \<Rightarrow> Inl AttributeError) written)) (\<lambda>_.
     Inr (dict_of measured))))))))))))"

text \<open>The two prepared disks, as the request and the guest definition name them.\<close>

definition prepared_disk :: "pydict \<Rightarrow> string \<Rightarrow> (string \<times> pyval) res" where
  "prepared_disk prepared key =
    bind (ditem prepared key) (\<lambda>v.
    bind (vitem v ''path'') (\<lambda>p.
    bind (as_str p) (\<lambda>path.
    bind (vitem v ''uuid'') (\<lambda>identity.
    bind (vitem v ''bytes'') (\<lambda>bytes.
    Inr (path, PDict [(''uuid'', identity), (''bytes'', bytes)]))))))"

definition machine_identity :: "pydict \<Rightarrow> pydict res" where
  "machine_identity m = traverse (\<lambda>key. bind (ditem m key) (\<lambda>v. Inr (key, v)))
     [''root_uuid'', ''retained_uuid'', ''runtime'', ''retained_receipt_sha256'']"

definition replacement_source_status ::
  "(string \<Rightarrow> stmt list option) \<Rightarrow> host \<Rightarrow> string \<Rightarrow> int \<Rightarrow> records \<Rightarrow> string \<Rightarrow> pydict res" where
  "replacement_source_status ast_parse ho hostname observed_at rc role =
    bind (maintained ast_parse ho hostname role) (\<lambda>(tx, report).
    bind (rc_prepared rc) (\<lambda>prepared.
    bind (rc_personalized rc) (\<lambda>personalized.
    bind (rc_personal_result rc) (\<lambda>personal_result.
    bind (vgetd personal_result ''receipt'' (PDict [])) (\<lambda>personal_receipt.
    bind (rc_final rc) (\<lambda>final.
    bind (rc_release rc) (\<lambda>release.
    bind (vgetd personalized ''request'' (PDict [])) (\<lambda>machine.
    bind (vgetd final ''receipt'' (PDict [])) (\<lambda>receipt.
    bind (as_dict prepared) (\<lambda>p.
    bind (check_generation tx role report p (dict_of personalized) (dict_of final) machine receipt release) (\<lambda>_.
    let m = dict_of machine in
    bind (check_personal tx role (dict_of personal_result) personalized m personal_receipt) (\<lambda>measured.
    bind (prepared_disk p ''root'') (\<lambda>root.
    bind (prepared_disk p ''data'') (\<lambda>data.
    let vdevs = [(fst root, ''xvda''), (fst data, ''xvdb'')] in
    bind (refuse_if (\<not> py_eq (dget report ''disks'') (PDict (dset [root] (fst data) (snd data)))
        \<or> \<not> py_eq (dget (dict_of (dget report ''boot_configuration'')) ''disk'')
             (strs (map (\<lambda>(path, vdev). ''phy:'' @ path @ '','' @ vdev @ '',w'') vdevs)))
      ''accepted OS and retained disks differ from their prepared generation'') (\<lambda>_.
    bind (machine_identity m) (\<lambda>identity.
    Inr [(''kind'', PStr ''klokast.vm-replacement-source.v1''), (''role'', PStr role),
      (''dom0'', PStr (hd (split_on CHR ''.'' hostname))), (''observed_at'', PInt observed_at),
      (''operation_id'', PStr (sg_name (tx_work tx))), (''request_sha256'', dget report ''request_sha256''),
      (''vm_uuid'', dget report ''vm_uuid''), (''configuration_sha256'', dget report ''configuration_sha256''),
      (''disks'', dget report ''disks''),
      (''disk_mappings'', PDict (foldl (\<lambda>d (path, vdev). dset d path (PStr vdev)) [] vdevs)),
      (''artifacts'', dget report ''artifacts''), (''autostart'', PBool True), (''runtime'', PStr ''running''),
      (''release'', release), (''machine'', PDict identity),
      (''files_sha256'', PDict (dset (map (\<lambda>(path, row). (path, dget (dict_of row) ''sha256'')) measured)
         ''etc/klokast-personalization.json''
         (PStr (sha256_hex (json_dumps True personal_receipt @ eol)))))]))))))))))))))))"

text \<open>What leaves this reader: the report of a complete, running, drift-free assignment, four identities of the machine
  and digests of its files; none of the file contents of the personalization request.\<close>

lemma maintained_Inr:
  assumes "maintained ast_parse ho hostname role = Inr (tx, report)"
  shows "current_assignment ast_parse ho hostname role = Inr (Some tx) \<and> assignment_report ho tx = Inr report \<and>
    runs_without_drift report \<and> dget report ''stage'' = PStr ''complete''"
  using assms by (auto simp: maintained_def runs_without_drift_def bind_eq_Inr refuse_if_eq_Inr split: option.splits)

lemma check_personal_digests:
  assumes "check_personal tx role personal_result personalized m personal_receipt = Inr measured"
  shows "list_all (measured_row \<circ> snd) measured"
  using assms unfolding check_personal_def Let_def bind_eq_Inr refuse_if_eq_Inr by auto

lemma machine_identity_keys: "machine_identity m = Inr ks \<Longrightarrow>
    map fst ks = [''root_uuid'', ''retained_uuid'', ''runtime'', ''retained_receipt_sha256'']"
  by (auto simp: machine_identity_def bind_eq_Inr)

lemma update_digest: "list_all (matches HEX \<circ> snd) d \<Longrightarrow> list_all (matches HEX \<circ> snd) (dset d k (PStr (sha256_hex s)))"
  by (induction d) (auto simp: matches_def)

lemma replacement_source_sound:
  assumes "replacement_source_status ast_parse ho hostname t rc role = Inr source"
  shows "\<exists>tx report ks files. current_assignment ast_parse ho hostname role = Inr (Some tx) \<and>
    assignment_report ho tx = Inr report \<and> runs_without_drift report \<and> dget report ''stage'' = PStr ''complete'' \<and>
    dget source ''disks'' = dget report ''disks'' \<and>
    dget source ''machine'' = PDict ks \<and>
    map fst ks = [''root_uuid'', ''retained_uuid'', ''runtime'', ''retained_receipt_sha256''] \<and>
    dget source ''files_sha256'' = PDict files \<and> list_all (matches HEX \<circ> snd) files"
proof -
  from assms obtain tx report m personal_result personalized personal_receipt measured ks where
    parts: "maintained ast_parse ho hostname role = Inr (tx, report)"
    "check_personal tx role personal_result personalized m personal_receipt = Inr measured"
    "machine_identity m = Inr ks"
    "dget source ''disks'' = dget report ''disks''" "dget source ''machine'' = PDict ks"
    "dget source ''files_sha256'' = PDict (dset (map (\<lambda>(path, row). (path, dget (dict_of row) ''sha256'')) measured)
         ''etc/klokast-personalization.json''
         (PStr (sha256_hex (json_dumps True personal_receipt @ eol))))"
    unfolding replacement_source_status_def Let_def bind_eq_Inr refuse_if_eq_Inr split_paired_Ex prod.case
    by fastforce
  have "list_all (matches HEX \<circ> snd) (map (\<lambda>(path, row). (path, dget (dict_of row) ''sha256'')) measured)"
    using check_personal_digests [OF parts(2)] by (auto simp: list_all_iff measured_row_def)
  with parts(6) obtain files where "dget source ''files_sha256'' = PDict files" "list_all (matches HEX \<circ> snd) files"
    by (metis update_digest)
  with parts(4,5) maintained_Inr [OF parts(1)] machine_identity_keys [OF parts(3)] show ?thesis
    by (intro exI [of _ tx] exI [of _ report] exI [of _ ks] exI [of _ files]) (simp only: simp_thms)
qed

end
