(* ===== verification/Spec2Isabelle.thy ===== *)
theory Spec2Isabelle
  imports Controller_Properties Platform_Properties Router_Bounds Vm_Runs Vm_Reports Vm_Maintenance
begin

text \<open>
  A verification development for klokast-box. The repository configures self-hosted boxes: a
  registry and an inventory say which applications run on which box, a compiler turns them into
  guest specifications, firewall rules and tailnet policy, two protocols on each box replace the router and the
  application guests without losing their state, and one of two controllers acts for the installation. The theories
  model that compiler and those protocols, from the Python sources under \<^verbatim>\<open>src/ansible\<close>; paths below are relative to it.

  \<^bold>\<open>Conventions.\<close> Python values decoded from YAML or JSON are \<open>pyval\<close>; a mapping is an association
  list in insertion order. A function that may raise returns \<open>'a res\<close>: \<open>Inl\<close> is the exception
  (\<open>Die\<close> for the program's own \<open>die\<close>, constructors for what Python raises), \<open>Inr\<close> the result. Strings are lists of code points
  below 256. Python's integers are \<open>int\<close>; only the hash functions use machine words. Every definition is
  executable. What cannot be read from the repository is an argument: file contents
  (\<open>yaml_file\<close>, \<open>environment\<close>), the clock, and the replies of Xen, disks and the network.

  \<^bold>\<open>Library.\<close> \<open>Prelude\<close>: exceptions, loops that may raise, documents. \<open>Py_Text\<close>, \<open>Py_Regex\<close>, \<open>Py_Ipaddress\<close>,
  \<open>Py_Url\<close>, \<open>Py_Datetime\<close>, \<open>Py_Hash\<close>: what the sources use of the standard library. \<open>Interfaces\<close>: the locales
  \<open>normaliser\<close> (interpreted by \<open>validate_ports\<close> and \<open>normalize_box_access\<close>), \<open>grouping\<close> (by the
  claims of the ledger) and \<open>guarded_machine\<close> (by the histories of the two protocols). \<open>Effects\<close>: programs that act on the
  world, their Hoare triples \<open>triple\<close> and the number of interactions they take, \<open>within\<close>.

  \<^bold>\<open>The resource model\<close>, \<^verbatim>\<open>lib/platform_resource_model.py\<close>. \<open>Model_Fields\<close>: constants and patterns.
  \<open>Model_Validators\<close>: scalar validators. \<open>Model_Topology\<close>: \<open>load_topology\<close>, zones and realms, recursive scans.
  \<open>Model_Access\<close>: access capabilities. \<open>Model_Selection\<close>: placement and selected resources. \<open>Model_Registry\<close>: boxes,
  reservations, shared guests. \<open>Model_Shapes\<close>: manifests. \<open>Model_Users\<close>: users of per-user machines.
  \<open>Model_Privileged\<close>: approvals. The lemmas of each theory give its invariant (\<open>wf_...\<close>) and
  what acceptance implies; \<open>Model_Properties\<close> states the properties: normal forms are canonical and
  idempotent, scans are exact, and what a manifest, a user list or an application's selection of resources satisfies once accepted.

  \<^bold>\<open>The compiler\<close>, \<^verbatim>\<open>lib/platform_resource_guests.py\<close> and \<^verbatim>\<open>lib/platform_resource_compiler.py\<close>. \<open>Guests\<close>:
  machines, devices and their specifications. \<open>Compiler_Network\<close>: rules of a network resource.
  \<open>Compiler_Runners\<close>: the platform's runners. \<open>Compiler_Ledger\<close>: rules to claims to files.
  \<open>Compiler_App\<close>: one application, whose lists are the record \<open>compiled\<close>. \<open>Compiler_Plan\<close>:
  \<open>compile_registry\<close> and \<open>compile_box_registry_plan\<close>. \<open>Compiler_Scope\<close>: what is read out of a plan. \<open>Compiler_Facts\<close>: every rule and
  machine is its application's, the platform's rules are exclusive, the loop keeps \<open>wf_compiled\<close>.
  \<open>Compiler_Properties\<close>: files of the platform are never shared, exclusive claims conflict, an application
  adds and is granted only its own, approvals are live, machines are well typed.

  \<^bold>\<open>Network services.\<close> \<open>Routing_Profile\<close> (\<^verbatim>\<open>lib/routing_profile.py\<close>), \<open>Vpn_Egress\<close> (\<^verbatim>\<open>lib/platform_vpn_egress.py\<close>) and
  \<open>Lan_Print\<close> (\<^verbatim>\<open>lib/platform_lan_print.py\<close>), called by the compiler; \<open>Platform_Properties\<close>: a profile can be
  read back from a rendered configuration, gateways are those declared and their rules exactly those their box calls for, a
  printing LAN is disjoint from every zone.

  \<^bold>\<open>The router cutover\<close>, \<^verbatim>\<open>lib/router_transaction.py\<close>. \<open>Router_Transaction\<close> models \<open>cutover\<close> and \<open>recover\<close> against an adapter that
  may answer, fail, be late or crash the host at every interaction; a history is any sequence of sessions.
  The invariant \<open>st_ok\<close> relates the record in memory, the durable record and the world. \<open>Router_Runs\<close>: at most one generation runs,
  the latest state is never lost, a start is exclusive, outcomes are true, and sessions complete when
  the adapter succeeds (60 to 62 replies suffice). \<open>Router_Bounds\<close>: any session ends within 49 interactions.

  \<^bold>\<open>The guest replacement\<close>, \<^verbatim>\<open>roles/vm-update-recovery/files/vm_update_engine.py\<close> and \<^verbatim>\<open>vm_update_native.py\<close>, in two halves.
  What the engine does over time: \<open>Vm_Update\<close> models the stages, journals,
  recovery and reconciliation, with clock readings, a controller that may be lost and guests
  that may vanish. \<open>Vm_Runs\<close>: starts are fenced, stops are recorded, journals follow \<open>next_stage\<close>, acceptance and failure are
  final, and replacement and recovery complete (11, 19 and 40 replies suffice).
  What it decides on data: \<open>Vm_Config\<close> (the guest definitions and the inventory of Xen), \<open>Vm_Request\<close>
  (\<open>Transaction.__init__\<close>: \<open>open_transaction\<close>), \<open>Vm_Live\<close> (\<open>disks\<close> and \<open>guest\<close>), \<open>Vm_Lineage\<close> (the rendered definition and
  the checks of \<open>arm\<close> and \<open>adopt_old\<close>), \<open>Vm_Status\<close> (\<open>assignment\<close>, the reports, \<open>source_status\<close>, \<open>stage_adoption\<close>,
  \<open>record_convergence\<close>, \<open>fence_autostart\<close>) and \<open>Vm_Maintenance\<close> (\<open>replacement_source_status\<close>). The box is the record \<open>host\<close>: what Xen,
  \<^verbatim>\<open>lvs\<close>, \<^verbatim>\<open>stat\<close> and the protected files answer; \<open>ast.parse\<close> is an argument. Each \<open>check\<close> of \<open>Vm_Update\<close> stands for one of
  these decisions: \<open>check ''guest''\<close> for \<open>live_guest\<close>, the checks of \<open>arm\<close> for \<open>arm_checks\<close>; \<open>engine_request\<close> takes an opened
  transaction to the request of the stages, and \<open>budgets_bounded\<close> bounds its budgets.
  \<open>Vm_Properties\<close>: the generations of a request are apart, a live guest is exactly the recorded one and the only holder of
  its disks, arming continues the last assignment. \<open>Vm_Reports\<close>: reports are true, publishing and reporting agree, an
  adoption is of exactly the running guest.

  \<^bold>\<open>The active controller\<close>, \<^verbatim>\<open>lib/controller_switch.py\<close>, \<^verbatim>\<open>bin/ops-controller-ha\<close> and
  \<^verbatim>\<open>roles/ops-controller/files/klokast-controller-guard\<close>. \<open>Controller_Guard\<close>: markers, the guard, what the controllers show, and
  the tests of their reports. \<open>Controller_Switch\<close>: \<open>run\<close>, \<open>transition\<close> and \<open>publish\<close> phase by phase, \<open>handoff\<close> and \<open>demote\<close>;
  every interaction may fail, take effect and fail, or never return. The markers, the records and, for each controller, the
  Instance file in the working tree, in the index and in the last commit are state: \<^verbatim>\<open>git add\<close> and \<^verbatim>\<open>git commit\<close> move
  it on, and what the guard, \<^verbatim>\<open>git status\<close> and \<^verbatim>\<open>git diff\<close> answer about it is computed.
  \<open>Controller_Rules\<close>: the locale \<open>quiet_steps\<close> of invariants over the markers and the records, with the rules of the
  programs that leave both alone. \<open>Controller_Runs\<close> interprets it on the safety invariant \<open>sw_ok\<close>: the markers are
  exclusive as long as every status a handoff asked for was \<open>answered\<close>, records are true, activations are justified. \<open>Controller_Course\<close> interprets it
  on \<open>on_course\<close>: the record of a switch fits the markers. \<open>Controller_Progress\<close> finishes a published switch from there (\<open>reaches\<close>:
  there are replies without a failure). \<open>Controller_Stuck\<close> is about a switch that was cut off while it published: with a
  staged edit or a torn Instance file no resume completes it. \<open>Controller_Properties\<close>: single authority, activation after
  demotion, a switch never strands the pair, a staged edit blocks it.

  \<^bold>\<open>Witnesses\<close> evaluate the model on concrete documents by \<open>code_simp\<close>; digests stay symbolic there, since no
  property depends on their value. No property assumes that a digest has no collision: a
  collision of the 96-bit keys of two rules is refused by the ledger, not assumed away.

  \<^bold>\<open>Not modelled.\<close> Floating point numbers, dates and non-string keys in YAML, and characters above 255. In the guest replacement:
  file locks, interval timers, the ownership and modes of files, the liveness of the watcher process and the calls to
  \<^verbatim>\<open>xl\<close>, \<^verbatim>\<open>lvs\<close> and \<^verbatim>\<open>lbu\<close>, which are operating system calls without logic of their own. In the switch of the controllers: the names of the commits and what a pull brings
  (they are read off the replies), the tests of readiness and the credentials. The native adapter of the router (\<^verbatim>\<open>router_native.py\<close>, \<^verbatim>\<open>router_generations.py\<close>,
  \<^verbatim>\<open>router_records.py\<close>), the cold recovery, the executors and controllers that drive ssh, apk and image
  builds, the Codex workspace tools, the Ansible documents and the Go programs: they orchestrate external tools, and their own logic is
  listed component by component in the manifest.
\<close>

end
